(* ===== verification/Prelude.thy ===== *)
theory Prelude
  imports Main "HOL-Library.Word"
begin

text \<open>
  Shared vocabulary of the development: identifiers, times, Go error values with their wrapping
  chains, and the list operations by which SQL tables are read and updated.  Every component
  theory imports this one.
\<close>

section \<open>Identifiers and times\<close>

text \<open>
  \<open>uuid.UUID\<close> is an array of 16 bytes, compared by value; \<open>uuid.Nil\<close> is the zero array.
  A \<open>time.Time\<close> is a number of nanoseconds, a \<open>time.Duration\<close> an \<open>int64\<close> number of nanoseconds.
\<close>

type_synonym uuid = "128 word"
type_synonym time = int
type_synonym int64 = "64 word"

abbreviation uuid_Nil :: uuid where
  "uuid_Nil \<equiv> 0"

section \<open>Go errors\<close>

text \<open>
  The sentinel errors of the packages.  The texts of error messages are not modelled; what the
  code observes of an error is which sentinel it wraps (\<open>errors.Is\<close>) and, for an error of the
  Postgres driver, its SQLSTATE (\<open>errors.As\<close>).
\<close>

datatype sentinel =
    sql_ErrNoRows
  | execution_ErrNotFound | execution_ErrPolicyDenied | execution_ErrAlreadyDecided
  | execution_ErrAmbiguousMatch
  | pipeline_ErrNotFound | environment_ErrNotFound | tenant_ErrNotFound | team_ErrNotFound
  | actor_ErrNotFound | audit_ErrNotFound | verification_ErrNotFound
  | workercred_ErrNotFound | workercred_ErrNoCallbackURL
  | credential_ErrNotFound | credential_ErrIncorrectPassword
  | identity_ErrInvalidRequest | identity_ErrTokenInvalid | identity_ErrTokenExpired
  | identity_ErrTokenRevoked | identity_ErrPrivilegeEscalation | identity_ErrUnknownTierName
  | jwt_ErrTokenExpired
  | ci_ErrUnsupported | ci_ErrUnknownProvider | ci_ErrInvalidConfig | ci_ErrNotFound
  | ci_ErrNotResolved
  | cloud_ErrInvalidConfig | cloud_ErrUnknownTier
  | ciauth_ErrUnknownProvider
  | migrate_ErrNoChange

text \<open>
  \<open>Errorf t\<close> is a fresh error that wraps nothing (its tag \<open>t\<close> only tells errors of one function
  apart); \<open>Wrapf e\<close> is \<open>fmt.Errorf("...: %w", e)\<close>.  \<open>APIError\<close> is the error \<open>idpctl\<close> makes of a
  refusal: its status, code and message.  \<open>Panic\<close> is a run-time panic (a nil dereference),
  which ends the goroutine and matches no sentinel.
\<close>

datatype err = Sentinel sentinel | PgError string | Errorf string | Wrapf err | APIError int string string | Panic

primrec errors_Is :: "err \<Rightarrow> sentinel \<Rightarrow> bool" where
  "errors_Is (Sentinel t) s = (t = s)"
| "errors_Is (PgError c) s = False"
| "errors_Is (Errorf m) s = False"
| "errors_Is (Wrapf e) s = errors_Is e s"
| "errors_Is (APIError n c m) s = False"
| "errors_Is Panic s = False"

primrec sqlstate :: "err \<Rightarrow> string option" where
  "sqlstate (Sentinel t) = None"
| "sqlstate (PgError c) = Some c"
| "sqlstate (Errorf m) = None"
| "sqlstate (Wrapf e) = sqlstate e"
| "sqlstate (APIError n c m) = None"
| "sqlstate Panic = None"

type_synonym 'a res = "err + 'a"

text \<open>
  How a process ends on the result of its \<open>main\<close>: normally, by \<open>os.Exit(1)\<close> on an error, or with the
  runtime's status of a panic.
\<close>

definition exit_status :: "'a res \<Rightarrow> nat" where
  "exit_status r = (case r of Inr a \<Rightarrow> 0 | Inl e \<Rightarrow> if e = Panic then 2 else 1)"

lemma exit_status_0 [simp]: "exit_status r = 0 \<longleftrightarrow> (\<exists>a. r = Inr a)"
  by (simp add: exit_status_def split: sum.split)

section \<open>Rows of a table\<close>

text \<open>
  A table is the list of its rows in insertion order.  \<open>select_one\<close> is a query read with
  \<open>QueryRow\<close>: the first matching row or \<open>sql.ErrNoRows\<close>.  \<open>update_rows\<close> is an \<open>UPDATE\<close>
  with its \<open>WHERE\<close> clause and its \<open>SET\<close> clause, \<open>update_one\<close> the same with \<open>RETURNING *\<close> read
  with \<open>QueryRow\<close>.
\<close>

definition select_one :: "('r \<Rightarrow> bool) \<Rightarrow> 'r list \<Rightarrow> 'r res" where
  "select_one p rows = (case filter p rows of [] \<Rightarrow> Inl (Sentinel sql_ErrNoRows) | r # _ \<Rightarrow> Inr r)"

definition update_rows :: "('r \<Rightarrow> bool) \<Rightarrow> ('r \<Rightarrow> 'r) \<Rightarrow> 'r list \<Rightarrow> 'r list" where
  "update_rows p f rows = map (\<lambda>r. if p r then f r else r) rows"

definition update_one :: "('r \<Rightarrow> bool) \<Rightarrow> ('r \<Rightarrow> 'r) \<Rightarrow> 'r list \<Rightarrow> ('r \<times> 'r list) res" where
  "update_one p f rows =
     (case filter p rows of
        [] \<Rightarrow> Inl (Sentinel sql_ErrNoRows)
      | r # _ \<Rightarrow> Inr (f r, update_rows p f rows))"

text \<open>
  The first violated constraint of a list of (holds, SQLSTATE) pairs: \<open>23514\<close> is a failed
  \<open>CHECK\<close>, \<open>23505\<close> a duplicate key, \<open>23503\<close> a missing referenced row.
\<close>

definition violated :: "(bool \<times> string) list \<Rightarrow> string option" where
  "violated cs = map_option snd (find (\<lambda>c. \<not> fst c) cs)"

lemma select_one_Inr:
  "select_one p rows = Inr r \<Longrightarrow> r \<in> set rows \<and> p r"
  by (auto simp: select_one_def split: list.splits dest: filter_eq_ConsD)

lemma select_one_Inl:
  "select_one p rows = Inl e \<longleftrightarrow> e = Sentinel sql_ErrNoRows \<and> (\<forall>r \<in> set rows. \<not> p r)"
  by (auto simp: select_one_def filter_empty_conv split: list.splits dest: filter_eq_ConsD)

lemma select_one_exists:
  "r \<in> set rows \<Longrightarrow> p r \<Longrightarrow> \<exists>r'. select_one p rows = Inr r'"
  by (cases "select_one p rows") (auto simp: select_one_Inl)

lemma update_one_Inr:
  "update_one p f rows = Inr (r, rows') \<Longrightarrow>
     rows' = update_rows p f rows \<and> (\<exists>r0 \<in> set rows. p r0 \<and> r = f r0)"
  by (auto simp: update_one_def split: list.splits dest: filter_eq_ConsD)

lemma update_one_Inl:
  "update_one p f rows = Inl e \<longleftrightarrow> e = Sentinel sql_ErrNoRows \<and> (\<forall>r \<in> set rows. \<not> p r)"
  by (auto simp: update_one_def filter_empty_conv split: list.splits dest: filter_eq_ConsD)

lemma set_update_rows:
  "set (update_rows p f rows) = {r \<in> set rows. \<not> p r} \<union> f ` {r \<in> set rows. p r}"
  by (auto simp: update_rows_def)

lemma in_update_rows:
  "x \<in> set (update_rows p f rows) \<longleftrightarrow>
     (\<exists>r \<in> set rows. x = (if p r then f r else r))"
  by (auto simp: update_rows_def)

lemma update_rows_mem: "r \<in> set rows \<Longrightarrow> (if p r then f r else r) \<in> set (update_rows p f rows)"
  by (auto simp: update_rows_def)

lemma map_update_rows:
  "(\<And>r. p r \<Longrightarrow> g (f r) = g r) \<Longrightarrow> map g (update_rows p f rows) = map g rows"
  by (simp add: update_rows_def)

lemma length_update_rows [simp]: "length (update_rows p f rows) = length rows"
  by (simp add: update_rows_def)

lemma update_rows_append [simp]:
  "update_rows p f (xs @ ys) = update_rows p f xs @ update_rows p f ys"
  by (simp add: update_rows_def)

lemma update_rows_none: "\<forall>r \<in> set rows. \<not> p r \<Longrightarrow> update_rows p f rows = rows"
  by (simp add: update_rows_def map_idI)

lemma filter_update_rows_other:
  "(\<And>r. k (f r) = k r) \<Longrightarrow> (\<And>r. p r \<Longrightarrow> k r = i) \<Longrightarrow>
     filter (\<lambda>r. k r \<noteq> i) (update_rows p f rows) = filter (\<lambda>r. k r \<noteq> i) rows"
  by (induction rows) (auto simp: update_rows_def)

lemma violated_None: "violated cs = None \<longleftrightarrow> (\<forall>c \<in> set cs. fst c)"
  by (auto simp: violated_def find_None_iff)

text \<open>A key column: rows with equal keys are the same row.\<close>

lemma distinct_map_unique:
  "distinct (map g rows) \<Longrightarrow> a \<in> set rows \<Longrightarrow> b \<in> set rows \<Longrightarrow> g a = g b \<Longrightarrow> a = b"
  by (auto simp: distinct_map inj_on_def)

lemma select_one_key:
  assumes "distinct (map g rows)" and "r \<in> set rows" and "p r"
    and key: "\<And>x. p x \<Longrightarrow> g x = g r"
  shows "select_one p rows = Inr r"
proof -
  obtain r' where r': "select_one p rows = Inr r'"
    using select_one_exists [of r rows p] assms(2,3) by blast
  then have mem: "r' \<in> set rows" and "p r'" by (auto dest: select_one_Inr)
  then have "g r' = g r" by (blast intro: key)
  with assms(1,2) mem have "r' = r" by (blast intro: distinct_map_unique)
  with r' show ?thesis by simp
qed

lemma update_one_select:
  "select_one p rows = Inr r \<Longrightarrow> update_one p f rows = Inr (f r, update_rows p f rows)"
  by (auto simp: select_one_def update_one_def split: list.splits)

end
