(* ===== verification/Prog.thy ===== *)
theory Prog
  imports Prelude
begin

text \<open>
  Go code as a sequence of atomic actions on a shared state.  A handler or a store method is a
  \<open>prog\<close>: it is finished, or its next atomic action (one SQL statement, one call of an outside
  service) changes the state and determines the rest of the program.  \<open>run\<close> executes a program
  alone, \<open>sched\<close> interleaves the actions of any number of programs, as goroutines and replicas
  sharing one database do.  \<open>rg\<close> is the rely-guarantee judgement that lifts facts about single
  actions to every interleaving.
\<close>

section \<open>Programs\<close>

datatype ('w, 'a) prog =
    Done 'a
  | Step "'w \<Rightarrow> 'w" "'w \<Rightarrow> ('w, 'a) prog"

primrec run :: "('w, 'a) prog \<Rightarrow> 'w \<Rightarrow> 'a \<times> 'w" where
  "run (Done a) = (\<lambda>w. (a, w))"
| "run (Step u k) = (\<lambda>w. run (k w) (u w))"

primrec bindP :: "('w, 'a) prog \<Rightarrow> ('a \<Rightarrow> ('w, 'b) prog) \<Rightarrow> ('w, 'b) prog" where
  "bindP (Done a) h = h a"
| "bindP (Step u k) h = Step u (\<lambda>w. bindP (k w) h)"

text \<open>One atomic action given by its result and its new state.\<close>

definition act :: "('w \<Rightarrow> 'a \<times> 'w) \<Rightarrow> ('w, 'a) prog" where
  "act f = Step (\<lambda>w. snd (f w)) (\<lambda>w. Done (fst (f w)))"

text \<open>
  \<open>bindE p k\<close> is \<open>x, err := p; if err != nil { return err }; k x\<close>; \<open>mapE g p\<close> rewrites the error
  on the way out, as \<open>errors.Is\<close> tests and \<open>fmt.Errorf\<close> do.
\<close>

definition bindE :: "('w, 'a res) prog \<Rightarrow> ('a \<Rightarrow> ('w, 'b res) prog) \<Rightarrow> ('w, 'b res) prog" where
  "bindE p k = bindP p (\<lambda>r. case r of Inl e \<Rightarrow> Done (Inl e) | Inr a \<Rightarrow> k a)"

definition mapE :: "(err \<Rightarrow> err) \<Rightarrow> ('w, 'a res) prog \<Rightarrow> ('w, 'a res) prog" where
  "mapE g p = bindP p (\<lambda>r. Done (case r of Inl e \<Rightarrow> Inl (g e) | Inr a \<Rightarrow> Inr a))"

abbreviation returnE :: "'a \<Rightarrow> ('w, 'a res) prog" where
  "returnE a \<equiv> Done (Inr a)"

abbreviation failE :: "err \<Rightarrow> ('w, 'a res) prog" where
  "failE e \<equiv> Done (Inl e)"

text \<open>\<open>if errors.Is(err, from) { return to }; if err != nil { return wrapped err }\<close>\<close>

definition notFound :: "sentinel \<Rightarrow> sentinel \<Rightarrow> err \<Rightarrow> err" where
  "notFound from to e = (if errors_Is e from then Sentinel to else Wrapf e)"

subsection \<open>Sequential execution\<close>

lemma run_bindP: "run (bindP p h) w = (case run p w of (a, w') \<Rightarrow> run (h a) w')"
  by (induction p arbitrary: w) auto

lemma run_act [simp]: "run (act f) w = f w"
  by (simp add: act_def)

lemma run_bindE:
  "run (bindE p k) w =
     (case run p w of (Inl e, w') \<Rightarrow> (Inl e, w') | (Inr a, w') \<Rightarrow> run (k a) w')"
  by (auto simp: bindE_def run_bindP split: prod.splits sum.splits)

lemma run_mapE:
  "run (mapE g p) w =
     (case run p w of (Inl e, w') \<Rightarrow> (Inl (g e), w') | (Inr a, w') \<Rightarrow> (Inr a, w'))"
  by (auto simp: mapE_def run_bindP split: prod.splits sum.splits)

lemmas run_simps = run_bindP run_bindE run_mapE

lemma bindP_assoc: "bindP (bindP p h) k = bindP p (\<lambda>a. bindP (h a) k)"
  by (induction p) auto

lemma bindP_Done [simp]: "bindP p Done = p"
  by (induction p) auto

section \<open>Rely-guarantee\<close>

text \<open>
  \<open>rg R G Q p w\<close>: started in \<open>w\<close>, with the other programs' actions between its own in the relation
  \<open>R\<close>, each action of \<open>p\<close> is in \<open>G\<close>, and when \<open>p\<close> ends with \<open>a\<close>, \<open>Q a\<close> holds from then on.
\<close>

primrec rg :: "('w \<Rightarrow> 'w \<Rightarrow> bool) \<Rightarrow> ('w \<Rightarrow> 'w \<Rightarrow> bool) \<Rightarrow> ('a \<Rightarrow> 'w \<Rightarrow> bool)
    \<Rightarrow> ('w, 'a) prog \<Rightarrow> 'w \<Rightarrow> bool" where
  "rg R G Q (Done a) = (\<lambda>w. \<forall>w'. R w w' \<longrightarrow> Q a w')"
| "rg R G Q (Step u k) =
     (\<lambda>w. \<forall>w'. R w w' \<longrightarrow> G w' (u w') \<and> rg R G Q (k w') (u w'))"

lemma rg_conseq:
  assumes "rg R G Q p w" and "\<And>a v. Q a v \<Longrightarrow> Q' a v"
  shows "rg R G Q' p w"
  using assms(1)
proof (induction p arbitrary: w)
  case (Done a)
  then show ?case using assms(2) by auto
next
  case (Step u k)
  then show ?case by auto
qed

lemma rg_mono_start:
  assumes "transp R" and "R v w" and "rg R G Q p v"
  shows "rg R G Q p w"
  using assms by (cases p) (auto dest: transpD)

lemma rg_bindP:
  assumes "reflp R"
  shows "rg R G (\<lambda>a. rg R G Q (h a)) p w \<Longrightarrow> rg R G Q (bindP p h) w"
proof (induction p arbitrary: w)
  case (Done a)
  then show ?case using assms by (auto dest: reflpD)
next
  case (Step u k)
  then show ?case by auto
qed

lemma rg_act:
  assumes "\<And>w' a w''. R w w' \<Longrightarrow> f w' = (a, w'') \<Longrightarrow> G w' w'' \<and> (\<forall>v. R w'' v \<longrightarrow> Q a v)"
  shows "rg R G Q (act f) w"
  using assms by (auto simp: act_def) (metis prod.collapse)+

lemma rg_Done:
  "(\<And>w'. R w w' \<Longrightarrow> Q a w') \<Longrightarrow> rg R G Q (Done a) w"
  by simp

lemma rg_bindE:
  assumes "reflp R"
    and "rg R G (\<lambda>r w'. case r of Inl e \<Rightarrow> rg R G Q (Done (Inl e)) w' | Inr a \<Rightarrow> rg R G Q (k a) w') p w"
  shows "rg R G Q (bindE p k) w"
  unfolding bindE_def
  by (rule rg_bindP [OF assms(1)], rule rg_conseq [OF assms(2)]) (auto split: sum.splits)

lemma rg_mapE:
  assumes "reflp R" and "transp R"
    and "rg R G (\<lambda>r. case r of Inl e \<Rightarrow> Q (Inl (g e)) | Inr a \<Rightarrow> Q (Inr a)) p w"
  shows "rg R G Q (mapE g p) w"
proof -
  have "rg R G (\<lambda>r. rg R G Q (Done (case r of Inl e \<Rightarrow> Inl (g e) | Inr a \<Rightarrow> Inr a))) p w"
    using assms(3)
  proof (induction p arbitrary: w)
    case (Done a)
    then show ?case using assms(2) by (auto split: sum.splits dest: transpD)
  next
    case (Step u k)
    then show ?case by auto
  qed
  then show ?thesis
    unfolding mapE_def by (rule rg_bindP [OF assms(1)])
qed

text \<open>A program run alone, where every action keeps \<open>R\<close>, relates start and end by \<open>R\<close>.\<close>

lemma rg_run:
  assumes "reflp R" and "transp R"
  shows "rg R R Q p w \<Longrightarrow> run p w = (a, w') \<Longrightarrow> R w w' \<and> Q a w'"
proof (induction p arbitrary: w)
  case (Done b)
  then show ?case using assms(1) by (auto dest: reflpD)
next
  case (Step u k)
  from Step.prems(1) assms(1) have "R w (u w)" and "rg R R Q (k w) (u w)"
    by (auto dest: reflpD)
  moreover from Step.prems(2) have "run (k w) (u w) = (a, w')" by simp
  ultimately show ?case using Step.IH [of "k w" "u w"] assms(2)
    by (auto dest: transpD)
qed

section \<open>Interleavings\<close>

text \<open>
  A pool of programs in flight.  Any program may perform its next action, and any program of the
  set \<open>S\<close> may be started at any time: a request arrives, a job is delivered (again), a worker polls.
\<close>

inductive sched :: "('w, 'a) prog set \<Rightarrow> ('w, 'a) prog list \<times> 'w
    \<Rightarrow> ('w, 'a) prog list \<times> 'w \<Rightarrow> bool"
  for S :: "('w, 'a) prog set" where
  sched_step: "i < length ps \<Longrightarrow> ps ! i = Step u k \<Longrightarrow> sched S (ps, w) (ps[i := k w], u w)"
| sched_spawn: "p \<in> S \<Longrightarrow> sched S (ps, w) (ps @ [p], w)"

inductive_cases sched_cases: "sched S c c'"

definition forget :: "('w, 'a) prog \<Rightarrow> ('w, unit) prog" where
  "forget p = bindP p (\<lambda>_. Done ())"

lemma rg_forget: "reflp R \<Longrightarrow> rg R G (\<lambda>_ _. True) p w \<Longrightarrow> rg R G (\<lambda>_ _. True) (forget p) w"
  unfolding forget_def by (rule rg_bindP) simp_all

text \<open>
  Soundness: when every program of the pool and every program that may start keeps \<open>R\<close> under
  interference by \<open>R\<close>, each schedule stays in \<open>R\<close>, and a program that has ended has its postcondition.
\<close>

lemma sched_rg_step:
  assumes "transp R" and "reflp R"
    and S: "\<And>p. p \<in> S \<Longrightarrow> rg R R Q p w"
    and "sched S (ps, w) (ps', w')"
    and ps: "\<forall>p \<in> set ps. rg R R Q p w"
  shows "R w w' \<and> (\<forall>p \<in> set ps'. rg R R Q p w')"
  using assms(4)
proof (cases rule: sched.cases)
  case (sched_step i u k)
  then have mem: "Step u k \<in> set ps" by (metis nth_mem)
  with ps assms(2) have G: "R w (u w)" and rest: "rg R R Q (k w) (u w)"
    by (force dest: reflpD)+
  from ps G assms(1) have "\<forall>p \<in> set ps. rg R R Q p (u w)"
    by (blast intro: rg_mono_start)
  with rest sched_step G show ?thesis
    by (auto dest: set_update_subset_insert [THEN subsetD])
next
  case (sched_spawn p)
  with ps S assms(2) show ?thesis by (auto dest: reflpD)
qed

lemma sched_sound:
  assumes "transp R" and "reflp R"
    and S: "\<And>p v. p \<in> S \<Longrightarrow> R w v \<Longrightarrow> rg R R Q p v"
    and steps: "(sched S)\<^sup>*\<^sup>* (ps, w) (ps', w')"
    and ps: "\<forall>p \<in> set ps. rg R R Q p w"
  shows "R w w' \<and> (\<forall>p \<in> set ps'. rg R R Q p w')"
proof -
  have "R w (snd c) \<and> (\<forall>p \<in> set (fst c). rg R R Q p (snd c))"
    if "(sched S)\<^sup>*\<^sup>* (ps, w) c" for c
    using that
  proof (induction rule: rtranclp_induct)
    case base
    then show ?case using assms(2) ps by (auto dest: reflpD)
  next
    case (step b c)
    obtain qs v where b: "b = (qs, v)" by (cases b)
    obtain qs' v' where c: "c = (qs', v')" by (cases c)
    from step b have "R w v" by simp
    from step b c have "R v v' \<and> (\<forall>p \<in> set qs'. rg R R Q p v')"
      by (intro sched_rg_step [OF assms(1,2) S [OF _ \<open>R w v\<close>], of S qs]) auto
    with step.IH b c assms(1) show ?case by (auto dest: transpD)
  qed
  from this [OF steps] show ?thesis by simp
qed

text \<open>A program run to its end, with nothing in between, is one schedule.\<close>

lemma sched_run_steps:
  "(sched S)\<^sup>*\<^sup>* (ps @ [p], w) (ps @ [Done (fst (run p w))], snd (run p w))"
proof (induction p arbitrary: w)
  case (Done a)
  then show ?case by auto
next
  case (Step u k)
  have "sched S (ps @ [Step u k], w) ((ps @ [Step u k])[length ps := k w], u w)"
    by (rule sched_step) auto
  then have "sched S (ps @ [Step u k], w) (ps @ [k w], u w)" by simp
  with Step [of "k w" "u w"] show ?case
    by (auto intro: converse_rtranclp_into_rtranclp)
qed

lemma sched_run:
  assumes "p \<in> S"
  shows "(sched S)\<^sup>*\<^sup>* (ps, w) (ps @ [Done (fst (run p w))], snd (run p w))"
proof -
  have "sched S (ps, w) (ps @ [p], w)" using assms by (rule sched_spawn)
  with sched_run_steps [of S ps p w] show ?thesis
    by (auto intro: converse_rtranclp_into_rtranclp)
qed

end
