(* ===== verification/Identity.thy ===== *)
theory Identity
  imports Prog
begin

text \<open>
  Package \<open>pkg/identity\<close>: trust tiers, issuing and verifying actor tokens.  The JWT library is
  not under \<open>src/\<close>; it is the record \<open>jwt_lib\<close> of the functions the package calls, a parameter of
  \<open>Issue\<close> and \<open>Verify\<close>.
\<close>

section \<open>Trust tiers\<close>

text \<open>\<open>type Tier int\<close>\<close>

type_synonym tier = int

definition TierReadOnly :: tier where "TierReadOnly = 1"
definition TierHumanInTheLoop :: tier where "TierHumanInTheLoop = 2"
definition TierAutonomous :: tier where "TierAutonomous = 3"

lemmas tier_defs = TierReadOnly_def TierHumanInTheLoop_def TierAutonomous_def

definition Tier_Valid :: "tier \<Rightarrow> bool" where
  "Tier_Valid t \<longleftrightarrow> t \<ge> TierReadOnly \<and> t \<le> TierAutonomous"

text \<open>The decimal form \<open>%d\<close> of an \<open>int\<close>.\<close>

fun decimal_nat :: "nat \<Rightarrow> string" where
  "decimal_nat n =
     (if n < 10 then [char_of (48 + n)] else decimal_nat (n div 10) @ [char_of (48 + n mod 10)])"

declare decimal_nat.simps [simp del]

definition decimal :: "int \<Rightarrow> string" where
  "decimal i = (if i < 0 then CHR ''-'' # decimal_nat (nat (- i)) else decimal_nat (nat i))"

definition Tier_String :: "tier \<Rightarrow> string" where
  "Tier_String t =
     (if t = TierReadOnly then ''read_only''
      else if t = TierHumanInTheLoop then ''human_in_the_loop''
      else if t = TierAutonomous then ''autonomous''
      else ''tier('' @ decimal t @ '')'')"

definition ParseTier :: "string \<Rightarrow> tier res" where
  "ParseTier s =
     (if s = ''read_only'' then Inr TierReadOnly
      else if s = ''human_in_the_loop'' then Inr TierHumanInTheLoop
      else if s = ''autonomous'' then Inr TierAutonomous
      else Inl (Wrapf (Sentinel identity_ErrUnknownTierName)))"

lemma Tier_Valid_cases:
  "Tier_Valid t \<longleftrightarrow> t = TierReadOnly \<or> t = TierHumanInTheLoop \<or> t = TierAutonomous"
  by (auto simp: Tier_Valid_def tier_defs)

lemma Tier_String_valid [simp]:
  "Tier_String TierReadOnly = ''read_only''"
  "Tier_String TierHumanInTheLoop = ''human_in_the_loop''"
  "Tier_String TierAutonomous = ''autonomous''"
  by (simp_all add: Tier_String_def tier_defs)

lemma ParseTier_invalid_String: "\<not> Tier_Valid t \<Longrightarrow> ParseTier (Tier_String t) = Inl (Wrapf (Sentinel identity_ErrUnknownTierName))"
  by (simp add: Tier_Valid_cases Tier_String_def ParseTier_def)

lemma ParseTier_Inr: "ParseTier s = Inr t \<longleftrightarrow> Tier_Valid t \<and> s = Tier_String t"
proof
  assume "ParseTier s = Inr t"
  then show "Tier_Valid t \<and> s = Tier_String t" by (auto simp: ParseTier_def Tier_Valid_cases split: if_splits)
next
  assume "Tier_Valid t \<and> s = Tier_String t"
  then show "ParseTier s = Inr t" by (auto simp: ParseTier_def Tier_Valid_cases)
qed

text \<open>
  \<open>ParseTier\<close> is the exact inverse of \<open>String\<close>: printing a tier and parsing it back succeeds
  precisely for the three defined tiers and returns the tier that was printed, and whatever
  \<open>ParseTier\<close> accepts is the canonical name of a valid tier.
\<close>

theorem tier_roundtrip:
  "(ParseTier (Tier_String t) = Inr t' \<longleftrightarrow> Tier_Valid t \<and> t' = t) \<and>
   (ParseTier s = Inr t \<longleftrightarrow> Tier_Valid t \<and> s = Tier_String t)"
proof -
  have "ParseTier (Tier_String t) = Inr t' \<longleftrightarrow> Tier_Valid t \<and> t' = t"
  proof (cases "Tier_Valid t")
    case True
    then show ?thesis by (auto simp: Tier_Valid_cases ParseTier_def)
  next
    case False
    then show ?thesis by (simp add: ParseTier_invalid_String)
  qed
  then show ?thesis using ParseTier_Inr by blast
qed

section \<open>Claims and issue requests\<close>

text \<open>\<open>type ActorType string\<close>\<close>

type_synonym actor_type = string

definition ActorHuman :: actor_type where "ActorHuman = ''human''"
definition ActorAgent :: actor_type where "ActorAgent = ''agent''"

record Delegation =
  AuthorizedBy :: string
  TeamID :: string

record Claims =
  cl_TenantID :: string
  cl_ActorID :: string
  cl_Jti :: string
  cl_ActorType :: actor_type
  cl_Tier :: tier
  cl_Environments :: "string list"
  cl_Delegation :: "Delegation option"
  cl_IssuedAt :: time
  cl_ExpiresAt :: time

text \<open>The loop of \<open>PermitsEnvironment\<close>, with its early return.\<close>

fun permits :: "'a \<Rightarrow> 'a list \<Rightarrow> bool" where
  "permits env [] = False"
| "permits env (e # es) = (if e = env then True else permits env es)"

definition PermitsEnvironment :: "Claims \<Rightarrow> string \<Rightarrow> bool" where
  "PermitsEnvironment c env = permits env (cl_Environments c)"

lemma permits_iff: "permits env es \<longleftrightarrow> env \<in> set es"
  by (induction es) auto

record IssueRequest =
  ir_TenantID :: string
  ir_ActorID :: string
  ir_ActorType :: actor_type
  ir_Tier :: tier
  ir_Environments :: "string list"
  ir_Delegation :: "Delegation option"
  ir_TTL :: int64

section \<open>Issuing and verifying\<close>

text \<open>\<open>jwt.RegisteredClaims\<close> holds pointers for its dates: \<open>None\<close> is nil.\<close>

record jwtClaims =
  jc_ID :: string
  jc_Subject :: string
  jc_IssuedAt :: "time option"
  jc_ExpiresAt :: "time option"
  jc_TenantID :: string
  jc_ActorType :: actor_type
  jc_Tier :: tier
  jc_Environments :: "string list"
  jc_Delegation :: "Delegation option"

text \<open>
  What the package calls of \<open>golang-jwt\<close>: \<open>NewNumericDate\<close>, \<open>NewWithClaims(EdDSA, c).SignedString\<close>,
  and \<open>ParseWithClaims\<close> with a fixed verification key, the accepted methods and the current time.
\<close>

record jwt_lib =
  jwt_NumericDate :: "time \<Rightarrow> time"
  jwt_SignedString :: "string \<Rightarrow> jwtClaims \<Rightarrow> string res"
  jwt_ParseWithClaims :: "string \<Rightarrow> string list \<Rightarrow> time \<Rightarrow> string \<Rightarrow> jwtClaims \<times> err option"

definition issue_claims :: "jwt_lib \<Rightarrow> time \<Rightarrow> string \<Rightarrow> IssueRequest \<Rightarrow> jwtClaims" where
  "issue_claims L now jti req =
     \<lparr>jc_ID = jti,
      jc_Subject = ir_ActorID req,
      jc_IssuedAt = Some (jwt_NumericDate L now),
      jc_ExpiresAt = Some (jwt_NumericDate L (now + sint (ir_TTL req))),
      jc_TenantID = ir_TenantID req,
      jc_ActorType = ir_ActorType req,
      jc_Tier = ir_Tier req,
      jc_Environments = ir_Environments req,
      jc_Delegation = ir_Delegation req\<rparr>"

text \<open>\<open>now\<close> is the result of \<open>time.Now()\<close>, \<open>jti\<close> that of \<open>uuid.New().String()\<close>.\<close>

definition Issue :: "jwt_lib \<Rightarrow> string \<Rightarrow> time \<Rightarrow> string \<Rightarrow> IssueRequest \<Rightarrow> tier \<Rightarrow> string res" where
  "Issue L key now jti req issuerTier =
     (if ir_TenantID req = [] \<or> ir_ActorID req = [] then
        Inl (Wrapf (Sentinel identity_ErrInvalidRequest))
      else if \<not> Tier_Valid (ir_Tier req) then
        Inl (Wrapf (Sentinel identity_ErrInvalidRequest))
      else if sint (ir_TTL req) \<le> 0 then
        Inl (Wrapf (Sentinel identity_ErrInvalidRequest))
      else if ir_Tier req > issuerTier then
        Inl (Sentinel identity_ErrPrivilegeEscalation)
      else
        (case jwt_SignedString L key (issue_claims L now jti req) of
           Inl e \<Rightarrow> Inl (Wrapf e)
         | Inr tok \<Rightarrow> Inr tok))"

text \<open>
  \<open>Verify\<close> asks \<open>checker\<close>, an implementation of \<open>RevocationChecker\<close> (\<open>None\<close> is nil), after signature
  and expiry.  Reading \<open>claims.IssuedAt.Time\<close> through a nil pointer panics.
\<close>

type_synonym 'w checker = "string \<Rightarrow> string \<Rightarrow> ('w, bool res) prog"

definition claims_of :: "jwtClaims \<Rightarrow> Claims res" where
  "claims_of c =
     (case (jc_IssuedAt c, jc_ExpiresAt c) of
        (Some iat, Some ex) \<Rightarrow>
          Inr \<lparr>cl_TenantID = jc_TenantID c, cl_ActorID = jc_Subject c, cl_Jti = jc_ID c,
               cl_ActorType = jc_ActorType c, cl_Tier = jc_Tier c,
               cl_Environments = jc_Environments c, cl_Delegation = jc_Delegation c,
               cl_IssuedAt = iat, cl_ExpiresAt = ex\<rparr>
      | _ \<Rightarrow> Inl Panic)"

definition Verify :: "jwt_lib \<Rightarrow> string \<Rightarrow> 'w checker option \<Rightarrow> time \<Rightarrow> string \<Rightarrow> ('w, Claims res) prog" where
  "Verify L key checker now tokenString =
     (case checker of
        None \<Rightarrow> failE (Errorf ''a RevocationChecker is required'')
      | Some IsRevoked \<Rightarrow>
          (case jwt_ParseWithClaims L key [''EdDSA''] now tokenString of
             (_, Some e) \<Rightarrow>
               if errors_Is e jwt_ErrTokenExpired then failE (Sentinel identity_ErrTokenExpired)
               else failE (Wrapf (Sentinel identity_ErrTokenInvalid))
           | (claims, None) \<Rightarrow>
               bindE (mapE Wrapf (IsRevoked (jc_Subject claims) (jc_ID claims)))
                 (\<lambda>revoked.
                    if revoked then failE (Sentinel identity_ErrTokenRevoked)
                    else Done (claims_of claims))))"

lemma Issue_Inr:
  assumes "Issue L key now jti req issuerTier = Inr tok"
  shows "ir_TenantID req \<noteq> []" "ir_ActorID req \<noteq> []" "Tier_Valid (ir_Tier req)"
    "0 < sint (ir_TTL req)" "ir_Tier req \<le> issuerTier"
    "jwt_SignedString L key (issue_claims L now jti req) = Inr tok"
  using assms by (auto simp: Issue_def not_le split: if_splits sum.splits)

text \<open>
  C12.  A token is issued exactly for a well-formed request whose tier does not exceed the issuer's
  own: whoever asks, \<open>Issue\<close> never signs a tier above \<open>issuerTier\<close>, an invalid tier, a
  non-positive lifetime or a request without tenant and actor, and what it signs are the request's
  own tenant, actor, tier, environments and delegation.
\<close>

theorem Issue_no_escalation:
  "Issue L key now jti req issuerTier = Inr tok \<longleftrightarrow>
     ir_TenantID req \<noteq> [] \<and> ir_ActorID req \<noteq> [] \<and> Tier_Valid (ir_Tier req) \<and>
     0 < sint (ir_TTL req) \<and> ir_Tier req \<le> issuerTier \<and>
     jwt_SignedString L key (issue_claims L now jti req) = Inr tok"
  (is "?issued \<longleftrightarrow> ?ok")
proof
  assume ?issued
  then show ?ok using Issue_Inr [of L key now jti req issuerTier tok] by blast
next
  assume ?ok
  then show ?issued by (simp add: Issue_def)
qed

text \<open>
  The only accepted token is a live one: when \<open>Verify\<close> returns claims, a checker was given,
  the library accepted signature and expiry under the EdDSA method alone, the checker answered
  that neither session nor actor is revoked, and the claims are those of the signed token.
\<close>

theorem Verify_accepts_only_live:
  assumes "run (Verify L key checker now tok) w = (Inr c, w')"
  shows "\<exists>IsRevoked jc. checker = Some IsRevoked \<and>
           jwt_ParseWithClaims L key [''EdDSA''] now tok = (jc, None) \<and>
           run (IsRevoked (jc_Subject jc) (jc_ID jc)) w = (Inr False, w') \<and>
           claims_of jc = Inr c"
  using assms
  by (auto simp: Verify_def run_simps split: option.splits prod.splits sum.splits if_splits)

definition sample_jwt :: jwt_lib where
  "sample_jwt =
     \<lparr>jwt_NumericDate = id, jwt_SignedString = (\<lambda>key c. Inr (jc_Subject c)),
      jwt_ParseWithClaims = (\<lambda>key ms now tok.
        (\<lparr>jc_ID = ''j'', jc_Subject = tok, jc_IssuedAt = Some 0, jc_ExpiresAt = Some 9, jc_TenantID = ''t'',
          jc_ActorType = ''human'', jc_Tier = TierReadOnly, jc_Environments = [], jc_Delegation = None\<rparr>, None))\<rparr>"

theorem Verify_accepts_only_live_witness:
  "\<exists>c. run (Verify sample_jwt [] (Some (\<lambda>a j. Done (Inr False))) 5 ''a'') () = (Inr c, ()) \<and> cl_ActorID c = ''a''"
proof -
  obtain c where run: "run (Verify sample_jwt [] (Some (\<lambda>a j. Done (Inr False))) 5 ''a'') () = (Inr c, ())"
    by (simp add: Verify_def sample_jwt_def claims_of_def run_simps)
  from Verify_accepts_only_live [OF run] have "cl_ActorID c = ''a''"
    by (auto simp: sample_jwt_def claims_of_def)
  with run show ?thesis by blast
qed

end
