(* ===== verification/Policy.thy ===== *)
theory Policy
  imports Identity
begin

text \<open>
  Package \<open>controlplane/internal/policy\<close>: the trust-tier gate called when a run is created and
  again before its payload reaches a worker.
\<close>

datatype Decision = Allow | RequiresApproval | Deny

definition Check :: "tier \<Rightarrow> bool \<Rightarrow> Decision" where
  "Check tier mutating =
     (if \<not> Tier_Valid tier then Deny
      else if tier = TierReadOnly then (if mutating then Deny else Allow)
      else if tier = TierHumanInTheLoop then RequiresApproval
      else if tier = TierAutonomous then Allow
      else Deny)"

lemma Check_Allow:
  "Check t m = Allow \<longleftrightarrow> t = TierAutonomous \<or> (t = TierReadOnly \<and> \<not> m)"
  by (auto simp: Check_def Tier_Valid_def tier_defs)

lemma Check_RequiresApproval: "Check t m = RequiresApproval \<longleftrightarrow> t = TierHumanInTheLoop"
  by (auto simp: Check_def Tier_Valid_def tier_defs)

lemma Check_Deny:
  "Check t m = Deny \<longleftrightarrow> \<not> Tier_Valid t \<or> (t = TierReadOnly \<and> m)"
  by (auto simp: Check_def Tier_Valid_def tier_defs)

text \<open>The order in which decisions grant unsupervised authority.\<close>

primrec strictness :: "Decision \<Rightarrow> nat" where
  "strictness Allow = 0"
| "strictness RequiresApproval = 1"
| "strictness Deny = 2"

instantiation Decision :: linorder
begin

definition less_eq_Decision :: "Decision \<Rightarrow> Decision \<Rightarrow> bool" where
  "x \<le> y \<longleftrightarrow> strictness x \<le> strictness y"

definition less_Decision :: "Decision \<Rightarrow> Decision \<Rightarrow> bool" where
  "x < y \<longleftrightarrow> strictness x < strictness y"

instance
proof
  fix x y z :: Decision
  show "x < y \<longleftrightarrow> x \<le> y \<and> \<not> y \<le> x" "x \<le> x" "x \<le> y \<or> y \<le> x"
    by (auto simp: less_eq_Decision_def less_Decision_def)
  show "x \<le> y \<Longrightarrow> y \<le> z \<Longrightarrow> x \<le> z" by (simp add: less_eq_Decision_def)
  show "x \<le> y \<Longrightarrow> y \<le> x \<Longrightarrow> x = y" by (cases x; cases y) (simp_all add: less_eq_Decision_def)
qed

end

text \<open>
  The gate fails closed and is monotone: only the autonomous tier, or the read-only tier on a
  non-mutating pipeline, runs unattended; a tier outside the three defined ones is denied; a
  mutating pipeline is never judged more leniently than a non-mutating one; and for a mutating
  pipeline more trust never gives a stricter decision.
\<close>

theorem Check_gate:
  "(Check t m = Allow \<longleftrightarrow> t = TierAutonomous \<or> (t = TierReadOnly \<and> \<not> m)) \<and>
   (Check t m = RequiresApproval \<longleftrightarrow> t = TierHumanInTheLoop) \<and>
   (\<not> Tier_Valid t \<longrightarrow> Check t m = Deny) \<and>
   Check t False \<le> Check t True \<and>
   (Tier_Valid t \<and> Tier_Valid t' \<and> t \<le> t' \<longrightarrow> Check t' True \<le> Check t True)"
  by (auto simp: Check_Allow Check_RequiresApproval Check_Deny)
     (auto simp: Check_def Tier_Valid_def tier_defs less_eq_Decision_def)

theorem Check_gate_witness:
  "Check TierReadOnly True = Deny \<and> Check 99 False = Deny \<and>
   Check TierAutonomous True \<le> Check TierHumanInTheLoop True"
  using Check_gate [of 99 False TierReadOnly] Check_gate [of TierReadOnly True TierAutonomous]
    Check_gate [of TierHumanInTheLoop True TierAutonomous]
  by (simp add: Check_def Tier_Valid_def tier_defs)

end
