(* ===== verification/Schema.thy ===== *)
theory Schema
  imports Identity
begin

text \<open>
  The Postgres schema (the \<open>migrations\<close> and sqlc's \<open>models.go\<close>), the state all programs share, and
  the execution of one SQL statement.  A nullable column is an \<open>option\<close>; a \<open>jsonb\<close> column holds the
  decoded object.  Integrity constraints are checked by the \<open>INSERT\<close> statements of the components.
\<close>

section \<open>Rows\<close>

record tenant_row =
  tn_ID :: uuid
  tn_Name :: string
  tn_CreatedAt :: time
  tn_TelemetryEnabled :: bool

record team_row =
  tm_ID :: uuid
  tm_TenantID :: uuid
  tm_Name :: string
  tm_CreatedAt :: time

record environment_row =
  en_ID :: uuid
  en_TenantID :: uuid
  en_Name :: string
  en_Provider :: string
  en_Region :: string
  en_CreatedAt :: time

record actor_row =
  ac_ID :: uuid
  ac_TenantID :: uuid
  ac_Type :: string
  ac_Name :: string
  ac_TeamID :: uuid
  ac_TrustTier :: int
  ac_AuthorizedBy :: "uuid option"
  ac_Status :: string
  ac_ExpiresAt :: "time option"
  ac_CreatedAt :: time
  ac_RevokedAt :: "time option"
  ac_IdempotencyKey :: "string option"

record actor_environment_row =
  ae_ActorID :: uuid
  ae_EnvironmentID :: uuid

record aws_config_row =
  aw_EnvironmentID :: uuid
  aw_AccountRef :: string
  aw_ExternalID :: string
  aw_TrustAnchor :: string

record aws_tier_role_row =
  ar_EnvironmentID :: uuid
  ar_Tier :: int
  ar_RoleArn :: string

record audit_event_row =
  au_ID :: uuid
  au_TenantID :: uuid
  au_OccurredAt :: time
  au_ActorID :: uuid
  au_Action :: string
  au_RunID :: "uuid option"
  au_Tier :: "int option"
  au_EnvironmentID :: "uuid option"
  au_TtlSeconds :: "int option"
  au_Metadata :: string

record revoked_session_row =
  rs_Jti :: uuid
  rs_ActorID :: uuid
  rs_RevokedAt :: time
  rs_ExpiresAt :: time

record local_user_row =
  lu_ActorID :: uuid
  lu_Username :: string
  lu_PasswordHash :: string
  lu_CreatedAt :: time

record worker_credential_row =
  wc_ID :: uuid
  wc_TenantID :: uuid
  wc_Name :: string
  wc_TokenHash :: string
  wc_CreatedAt :: time
  wc_RevokedAt :: "time option"
  wc_CiCallbackUrl :: "string option"

record worker_credential_environment_row =
  we_WorkerCredentialID :: uuid
  we_EnvironmentID :: uuid

record TierResult =
  tr_OK :: bool
  tr_Error :: string

record verification_row =
  ve_ID :: uuid
  ve_TenantID :: uuid
  ve_EnvironmentID :: uuid
  ve_Status :: string
  ve_RequestedBy :: uuid
  ve_ClaimedBy :: "uuid option"
  ve_TierResults :: "(string \<times> TierResult) list"
  ve_RequestedAt :: time
  ve_ClaimedAt :: "time option"
  ve_CompletedAt :: "time option"

record pipeline_row =
  pl_ID :: uuid
  pl_TenantID :: uuid
  pl_EnvironmentID :: uuid
  pl_Provider :: string
  pl_WorkflowRef :: string
  pl_Settings :: "(string \<times> string) list"
  pl_Mutating :: bool
  pl_CreatedAt :: time

text \<open>The values of \<open>runs.status\<close>: the constants of \<open>execution.go\<close>, the \<open>CHECK\<close> of the column.\<close>

datatype run_status =
    StatusRequested | StatusPolicyChecked | StatusDenied | StatusAwaitingApproval
  | StatusQueued | StatusExecuting | StatusSucceeded | StatusFailed | StatusCancelled
  | StatusTimedOut

record run_row =
  rn_ID :: uuid
  rn_TenantID :: uuid
  rn_ActorID :: uuid
  rn_EnvironmentID :: uuid
  rn_BindingID :: "uuid option"
  rn_PipelineID :: uuid
  rn_Tier :: int
  rn_Status :: run_status
  rn_CiProvider :: string
  rn_CiExternalRef :: "string option"
  rn_CiRawStatus :: "string option"
  rn_CiUrl :: "string option"
  rn_IdempotencyKey :: "string option"
  rn_DiffRef :: "string option"
  rn_RequestedAt :: time
  rn_StartedAt :: "time option"
  rn_FinishedAt :: "time option"
  rn_CreatedAt :: time
  rn_ClaimedBy :: "uuid option"
  rn_ClaimedAt :: "time option"

record approval_row =
  ap_ID :: uuid
  ap_RunID :: uuid
  ap_RequestedAt :: time
  ap_ApproverActorID :: "uuid option"
  ap_Decision :: "string option"
  ap_DecidedAt :: "time option"

record run_cost_row =
  rc_ID :: uuid
  rc_RunID :: uuid
  rc_Source :: string
  rc_DurationMs :: "int64 option"
  rc_AmountMicros :: "int64 option"
  rc_Currency :: string
  rc_CapturedAt :: time

record cost_rate_row =
  cr_ID :: uuid
  cr_TenantID :: uuid
  cr_EnvironmentID :: "uuid option"
  cr_CiProvider :: "string option"
  cr_RateMicrosPerMs :: int64
  cr_Currency :: string
  cr_CreatedAt :: time

record signing_key_row =
  sk_PrivateKey :: string
  sk_CreatedAt :: time

record telemetry_instance_row =
  ti_ID :: uuid
  ti_CreatedAt :: time

section \<open>The database and the world\<close>

record db =
  tenants :: "tenant_row list"
  teams :: "team_row list"
  environments :: "environment_row list"
  actors :: "actor_row list"
  actor_environments :: "actor_environment_row list"
  aws_configs :: "aws_config_row list"
  aws_tier_roles :: "aws_tier_role_row list"
  audit_events :: "audit_event_row list"
  revoked_sessions :: "revoked_session_row list"
  local_users :: "local_user_row list"
  signing_keys :: "signing_key_row list"
  worker_credentials :: "worker_credential_row list"
  worker_credential_environments :: "worker_credential_environment_row list"
  verifications :: "verification_row list"
  pipelines :: "pipeline_row list"
  runs :: "run_row list"
  approvals :: "approval_row list"
  run_costs :: "run_cost_row list"
  cost_rates :: "cost_rate_row list"
  telemetry_instances :: "telemetry_instance_row list"

definition empty_db :: db where
  "empty_db =
     \<lparr>tenants = [], teams = [], environments = [], actors = [], actor_environments = [],
      aws_configs = [], aws_tier_roles = [], audit_events = [], revoked_sessions = [],
      local_users = [], signing_keys = [], worker_credentials = [],
      worker_credential_environments = [], verifications = [], pipelines = [], runs = [],
      approvals = [], run_costs = [], cost_rates = [], telemetry_instances = []\<rparr>"

text \<open>The usage snapshot of \<open>telemetry.go\<close>, the one thing the control plane sends outside by itself.\<close>

record Payload =
  pay_InstanceID :: string
  pay_ProductVersion :: string
  pay_ActiveAgentCount :: nat
  pay_RunCount24h :: nat
  pay_PeriodStart :: time
  pay_PeriodEnd :: time

text \<open>
  \<open>tick\<close> counts the actions so far.  The outside decides, per action, the time \<open>clock\<close> (\<open>now()\<close>
  and \<open>time.Now()\<close>), the random value \<open>rand\<close> (\<open>gen_random_uuid()\<close>, \<open>uuid.New()\<close>) and whether the
  statement is lost with a driver error, \<open>fault\<close> (its SQLSTATE); \<open>entropy\<close> is what \<open>crypto/rand\<close> reads, if it can.  \<open>river\<close> logs the jobs inserted
  through the River client: the run of \<open>JobArgs\<close> and \<open>MaxAttempts\<close>.  \<open>posted\<close> logs the
  snapshots posted, with their addresses; \<open>post_answer\<close> is the status, or the error, a post gets.
\<close>

record world =
  w_db :: db
  tick :: nat
  clock :: "nat \<Rightarrow> time"
  rand :: "nat \<Rightarrow> uuid"
  fault :: "nat \<Rightarrow> string option"
  entropy :: "nat \<Rightarrow> nat \<Rightarrow> 8 word list option"
  river :: "(uuid \<times> nat) list"
  post_answer :: "nat \<Rightarrow> nat res"
  posted :: "(string \<times> Payload) list"

type_synonym 'a go = "(world, 'a res) prog"

text \<open>
  One SQL statement: atomic, applied in full or not at all.  \<open>f now u d\<close> gives its result and the
  new tables, or the error Postgres reports.
\<close>

definition exec_stmt :: "(time \<Rightarrow> uuid \<Rightarrow> db \<Rightarrow> ('a \<times> db) res) \<Rightarrow> world \<Rightarrow> 'a res \<times> world" where
  "exec_stmt f w =
     (let n = tick w; w1 = w\<lparr>tick := Suc n\<rparr> in
      case fault w n of
        Some c \<Rightarrow> (Inl (PgError c), w1)
      | None \<Rightarrow>
          (case f (clock w n) (rand w n) (w_db w) of
             Inl e \<Rightarrow> (Inl e, w1)
           | Inr (a, d) \<Rightarrow> (Inr a, w1\<lparr>w_db := d\<rparr>)))"

definition sql :: "(time \<Rightarrow> uuid \<Rightarrow> db \<Rightarrow> ('a \<times> db) res) \<Rightarrow> 'a go" where
  "sql f = act (exec_stmt f)"

text \<open>A \<open>SELECT\<close>, and an \<open>INSERT ... RETURNING *\<close> guarded by its constraints.\<close>

definition query :: "(db \<Rightarrow> 'a res) \<Rightarrow> 'a go" where
  "query f = sql (\<lambda>_ _ d. case f d of Inl e \<Rightarrow> Inl e | Inr a \<Rightarrow> Inr (a, d))"

definition insert_row :: "(bool \<times> string) list \<Rightarrow> 'r \<Rightarrow> db \<Rightarrow> ('r \<times> db) res" where
  "insert_row cs r d' = (case violated cs of Some c \<Rightarrow> Inl (PgError c) | None \<Rightarrow> Inr (r, d'))"

text \<open>The Go clock and \<open>uuid.New()\<close>.\<close>

definition time_Now :: "(world, time) prog" where
  "time_Now = act (\<lambda>w. (clock w (tick w), w\<lparr>tick := Suc (tick w)\<rparr>))"

definition uuid_New :: "(world, uuid) prog" where
  "uuid_New = act (\<lambda>w. (rand w (tick w), w\<lparr>tick := Suc (tick w)\<rparr>))"

definition rand_Read :: "nat \<Rightarrow> 8 word list go" where
  "rand_Read n =
     act (\<lambda>w. (case entropy w (tick w) n of
                   None \<Rightarrow> Inl (Errorf ''crypto/rand'')
                 | Some bs \<Rightarrow> Inr bs, w\<lparr>tick := Suc (tick w)\<rparr>))"

text \<open>
  A transaction: \<open>BEGIN\<close>, the body with \<open>now()\<close> fixed at its start, and \<open>COMMIT\<close>.  An error of the
  body or of the commit rolls the tables back.  As one action, it is serializable.  \<open>onBegin\<close> and
  \<open>onCommit\<close> are what the code makes of the error of those two statements.
\<close>

definition run_tx :: "(err \<Rightarrow> err) \<Rightarrow> (err \<Rightarrow> err) \<Rightarrow> 'a go \<Rightarrow> world \<Rightarrow> 'a res \<times> world" where
  "run_tx onBegin onCommit p w =
     (let n = tick w; w0 = w\<lparr>tick := Suc n\<rparr> in
      case fault w n of
        Some c \<Rightarrow> (Inl (onBegin (PgError c)), w0)
      | None \<Rightarrow>
          (case run p (w0\<lparr>clock := (\<lambda>_. clock w n)\<rparr>) of
             (Inl e, w') \<Rightarrow> (Inl e, w'\<lparr>clock := clock w, w_db := w_db w\<rparr>)
           | (Inr a, w') \<Rightarrow>
               (case fault w (tick w') of
                  Some c \<Rightarrow> (Inl (onCommit (PgError c)),
                             w'\<lparr>clock := clock w, w_db := w_db w, tick := Suc (tick w')\<rparr>)
                | None \<Rightarrow> (Inr a, w'\<lparr>clock := clock w, tick := Suc (tick w')\<rparr>))))"

definition in_tx :: "(err \<Rightarrow> err) \<Rightarrow> (err \<Rightarrow> err) \<Rightarrow> 'a go \<Rightarrow> 'a go" where
  "in_tx onBegin onCommit p = act (run_tx onBegin onCommit p)"

section \<open>Facts about statements\<close>

definition advance :: "world \<Rightarrow> world" where
  "advance w = w\<lparr>tick := Suc (tick w)\<rparr>"

lemma advance_sel [simp]:
  "w_db (advance w) = w_db w" "tick (advance w) = Suc (tick w)" "clock (advance w) = clock w"
  "rand (advance w) = rand w" "fault (advance w) = fault w" "entropy (advance w) = entropy w"
  "river (advance w) = river w" "post_answer (advance w) = post_answer w" "posted (advance w) = posted w"
  by (simp_all add: advance_def)

lemma advance_db_comm: "(advance w)\<lparr>w_db := d\<rparr> = advance (w\<lparr>w_db := d\<rparr>)"
  by (simp add: advance_def)

lemma run_sql [simp]:
  "run (sql f) w =
     (case fault w (tick w) of
        Some c \<Rightarrow> (Inl (PgError c), advance w)
      | None \<Rightarrow>
          (case f (clock w (tick w)) (rand w (tick w)) (w_db w) of
             Inl e \<Rightarrow> (Inl e, advance w)
           | Inr (a, d) \<Rightarrow> (Inr a, (advance w)\<lparr>w_db := d\<rparr>)))"
  by (simp add: sql_def exec_stmt_def Let_def advance_def split: option.split sum.split)

lemma run_query [simp]:
  "run (query f) w =
     (case fault w (tick w) of
        Some c \<Rightarrow> (Inl (PgError c), advance w)
      | None \<Rightarrow> (f (w_db w), advance w))"
  by (auto simp: query_def advance_def split: option.splits sum.splits)

lemma run_time_Now [simp]: "run time_Now w = (clock w (tick w), advance w)"
  by (simp add: time_Now_def advance_def)

lemma run_uuid_New [simp]: "run uuid_New w = (rand w (tick w), advance w)"
  by (simp add: uuid_New_def advance_def)

lemma run_rand_Read [simp]:
  "run (rand_Read n) w =
     (case entropy w (tick w) n of None \<Rightarrow> Inl (Errorf ''crypto/rand'') | Some bs \<Rightarrow> Inr bs, advance w)"
  by (simp add: rand_Read_def advance_def)

lemma run_in_tx [simp]: "run (in_tx b c p) w = run_tx b c p w"
  by (simp add: in_tx_def)

lemma insert_row_Inr:
  "insert_row cs r d' = Inr (r', d) \<longleftrightarrow> r' = r \<and> d = d' \<and> (\<forall>c \<in> set cs. fst c)"
  by (auto simp: insert_row_def violated_None [symmetric] split: option.splits)

lemma insert_row_Inl: "insert_row cs r d' = Inl e \<Longrightarrow> \<exists>c. e = PgError c \<and> violated cs = Some c"
  by (auto simp: insert_row_def split: option.splits)

text \<open>A relation between worlds that only looks at the tables.\<close>

definition on_db :: "(db \<Rightarrow> db \<Rightarrow> bool) \<Rightarrow> world \<Rightarrow> world \<Rightarrow> bool" where
  "on_db R w w' \<longleftrightarrow> R (w_db w) (w_db w')"

lemma on_db_advance [simp]: "on_db R w (advance v) = on_db R w v" "on_db R (advance w) v = on_db R w v"
  by (simp_all add: on_db_def)

lemma reflp_on_db: "reflp R \<Longrightarrow> reflp (on_db R)"
  by (auto simp: on_db_def reflp_def)

lemma transp_on_db: "transp R \<Longrightarrow> transp (on_db R)"
  unfolding transp_def on_db_def by blast

text \<open>
  The rely-guarantee rule of a statement: what it does to the tables, from any tables the others
  may have left, keeps the guarantee and establishes the postcondition.
\<close>

lemma rg_sql:
  assumes "reflp R" and "transp R"
    and ok: "\<And>d now u a d'. R (w_db w) d \<Longrightarrow> f now u d = Inr (a, d') \<Longrightarrow>
               R d d' \<and> (\<forall>v. R d' (w_db v) \<longrightarrow> Q (Inr a) v)"
    and bad: "\<And>e v. R (w_db w) (w_db v) \<Longrightarrow> Q (Inl e) v"
  shows "rg (on_db R) (on_db R) Q (sql f) w"
  unfolding sql_def
proof (rule rg_act)
  fix w' a w''
  assume R: "on_db R w w'" and ex: "exec_stmt f w' = (a, w'')"
  have refl: "R d d" for d using assms(1) by (auto dest: reflpD)
  have trans: "R x z" if "R x y" "R y z" for x y z using that assms(2) by (auto dest: transpD)
  show "on_db R w' w'' \<and> (\<forall>v. on_db R w'' v \<longrightarrow> Q a v)"
  proof (cases "(\<exists>e. a = Inl e) \<and> w_db w'' = w_db w'")
    case True
    with R show ?thesis by (auto simp: on_db_def intro: refl bad trans)
  next
    case False
    with ex obtain a' where "a = Inr a'"
        and "f (clock w' (tick w')) (rand w' (tick w')) (w_db w') = Inr (a', w_db w'')"
      by (auto simp: exec_stmt_def Let_def split: option.splits sum.splits prod.splits)
    with R show ?thesis by (auto simp: on_db_def dest: ok)
  qed
qed

lemma rg_query:
  assumes "reflp R" and "transp R"
    and ok: "\<And>d a. R (w_db w) d \<Longrightarrow> f d = Inr a \<Longrightarrow> \<forall>v. R d (w_db v) \<longrightarrow> Q (Inr a) v"
    and bad: "\<And>e v. R (w_db w) (w_db v) \<Longrightarrow> Q (Inl e) v"
  shows "rg (on_db R) (on_db R) Q (query f) w"
  unfolding query_def
  by (rule rg_sql [OF assms(1,2)])
     (use ok bad assms(1) in \<open>auto split: sum.splits dest: reflpD\<close>)

text \<open>A statement, its error rewritten, and what the code does next.\<close>

lemma rg_sql_bind:
  assumes "reflp R" and "transp R"
    and ok: "\<And>d now u a d'. R (w_db w) d \<Longrightarrow> f now u d = Inr (a, d') \<Longrightarrow>
               R d d' \<and> (\<forall>v. R d' (w_db v) \<longrightarrow> rg (on_db R) (on_db R) Q (k a) v)"
    and bad: "\<And>e v. R (w_db w) (w_db v) \<Longrightarrow> Q (Inl e) v"
  shows "rg (on_db R) (on_db R) Q (bindE (mapE g (sql f)) k) w"
proof -
  have trans: "R x z" if "R x y" "R y z" for x y z using that assms(2) by (auto dest: transpD)
  show ?thesis
    by (rule rg_bindE [OF reflp_on_db [OF assms(1)]],
        rule rg_mapE [OF reflp_on_db [OF assms(1)] transp_on_db [OF assms(2)]],
        rule rg_sql [OF assms(1,2)])
       (use ok in \<open>auto simp: on_db_def intro: bad trans\<close>)
qed

lemma rg_query_bind:
  assumes "reflp R" and "transp R"
    and ok: "\<And>d a v. R (w_db w) d \<Longrightarrow> f d = Inr a \<Longrightarrow> R d (w_db v) \<Longrightarrow>
               rg (on_db R) (on_db R) Q (k a) v"
    and bad: "\<And>e v. R (w_db w) (w_db v) \<Longrightarrow> Q (Inl e) v"
  shows "rg (on_db R) (on_db R) Q (bindE (mapE g (query f)) k) w"
  unfolding query_def
  by (rule rg_sql_bind [OF assms(1,2)])
     (use ok bad assms(1) in \<open>auto split: sum.splits dest: reflpD\<close>)

end
