(* ===== verification/Responses.thy ===== *)
theory Responses
  imports Schema
begin

text \<open>
  The frame of the HTTP handlers in \<open>controlplane/internal/api\<close>: responses (\<open>errors.go\<close>) and the
  early returns every handler is made of.  A request reaches a handler as its decoded body (\<open>None\<close>
  when decoding fails), its path and query values and what the wrapper put into the context.
\<close>

section \<open>Responses\<close>

text \<open>\<open>writeJSON\<close>, \<open>writeError\<close> with its stable code, a bare \<open>WriteHeader\<close>, and the
  dropped connection of a handler that panics.\<close>

datatype 'b response = Reply nat 'b | Error nat string | Status nat | Aborted

definition codeInvalidRequest :: string where "codeInvalidRequest = ''invalid_request''"
definition codeUnauthorized :: string where "codeUnauthorized = ''unauthorized''"
definition codeForbidden :: string where "codeForbidden = ''forbidden''"
definition codeNotFound :: string where "codeNotFound = ''not_found''"
definition codeConflict :: string where "codeConflict = ''conflict''"
definition codeGone :: string where "codeGone = ''gone''"
definition codePolicyDenied :: string where "codePolicyDenied = ''policy_denied''"
definition codeInternal :: string where "codeInternal = ''internal''"

lemmas code_defs = codeInvalidRequest_def codeUnauthorized_def codeForbidden_def codeNotFound_def
  codeConflict_def codeGone_def codePolicyDenied_def codeInternal_def

definition internalError :: "'b response" where
  "internalError = Error 500 codeInternal"

text \<open>\<open>if errors.Is(err, s) { writeError } else if err != nil { writeInternalError }\<close>\<close>

definition errIs :: "sentinel \<Rightarrow> 'b response \<Rightarrow> err \<Rightarrow> 'b response" where
  "errIs s r e = (if errors_Is e s then r else internalError)"

definition anyErr :: "err \<Rightarrow> 'b response" where
  "anyErr e = internalError"

type_synonym 'b handler = "(world, 'b response) prog"

text \<open>\<open>x, err := p\<close> with the response to its error, and the same for a pure call.\<close>

definition handleE :: "'a go \<Rightarrow> (err \<Rightarrow> 'b response) \<Rightarrow> ('a \<Rightarrow> 'b handler) \<Rightarrow> 'b handler" where
  "handleE p onErr k = bindP p (\<lambda>r. case r of Inl e \<Rightarrow> Done (onErr e) | Inr a \<Rightarrow> k a)"

definition orFail :: "'a res \<Rightarrow> 'b response \<Rightarrow> ('a \<Rightarrow> 'b handler) \<Rightarrow> 'b handler" where
  "orFail x r k = (case x of Inl e \<Rightarrow> Done r | Inr a \<Rightarrow> k a)"

definition orNone :: "'a option \<Rightarrow> 'b response \<Rightarrow> ('a \<Rightarrow> 'b handler) \<Rightarrow> 'b handler" where
  "orNone x r k = (case x of None \<Rightarrow> Done r | Some a \<Rightarrow> k a)"

text \<open>\<open>if bad { write r; return }\<close>\<close>

definition reject :: "bool \<Rightarrow> 'b response \<Rightarrow> 'b handler \<Rightarrow> 'b handler" where
  "reject bad r k = (if bad then Done r else k)"

definition badRequest :: "'b response" where "badRequest = Error 400 codeInvalidRequest"
definition forbidden :: "'b response" where "forbidden = Error 403 codeForbidden"
definition notFoundResp :: "'b response" where "notFoundResp = Error 404 codeNotFound"
definition unauthorized :: "'b response" where "unauthorized = Error 401 codeUnauthorized"
definition conflict :: "'b response" where "conflict = Error 409 codeConflict"

lemmas resp_defs = badRequest_def forbidden_def notFoundResp_def unauthorized_def conflict_def
  internalError_def

lemma run_handleE:
  "run (handleE p onErr k) w =
     (case run p w of (Inl e, w') \<Rightarrow> (onErr e, w') | (Inr a, w') \<Rightarrow> run (k a) w')"
  by (auto simp: handleE_def run_bindP split: prod.splits sum.splits)

lemma run_orFail: "run (orFail x r k) w = (case x of Inl e \<Rightarrow> (r, w) | Inr a \<Rightarrow> run (k a) w)"
  by (simp add: orFail_def split: sum.split)

lemma run_orNone: "run (orNone x r k) w = (case x of None \<Rightarrow> (r, w) | Some a \<Rightarrow> run (k a) w)"
  by (simp add: orNone_def split: option.split)

lemma run_reject: "run (reject b r k) w = (if b then (r, w) else run k w)"
  by (simp add: reject_def)

lemmas handler_simps = run_handleE run_orFail run_orNone run_reject

end
