(* ===== verification/Frame.thy ===== *)
theory Frame
  imports Responses
begin

text \<open>
  Histories: a reflexive and transitive relation between database states that every action of every
  program keeps, so that each interleaving keeps it.  The locale \<open>history\<close> carries the composition
  rules; the components interpret it with the relation that states their promise.
\<close>

definition keeps :: "(db \<Rightarrow> db \<Rightarrow> bool) \<Rightarrow> (world, 'a) prog \<Rightarrow> world \<Rightarrow> bool" where
  "keeps R p w \<longleftrightarrow> rg (on_db R) (on_db R) (\<lambda>_ v. R (w_db w) (w_db v)) p w"

locale history =
  fixes R :: "db \<Rightarrow> db \<Rightarrow> bool"
  assumes R_refl [simp]: "R d d"
    and R_trans: "R d d' \<Longrightarrow> R d' d'' \<Longrightarrow> R d d''"
begin

lemma reflp_R: "reflp R"
  by (simp add: reflp_def)

lemma transp_R: "transp R"
  by (auto simp: transp_def intro: R_trans)

lemmas on_R = reflp_on_db [OF reflp_R] transp_on_db [OF transp_R]

lemma keeps_rg:
  "keeps R p w \<Longrightarrow> (\<And>a v. R (w_db w) (w_db v) \<Longrightarrow> Q a v) \<Longrightarrow> rg (on_db R) (on_db R) Q p w"
  unfolding keeps_def by (erule rg_conseq)

lemma keeps_Done [intro]: "keeps R (Done a) w"
  by (simp add: keeps_def on_db_def)

lemma keeps_bindP_fact:
  assumes "rg (on_db R) (on_db R) (\<lambda>a v. R (w_db w) (w_db v) \<and> keeps R (h a) v) p w"
  shows "keeps R (bindP p h) w"
  unfolding keeps_def
  by (rule rg_bindP [OF on_R(1)], rule rg_conseq [OF assms])
     (auto intro: keeps_rg R_trans)

lemma keeps_bindP:
  assumes "keeps R p w" and "\<And>a v. R (w_db w) (w_db v) \<Longrightarrow> keeps R (h a) v"
  shows "keeps R (bindP p h) w"
  by (rule keeps_bindP_fact, rule keeps_rg [OF assms(1)]) (auto intro: assms(2))

lemma keeps_bindE_fact:
  assumes "rg (on_db R) (on_db R)
             (\<lambda>r v. R (w_db w) (w_db v) \<and> (\<forall>a. r = Inr a \<longrightarrow> keeps R (k a) v)) p w"
  shows "keeps R (bindE p k) w"
  unfolding bindE_def
  by (rule keeps_bindP_fact, rule rg_conseq [OF assms]) (auto split: sum.splits)

lemma keeps_bindE:
  assumes "keeps R p w" and "\<And>a v. R (w_db w) (w_db v) \<Longrightarrow> keeps R (k a) v"
  shows "keeps R (bindE p k) w"
  by (rule keeps_bindE_fact, rule keeps_rg [OF assms(1)]) (auto intro: assms(2))

lemma keeps_mapE [intro]: "keeps R p w \<Longrightarrow> keeps R (mapE g p) w"
  unfolding mapE_def by (rule keeps_bindP) auto

lemma rg_mapE_R:
  "rg (on_db R) (on_db R) (\<lambda>r. case r of Inl e \<Rightarrow> Q (Inl (g e)) | Inr a \<Rightarrow> Q (Inr a)) p w \<Longrightarrow>
     rg (on_db R) (on_db R) Q (mapE g p) w"
  by (rule rg_mapE [OF on_R])

text \<open>A statement, when what it does to the tables is in \<open>R\<close>; with the fact it leaves behind.\<close>

lemma rg_sql_R:
  assumes ok: "\<And>d now u a d'. R (w_db w) d \<Longrightarrow> f now u d = Inr (a, d') \<Longrightarrow>
                 R d d' \<and> (\<forall>v. R d' (w_db v) \<longrightarrow> P a v)"
  shows "rg (on_db R) (on_db R)
           (\<lambda>r v. R (w_db w) (w_db v) \<and> (\<forall>a. r = Inr a \<longrightarrow> P a v)) (sql f) w"
proof (rule rg_sql [OF reflp_R transp_R])
  fix d now u a d' assume "R (w_db w) d" and f: "f now u d = Inr (a, d')"
  then show "R d d' \<and> (\<forall>v. R d' (w_db v) \<longrightarrow> R (w_db w) (w_db v) \<and> (\<forall>a'. Inr a = Inr a' \<longrightarrow> P a' v))"
    using ok by (fastforce intro: R_trans)
qed simp

lemma rg_query_R:
  assumes ok: "\<And>d a v. R (w_db w) d \<Longrightarrow> f d = Inr a \<Longrightarrow> R d (w_db v) \<Longrightarrow> P a v"
  shows "rg (on_db R) (on_db R)
           (\<lambda>r v. R (w_db w) (w_db v) \<and> (\<forall>a. r = Inr a \<longrightarrow> P a v)) (query f) w"
  unfolding query_def by (rule rg_sql_R) (auto split: sum.splits intro: ok)

lemma keeps_sql:
  assumes "\<And>d now u a d'. f now u d = Inr (a, d') \<Longrightarrow> R d d'"
  shows "keeps R (sql f) w"
  unfolding keeps_def
  by (rule rg_conseq [OF rg_sql_R [where P = "\<lambda>_ _. True"]]) (auto intro: assms)

lemma keeps_query [intro]: "keeps R (query f) w"
  unfolding query_def by (rule keeps_sql) (auto split: sum.splits)

lemma keeps_time_Now [intro]: "keeps R time_Now w"
  unfolding keeps_def time_Now_def
  by (rule rg_act) (auto simp: on_db_def intro: R_trans)

lemma keeps_uuid_New [intro]: "keeps R uuid_New w"
  unfolding keeps_def uuid_New_def
  by (rule rg_act) (auto simp: on_db_def intro: R_trans)

lemma keeps_rand_Read [intro]: "keeps R (rand_Read n) w"
  unfolding keeps_def rand_Read_def
  by (rule rg_act) (auto simp: on_db_def intro: R_trans)

lemma keeps_sql_bind_fact:
  assumes ok: "\<And>d now u a d'. R (w_db w) d \<Longrightarrow> f now u d = Inr (a, d') \<Longrightarrow>
                 R d d' \<and> (\<forall>v. R d' (w_db v) \<longrightarrow> keeps R (k a) v)"
  shows "keeps R (bindE (mapE g (sql f)) k) w"
  by (rule keeps_bindE_fact, rule rg_mapE_R, rule rg_conseq [OF rg_sql_R [OF ok]])
     (auto split: sum.splits)

lemma keeps_query_bind_fact:
  assumes ok: "\<And>d a v. R (w_db w) d \<Longrightarrow> f d = Inr a \<Longrightarrow> R d (w_db v) \<Longrightarrow> keeps R (k a) v"
  shows "keeps R (bindE (mapE g (query f)) k) w"
  by (rule keeps_bindE_fact, rule rg_mapE_R, rule rg_conseq [OF rg_query_R [OF ok]])
     (auto split: sum.splits)

text \<open>The handler combinators.\<close>

lemma keeps_handleE:
  "keeps R p w \<Longrightarrow> (\<And>a v. R (w_db w) (w_db v) \<Longrightarrow> keeps R (k a) v) \<Longrightarrow> keeps R (handleE p f k) w"
  unfolding handleE_def by (rule keeps_bindP) (auto split: sum.split)

lemma keeps_handleE_fact:
  assumes "rg (on_db R) (on_db R)
             (\<lambda>r v. R (w_db w) (w_db v) \<and> (\<forall>a. r = Inr a \<longrightarrow> keeps R (k a) v)) p w"
  shows "keeps R (handleE p f k) w"
  unfolding handleE_def
  by (rule keeps_bindP_fact, rule rg_conseq [OF assms]) (auto split: sum.splits)

lemma keeps_orFail: "(\<And>a. x = Inr a \<Longrightarrow> keeps R (k a) w) \<Longrightarrow> keeps R (orFail x r k) w"
  by (auto simp: orFail_def split: sum.split)

lemma keeps_orNone: "(\<And>a. x = Some a \<Longrightarrow> keeps R (k a) w) \<Longrightarrow> keeps R (orNone x r k) w"
  by (auto simp: orNone_def split: option.split)

lemma keeps_reject: "(\<not> b \<Longrightarrow> keeps R k w) \<Longrightarrow> keeps R (reject b r k) w"
  by (auto simp: reject_def)

lemmas keeps_handler = keeps_handleE keeps_orFail keeps_orNone keeps_reject keeps_Done

section \<open>Programs run alone, in a transaction, interleaved\<close>

lemma keeps_run: "keeps R p w \<Longrightarrow> run p w = (a, w') \<Longrightarrow> R (w_db w) (w_db w')"
  unfolding keeps_def by (drule (1) rg_run [OF on_R]) (simp add: on_db_def)

lemma keeps_in_tx_run:
  assumes "\<And>v a v'. R (w_db w) (w_db v) \<Longrightarrow> run p v = (Inr a, v') \<Longrightarrow> R (w_db v) (w_db v')"
  shows "keeps R (in_tx b c p) w"
  unfolding keeps_def in_tx_def
proof (rule rg_act)
  fix w' a w''
  assume R: "on_db R w w'" and tx: "run_tx b c p w' = (a, w'')"
  have "R (w_db w') (w_db w'')"
  proof (cases "w_db w'' = w_db w'")
    case True
    then show ?thesis by simp
  next
    case False
    let ?v = "w'\<lparr>tick := Suc (tick w'), clock := (\<lambda>_. clock w' (tick w'))\<rparr>"
    from tx False obtain x v' where "run p ?v = (Inr x, v')" and "w_db w'' = w_db v'"
      by (auto simp: run_tx_def Let_def split: option.splits prod.splits sum.splits)
    with assms [of ?v x v'] R show ?thesis by (simp add: on_db_def)
  qed
  with R show "on_db R w' w'' \<and> (\<forall>v. on_db R w'' v \<longrightarrow> R (w_db w) (w_db v))"
    by (auto simp: on_db_def intro: R_trans)
qed

lemma keeps_in_tx: "(\<And>v. R (w_db w) (w_db v) \<Longrightarrow> keeps R p v) \<Longrightarrow> keeps R (in_tx b c p) w"
  by (rule keeps_in_tx_run) (blast intro: keeps_run)

lemma keeps_forget: "keeps R p w \<Longrightarrow> keeps R (forget p) w"
  unfolding forget_def by (rule keeps_bindP) auto

text \<open>Two moments of one schedule.\<close>

lemma keeps_sched2:
  assumes S: "\<And>p v. p \<in> S \<Longrightarrow> R (w_db w) (w_db v) \<Longrightarrow> keeps R p v"
    and one: "(sched S)\<^sup>*\<^sup>* ([], w) (ps, w')" and two: "(sched S)\<^sup>*\<^sup>* (ps, w') (ps', w'')"
  shows "R (w_db w) (w_db w') \<and> R (w_db w') (w_db w'')"
proof -
  have rg: "rg (on_db R) (on_db R) (\<lambda>_ _. True) p v" if "p \<in> S" "on_db R w v" for p v
    using that by (auto simp: on_db_def intro: keeps_rg S)
  have 1: "on_db R w w' \<and> (\<forall>p \<in> set ps. rg (on_db R) (on_db R) (\<lambda>_ _. True) p w')"
    by (rule sched_sound [OF on_R(2,1) _ one]) (auto intro: rg)
  have trans: "on_db R w v" if "on_db R w' v" for v
    using 1 that by (auto simp: on_db_def intro: R_trans)
  have "on_db R w' w'' \<and> (\<forall>p \<in> set ps'. rg (on_db R) (on_db R) (\<lambda>_ _. True) p w'')"
    by (rule sched_sound [OF on_R(2,1) _ two]) (use 1 in \<open>auto intro: rg trans\<close>)
  with 1 show ?thesis by (simp add: on_db_def)
qed

lemma keeps_sched:
  assumes "\<And>p v. p \<in> S \<Longrightarrow> R (w_db w) (w_db v) \<Longrightarrow> keeps R p v"
    and "(sched S)\<^sup>*\<^sup>* ([], w) (ps, w')"
  shows "R (w_db w) (w_db w')"
  using keeps_sched2 [OF assms rtranclp.rtrancl_refl] by blast

end

end
