(* ===== verification/CI.thy ===== *)
theory CI
  imports Prog "HOL-Library.List_Lexorder" "HOL-Library.Char_ord"
begin

text \<open>
  Package \<open>pkg/ci\<close>: providers, normalised run states, per-environment configuration and the
  registry of adapters (shared in shape by the CI verifier registry of the worker).
\<close>

section \<open>Providers, states, configuration\<close>

type_synonym provider = string

definition ProviderGitHubActions :: provider where "ProviderGitHubActions = ''github_actions''"
definition ProviderGitLabCI :: provider where "ProviderGitLabCI = ''gitlab_ci''"
definition ProviderJenkins :: provider where "ProviderJenkins = ''jenkins''"
definition ProviderAtlantis :: provider where "ProviderAtlantis = ''atlantis''"
definition ProviderBitbucket :: provider where "ProviderBitbucket = ''bitbucket_pipelines''"

datatype ci_status =
    CIPending | CIRunning | CISucceeded | CIFailed | CICancelled | CITimedOut | CIUnknown

fun Status_Terminal :: "ci_status \<Rightarrow> bool" where
  "Status_Terminal CISucceeded = True"
| "Status_Terminal CIFailed = True"
| "Status_Terminal CICancelled = True"
| "Status_Terminal CITimedOut = True"
| "Status_Terminal _ = False"

text \<open>A \<open>map[string]string\<close>; indexing an absent key gives the empty string.\<close>

type_synonym settings = "(string \<times> string) list"

definition settings_get :: "settings \<Rightarrow> string \<Rightarrow> string" where
  "settings_get m k = (case map_of m k of None \<Rightarrow> [] | Some v \<Rightarrow> v)"

text \<open>\<open>Secret\<close> prints redacted in every form but \<open>Reveal\<close>.\<close>

datatype Secret = Secret string

fun Secret_String :: "Secret \<Rightarrow> string" where
  "Secret_String (Secret s) = ''[REDACTED]''"

fun Secret_MarshalJSON :: "Secret \<Rightarrow> string" where
  "Secret_MarshalJSON (Secret s) = CHR 0x22 # ''[REDACTED]'' @ [CHR 0x22]"

fun Secret_Reveal :: "Secret \<Rightarrow> string" where
  "Secret_Reveal (Secret s) = s"

record Config =
  cfg_Provider :: provider
  cfg_Settings :: settings
  cfg_Credential :: Secret

definition Config_Get :: "Config \<Rightarrow> string \<Rightarrow> string" where
  "Config_Get c key = settings_get (cfg_Settings c) key"

text \<open>The loop of \<open>Require\<close>: an error at the first key whose setting is empty.\<close>

fun require_settings :: "sentinel \<Rightarrow> settings \<Rightarrow> string list \<Rightarrow> unit res" where
  "require_settings s m [] = Inr ()"
| "require_settings s m (k # ks) =
     (if settings_get m k = [] then Inl (Wrapf (Sentinel s)) else require_settings s m ks)"

definition Config_Require :: "Config \<Rightarrow> string list \<Rightarrow> unit res" where
  "Config_Require c keys = require_settings ci_ErrInvalidConfig (cfg_Settings c) keys"

lemma require_settings_Inr:
  "require_settings s m ks = Inr () \<longleftrightarrow> (\<forall>k \<in> set ks. settings_get m k \<noteq> [])"
  by (induction ks) auto

section \<open>The registry\<close>

text \<open>
  A Go map from provider to adapter, as the list of its entries.  \<open>NewRegistry\<close> panics on a
  duplicate provider (\<open>None\<close>).
\<close>

type_synonym 'a registry = "(provider \<times> 'a) list"

fun register :: "('a \<Rightarrow> provider) \<Rightarrow> 'a list \<Rightarrow> 'a registry \<Rightarrow> 'a registry option" where
  "register prov [] r = Some r"
| "register prov (a # as) r =
     (case map_of r (prov a) of
        Some _ \<Rightarrow> None
      | None \<Rightarrow> register prov as (r @ [(prov a, a)]))"

definition NewRegistry :: "('a \<Rightarrow> provider) \<Rightarrow> 'a list \<Rightarrow> 'a registry option" where
  "NewRegistry prov adapters = register prov adapters []"

definition Registry_Get :: "'a registry \<Rightarrow> provider \<Rightarrow> 'a res" where
  "Registry_Get r p =
     (case map_of r p of
        None \<Rightarrow> Inl (Wrapf (Sentinel ci_ErrUnknownProvider))
      | Some a \<Rightarrow> Inr a)"

definition Registry_Providers :: "'a registry \<Rightarrow> provider list" where
  "Registry_Providers r = sort (map fst r)"

lemma register_Some:
  "register prov as r = Some r' \<longleftrightarrow>
     r' = r @ map (\<lambda>a. (prov a, a)) as \<and> distinct (map prov as) \<and>
     set (map prov as) \<inter> fst ` set r = {}"
proof (induction as arbitrary: r)
  case Nil
  then show ?case by auto
next
  case (Cons a as)
  show ?case
  proof (cases "map_of r (prov a)")
    case None
    then have "prov a \<notin> fst ` set r" by (simp add: map_of_eq_None_iff)
    moreover have "register prov (a # as) r = register prov as (r @ [(prov a, a)])"
      using None by simp
    ultimately show ?thesis by (auto simp: Cons.IH)
  next
    case (Some x)
    then have "prov a \<in> fst ` set r" by (metis map_of_eq_None_iff option.distinct(1))
    with Some show ?thesis by auto
  qed
qed

lemma map_of_map_distinct:
  "distinct (map g as) \<Longrightarrow> a \<in> set as \<Longrightarrow> map_of (map (\<lambda>a. (g a, a)) as) (g a) = Some a"
  by (induction as) (auto simp: image_iff)

text \<open>
  A registry is built exactly when no two adapters claim one provider; it then answers each
  adapter's own provider with that adapter and every other provider with \<open>ErrUnknownProvider\<close>,
  and lists the registered providers sorted and without repetition.
\<close>

theorem registry_correct:
  "(NewRegistry prov as = None \<longleftrightarrow> \<not> distinct (map prov as)) \<and>
   (\<forall>r. NewRegistry prov as = Some r \<longrightarrow>
      (\<forall>a \<in> set as. Registry_Get r (prov a) = Inr a) \<and>
      (\<forall>p. p \<notin> prov ` set as \<longrightarrow>
         (\<exists>e. Registry_Get r p = Inl e \<and> errors_Is e ci_ErrUnknownProvider)) \<and>
      sorted (Registry_Providers r) \<and> distinct (Registry_Providers r) \<and>
      set (Registry_Providers r) = prov ` set as)"
proof (intro conjI allI impI)
  show "NewRegistry prov as = None \<longleftrightarrow> \<not> distinct (map prov as)"
    using register_Some [of prov as "[]"] by (cases "NewRegistry prov as") (auto simp: NewRegistry_def)
next
  fix r assume "NewRegistry prov as = Some r"
  then have r: "r = map (\<lambda>a. (prov a, a)) as" and d: "distinct (map prov as)"
    by (auto simp: NewRegistry_def register_Some)
  show "\<forall>a \<in> set as. Registry_Get r (prov a) = Inr a"
    using d by (simp add: Registry_Get_def r map_of_map_distinct)
  show "\<exists>e. Registry_Get r p = Inl e \<and> errors_Is e ci_ErrUnknownProvider" if "p \<notin> prov ` set as" for p
  proof -
    from that have "map_of r p = None" by (force simp: r map_of_eq_None_iff)
    then show ?thesis by (simp add: Registry_Get_def)
  qed
  show "sorted (Registry_Providers r)" by (simp add: Registry_Providers_def)
  show "distinct (Registry_Providers r)" using d by (simp add: Registry_Providers_def r comp_def)
  show "set (Registry_Providers r) = prov ` set as"
    by (auto simp: Registry_Providers_def r)
qed

theorem registry_correct_witness:
  "NewRegistry id [ProviderJenkins, ProviderGitHubActions] \<noteq> None \<and>
   Registry_Get [(ProviderJenkins, ProviderJenkins), (ProviderGitHubActions, ProviderGitHubActions)]
     ProviderJenkins = Inr ProviderJenkins"
proof -
  let ?as = "[ProviderJenkins, ProviderGitHubActions]"
  have r: "NewRegistry id ?as =
      Some [(ProviderJenkins, ProviderJenkins), (ProviderGitHubActions, ProviderGitHubActions)]"
    by (simp add: NewRegistry_def ProviderJenkins_def ProviderGitHubActions_def)
  with registry_correct [of id ?as] show ?thesis by simp
qed

end
