(* ===== verification/Pipeline.thy ===== *)
theory Pipeline
  imports Schema CI
begin

text \<open>
  Package \<open>controlplane/internal/pipeline\<close>: the pipelines a run can target.  Its reading interface,
  which the run store and the worker-facing handlers rely on, is the locale \<open>pipeline_reader\<close>.
\<close>

record Pipeline =
  p_ID :: uuid
  p_TenantID :: uuid
  p_EnvironmentID :: uuid
  p_Provider :: provider
  p_WorkflowRef :: string
  p_Settings :: settings
  p_Mutating :: bool
  p_CreatedAt :: time

definition pipeline_fromRow :: "pipeline_row \<Rightarrow> Pipeline" where
  "pipeline_fromRow r =
     \<lparr>p_ID = pl_ID r, p_TenantID = pl_TenantID r, p_EnvironmentID = pl_EnvironmentID r,
      p_Provider = pl_Provider r, p_WorkflowRef = pl_WorkflowRef r, p_Settings = pl_Settings r,
      p_Mutating = pl_Mutating r, p_CreatedAt = pl_CreatedAt r\<rparr>"

section \<open>Queries\<close>

definition pipeline_provider_check :: "string \<Rightarrow> bool" where
  "pipeline_provider_check p \<longleftrightarrow>
     p \<in> {ProviderGitHubActions, ProviderGitLabCI, ProviderJenkins, ProviderAtlantis, ProviderBitbucket}"

definition CreatePipeline :: "uuid \<Rightarrow> uuid \<Rightarrow> string \<Rightarrow> string \<Rightarrow> settings \<Rightarrow> bool \<Rightarrow> pipeline_row go" where
  "CreatePipeline tenantID environmentID prov workflowRef settings mutating =
     sql (\<lambda>now u d.
       let r = \<lparr>pl_ID = u, pl_TenantID = tenantID, pl_EnvironmentID = environmentID,
                pl_Provider = prov, pl_WorkflowRef = workflowRef, pl_Settings = settings,
                pl_Mutating = mutating, pl_CreatedAt = now\<rparr>
       in insert_row
            [(pipeline_provider_check prov, ''23514''),
             (u \<notin> pl_ID ` set (pipelines d), ''23505''),
             (tenantID \<in> tn_ID ` set (tenants d), ''23503''),
             (environmentID \<in> en_ID ` set (environments d), ''23503'')]
            r (d\<lparr>pipelines := pipelines d @ [r]\<rparr>))"

definition GetPipeline :: "uuid \<Rightarrow> uuid \<Rightarrow> pipeline_row go" where
  "GetPipeline i tenantID =
     query (\<lambda>d. select_one (\<lambda>p. pl_ID p = i \<and> pl_TenantID p = tenantID) (pipelines d))"

section \<open>The store\<close>

definition pipeline_Create :: "uuid \<Rightarrow> uuid \<Rightarrow> provider \<Rightarrow> string \<Rightarrow> settings \<Rightarrow> bool \<Rightarrow> Pipeline go" where
  "pipeline_Create tenantID environmentID prov workflowRef settings mutating =
     (if tenantID = uuid_Nil then failE (Errorf ''tenant id is required'')
      else if environmentID = uuid_Nil then failE (Errorf ''environment id is required'')
      else if workflowRef = [] then failE (Errorf ''workflow ref is required'')
      else bindE (mapE Wrapf (CreatePipeline tenantID environmentID prov workflowRef settings mutating))
             (\<lambda>row. returnE (pipeline_fromRow row)))"

definition pipeline_Get :: "uuid \<Rightarrow> uuid \<Rightarrow> Pipeline go" where
  "pipeline_Get tenantID i =
     bindE (mapE (notFound sql_ErrNoRows pipeline_ErrNotFound) (GetPipeline i tenantID))
       (\<lambda>row. returnE (pipeline_fromRow row))"

section \<open>The reading interface\<close>

text \<open>
  What a client of \<open>Get\<close> relies on: reading leaves the tables alone under any interference, and the
  pipeline returned is a row of the tables, in the tenant and with the identifier asked for.
\<close>

locale pipeline_reader =
  fixes Get :: "uuid \<Rightarrow> uuid \<Rightarrow> Pipeline go"
  assumes get_rg:
    "reflp R \<Longrightarrow> transp R \<Longrightarrow>
     (\<And>d r v. R (w_db w) d \<Longrightarrow> r \<in> set (pipelines d) \<Longrightarrow> pl_ID r = i \<Longrightarrow> pl_TenantID r = t \<Longrightarrow>
        R d (w_db v) \<Longrightarrow> Q (Inr (pipeline_fromRow r)) v) \<Longrightarrow>
     (\<And>e v. R (w_db w) (w_db v) \<Longrightarrow> Q (Inl e) v) \<Longrightarrow>
     rg (on_db R) (on_db R) Q (Get t i) w"
begin

lemma get_run_db: "run (Get t i) w = (x, w') \<Longrightarrow> w_db w' = w_db w"
proof -
  assume run: "run (Get t i) w = (x, w')"
  have "rg (on_db (=)) (on_db (=)) (\<lambda>_ v. w_db v = w_db w) (Get t i) w"
    by (rule get_rg) (auto simp: reflp_def transp_def)
  from rg_run [OF reflp_on_db transp_on_db this run] show ?thesis
    by (auto simp: reflp_def transp_def)
qed

lemma get_run_Inr:
  assumes run: "run (Get t i) w = (Inr p, w')"
  shows "\<exists>r \<in> set (pipelines (w_db w)). pl_ID r = i \<and> pl_TenantID r = t \<and> p = pipeline_fromRow r"
proof -
  let ?Q = "\<lambda>x v. \<forall>p. x = Inr p \<longrightarrow>
    (\<exists>r \<in> set (pipelines (w_db w)). pl_ID r = i \<and> pl_TenantID r = t \<and> p = pipeline_fromRow r)"
  have "rg (on_db (=)) (on_db (=)) ?Q (Get t i) w"
    by (rule get_rg) (auto simp: reflp_def transp_def)
  from rg_run [OF reflp_on_db transp_on_db this run] show ?thesis
    by (auto simp: reflp_def transp_def)
qed

end

interpretation pl: pipeline_reader pipeline_Get
proof unfold_locales
  fix R :: "db \<Rightarrow> db \<Rightarrow> bool" and w :: world and i t :: uuid
    and Q :: "Pipeline res \<Rightarrow> world \<Rightarrow> bool"
  assume R: "reflp R" "transp R"
    and ok: "\<And>d r v. R (w_db w) d \<Longrightarrow> r \<in> set (pipelines d) \<Longrightarrow> pl_ID r = i \<Longrightarrow> pl_TenantID r = t \<Longrightarrow>
        R d (w_db v) \<Longrightarrow> Q (Inr (pipeline_fromRow r)) v"
    and bad: "\<And>e v. R (w_db w) (w_db v) \<Longrightarrow> Q (Inl e) v"
  have trans: "R x z" if "R x y" "R y z" for x y z using that R(2) by (auto dest: transpD)
  show "rg (on_db R) (on_db R) Q (pipeline_Get t i) w"
    unfolding pipeline_Get_def GetPipeline_def
    by (rule rg_query_bind [OF R])
       (auto simp: on_db_def dest!: select_one_Inr intro: ok bad trans)
qed

end
