(* ===== verification/ClaimQueue.thy ===== *)
theory ClaimQueue
  imports Schema
begin

text \<open>
  The claim pattern the run queue and the verification queue share: one statement picks the
  oldest eligible row (\<open>ORDER BY requested_at FOR UPDATE SKIP LOCKED LIMIT 1\<close>) and marks it claimed.
  As one action no row is locked, so none is skipped; rows of equal age are taken in insertion
  order here, which Postgres leaves open and no law below depends on.
\<close>

definition claim_next :: "('r \<Rightarrow> bool) \<Rightarrow> ('r \<Rightarrow> time) \<Rightarrow> ('r \<Rightarrow> uuid) \<Rightarrow> ('r \<Rightarrow> 'r) \<Rightarrow> 'r list
    \<Rightarrow> ('r \<times> 'r list) res" where
  "claim_next elig ts key f rows =
     (case sort_key ts (filter elig rows) of
        [] \<Rightarrow> Inl (Sentinel sql_ErrNoRows)
      | r # _ \<Rightarrow> update_one (\<lambda>x. key x = key r) f rows)"

lemma claim_next_pick:
  assumes "sort_key ts (filter elig rows) = r # rest"
  shows "r \<in> set rows \<and> elig r \<and> (\<forall>x \<in> set rows. elig x \<longrightarrow> ts r \<le> ts x)"
proof -
  have "set (sort_key ts (filter elig rows)) = {x \<in> set rows. elig x}" by simp
  with assms have mem: "set (r # rest) = {x \<in> set rows. elig x}" by simp
  have "sorted (map ts (r # rest))" unfolding assms [symmetric] by simp
  with mem show ?thesis by auto
qed

text \<open>
  The interface: \<open>elig\<close> are the rows a poller may take, \<open>mark\<close> is what claiming does to a row.
  Claiming keeps the key and takes the row out of the eligible ones.
\<close>

locale claim_table =
  fixes elig :: "'r \<Rightarrow> bool" and ts :: "'r \<Rightarrow> time" and key :: "'r \<Rightarrow> uuid" and mark :: "'r \<Rightarrow> 'r"
  assumes key_mark: "key (mark r) = key r"
    and not_elig_mark: "\<not> elig (mark r)"
begin

abbreviation claim :: "'r list \<Rightarrow> ('r \<times> 'r list) res" where
  "claim \<equiv> claim_next elig ts key mark"

lemma claim_Inl: "claim rows = Inl e \<longleftrightarrow> e = Sentinel sql_ErrNoRows \<and> (\<forall>r \<in> set rows. \<not> elig r)"
proof (cases "sort_key ts (filter elig rows)")
  case Nil
  then have "filter elig rows = []" by (metis set_empty set_sort)
  then show ?thesis by (auto simp: claim_next_def filter_empty_conv)
next
  case (Cons r rest)
  from claim_next_pick [OF Cons] Cons show ?thesis
    by (auto simp: claim_next_def update_one_Inl)
qed

lemma claim_Inr:
  assumes dist: "distinct (map key rows)" and cl: "claim rows = Inr (r', rows')"
  shows "\<exists>r \<in> set rows. elig r \<and> (\<forall>x \<in> set rows. elig x \<longrightarrow> ts r \<le> ts x) \<and> r' = mark r \<and>
           rows' = update_rows (\<lambda>x. key x = key r) mark rows"
proof (cases "sort_key ts (filter elig rows)")
  case Nil
  with cl show ?thesis by (simp add: claim_next_def)
next
  case (Cons r rest)
  from claim_next_pick [OF Cons]
  have r: "r \<in> set rows" "elig r" "\<forall>x \<in> set rows. elig x \<longrightarrow> ts r \<le> ts x" by auto
  have "select_one (\<lambda>x. key x = key r) rows = Inr r"
    by (rule select_one_key [OF dist r(1)]) simp_all
  then have "claim rows = Inr (mark r, update_rows (\<lambda>x. key x = key r) mark rows)"
    by (simp add: claim_next_def Cons update_one_select)
  with cl r show ?thesis by auto
qed

lemma claim_keys: "claim rows = Inr (r', rows') \<Longrightarrow> map key rows' = map key rows"
  by (auto simp: claim_next_def update_one_def map_update_rows key_mark split: list.splits)

text \<open>A claimed row leaves the queue: the next claim takes another one.\<close>

lemma claim_twice_distinct:
  assumes dist: "distinct (map key rows)"
    and c1: "claim rows = Inr (r1, rows1)" and c2: "claim rows1 = Inr (r2, rows2)"
  shows "key r1 \<noteq> key r2"
proof -
  from claim_Inr [OF dist c1] obtain r where r: "r1 = mark r"
    and rows1: "rows1 = update_rows (\<lambda>x. key x = key r) mark rows" by auto
  from dist c1 have dist1: "distinct (map key rows1)" by (simp add: claim_keys)
  from claim_Inr [OF dist1 c2] obtain s where s: "s \<in> set rows1" "elig s" "r2 = mark s" by auto
  from s(1) obtain x where x: "s = (if key x = key r then mark x else x)"
    by (auto simp: rows1 in_update_rows)
  with s(2) not_elig_mark [of x] have "key s \<noteq> key r" by (auto split: if_splits)
  with r s(3) show ?thesis by (simp add: key_mark)
qed

text \<open>The number of eligible rows goes down by one with each claim, so a queue drains.\<close>

lemma claim_drains:
  assumes dist: "distinct (map key rows)" and cl: "claim rows = Inr (r', rows')"
  shows "length (filter elig rows') = length (filter elig rows) - 1"
    and "0 < length (filter elig rows)"
proof -
  from claim_Inr [OF dist cl] obtain r where r: "r \<in> set rows" "elig r"
    and rows': "rows' = update_rows (\<lambda>x. key x = key r) mark rows" by auto
  have "length (filter elig rows') + 1 = length (filter elig rows)"
    unfolding rows' using dist r
  proof (induction rows)
    case Nil
    then show ?case by simp
  next
    case (Cons y ys)
    show ?case
    proof (cases "y = r")
      case True
      with Cons.prems(1) have "\<forall>z \<in> set ys. key z \<noteq> key r" by (auto simp: image_iff)
      then have "update_rows (\<lambda>x. key x = key r) mark ys = ys"
        by (simp add: update_rows_none)
      with True Cons.prems show ?thesis by (simp add: update_rows_def not_elig_mark)
    next
      case False
      with Cons.prems have "key y \<noteq> key r" by force
      with False Cons show ?thesis by (simp add: update_rows_def)
    qed
  qed
  then show "length (filter elig rows') = length (filter elig rows) - 1"
    and "0 < length (filter elig rows)" by (linarith, linarith)
qed

end

end
