(* ===== verification/Execution.thy ===== *)
theory Execution
  imports Pipeline ClaimQueue Policy Stdlib
begin

text \<open>
  Package \<open>controlplane/internal/execution\<close>, file \<open>execution.go\<close> and its queries: the run and approval
  store, which owns the transitions of the run state machine.
\<close>

section \<open>Runs and approvals\<close>

record Run =
  r_ID :: uuid
  r_TenantID :: uuid
  r_ActorID :: uuid
  r_EnvironmentID :: uuid
  r_PipelineID :: uuid
  r_Tier :: tier
  r_Status :: run_status
  r_CIProvider :: string
  r_CIExternalRef :: string
  r_CIRawStatus :: string
  r_CIURL :: string
  r_IdempotencyKey :: string
  r_DiffRef :: string
  r_RequestedAt :: time
  r_StartedAt :: "time option"
  r_FinishedAt :: "time option"
  r_CreatedAt :: time
  r_ClaimedBy :: "uuid option"
  r_ClaimedAt :: "time option"

record Approval =
  a_ID :: uuid
  a_RunID :: uuid
  a_RequestedAt :: time
  a_ApproverActorID :: "uuid option"
  a_Decision :: string
  a_DecidedAt :: "time option"

definition nullString :: "string \<Rightarrow> string option" where
  "nullString s = (if s = [] then None else Some s)"

text \<open>\<open>NullString.String\<close>: the zero value when not valid.\<close>

definition null_String :: "string option \<Rightarrow> string" where
  "null_String v = (case v of None \<Rightarrow> [] | Some s \<Rightarrow> s)"

text \<open>\<open>int16(t)\<close> wraps.\<close>

definition tierToInt16 :: "tier \<Rightarrow> int" where
  "tierToInt16 t = sint (word_of_int t :: 16 word)"

definition fromRunRow :: "run_row \<Rightarrow> Run" where
  "fromRunRow row =
     \<lparr>r_ID = rn_ID row, r_TenantID = rn_TenantID row, r_ActorID = rn_ActorID row,
      r_EnvironmentID = rn_EnvironmentID row, r_PipelineID = rn_PipelineID row,
      r_Tier = rn_Tier row, r_Status = rn_Status row, r_CIProvider = rn_CiProvider row,
      r_CIExternalRef = null_String (rn_CiExternalRef row),
      r_CIRawStatus = null_String (rn_CiRawStatus row), r_CIURL = null_String (rn_CiUrl row),
      r_IdempotencyKey = null_String (rn_IdempotencyKey row),
      r_DiffRef = null_String (rn_DiffRef row), r_RequestedAt = rn_RequestedAt row,
      r_StartedAt = rn_StartedAt row, r_FinishedAt = rn_FinishedAt row,
      r_CreatedAt = rn_CreatedAt row, r_ClaimedBy = rn_ClaimedBy row,
      r_ClaimedAt = rn_ClaimedAt row\<rparr>"

definition fromApprovalRow :: "approval_row \<Rightarrow> Approval" where
  "fromApprovalRow row =
     \<lparr>a_ID = ap_ID row, a_RunID = ap_RunID row, a_RequestedAt = ap_RequestedAt row,
      a_ApproverActorID = ap_ApproverActorID row, a_Decision = null_String (ap_Decision row),
      a_DecidedAt = ap_DecidedAt row\<rparr>"

lemma tierToInt16_valid: "Tier_Valid t \<Longrightarrow> tierToInt16 t = t"
  by (auto simp: tierToInt16_def Tier_Valid_cases tier_defs)

section \<open>Queries\<close>

record CreateRunParams =
  cp_TenantID :: uuid
  cp_ActorID :: uuid
  cp_EnvironmentID :: uuid
  cp_PipelineID :: uuid
  cp_Tier :: int
  cp_Status :: run_status
  cp_CiProvider :: string
  cp_IdempotencyKey :: "string option"
  cp_DiffRef :: "string option"

definition new_run :: "time \<Rightarrow> uuid \<Rightarrow> CreateRunParams \<Rightarrow> run_row" where
  "new_run now u p =
     \<lparr>rn_ID = u, rn_TenantID = cp_TenantID p, rn_ActorID = cp_ActorID p,
      rn_EnvironmentID = cp_EnvironmentID p, rn_BindingID = None,
      rn_PipelineID = cp_PipelineID p, rn_Tier = cp_Tier p, rn_Status = cp_Status p,
      rn_CiProvider = cp_CiProvider p, rn_CiExternalRef = None, rn_CiRawStatus = None,
      rn_CiUrl = None, rn_IdempotencyKey = cp_IdempotencyKey p, rn_DiffRef = cp_DiffRef p,
      rn_RequestedAt = now, rn_StartedAt = None, rn_FinishedAt = None, rn_CreatedAt = now,
      rn_ClaimedBy = None, rn_ClaimedAt = None\<rparr>"

text \<open>The unique index \<open>(tenant_id, actor_id, idempotency_key) WHERE idempotency_key IS NOT NULL\<close>.\<close>

definition run_key_free :: "CreateRunParams \<Rightarrow> run_row list \<Rightarrow> bool" where
  "run_key_free p rows \<longleftrightarrow>
     cp_IdempotencyKey p = None \<or>
     (\<forall>r \<in> set rows. \<not> (rn_TenantID r = cp_TenantID p \<and> rn_ActorID r = cp_ActorID p \<and>
                        rn_IdempotencyKey r = cp_IdempotencyKey p))"

definition CreateRun :: "CreateRunParams \<Rightarrow> run_row go" where
  "CreateRun p =
     sql (\<lambda>now u d.
       insert_row
         [(cp_Tier p \<ge> 1 \<and> cp_Tier p \<le> 3, ''23514''),
          (u \<notin> rn_ID ` set (runs d), ''23505''),
          (run_key_free p (runs d), ''23505''),
          (cp_TenantID p \<in> tn_ID ` set (tenants d), ''23503''),
          (cp_ActorID p \<in> ac_ID ` set (actors d), ''23503''),
          (cp_EnvironmentID p \<in> en_ID ` set (environments d), ''23503''),
          (cp_PipelineID p \<in> pl_ID ` set (pipelines d), ''23503'')]
         (new_run now u p) (d\<lparr>runs := runs d @ [new_run now u p]\<rparr>))"

definition GetRun :: "uuid \<Rightarrow> uuid \<Rightarrow> run_row go" where
  "GetRun tenantID i =
     query (\<lambda>d. select_one (\<lambda>r. rn_TenantID r = tenantID \<and> rn_ID r = i) (runs d))"

definition terminal :: "run_status \<Rightarrow> bool" where
  "terminal s \<longleftrightarrow> s \<in> {StatusSucceeded, StatusFailed, StatusCancelled, StatusTimedOut}"

definition set_status :: "time \<Rightarrow> run_status \<Rightarrow> run_row \<Rightarrow> run_row" where
  "set_status now new r =
     r\<lparr>rn_Status := new,
       rn_StartedAt := (if new = StatusExecuting \<and> rn_StartedAt r = None then Some now
                        else rn_StartedAt r),
       rn_FinishedAt := (if terminal new then Some now else rn_FinishedAt r)\<rparr>"

definition UpdateRunStatus :: "run_status \<Rightarrow> uuid \<Rightarrow> run_status \<Rightarrow> run_row go" where
  "UpdateRunStatus new i old =
     sql (\<lambda>now u d.
       case update_one (\<lambda>r. rn_ID r = i \<and> rn_Status r = old) (set_status now new) (runs d) of
         Inl e \<Rightarrow> Inl e
       | Inr (r, rows) \<Rightarrow> Inr (r, d\<lparr>runs := rows\<rparr>))"

definition CreateApproval :: "uuid \<Rightarrow> approval_row go" where
  "CreateApproval runID =
     sql (\<lambda>now u d.
       let a = \<lparr>ap_ID = u, ap_RunID = runID, ap_RequestedAt = now, ap_ApproverActorID = None,
                ap_Decision = None, ap_DecidedAt = None\<rparr>
       in insert_row
            [(u \<notin> ap_ID ` set (approvals d), ''23505''),
             (runID \<in> rn_ID ` set (runs d), ''23503'')]
            a (d\<lparr>approvals := approvals d @ [a]\<rparr>))"

definition GetApprovalByRunID :: "uuid \<Rightarrow> approval_row go" where
  "GetApprovalByRunID runID = query (\<lambda>d. select_one (\<lambda>a. ap_RunID a = runID) (approvals d))"

definition DecideApproval :: "string option \<Rightarrow> uuid option \<Rightarrow> uuid \<Rightarrow> approval_row go" where
  "DecideApproval decision approver runID =
     sql (\<lambda>now u d.
       case update_one (\<lambda>a. ap_RunID a = runID \<and> ap_Decision a = None)
              (\<lambda>a. a\<lparr>ap_Decision := decision, ap_DecidedAt := Some now,
                     ap_ApproverActorID := approver\<rparr>) (approvals d) of
         Inl e \<Rightarrow> Inl e
       | Inr (a, rows) \<Rightarrow>
           (case violated [(decision \<in> {None, Some ''approved'', Some ''denied''}, ''23514''),
                           (approver = None \<or> approver \<in> Some ` ac_ID ` set (actors d), ''23503'')] of
              Some c \<Rightarrow> Inl (PgError c)
            | None \<Rightarrow> Inr (a, d\<lparr>approvals := rows\<rparr>)))"

definition claimable_run :: "uuid list \<Rightarrow> run_row \<Rightarrow> bool" where
  "claimable_run envs r \<longleftrightarrow>
     rn_Status r = StatusExecuting \<and> rn_ClaimedBy r = None \<and> rn_EnvironmentID r \<in> set envs"

definition mark_run :: "uuid \<Rightarrow> time \<Rightarrow> run_row \<Rightarrow> run_row" where
  "mark_run by_cred now r = r\<lparr>rn_ClaimedBy := Some by_cred, rn_ClaimedAt := Some now\<rparr>"

definition ClaimNextExecutingRun :: "uuid \<Rightarrow> uuid list \<Rightarrow> run_row go" where
  "ClaimNextExecutingRun by_cred envs =
     sql (\<lambda>now u d.
       case claim_next (claimable_run envs) rn_RequestedAt rn_ID (mark_run by_cred now) (runs d) of
         Inl e \<Rightarrow> Inl e
       | Inr (r, rows) \<Rightarrow>
           (case violated [(by_cred \<in> wc_ID ` set (worker_credentials d), ''23503'')] of
              Some c \<Rightarrow> Inl (PgError c)
            | None \<Rightarrow> Inr (r, d\<lparr>runs := rows\<rparr>)))"

record RunResult =
  rr_Status :: run_status
  rr_CIExternalRef :: string
  rr_CIURL :: string
  rr_CIRawStatus :: string

definition set_result :: "time \<Rightarrow> RunResult \<Rightarrow> run_row \<Rightarrow> run_row" where
  "set_result now res r =
     r\<lparr>rn_Status := rr_Status res,
       rn_CiExternalRef := nullString (rr_CIExternalRef res),
       rn_CiUrl := nullString (rr_CIURL res),
       rn_CiRawStatus := nullString (rr_CIRawStatus res),
       rn_FinishedAt := (if terminal (rr_Status res) then Some now else rn_FinishedAt r)\<rparr>"

definition ReportRunResult :: "uuid \<Rightarrow> uuid \<Rightarrow> RunResult \<Rightarrow> run_row go" where
  "ReportRunResult i by_cred res =
     sql (\<lambda>now u d.
       case update_one (\<lambda>r. rn_ID r = i \<and> rn_ClaimedBy r = Some by_cred \<and> rn_Status r = StatusExecuting)
              (set_result now res) (runs d) of
         Inl e \<Rightarrow> Inl e
       | Inr (r, rows) \<Rightarrow> Inr (r, d\<lparr>runs := rows\<rparr>))"

definition unresolved_match :: "uuid list \<Rightarrow> string \<Rightarrow> string \<Rightarrow> string \<Rightarrow> run_row \<Rightarrow> pipeline_row \<Rightarrow> bool" where
  "unresolved_match envs prov repo workflowRef r p \<longleftrightarrow>
     rn_Status r = StatusExecuting \<and> rn_CiExternalRef r = None \<and>
     rn_EnvironmentID r \<in> set envs \<and> pl_Provider p = prov \<and>
     map_of (pl_Settings p) ''repo'' = Some repo \<and> pl_WorkflowRef p = workflowRef"

definition FindUnresolvedExecutingRuns :: "uuid list \<Rightarrow> string \<Rightarrow> string \<Rightarrow> string \<Rightarrow> run_row list go" where
  "FindUnresolvedExecutingRuns envs prov repo workflowRef =
     query (\<lambda>d. Inr
       (sort_key rn_RequestedAt
          (concat (map (\<lambda>r. map (\<lambda>_. r)
             (filter (\<lambda>p. pl_ID p = rn_PipelineID r \<and> unresolved_match envs prov repo workflowRef r p)
                (pipelines d))) (runs d)))))"

definition ResolveRunExternalRef :: "uuid \<Rightarrow> string option \<Rightarrow> string option \<Rightarrow> run_row go" where
  "ResolveRunExternalRef i ciExternalRef ciUrl =
     sql (\<lambda>now u d.
       case update_one (\<lambda>r. rn_ID r = i \<and> rn_CiExternalRef r = None)
              (\<lambda>r. r\<lparr>rn_CiExternalRef := ciExternalRef, rn_CiUrl := ciUrl\<rparr>) (runs d) of
         Inl e \<Rightarrow> Inl e
       | Inr (r, rows) \<Rightarrow> Inr (r, d\<lparr>runs := rows\<rparr>))"

interpretation run_queue: claim_table "claimable_run envs" rn_RequestedAt rn_ID "mark_run c now"
  by unfold_locales (simp_all add: claimable_run_def mark_run_def)

section \<open>The store\<close>

text \<open>
  The store's dependencies: whether its handle is a \<open>*sql.DB\<close> (else a transaction it was given),
  and its \<open>Enqueuer\<close>.
\<close>

record Store =
  st_sqlDB :: bool
  st_Enqueue :: "uuid \<Rightarrow> unit go"

text \<open>\<open>NewStore\<close> keeps its arguments; \<open>q\<close> is the query set over the same handle.\<close>

definition NewStore :: "bool \<Rightarrow> (uuid \<Rightarrow> unit go) \<Rightarrow> Store" where
  "NewStore sqlDB enq = \<lparr>st_sqlDB = sqlDB, st_Enqueue = enq\<rparr>"

record RequestParams =
  rp_TenantID :: uuid
  rp_ActorID :: uuid
  rp_EnvironmentID :: uuid
  rp_PipelineID :: uuid
  rp_Tier :: tier
  rp_IdempotencyKey :: string
  rp_DiffRef :: string

definition createRunWithApproval :: "Store \<Rightarrow> CreateRunParams \<Rightarrow> Run go" where
  "createRunWithApproval s params =
     (let body = bindE (mapE Wrapf (CreateRun params)) (\<lambda>runRow.
                   bindE (mapE Wrapf (CreateApproval (rn_ID runRow))) (\<lambda>_.
                     returnE (fromRunRow runRow)))
      in if \<not> st_sqlDB s then body else in_tx Wrapf Wrapf body)"

definition create_params :: "RequestParams \<Rightarrow> Pipeline \<Rightarrow> run_status \<Rightarrow> CreateRunParams" where
  "create_params params p status =
     \<lparr>cp_TenantID = rp_TenantID params, cp_ActorID = rp_ActorID params,
      cp_EnvironmentID = rp_EnvironmentID params, cp_PipelineID = rp_PipelineID params,
      cp_Tier = tierToInt16 (rp_Tier params), cp_Status = status,
      cp_CiProvider = p_Provider p, cp_IdempotencyKey = nullString (rp_IdempotencyKey params),
      cp_DiffRef = nullString (rp_DiffRef params)\<rparr>"

definition Request :: "Store \<Rightarrow> RequestParams \<Rightarrow> Run go" where
  "Request s params =
     (if \<not> Tier_Valid (rp_Tier params) then failE (Errorf ''invalid tier'')
      else bindE (mapE Wrapf (pipeline_Get (rp_TenantID params) (rp_PipelineID params))) (\<lambda>p.
        case Check (rp_Tier params) (p_Mutating p) of
          Deny \<Rightarrow> failE (Sentinel execution_ErrPolicyDenied)
        | Allow \<Rightarrow>
            bindE (mapE Wrapf (CreateRun (create_params params p StatusPolicyChecked))) (\<lambda>runRow.
            bindE (mapE Wrapf (UpdateRunStatus StatusQueued (rn_ID runRow) StatusPolicyChecked)) (\<lambda>queuedRow.
            bindE (mapE Wrapf (st_Enqueue s (rn_ID queuedRow))) (\<lambda>_.
            returnE (fromRunRow queuedRow))))
        | RequiresApproval \<Rightarrow>
            mapE Wrapf (createRunWithApproval s (create_params params p StatusAwaitingApproval))))"

definition Decide :: "Store \<Rightarrow> uuid \<Rightarrow> uuid \<Rightarrow> bool \<Rightarrow> Run go" where
  "Decide s runID approverActorID approved =
     (let decision = (if approved then ''approved'' else ''denied'') in
      bindE (mapE (notFound sql_ErrNoRows execution_ErrAlreadyDecided)
               (DecideApproval (nullString decision) (Some approverActorID) runID)) (\<lambda>_.
      let newStatus = (if approved then StatusQueued else StatusDenied) in
      bindE (mapE Wrapf (UpdateRunStatus newStatus runID StatusAwaitingApproval)) (\<lambda>runRow.
      if approved then
        bindE (mapE Wrapf (st_Enqueue s (rn_ID runRow))) (\<lambda>_. returnE (fromRunRow runRow))
      else returnE (fromRunRow runRow))))"

definition execution_Get :: "uuid \<Rightarrow> uuid \<Rightarrow> Run go" where
  "execution_Get tenantID i =
     bindE (mapE (notFound sql_ErrNoRows execution_ErrNotFound) (GetRun tenantID i))
       (\<lambda>row. returnE (fromRunRow row))"

definition GetApproval :: "uuid \<Rightarrow> Approval go" where
  "GetApproval runID =
     bindE (mapE (notFound sql_ErrNoRows execution_ErrNotFound) (GetApprovalByRunID runID))
       (\<lambda>row. returnE (fromApprovalRow row))"

definition execution_Claim :: "uuid \<Rightarrow> uuid list \<Rightarrow> Run go" where
  "execution_Claim workerCredentialID environmentIDs =
     (if workerCredentialID = uuid_Nil then failE (Errorf ''worker credential id is required'')
      else if environmentIDs = [] then failE (Sentinel execution_ErrNotFound)
      else bindE (mapE (notFound sql_ErrNoRows execution_ErrNotFound)
                   (ClaimNextExecutingRun workerCredentialID environmentIDs))
             (\<lambda>row. returnE (fromRunRow row)))"

definition ReportResult :: "uuid \<Rightarrow> uuid \<Rightarrow> RunResult \<Rightarrow> Run go" where
  "ReportResult runID workerCredentialID result =
     bindE (mapE (notFound sql_ErrNoRows execution_ErrNotFound)
              (ReportRunResult runID workerCredentialID result))
       (\<lambda>row. returnE (fromRunRow row))"

definition normalizeRef :: "string \<Rightarrow> string" where
  "normalizeRef settingRef =
     (let r = (if settingRef = [] then ''main'' else settingRef) in
      if HasPrefix r ''refs/'' then r else ''refs/heads/'' @ r)"

text \<open>The loop over the candidates, with \<open>match\<close> the one found so far.\<close>

fun resolve_loop :: "string \<Rightarrow> run_row list \<Rightarrow> run_row option \<Rightarrow> run_row option go" where
  "resolve_loop ref [] m = returnE m"
| "resolve_loop ref (c # cs) m =
     bindE (mapE Wrapf (pipeline_Get (rn_TenantID c) (rn_PipelineID c))) (\<lambda>p.
       if normalizeRef (settings_get (p_Settings p) ''ref'') \<noteq> ref then resolve_loop ref cs m
       else if m \<noteq> None then failE (Sentinel execution_ErrAmbiguousMatch)
       else resolve_loop ref cs (Some c))"

definition ResolveExternalRef :: "uuid list \<Rightarrow> string \<Rightarrow> string \<Rightarrow> string \<Rightarrow> string \<Rightarrow> string \<Rightarrow> string \<Rightarrow> Run go" where
  "ResolveExternalRef environmentIDs prov repo workflowRef ref ciExternalRef ciURL =
     bindE (mapE Wrapf (FindUnresolvedExecutingRuns environmentIDs prov repo workflowRef)) (\<lambda>candidates.
     bindE (resolve_loop ref candidates None) (\<lambda>match.
     case match of
       None \<Rightarrow> failE (Sentinel execution_ErrNotFound)
     | Some m \<Rightarrow>
         bindE (mapE (notFound sql_ErrNoRows execution_ErrNotFound)
                  (ResolveRunExternalRef (rn_ID m) (nullString ciExternalRef) (nullString ciURL)))
           (\<lambda>row. returnE (fromRunRow row))))"

definition transitionStatus :: "uuid \<Rightarrow> run_status \<Rightarrow> run_status \<Rightarrow> Run go" where
  "transitionStatus runID oldStatus newStatus =
     bindE (mapE Wrapf (UpdateRunStatus newStatus runID oldStatus))
       (\<lambda>row. returnE (fromRunRow row))"

end
