(* ===== verification/Queue.thy ===== *)
theory Queue
  imports Execution
begin

text \<open>
  File \<open>execution/queue.go\<close>: the job that moves a queued run to executing, and the enqueuers the
  run store dispatches through.  The River client is not under \<open>src/\<close>: its \<open>Insert\<close> is a
  parameter of \<open>Queue_Enqueue\<close>, with the law the store relies on in the locale \<open>enqueuer\<close>.
\<close>

definition runJobTimeout :: int64 where "runJobTimeout = 5 * 60000000000"
definition runJobMaxAttempts :: nat where "runJobMaxAttempts = 5"

section \<open>Dispatching a run\<close>

text \<open>
  The \<open>Enqueuer\<close> interface.  Its law: whatever it returns, it leaves the tables of the control
  plane alone, under any interference.
\<close>

locale enqueuer =
  fixes Enqueue :: "uuid \<Rightarrow> unit go"
  assumes enqueue_rg:
    "reflp R \<Longrightarrow> transp R \<Longrightarrow> (\<And>r v. R (w_db w) (w_db v) \<Longrightarrow> Q r v) \<Longrightarrow>
     rg (on_db R) (on_db R) Q (Enqueue i) w"
begin

lemma enqueue_run_db: "run (Enqueue i) w = (x, w') \<Longrightarrow> w_db w' = w_db w"
proof -
  assume run: "run (Enqueue i) w = (x, w')"
  have "rg (on_db (=)) (on_db (=)) (\<lambda>_ v. w_db v = w_db w) (Enqueue i) w"
    by (rule enqueue_rg) (auto simp: reflp_def transp_def)
  from rg_run [OF reflp_on_db transp_on_db this run] show ?thesis
    by (auto simp: reflp_def transp_def)
qed

lemma enqueue_bind_rg:
  assumes R: "reflp R" "transp R"
    and k: "\<And>a v. R (w_db w) (w_db v) \<Longrightarrow> rg (on_db R) (on_db R) Q (k a) v"
    and bad: "\<And>e v. R (w_db w) (w_db v) \<Longrightarrow> Q (Inl e) v"
  shows "rg (on_db R) (on_db R) Q (bindE (mapE g (Enqueue i)) k) w"
proof -
  have trans: "R x z" if "R x y" "R y z" for x y z using that R(2) by (auto dest: transpD)
  show ?thesis
    by (rule rg_bindE [OF reflp_on_db [OF R(1)]],
        rule rg_mapE [OF reflp_on_db [OF R(1)] transp_on_db [OF R(2)]],
        rule enqueue_rg [OF R])
       (auto simp: on_db_def split: sum.splits intro: k bad trans)
qed

end

text \<open>\<open>Queue\<close> wraps the client; \<open>None\<close> is the nil target of the deferred enqueuer.\<close>

definition Queue_Enqueue :: "(uuid \<Rightarrow> nat \<Rightarrow> unit go) \<Rightarrow> uuid \<Rightarrow> unit go" where
  "Queue_Enqueue Insert runID =
     bindE (mapE Wrapf (Insert runID runJobMaxAttempts)) (\<lambda>_. returnE ())"

definition deferredEnqueuer_Enqueue :: "(uuid \<Rightarrow> unit go) option \<Rightarrow> uuid \<Rightarrow> unit go" where
  "deferredEnqueuer_Enqueue target runID =
     (case target of
        None \<Rightarrow> failE (Errorf ''enqueuer not yet configured'')
      | Some Enqueue \<Rightarrow> bindE (mapE Wrapf (Enqueue runID)) (\<lambda>_. returnE ()))"

text \<open>
  A client that does what River documents of \<open>Insert\<close>: the job is stored, or an error is
  returned and nothing is stored.
\<close>

definition river_insert :: "uuid \<Rightarrow> nat \<Rightarrow> world \<Rightarrow> unit res \<times> world" where
  "river_insert runID attempts w =
     (case fault w (tick w) of
        Some c \<Rightarrow> (Inl (PgError c), advance w)
      | None \<Rightarrow> (Inr (), (advance w)\<lparr>river := river w @ [(runID, attempts)]\<rparr>))"

definition river_Insert :: "uuid \<Rightarrow> nat \<Rightarrow> unit go" where
  "river_Insert runID attempts = act (river_insert runID attempts)"

lemma river_insert_db: "river_insert i n w = (r, w') \<Longrightarrow> w_db w' = w_db w"
  by (auto simp: river_insert_def split: option.splits)

text \<open>A client whose insertion leaves the tables alone; the queue over it is an enqueuer.\<close>

locale river_client =
  fixes Insert :: "uuid \<Rightarrow> nat \<Rightarrow> unit go"
  assumes insert_rg:
    "reflp R \<Longrightarrow> transp R \<Longrightarrow> (\<And>r v. R (w_db w) (w_db v) \<Longrightarrow> Q r v) \<Longrightarrow>
     rg (on_db R) (on_db R) Q (Insert i n) w"
begin

lemma queue_rg:
  assumes R: "reflp R" "transp R" and Q: "\<And>r v. R (w_db w) (w_db v) \<Longrightarrow> Q r v"
  shows "rg (on_db R) (on_db R) Q (Queue_Enqueue Insert i) w"
proof -
  have trans: "R x z" if "R x y" "R y z" for x y z using that R(2) by (auto dest: transpD)
  show ?thesis
    unfolding Queue_Enqueue_def
    by (rule rg_bindE [OF reflp_on_db [OF R(1)]],
        rule rg_mapE [OF reflp_on_db [OF R(1)] transp_on_db [OF R(2)]],
        rule insert_rg [OF R])
       (auto simp: on_db_def split: sum.splits intro: Q trans)
qed

end

sublocale river_client \<subseteq> queue: enqueuer "Queue_Enqueue Insert"
  by unfold_locales (rule queue_rg)

lemma deferred_rg:
  assumes R: "reflp R" "transp R" and Q: "\<And>r v. R (w_db w) (w_db v) \<Longrightarrow> Q r v"
    and E: "\<And>E. target = Some E \<Longrightarrow> enqueuer E"
  shows "rg (on_db R) (on_db R) Q (deferredEnqueuer_Enqueue target i) w"
proof (cases target)
  case None
  then show ?thesis using R Q by (auto simp: deferredEnqueuer_Enqueue_def on_db_def)
next
  case (Some Enq)
  have trans: "R x z" if "R x y" "R y z" for x y z using that R(2) by (auto dest: transpD)
  from Some have "enqueuer Enq" by (rule E)
  then have "rg (on_db R) (on_db R) Q (bindE (mapE Wrapf (Enq i)) (\<lambda>_. returnE ())) w"
    by (rule enqueuer.enqueue_bind_rg [OF _ R]) (auto simp: on_db_def intro: Q trans)
  with Some show ?thesis by (simp add: deferredEnqueuer_Enqueue_def)
qed

interpretation river: river_client river_Insert
proof unfold_locales
  fix R :: "db \<Rightarrow> db \<Rightarrow> bool" and w :: world and i :: uuid and n
    and Q :: "unit res \<Rightarrow> world \<Rightarrow> bool"
  assume R: "reflp R" "transp R" and Q: "\<And>r v. R (w_db w) (w_db v) \<Longrightarrow> Q r v"
  show "rg (on_db R) (on_db R) Q (river_Insert i n) w"
    unfolding river_Insert_def
  proof (rule rg_act)
    fix w' a w''
    assume "on_db R w w'" and "river_insert i n w' = (a, w'')"
    then have "R (w_db w) (w_db w'')" "R (w_db w') (w_db w'')"
      using R(1) by (auto simp: on_db_def river_insert_db dest: reflpD)
    then show "on_db R w' w'' \<and> (\<forall>v. on_db R w'' v \<longrightarrow> Q a v)"
      using R(2) by (auto simp: on_db_def intro!: Q dest: transpD)
  qed
qed

text \<open>\<open>NewQueueClient\<close> wires the store to the queue through the deferred enqueuer.\<close>

definition NewQueueClient :: "bool \<Rightarrow> (uuid \<Rightarrow> nat \<Rightarrow> unit go) \<Rightarrow> Store" where
  "NewQueueClient sqlDB Insert =
     NewStore sqlDB (deferredEnqueuer_Enqueue (Some (Queue_Enqueue Insert)))"

interpretation wired: enqueuer "deferredEnqueuer_Enqueue (Some (Queue_Enqueue river_Insert))"
  by unfold_locales (rule deferred_rg, auto intro: river.queue.enqueuer_axioms)

section \<open>The job\<close>

definition failClosed :: "uuid \<Rightarrow> unit go" where
  "failClosed runID =
     bindP (transitionStatus runID StatusExecuting StatusFailed) (\<lambda>r.
       case r of
         Inl e \<Rightarrow> if errors_Is e sql_ErrNoRows then returnE () else failE (Wrapf e)
       | Inr _ \<Rightarrow> returnE ())"

definition Worker_Work :: "'a registry \<Rightarrow> uuid \<Rightarrow> unit go" where
  "Worker_Work adapters runID =
     bindP (transitionStatus runID StatusQueued StatusExecuting) (\<lambda>r.
       case r of
         Inl e \<Rightarrow> if errors_Is e sql_ErrNoRows then returnE () else failE (Wrapf e)
       | Inr claimed \<Rightarrow>
           bindE (mapE Wrapf (pipeline_Get (r_TenantID claimed) (r_PipelineID claimed))) (\<lambda>p.
             if Check (r_Tier claimed) (p_Mutating p) \<noteq> Allow then failClosed (r_ID claimed)
             else (case Registry_Get adapters (p_Provider p) of
                     Inl e \<Rightarrow> if errors_Is e ci_ErrUnknownProvider then failClosed (r_ID claimed)
                             else failE (Wrapf e)
                   | Inr _ \<Rightarrow> returnE ())))"

end
