(* ===== verification/RunHistory.thy ===== *)
theory RunHistory
  imports Queue Frame
begin

text \<open>
  The promise of the run store: the invariant of the runs, approvals and pipelines tables, and how
  a run may evolve.  \<open>run_history\<close> is the relation every operation is shown to keep.
\<close>

section \<open>The run state machine\<close>

definition legal :: "run_status \<Rightarrow> run_status \<Rightarrow> bool" where
  "legal s s' \<longleftrightarrow>
     (s, s') \<in> {(StatusPolicyChecked, StatusQueued), (StatusAwaitingApproval, StatusQueued),
                (StatusAwaitingApproval, StatusDenied), (StatusQueued, StatusExecuting)} \<or>
     s = StatusExecuting \<and> terminal s'"

definition before_executing :: "run_status \<Rightarrow> bool" where
  "before_executing s \<longleftrightarrow>
     s \<in> {StatusPolicyChecked, StatusAwaitingApproval, StatusDenied, StatusQueued}"

lemma status_cases:
  "s = StatusRequested \<or> before_executing s \<or> s = StatusExecuting \<or> terminal s"
  by (cases s) (simp_all add: before_executing_def terminal_def)

lemma status_disjoint [simp]:
  "\<not> before_executing StatusExecuting" "\<not> terminal StatusExecuting"
  "terminal s \<Longrightarrow> \<not> before_executing s" "terminal s \<Longrightarrow> s \<noteq> StatusExecuting"
  "terminal s \<Longrightarrow> s \<noteq> StatusAwaitingApproval" "terminal s \<Longrightarrow> s \<noteq> StatusDenied" "\<not> terminal StatusPolicyChecked"
  by (auto simp: before_executing_def terminal_def)

lemma legal_from_terminal: "terminal s \<Longrightarrow> \<not> legal s s'"
  by (auto simp: legal_def terminal_def)

lemma legal_star_terminal: "legal\<^sup>*\<^sup>* s s' \<Longrightarrow> terminal s \<Longrightarrow> s' = s"
  by (induction rule: rtranclp_induct) (auto dest: legal_from_terminal)

lemma legal_star_executing:
  "legal\<^sup>*\<^sup>* s s' \<Longrightarrow> s = StatusExecuting \<or> terminal s \<Longrightarrow> s' = StatusExecuting \<or> terminal s'"
  by (induction rule: rtranclp_induct) (auto simp: legal_def terminal_def)

lemma legal_star_denied: "legal\<^sup>*\<^sup>* s s' \<Longrightarrow> s = StatusDenied \<Longrightarrow> s' = StatusDenied"
  by (induction rule: rtranclp_induct) (auto simp: legal_def)

text \<open>What a run keeps for good, and how its status, claim and times may change.\<close>

definition run_evolves :: "run_row \<Rightarrow> run_row \<Rightarrow> bool" where
  "run_evolves r r' \<longleftrightarrow>
     rn_ID r' = rn_ID r \<and> rn_TenantID r' = rn_TenantID r \<and> rn_ActorID r' = rn_ActorID r \<and>
     rn_EnvironmentID r' = rn_EnvironmentID r \<and> rn_PipelineID r' = rn_PipelineID r \<and>
     rn_Tier r' = rn_Tier r \<and> rn_CiProvider r' = rn_CiProvider r \<and>
     rn_IdempotencyKey r' = rn_IdempotencyKey r \<and> rn_RequestedAt r' = rn_RequestedAt r \<and>
     legal\<^sup>*\<^sup>* (rn_Status r) (rn_Status r') \<and>
     (rn_ClaimedBy r \<noteq> None \<longrightarrow> rn_ClaimedBy r' = rn_ClaimedBy r \<and> rn_ClaimedAt r' = rn_ClaimedAt r) \<and>
     (rn_StartedAt r \<noteq> None \<longrightarrow> rn_StartedAt r' = rn_StartedAt r) \<and>
     (rn_FinishedAt r \<noteq> None \<longrightarrow> rn_FinishedAt r' = rn_FinishedAt r)"

lemma run_evolves_refl [simp]: "run_evolves r r"
  by (simp add: run_evolves_def)

lemma run_evolves_trans: "run_evolves r s \<Longrightarrow> run_evolves s t \<Longrightarrow> run_evolves r t"
  unfolding run_evolves_def by (auto intro: rtranclp_trans)

lemma runs_grow: "set rs \<subseteq> set rs' \<Longrightarrow> \<forall>r \<in> set rs. \<exists>r' \<in> set rs'. run_evolves r r'"
  using run_evolves_refl by blast

text \<open>A decision is final: a decided approval row never changes.\<close>

definition approval_evolves :: "approval_row \<Rightarrow> approval_row \<Rightarrow> bool" where
  "approval_evolves a b \<longleftrightarrow>
     ap_ID b = ap_ID a \<and> ap_RunID b = ap_RunID a \<and> (ap_Decision a \<noteq> None \<longrightarrow> b = a)"

lemma approval_evolves_refl [simp]: "approval_evolves a a"
  by (simp add: approval_evolves_def)

lemma approval_evolves_trans: "approval_evolves a b \<Longrightarrow> approval_evolves b c \<Longrightarrow> approval_evolves a c"
  by (auto simp: approval_evolves_def)

lemma approvals_grow: "set aps \<subseteq> set aps' \<Longrightarrow> \<forall>a \<in> set aps. \<exists>b \<in> set aps'. approval_evolves a b"
  using approval_evolves_refl by blast

section \<open>The invariant\<close>

definition decided :: "string \<Rightarrow> uuid \<Rightarrow> approval_row list \<Rightarrow> bool" where
  "decided dec i aps \<longleftrightarrow> (\<exists>a \<in> set aps. ap_RunID a = i \<and> ap_Decision a = Some dec)"

text \<open>The times, the claim and the CI reference a run carries in each status.\<close>

definition timeline_ok :: "run_row \<Rightarrow> bool" where
  "timeline_ok r \<longleftrightarrow>
     rn_Status r \<noteq> StatusRequested \<and>
     (before_executing (rn_Status r) \<longrightarrow>
        rn_StartedAt r = None \<and> rn_ClaimedBy r = None \<and> rn_CiExternalRef r = None) \<and>
     (\<not> before_executing (rn_Status r) \<longrightarrow> rn_StartedAt r \<noteq> None) \<and>
     (rn_FinishedAt r \<noteq> None \<longleftrightarrow> terminal (rn_Status r)) \<and>
     (rn_ClaimedAt r = None \<longleftrightarrow> rn_ClaimedBy r = None)"

text \<open>The pipeline that authorised a run: its tenant's own, and harmless for a read-only actor.\<close>

definition pipeline_ok :: "pipeline_row list \<Rightarrow> run_row \<Rightarrow> bool" where
  "pipeline_ok pls r \<longleftrightarrow>
     (\<exists>p \<in> set pls. pl_ID p = rn_PipelineID r \<and> pl_TenantID p = rn_TenantID r \<and>
        pl_Provider p = rn_CiProvider r \<and> (rn_Tier r = TierReadOnly \<longrightarrow> \<not> pl_Mutating p))"

text \<open>Human oversight: what the approvals table says of a run in each status.\<close>

definition oversight_ok :: "approval_row list \<Rightarrow> run_row \<Rightarrow> bool" where
  "oversight_ok aps r \<longleftrightarrow>
     Tier_Valid (rn_Tier r) \<and>
     (rn_Status r \<in> {StatusAwaitingApproval, StatusDenied} \<longrightarrow> rn_Tier r = TierHumanInTheLoop) \<and>
     (rn_Status r = StatusPolicyChecked \<longrightarrow> rn_Tier r \<noteq> TierHumanInTheLoop) \<and>
     (rn_Tier r = TierHumanInTheLoop \<longrightarrow>
        (\<exists>a \<in> set aps. ap_RunID a = rn_ID r) \<and>
        (rn_Status r = StatusDenied \<longrightarrow> decided ''denied'' (rn_ID r) aps) \<and>
        (rn_Status r \<notin> {StatusAwaitingApproval, StatusDenied} \<longrightarrow> decided ''approved'' (rn_ID r) aps))"

text \<open>
  An approval belongs to a run; it is decided with an approver and a time together, and the
  approver is never the run's own actor.
\<close>

definition approval_ok :: "run_row list \<Rightarrow> approval_row \<Rightarrow> bool" where
  "approval_ok rs a \<longleftrightarrow>
     (\<exists>r \<in> set rs. rn_ID r = ap_RunID a \<and>
        (\<forall>u. ap_ApproverActorID a = Some u \<longrightarrow> u \<noteq> rn_ActorID r)) \<and>
     (ap_Decision a = None \<longleftrightarrow> ap_ApproverActorID a = None) \<and>
     (ap_Decision a = None \<longleftrightarrow> ap_DecidedAt a = None)"

definition run_inv :: "db \<Rightarrow> bool" where
  "run_inv d \<longleftrightarrow>
     distinct (map rn_ID (runs d)) \<and> distinct (map pl_ID (pipelines d)) \<and>
     distinct (map ap_RunID (approvals d)) \<and>
     (\<forall>r \<in> set (runs d). timeline_ok r \<and> pipeline_ok (pipelines d) r \<and> oversight_ok (approvals d) r) \<and>
     (\<forall>a \<in> set (approvals d). approval_ok (runs d) a)"

definition run_evolution :: "db \<Rightarrow> db \<Rightarrow> bool" where
  "run_evolution d d' \<longleftrightarrow>
     set (pipelines d) \<subseteq> set (pipelines d') \<and>
     (\<forall>r \<in> set (runs d). \<exists>r' \<in> set (runs d'). run_evolves r r') \<and>
     (\<forall>a \<in> set (approvals d). \<exists>b \<in> set (approvals d'). approval_evolves a b)"

text \<open>From a state that satisfies the invariant, it is kept and the rows evolve.\<close>

definition run_history :: "db \<Rightarrow> db \<Rightarrow> bool" where
  "run_history d d' \<longleftrightarrow> (run_inv d \<longrightarrow> run_inv d' \<and> run_evolution d d')"

lemma run_evolution_grow:
  "set (pipelines d) \<subseteq> set (pipelines d') \<Longrightarrow> set (runs d) \<subseteq> set (runs d') \<Longrightarrow>
     set (approvals d) \<subseteq> set (approvals d') \<Longrightarrow> run_evolution d d'"
  unfolding run_evolution_def by (simp add: runs_grow approvals_grow)

lemma run_evolution_refl: "run_evolution d d"
  by (rule run_evolution_grow) simp_all

lemma run_evolution_trans: "run_evolution d d' \<Longrightarrow> run_evolution d' d'' \<Longrightarrow> run_evolution d d''"
  unfolding run_evolution_def by (meson run_evolves_trans approval_evolves_trans subset_trans)

interpretation rh: history run_history
proof unfold_locales
  show "run_history d d" for d
    by (simp add: run_history_def run_evolution_refl)
  show "run_history d d''" if "run_history d d'" "run_history d' d''" for d d' d''
    using that unfolding run_history_def by (blast intro: run_evolution_trans)
qed

lemma run_inv_empty: "run_inv empty_db"
  by (simp add: run_inv_def empty_db_def)

section \<open>What single statements do\<close>

lemma decided_mono:
  assumes "\<forall>a \<in> set aps. \<exists>b \<in> set aps'. approval_evolves a b" and "decided dec i aps"
  shows "decided dec i aps'"
proof -
  from assms(2) obtain a where a: "a \<in> set aps" "ap_RunID a = i" "ap_Decision a = Some dec"
    by (auto simp: decided_def)
  with assms(1) obtain b where "b \<in> set aps'" "approval_evolves a b" by blast
  with a show ?thesis by (auto simp: decided_def approval_evolves_def)
qed

lemma oversight_mono:
  assumes ev: "\<forall>a \<in> set aps. \<exists>b \<in> set aps'. approval_evolves a b" and "oversight_ok aps r"
  shows "oversight_ok aps' r"
proof -
  have "\<exists>b \<in> set aps'. ap_RunID b = rn_ID r" if "\<exists>a \<in> set aps. ap_RunID a = rn_ID r"
    using ev that by (metis approval_evolves_def)
  with assms(2) decided_mono [OF ev] show ?thesis by (auto simp: oversight_ok_def)
qed

lemma approval_mono:
  assumes "\<forall>r \<in> set rs. \<exists>r' \<in> set rs'. run_evolves r r'" and "approval_ok rs a"
  shows "approval_ok rs' a"
proof -
  from assms(2) obtain r where r: "r \<in> set rs" "rn_ID r = ap_RunID a"
      "\<forall>u. ap_ApproverActorID a = Some u \<longrightarrow> u \<noteq> rn_ActorID r"
    by (auto simp: approval_ok_def)
  with assms(1) obtain r' where "r' \<in> set rs'" "run_evolves r r'" by blast
  with r assms(2) show ?thesis
    unfolding approval_ok_def run_evolves_def by metis
qed

lemma pipeline_mono: "set pls \<subseteq> set pls' \<Longrightarrow> pipeline_ok pls r \<Longrightarrow> pipeline_ok pls' r"
  unfolding pipeline_ok_def by blast

text \<open>A statement on other tables.\<close>

lemma run_history_other:
  "runs d' = runs d \<Longrightarrow> approvals d' = approvals d \<Longrightarrow> pipelines d' = pipelines d \<Longrightarrow>
     run_history d d'"
  by (simp add: run_history_def run_inv_def run_evolution_grow)

lemma run_history_pipeline:
  assumes "pl_ID p \<notin> pl_ID ` set (pipelines d)"
  shows "run_history d (d\<lparr>pipelines := pipelines d @ [p]\<rparr>)"
proof -
  have "pipeline_ok (pipelines d @ [p]) r" if "pipeline_ok (pipelines d) r" for r
    by (rule pipeline_mono [OF _ that]) auto
  with assms show ?thesis
    by (auto simp: run_history_def run_inv_def intro: run_evolution_grow)
qed

text \<open>An update of one run by a function that keeps its identity and its promises.\<close>

lemma run_history_update:
  assumes f: "\<And>r. run_inv d \<Longrightarrow> r \<in> set (runs d) \<Longrightarrow> P r \<Longrightarrow>
                run_evolves r (f r) \<and> timeline_ok (f r) \<and> oversight_ok (approvals d) (f r)"
    and ID: "\<And>r. rn_ID (f r) = rn_ID r"
  shows "run_history d (d\<lparr>runs := update_rows P f (runs d)\<rparr>)"
  unfolding run_history_def
proof
  assume inv: "run_inv d"
  let ?rs = "update_rows P f (runs d)"
  have ev: "\<forall>r \<in> set (runs d). \<exists>r' \<in> set ?rs. run_evolves r r'"
  proof
    fix r assume r: "r \<in> set (runs d)"
    then have "(if P r then f r else r) \<in> set ?rs" by (rule update_rows_mem)
    moreover have "run_evolves r (if P r then f r else r)" using f [OF inv r] by simp
    ultimately show "\<exists>r' \<in> set ?rs. run_evolves r r'" by blast
  qed
  have "timeline_ok r' \<and> pipeline_ok (pipelines d) r' \<and> oversight_ok (approvals d) r'"
    if mem: "r' \<in> set ?rs" for r'
  proof -
    from mem obtain r where r: "r \<in> set (runs d)" and r': "r' = (if P r then f r else r)"
      by (auto simp: in_update_rows)
    from inv r have ok: "timeline_ok r" "pipeline_ok (pipelines d) r" "oversight_ok (approvals d) r"
      by (auto simp: run_inv_def)
    show ?thesis
    proof (cases "P r")
      case True
      with f [OF inv r] have "run_evolves r r'" "timeline_ok r'" "oversight_ok (approvals d) r'"
        by (simp_all add: r')
      moreover from this(1) ok(2) have "pipeline_ok (pipelines d) r'"
        by (simp add: pipeline_ok_def run_evolves_def)
      ultimately show ?thesis by blast
    next
      case False
      with ok show ?thesis by (simp add: r')
    qed
  qed
  moreover have "approval_ok ?rs a" if "a \<in> set (approvals d)" for a
    using inv that by (intro approval_mono [OF ev]) (simp add: run_inv_def)
  moreover have "map rn_ID ?rs = map rn_ID (runs d)"
    by (rule map_update_rows) (rule ID)
  ultimately show "run_inv (d\<lparr>runs := ?rs\<rparr>) \<and> run_evolution d (d\<lparr>runs := ?rs\<rparr>)"
    using inv ev approvals_grow [OF subset_refl] by (simp add: run_inv_def run_evolution_def)
qed

text \<open>A new run that keeps the promises, alone or together with its approval row.\<close>

lemma run_history_new_run:
  assumes fresh: "run_inv d \<Longrightarrow> rn_ID r \<notin> rn_ID ` set (runs d)"
    and ok: "run_inv d \<Longrightarrow> timeline_ok r \<and> pipeline_ok (pipelines d) r \<and> oversight_ok (approvals d @ aps) r"
    and aps: "aps = [] \<or> (\<exists>a. aps = [a] \<and> ap_RunID a = rn_ID r \<and> ap_ApproverActorID a = None \<and>
                ap_Decision a = None \<and> ap_DecidedAt a = None)"
  shows "run_history d (d\<lparr>runs := runs d @ [r], approvals := approvals d @ aps\<rparr>)"
  unfolding run_history_def
proof
  assume inv: "run_inv d"
  have ev: "\<forall>a \<in> set (approvals d). \<exists>b \<in> set (approvals d @ aps). approval_evolves a b"
    by (rule approvals_grow) simp
  have old: "oversight_ok (approvals d @ aps) x" if "x \<in> set (runs d)" for x
    using inv that by (intro oversight_mono [OF ev]) (simp add: run_inv_def)
  have evr: "\<forall>x \<in> set (runs d). \<exists>y \<in> set (runs d @ [r]). run_evolves x y"
    by (rule runs_grow) auto
  have oldap: "approval_ok (runs d @ [r]) a" if "a \<in> set (approvals d)" for a
    using inv that by (intro approval_mono [OF evr]) (simp add: run_inv_def)
  have newap: "approval_ok (runs d @ [r]) a" if "a \<in> set aps" for a
    using aps that by (auto simp: approval_ok_def)
  have "ap_RunID a \<noteq> rn_ID r" if "a \<in> set (approvals d)" for a
    using inv that fresh [OF inv] unfolding run_inv_def approval_ok_def by (metis image_eqI)
  with aps have "distinct (map ap_RunID (approvals d @ aps))"
    using inv by (force simp: run_inv_def)
  with inv old oldap newap ok [OF inv] fresh [OF inv]
  have "run_inv (d\<lparr>runs := runs d @ [r], approvals := approvals d @ aps\<rparr>)"
    by (auto simp: run_inv_def)
  then show "run_inv (d\<lparr>runs := runs d @ [r], approvals := approvals d @ aps\<rparr>) \<and>
        run_evolution d (d\<lparr>runs := runs d @ [r], approvals := approvals d @ aps\<rparr>)"
    by (simp add: run_evolution_grow subset_insertI)
qed

text \<open>A decision on an undecided approval by somebody other than the run's actor.\<close>

lemma run_history_decide:
  assumes sep: "run_inv d \<Longrightarrow> \<exists>r \<in> set (runs d). rn_ID r = i \<and> rn_ActorID r \<noteq> u"
  shows "run_history d (d\<lparr>approvals := update_rows (\<lambda>a. ap_RunID a = i \<and> ap_Decision a = None)
           (\<lambda>a. a\<lparr>ap_Decision := Some dec, ap_DecidedAt := Some now, ap_ApproverActorID := Some u\<rparr>)
           (approvals d)\<rparr>)"
    (is "run_history d (d\<lparr>approvals := ?aps\<rparr>)")
  unfolding run_history_def
proof
  assume inv: "run_inv d"
  have ev: "\<forall>a \<in> set (approvals d). \<exists>b \<in> set ?aps. approval_evolves a b"
  proof
    fix a assume a: "a \<in> set (approvals d)"
    let ?b = "if ap_RunID a = i \<and> ap_Decision a = None
              then a\<lparr>ap_Decision := Some dec, ap_DecidedAt := Some now, ap_ApproverActorID := Some u\<rparr>
              else a"
    from a have "?b \<in> set ?aps" by (rule update_rows_mem)
    moreover have "approval_evolves a ?b" by (simp add: approval_evolves_def)
    ultimately show "\<exists>b \<in> set ?aps. approval_evolves a b" by blast
  qed
  have "oversight_ok ?aps r" if "r \<in> set (runs d)" for r
    using inv that by (intro oversight_mono [OF ev]) (simp add: run_inv_def)
  moreover have "approval_ok (runs d) b" if mem: "b \<in> set ?aps" for b
  proof -
    from mem obtain a where a: "a \<in> set (approvals d)"
      and b: "b = (if ap_RunID a = i \<and> ap_Decision a = None
              then a\<lparr>ap_Decision := Some dec, ap_DecidedAt := Some now, ap_ApproverActorID := Some u\<rparr>
              else a)"
      by (auto simp: in_update_rows)
    from inv a have "approval_ok (runs d) a" by (simp add: run_inv_def)
    with sep [OF inv] show ?thesis by (auto simp: b approval_ok_def)
  qed
  moreover have "map ap_RunID ?aps = map ap_RunID (approvals d)"
    by (rule map_update_rows) simp
  ultimately show "run_inv (d\<lparr>approvals := ?aps\<rparr>) \<and> run_evolution d (d\<lparr>approvals := ?aps\<rparr>)"
    using inv ev runs_grow [OF subset_refl] by (simp add: run_inv_def run_evolution_def)
qed

end
