(* ===== verification/RunMachine.thy ===== *)
theory RunMachine
  imports RunHistory
begin

text \<open>
  Every operation of the run store keeps \<open>run_history\<close> under interference, and what the operations
  return.
\<close>

section \<open>Status transitions\<close>

lemma legal_timeline:
  assumes "legal old new" and t: "timeline_ok r" and "rn_Status r = old"
  shows "timeline_ok (set_status now new r)"
proof -
  from assms(1) consider (pre) "before_executing old" "before_executing new"
    | (exec) "before_executing old" "new = StatusExecuting"
    | (fin) "old = StatusExecuting" "terminal new"
    by (auto simp: legal_def before_executing_def)
  then show ?thesis
  proof cases
    case pre
    moreover from pre(2) have "new \<noteq> StatusRequested" "new \<noteq> StatusExecuting" "\<not> terminal new"
      by (auto simp: before_executing_def terminal_def)
    moreover from pre(1) have "\<not> terminal old" by (auto simp: before_executing_def terminal_def)
    ultimately show ?thesis using t assms(3) by (simp add: timeline_ok_def set_status_def)
  next
    case exec
    moreover from exec(1) have "\<not> terminal old" by (auto simp: before_executing_def terminal_def)
    ultimately show ?thesis using t assms(3) by (simp add: timeline_ok_def set_status_def)
  next
    case fin
    moreover from fin(2) have "new \<noteq> StatusRequested" "new \<noteq> StatusExecuting" "\<not> before_executing new"
      by (auto simp: before_executing_def terminal_def)
    ultimately show ?thesis using t assms(3) by (simp add: timeline_ok_def set_status_def)
  qed
qed

lemma set_status_history:
  assumes leg: "legal old new" and ov: "\<And>r. run_inv d \<Longrightarrow> r \<in> set (runs d) \<Longrightarrow> rn_ID r = i \<Longrightarrow>
      rn_Status r = old \<Longrightarrow> oversight_ok (approvals d) (set_status now new r)"
  shows "run_history d (d\<lparr>runs := update_rows (\<lambda>r. rn_ID r = i \<and> rn_Status r = old)
           (set_status now new) (runs d)\<rparr>)"
proof (rule run_history_update)
  fix r assume inv: "run_inv d" and r: "r \<in> set (runs d)" "rn_ID r = i \<and> rn_Status r = old"
  then have t: "timeline_ok r" by (simp add: run_inv_def)
  have fin: "rn_FinishedAt r = None"
    using t r(2) leg legal_from_terminal [of old new] by (cases "terminal old") (auto simp: timeline_ok_def)
  have "legal\<^sup>*\<^sup>* (rn_Status r) (rn_Status (set_status now new r))"
    using r(2) leg by (simp add: set_status_def r_into_rtranclp)
  then have "run_evolves r (set_status now new r)"
    using fin by (simp add: run_evolves_def set_status_def)
  moreover have "timeline_ok (set_status now new r)"
    using leg by (rule legal_timeline) (use t r(2) in auto)
  ultimately show "run_evolves r (set_status now new r) \<and> timeline_ok (set_status now new r) \<and>
      oversight_ok (approvals d) (set_status now new r)"
    using ov inv r by blast
qed (simp add: set_status_def)

lemma keeps_UpdateRunStatus:
  assumes "legal old new" and "\<And>d r now. run_history (w_db w) d \<Longrightarrow> run_inv d \<Longrightarrow> r \<in> set (runs d) \<Longrightarrow>
      rn_ID r = i \<Longrightarrow> rn_Status r = old \<Longrightarrow> oversight_ok (approvals d) (set_status now new r)"
  shows "keeps run_history (UpdateRunStatus new i old) w"
  unfolding UpdateRunStatus_def keeps_def
proof (rule rg_conseq [OF rh.rg_sql_R [where P = "\<lambda>_ _. True"]])
  fix d now u a d'
  assume "run_history (w_db w) d"
    and "(case update_one (\<lambda>r. rn_ID r = i \<and> rn_Status r = old) (set_status now new) (runs d) of
            Inl e \<Rightarrow> Inl e | Inr (r, rows) \<Rightarrow> Inr (r, d\<lparr>runs := rows\<rparr>)) = Inr (a, d')"
  then show "run_history d d' \<and> (\<forall>v. run_history d' (w_db v) \<longrightarrow> True)"
    using set_status_history [OF assms(1), of d i now] assms(2)
    by (auto split: sum.splits dest!: update_one_Inr)
qed auto

text \<open>The transitions that need no fact beyond the invariant: all but those out of awaiting approval.\<close>

lemma oversight_step:
  assumes "legal old new" and "old \<noteq> StatusAwaitingApproval"
    and "oversight_ok aps r" and "rn_Status r = old"
  shows "oversight_ok aps (set_status now new r)"
  using assms by (auto simp: oversight_ok_def set_status_def legal_def terminal_def decided_def)

lemma keeps_UpdateRunStatus_free:
  assumes "legal old new" and "old \<noteq> StatusAwaitingApproval"
  shows "keeps run_history (UpdateRunStatus new i old) w"
  by (rule keeps_UpdateRunStatus [OF assms(1)], rule oversight_step [OF assms])
     (auto simp: run_inv_def)

lemma keeps_transitionStatus:
  assumes "legal old new" and "old \<noteq> StatusAwaitingApproval"
  shows "keeps run_history (transitionStatus i old new) w"
  unfolding transitionStatus_def
  by (intro rh.keeps_bindE rh.keeps_mapE keeps_UpdateRunStatus_free rh.keeps_Done assms)

lemma keeps_failClosed: "keeps run_history (failClosed i) w"
  unfolding failClosed_def
  by (rule rh.keeps_bindP [OF keeps_transitionStatus])
     (auto simp: legal_def terminal_def split: sum.split)

section \<open>Requesting\<close>

lemma keeps_pipeline_Get: "keeps run_history (pipeline_Get t i) w"
  unfolding keeps_def by (rule pl.get_rg [OF rh.reflp_R rh.transp_R]) (auto intro: rh.R_trans)

lemma keeps_pipeline_Get_bind:
  assumes "\<And>d r v. run_history (w_db w) d \<Longrightarrow> r \<in> set (pipelines d) \<Longrightarrow> pl_ID r = i \<Longrightarrow>
      pl_TenantID r = t \<Longrightarrow> run_history d (w_db v) \<Longrightarrow> keeps run_history (k (pipeline_fromRow r)) v"
  shows "keeps run_history (bindE (mapE g (pipeline_Get t i)) k) w"
  by (rule rh.keeps_bindE_fact, rule rh.rg_mapE_R, rule pl.get_rg [OF rh.reflp_R rh.transp_R])
     (auto intro: assms rh.R_trans)

lemma new_run_sel [simp]:
  "rn_ID (new_run now u p) = u" "rn_Tier (new_run now u p) = cp_Tier p"
  "rn_Status (new_run now u p) = cp_Status p" "rn_TenantID (new_run now u p) = cp_TenantID p"
  "rn_ActorID (new_run now u p) = cp_ActorID p" "rn_PipelineID (new_run now u p) = cp_PipelineID p"
  "rn_EnvironmentID (new_run now u p) = cp_EnvironmentID p"
  "rn_CiProvider (new_run now u p) = cp_CiProvider p"
  by (simp_all add: new_run_def)

lemma new_run_timeline: "before_executing (cp_Status p) \<Longrightarrow> timeline_ok (new_run now u p)"
  by (auto simp: timeline_ok_def new_run_def before_executing_def terminal_def)

text \<open>What \<open>pipelines.Get\<close> told \<open>Request\<close> of the pipeline stays true.\<close>

definition authorised :: "CreateRunParams \<Rightarrow> db \<Rightarrow> bool" where
  "authorised p d \<longleftrightarrow>
     (\<exists>pl \<in> set (pipelines d). pl_ID pl = cp_PipelineID p \<and> pl_TenantID pl = cp_TenantID p \<and>
        pl_Provider pl = cp_CiProvider p \<and> (cp_Tier p = TierReadOnly \<longrightarrow> \<not> pl_Mutating pl))"

lemma authorised_pipeline_ok: "authorised p d \<Longrightarrow> pipeline_ok (pipelines d) (new_run now u p)"
  by (simp add: authorised_def pipeline_ok_def)

lemma authorised_mono: "authorised p d \<Longrightarrow> run_inv d \<Longrightarrow> run_history d d' \<Longrightarrow> authorised p d'"
  unfolding authorised_def run_history_def run_evolution_def by blast

lemma history_inv: "run_history d d' \<Longrightarrow> run_inv d \<Longrightarrow> run_inv d'"
  by (simp add: run_history_def)

lemma CreateRun_history:
  assumes ins: "insert_row cs (new_run now u p) (d\<lparr>runs := runs d @ [new_run now u p]\<rparr>) = Inr (a, d')"
    and fresh: "(u \<notin> rn_ID ` set (runs d), c) \<in> set cs"
    and auth: "authorised p d"
    and st: "cp_Status p = StatusPolicyChecked"
    and tier: "cp_Tier p = TierReadOnly \<or> cp_Tier p = TierAutonomous"
  shows "run_history d d'"
proof -
  from ins fresh have d': "d' = d\<lparr>runs := runs d @ [new_run now u p]\<rparr>"
    and u: "u \<notin> rn_ID ` set (runs d)" by (auto simp: insert_row_Inr)
  have "run_history d (d\<lparr>runs := runs d @ [new_run now u p], approvals := approvals d @ []\<rparr>)"
  proof (rule run_history_new_run)
    show "rn_ID (new_run now u p) \<notin> rn_ID ` set (runs d)"
      using u by simp
    show "timeline_ok (new_run now u p) \<and> pipeline_ok (pipelines d) (new_run now u p) \<and>
        oversight_ok (approvals d @ []) (new_run now u p)"
      using auth tier st
      by (auto simp: new_run_timeline before_executing_def authorised_pipeline_ok oversight_ok_def
            Tier_Valid_cases tier_defs)
  qed simp
  then show ?thesis by (simp add: d')
qed

lemma keeps_CreateRun:
  assumes "run_inv (w_db w)" and "authorised p (w_db w)"
    and "cp_Status p = StatusPolicyChecked"
    and "cp_Tier p = TierReadOnly \<or> cp_Tier p = TierAutonomous"
  shows "keeps run_history (CreateRun p) w"
  unfolding keeps_def CreateRun_def
proof (rule rg_conseq [OF rh.rg_sql_R [where P = "\<lambda>_ _. True"]])
  fix d now u a d'
  assume "run_history (w_db w) d"
    and ins: "insert_row
         [(cp_Tier p \<ge> 1 \<and> cp_Tier p \<le> 3, ''23514''),
          (u \<notin> rn_ID ` set (runs d), ''23505''),
          (run_key_free p (runs d), ''23505''),
          (cp_TenantID p \<in> tn_ID ` set (tenants d), ''23503''),
          (cp_ActorID p \<in> ac_ID ` set (actors d), ''23503''),
          (cp_EnvironmentID p \<in> en_ID ` set (environments d), ''23503''),
          (cp_PipelineID p \<in> pl_ID ` set (pipelines d), ''23503'')]
         (new_run now u p) (d\<lparr>runs := runs d @ [new_run now u p]\<rparr>) = Inr (a, d')"
  then have "authorised p d" using assms(1,2) by (blast intro: authorised_mono)
  then show "run_history d d' \<and> (\<forall>v. run_history d' (w_db v) \<longrightarrow> True)"
    using CreateRun_history [OF ins, of "''23505''"] assms(3,4) by simp
qed auto

text \<open>A run that needs approval and its approval row: both or neither.\<close>

lemma CreateRun_run:
  "run (CreateRun p) w = (Inr row, w') \<Longrightarrow>
     rand w (tick w) \<notin> rn_ID ` set (runs (w_db w)) \<and>
     row = new_run (clock w (tick w)) (rand w (tick w)) p \<and>
     w_db w' = (w_db w)\<lparr>runs := runs (w_db w) @ [new_run (clock w (tick w)) (rand w (tick w)) p]\<rparr>"
  by (auto simp: CreateRun_def insert_row_Inr split: option.splits sum.splits)

lemma CreateApproval_run:
  "run (CreateApproval i) w = (Inr a, w') \<Longrightarrow>
     ap_RunID a = i \<and> ap_ApproverActorID a = None \<and> ap_Decision a = None \<and> ap_DecidedAt a = None \<and>
     w_db w' = (w_db w)\<lparr>approvals := approvals (w_db w) @ [a]\<rparr>"
  by (auto simp: CreateApproval_def Let_def insert_row_Inr split: option.splits sum.splits)

lemma createRunWithApproval_run:
  assumes "run (createRunWithApproval (s\<lparr>st_sqlDB := False\<rparr>) p) w = (Inr r, w')"
  shows "\<exists>now u a. u \<notin> rn_ID ` set (runs (w_db w)) \<and> r = fromRunRow (new_run now u p) \<and>
     ap_RunID a = u \<and> ap_ApproverActorID a = None \<and> ap_Decision a = None \<and> ap_DecidedAt a = None \<and>
     w_db w' = (w_db w)\<lparr>runs := runs (w_db w) @ [new_run now u p], approvals := approvals (w_db w) @ [a]\<rparr>"
proof -
  from assms obtain row v a where c: "run (CreateRun p) w = (Inr row, v)"
    and a: "run (CreateApproval (rn_ID row)) v = (Inr a, w')" and r: "r = fromRunRow row"
    by (auto simp: createRunWithApproval_def run_simps split: sum.splits prod.splits)
  from CreateRun_run [OF c] CreateApproval_run [OF a] r show ?thesis by fastforce
qed

lemma keeps_createRunWithApproval:
  assumes "run_inv (w_db w)" and "authorised p (w_db w)" and "st_sqlDB s"
    and "cp_Status p = StatusAwaitingApproval" and "cp_Tier p = TierHumanInTheLoop"
  shows "keeps run_history (createRunWithApproval s p) w"
proof -
  let ?body = "createRunWithApproval (s\<lparr>st_sqlDB := False\<rparr>) p"
  have eq: "createRunWithApproval s p = in_tx Wrapf Wrapf ?body"
    using assms(3) by (simp add: createRunWithApproval_def Let_def)
  show ?thesis
    unfolding eq
  proof (rule rh.keeps_in_tx_run)
    fix v r v'
    assume R: "run_history (w_db w) (w_db v)" and "run ?body v = (Inr r, v')"
    then obtain now u a where fresh: "u \<notin> rn_ID ` set (runs (w_db v))"
      and a: "ap_RunID a = u" "ap_ApproverActorID a = None" "ap_Decision a = None" "ap_DecidedAt a = None"
      and d': "w_db v' = (w_db v)\<lparr>runs := runs (w_db v) @ [new_run now u p],
                 approvals := approvals (w_db v) @ [a]\<rparr>"
      by (auto dest!: createRunWithApproval_run)
    from R assms(1,2) have "authorised p (w_db v)" by (blast intro: authorised_mono)
    with assms(4,5) a(1) have "timeline_ok (new_run now u p) \<and> pipeline_ok (pipelines (w_db v)) (new_run now u p) \<and>
        oversight_ok (approvals (w_db v) @ [a]) (new_run now u p)"
      by (auto simp: new_run_timeline before_executing_def authorised_pipeline_ok oversight_ok_def
            Tier_Valid_cases tier_defs)
    then show "run_history (w_db v) (w_db v')"
      unfolding d' using fresh a by (intro run_history_new_run) auto
  qed
qed

section \<open>Deciding\<close>

lemma rg_DecideApproval:
  assumes inv: "run_inv (w_db w)"
    and sep: "\<exists>r \<in> set (runs (w_db w)). rn_ID r = i \<and> rn_ActorID r \<noteq> u"
  shows "rg (on_db run_history) (on_db run_history)
           (\<lambda>x v. run_history (w_db w) (w_db v) \<and>
              (\<forall>a. x = Inr a \<longrightarrow> run_inv (w_db v) \<and> decided dec i (approvals (w_db v))))
           (DecideApproval (Some dec) (Some u) i) w"
  unfolding DecideApproval_def
proof (rule rh.rg_sql_R)
  fix d now and x :: uuid and a d'
  let ?f = "\<lambda>a. a\<lparr>ap_Decision := Some dec, ap_DecidedAt := Some now, ap_ApproverActorID := Some u\<rparr>"
  let ?P = "\<lambda>a. ap_RunID a = i \<and> ap_Decision a = None"
  assume R: "run_history (w_db w) d"
    and st: "(case update_one ?P ?f (approvals d) of
         Inl e \<Rightarrow> Inl e
       | Inr (a, rows) \<Rightarrow>
           (case violated [(Some dec \<in> {None, Some ''approved'', Some ''denied''}, ''23514''),
                           (Some u = None \<or> Some u \<in> Some ` ac_ID ` set (actors d), ''23503'')] of
              Some c \<Rightarrow> Inl (PgError c)
            | None \<Rightarrow> Inr (a, d\<lparr>approvals := rows\<rparr>))) = Inr (a, d')"
  from st obtain a0 where d': "d' = d\<lparr>approvals := update_rows ?P ?f (approvals d)\<rparr>"
    and a0: "a0 \<in> set (approvals d)" "?P a0"
    by (auto split: sum.splits option.splits prod.splits dest!: update_one_Inr)
  from R inv sep have "\<exists>r \<in> set (runs d). rn_ID r = i \<and> rn_ActorID r \<noteq> u"
    unfolding run_history_def run_evolution_def run_evolves_def by metis
  then have dd: "run_history d d'"
    unfolding d' by (intro run_history_decide) simp
  have "?f a0 \<in> set (update_rows ?P ?f (approvals d))"
    using a0 by (auto simp: in_update_rows)
  then have dec: "decided dec i (approvals d')"
    using a0(2) unfolding decided_def d' by (intro bexI [of _ "?f a0"]) simp_all
  have inv': "run_inv d'" using dd R inv by (auto simp: run_history_def)
  have "run_inv (w_db v) \<and> decided dec i (approvals (w_db v))" if "run_history d' (w_db v)" for v
    using that inv' dec unfolding run_history_def run_evolution_def by (auto intro: decided_mono)
  with dd show "run_history d d' \<and> (\<forall>v. run_history d' (w_db v) \<longrightarrow>
      run_inv (w_db v) \<and> decided dec i (approvals (w_db v)))" by blast
qed

text \<open>Out of awaiting approval, into the status the decision names.\<close>

lemma keeps_UpdateRunStatus_decided:
  assumes inv: "run_inv (w_db v)"
    and new: "(new, dec) = (StatusQueued, ''approved'') \<or> (new, dec) = (StatusDenied, ''denied'')"
    and dec: "decided dec i (approvals (w_db v))"
  shows "keeps run_history (UpdateRunStatus new i StatusAwaitingApproval) v"
proof (rule keeps_UpdateRunStatus)
  show "legal StatusAwaitingApproval new" using new by (auto simp: legal_def)
  fix d r now
  assume R: "run_history (w_db v) d" and r: "run_inv d" "r \<in> set (runs d)" "rn_ID r = i"
    "rn_Status r = StatusAwaitingApproval"
  from R inv dec have "decided dec i (approvals d)"
    unfolding run_history_def run_evolution_def by (blast intro: decided_mono)
  moreover from r have "oversight_ok (approvals d) r" by (simp add: run_inv_def)
  ultimately show "oversight_ok (approvals d) (set_status now new r)"
    using r new by (auto simp: oversight_ok_def set_status_def)
qed

context enqueuer begin

lemma keeps_Enqueue: "keeps run_history (Enqueue i) w"
  unfolding keeps_def by (rule enqueue_rg [OF rh.reflp_R rh.transp_R])

lemma keeps_Request:
  assumes inv: "run_inv (w_db w)" and s: "st_Enqueue s = Enqueue" "st_sqlDB s"
  shows "keeps run_history (Request s q) w"
proof (cases "Tier_Valid (rp_Tier q)")
  case False
  then show ?thesis by (auto simp: Request_def)
next
  case valid: True
  have auth: "authorised (create_params q (pipeline_fromRow r) st) d"
    if "r \<in> set (pipelines d)" "pl_ID r = rp_PipelineID q" "pl_TenantID r = rp_TenantID q"
      "Check (rp_Tier q) (pl_Mutating r) \<noteq> Deny" for r st d
    using that by (auto simp: authorised_def create_params_def pipeline_fromRow_def
        tierToInt16_valid [OF valid] Check_Deny)
  let ?k = "\<lambda>p. case Check (rp_Tier q) (p_Mutating p) of
          Deny \<Rightarrow> failE (Sentinel execution_ErrPolicyDenied)
        | Allow \<Rightarrow>
            bindE (mapE Wrapf (CreateRun (create_params q p StatusPolicyChecked))) (\<lambda>runRow.
            bindE (mapE Wrapf (UpdateRunStatus StatusQueued (rn_ID runRow) StatusPolicyChecked)) (\<lambda>queuedRow.
            bindE (mapE Wrapf (st_Enqueue s (rn_ID queuedRow))) (\<lambda>_.
            returnE (fromRunRow queuedRow))))
        | RequiresApproval \<Rightarrow>
            mapE Wrapf (createRunWithApproval s (create_params q p StatusAwaitingApproval))"
  have k: "keeps run_history (?k (pipeline_fromRow r)) v"
    if v: "run_inv (w_db v)" "r \<in> set (pipelines (w_db v))"
      "pl_ID r = rp_PipelineID q" "pl_TenantID r = rp_TenantID q" for r v
  proof (cases "Check (rp_Tier q) (pl_Mutating r)")
    case Allow
    then have "keeps run_history (CreateRun (create_params q (pipeline_fromRow r) StatusPolicyChecked)) v"
      using v(1) auth [OF v(2-)] by (intro keeps_CreateRun)
        (simp, simp, simp add: create_params_def,
         auto simp: create_params_def tierToInt16_valid [OF valid] Check_Allow)
    with Allow show ?thesis
      by (auto simp: pipeline_fromRow_def s legal_def intro!: rh.keeps_bindE rh.keeps_mapE
          keeps_UpdateRunStatus_free keeps_Enqueue)
  next
    case RequiresApproval
    then have "keeps run_history (createRunWithApproval s (create_params q (pipeline_fromRow r) StatusAwaitingApproval)) v"
      using v(1) auth [OF v(2-)] s(2) by (intro keeps_createRunWithApproval)
        (simp, simp, simp, simp add: create_params_def,
         simp add: create_params_def tierToInt16_valid Tier_Valid_cases Check_RequiresApproval)
    with RequiresApproval show ?thesis
      by (auto simp: pipeline_fromRow_def intro!: rh.keeps_mapE)
  next
    case Deny
    then show ?thesis by (auto simp: pipeline_fromRow_def)
  qed
  have "keeps run_history (bindE (mapE Wrapf (pipeline_Get (rp_TenantID q) (rp_PipelineID q))) ?k) w"
  proof (rule keeps_pipeline_Get_bind)
    fix d r and v :: world
    assume R: "run_history (w_db w) d" "run_history d (w_db v)"
      and r: "r \<in> set (pipelines d)" "pl_ID r = rp_PipelineID q" "pl_TenantID r = rp_TenantID q"
    from R inv r(1) have "run_inv (w_db v)" "r \<in> set (pipelines (w_db v))"
      by (auto simp: run_history_def run_evolution_def)
    then show "keeps run_history (?k (pipeline_fromRow r)) v" using r(2,3) by (rule k)
  qed
  then show ?thesis by (simp add: Request_def valid)
qed

text \<open>Deciding, by somebody who is not the actor of the run.\<close>

lemma keeps_Decide:
  assumes inv: "run_inv (w_db w)" and s: "st_Enqueue s = Enqueue"
    and sep: "\<exists>r \<in> set (runs (w_db w)). rn_ID r = i \<and> rn_ActorID r \<noteq> u"
  shows "keeps run_history (Decide s i u approved) w"
proof -
  let ?dec = "if approved then ''approved'' else ''denied''"
  let ?new = "if approved then StatusQueued else StatusDenied"
  have dec: "nullString ?dec = Some ?dec" by (simp add: nullString_def)
  note upd = keeps_UpdateRunStatus_decided [where new = StatusQueued and dec = "''approved''"]
    keeps_UpdateRunStatus_decided [where new = StatusDenied and dec = "''denied''"]
  show ?thesis
    unfolding Decide_def Let_def dec
  proof (rule rh.keeps_bindE_fact, rule rh.rg_mapE_R, rule rg_conseq,
         rule rg_DecideApproval [OF inv sep, of ?dec], clarsimp split: sum.splits, rule conjI)
  qed (auto simp: s intro!: rh.keeps_bindE rh.keeps_mapE upd keeps_Enqueue)
qed

end

section \<open>The job and the worker's operations\<close>

lemma keeps_Worker_Work: "keeps run_history (Worker_Work reg i) w"
  unfolding Worker_Work_def
  by (rule rh.keeps_bindP [OF keeps_transitionStatus])
     (auto simp: legal_def split: sum.split
       intro!: rh.keeps_bindE rh.keeps_mapE keeps_pipeline_Get keeps_failClosed)

lemma keeps_sql_update:
  assumes f: "\<And>d now u a d'. run_history (w_db w) d \<Longrightarrow> f now u d = Inr (a, d') \<Longrightarrow>
      \<exists>P g. d' = d\<lparr>runs := update_rows P g (runs d)\<rparr> \<and> (\<forall>r. rn_ID (g r) = rn_ID r) \<and>
        (\<forall>r \<in> set (runs d). run_inv d \<longrightarrow> P r \<longrightarrow>
           run_evolves r (g r) \<and> timeline_ok (g r) \<and> oversight_ok (approvals d) (g r))"
  shows "keeps run_history (sql f) w"
  unfolding keeps_def
proof (rule rg_conseq [OF rh.rg_sql_R [where P = "\<lambda>_ _. True"]])
  fix d now u a d' assume "run_history (w_db w) d" "f now u d = Inr (a, d')"
  from f [OF this] obtain P g where "d' = d\<lparr>runs := update_rows P g (runs d)\<rparr>"
    "\<forall>r. rn_ID (g r) = rn_ID r"
    "\<forall>r \<in> set (runs d). run_inv d \<longrightarrow> P r \<longrightarrow>
        run_evolves r (g r) \<and> timeline_ok (g r) \<and> oversight_ok (approvals d) (g r)" by blast
  then have "run_history d d'" by (auto intro: run_history_update)
  then show "run_history d d' \<and> (\<forall>v. run_history d' (w_db v) \<longrightarrow> True)" by simp
qed auto

lemma claim_history:
  assumes "claim_next (claimable_run envs) rn_RequestedAt rn_ID (mark_run c now) (runs d) = Inr (r, rows)"
  shows "run_history d (d\<lparr>runs := rows\<rparr>)"
proof (cases "run_inv d")
  case False
  then show ?thesis by (simp add: run_history_def)
next
  case inv: True
  then have dist: "distinct (map rn_ID (runs d))" by (simp add: run_inv_def)
  from run_queue.claim_Inr [OF dist assms] obtain x where x: "x \<in> set (runs d)" "claimable_run envs x"
    and rows: "rows = update_rows (\<lambda>y. rn_ID y = rn_ID x) (mark_run c now) (runs d)" by blast
  show ?thesis
    unfolding rows
  proof (rule run_history_update)
    fix y assume "y \<in> set (runs d)" "rn_ID y = rn_ID x"
    with dist x(1) have "y = x" by (blast intro: distinct_map_unique)
    with x inv show "run_evolves y (mark_run c now y) \<and> timeline_ok (mark_run c now y) \<and>
        oversight_ok (approvals d) (mark_run c now y)"
      by (auto simp: run_inv_def run_evolves_def mark_run_def claimable_run_def timeline_ok_def
            oversight_ok_def)
  qed (simp add: mark_run_def)
qed

lemma keeps_ClaimNextExecutingRun: "keeps run_history (ClaimNextExecutingRun c envs) w"
  unfolding ClaimNextExecutingRun_def
  by (rule rh.keeps_sql) (auto split: sum.splits option.splits prod.splits intro: claim_history)

lemma keeps_execution_Claim: "keeps run_history (execution_Claim c envs) w"
  unfolding execution_Claim_def
  by (auto intro!: rh.keeps_bindE rh.keeps_mapE keeps_ClaimNextExecutingRun)

text \<open>A result is terminal: the handlers let no other status through.\<close>

lemma set_result_ok:
  assumes "terminal (rr_Status res)" and "rn_Status r = StatusExecuting"
    and ok: "timeline_ok r" "oversight_ok aps r"
  shows "run_evolves r (set_result now res r) \<and> timeline_ok (set_result now res r) \<and>
         oversight_ok aps (set_result now res r)"
proof -
  have "legal StatusExecuting (rr_Status res)" using assms(1) by (simp add: legal_def)
  moreover have "rn_FinishedAt r = None" using ok(1) assms(2) by (auto simp: timeline_ok_def)
  ultimately have "run_evolves r (set_result now res r)"
    using assms(2) by (simp add: run_evolves_def set_result_def r_into_rtranclp)
  moreover have "timeline_ok (set_result now res r)"
    using assms(1,2) ok(1) by (auto simp: timeline_ok_def set_result_def terminal_def before_executing_def)
  moreover have "oversight_ok aps (set_result now res r)"
    using assms(1,2) ok(2) by (auto simp: oversight_ok_def set_result_def)
  ultimately show ?thesis by blast
qed

lemma keeps_ReportRunResult:
  assumes "terminal (rr_Status res)"
  shows "keeps run_history (ReportRunResult i c res) w"
  unfolding ReportRunResult_def
proof (rule keeps_sql_update)
  fix d :: db and now u a and d' :: db
  let ?P = "\<lambda>r. rn_ID r = i \<and> rn_ClaimedBy r = Some c \<and> rn_Status r = StatusExecuting"
  assume "(case update_one ?P (set_result now res) (runs d) of
         Inl e \<Rightarrow> Inl e | Inr (r, rows) \<Rightarrow> Inr (r, d\<lparr>runs := rows\<rparr>)) = Inr (a, d')"
  then have "d' = d\<lparr>runs := update_rows ?P (set_result now res) (runs d)\<rparr>"
    by (auto split: sum.splits dest!: update_one_Inr)
  moreover have "\<forall>r \<in> set (runs d). run_inv d \<longrightarrow> ?P r \<longrightarrow> run_evolves r (set_result now res r) \<and>
      timeline_ok (set_result now res r) \<and> oversight_ok (approvals d) (set_result now res r)"
    by (auto simp: run_inv_def intro!: set_result_ok [OF assms, THEN conjunct1]
          set_result_ok [OF assms, THEN conjunct2, THEN conjunct1]
          set_result_ok [OF assms, THEN conjunct2, THEN conjunct2])
  ultimately show "\<exists>P g. d' = d\<lparr>runs := update_rows P g (runs d)\<rparr> \<and> (\<forall>r. rn_ID (g r) = rn_ID r) \<and>
        (\<forall>r \<in> set (runs d). run_inv d \<longrightarrow> P r \<longrightarrow>
           run_evolves r (g r) \<and> timeline_ok (g r) \<and> oversight_ok (approvals d) (g r))"
    by (intro exI [of _ ?P] exI [of _ "set_result now res"] conjI) (simp_all add: set_result_def)
qed

lemma keeps_ReportResult: "terminal (rr_Status res) \<Longrightarrow> keeps run_history (ReportResult i c res) w"
  unfolding ReportResult_def
  by (intro rh.keeps_bindE rh.keeps_mapE keeps_ReportRunResult rh.keeps_Done)

text \<open>Resolving touches a run that was seen executing, which stays started for good.\<close>

definition started :: "uuid \<Rightarrow> db \<Rightarrow> bool" where
  "started i d \<longleftrightarrow> (\<exists>r \<in> set (runs d). rn_ID r = i \<and> (rn_Status r = StatusExecuting \<or> terminal (rn_Status r)))"

lemma started_mono:
  assumes "started i d" and "run_inv d" and "run_history d d'"
  shows "started i d'"
proof -
  from assms obtain r r' where "r \<in> set (runs d)" "rn_ID r = i"
      "rn_Status r = StatusExecuting \<or> terminal (rn_Status r)" "r' \<in> set (runs d')" "run_evolves r r'"
    unfolding started_def run_history_def run_evolution_def by blast
  then show ?thesis
    unfolding started_def by (intro bexI [of _ r']) (auto simp: run_evolves_def dest: legal_star_executing)
qed

lemma keeps_ResolveRunExternalRef:
  assumes "run_inv (w_db w)" and "started i (w_db w)"
  shows "keeps run_history (ResolveRunExternalRef i ref url) w"
  unfolding ResolveRunExternalRef_def
proof (rule keeps_sql_update)
  fix d :: db and now u a and d' :: db
  let ?P = "\<lambda>r. rn_ID r = i \<and> rn_CiExternalRef r = None"
  let ?f = "\<lambda>r. r\<lparr>rn_CiExternalRef := ref, rn_CiUrl := url\<rparr>"
  assume R: "run_history (w_db w) d"
    and "(case update_one ?P ?f (runs d) of
         Inl e \<Rightarrow> Inl e | Inr (r, rows) \<Rightarrow> Inr (r, d\<lparr>runs := rows\<rparr>)) = Inr (a, d')"
  then have "d' = d\<lparr>runs := update_rows ?P ?f (runs d)\<rparr>"
    by (auto split: sum.splits dest!: update_one_Inr)
  moreover from assms R have "started i d" by (blast intro: started_mono)
  have "run_evolves r (?f r) \<and> timeline_ok (?f r) \<and> oversight_ok (approvals d) (?f r)"
    if inv: "run_inv d" and r: "r \<in> set (runs d)" "rn_ID r = i" for r
  proof -
    from \<open>started i d\<close> obtain x where x: "x \<in> set (runs d)" "rn_ID x = i"
        "rn_Status x = StatusExecuting \<or> terminal (rn_Status x)" by (auto simp: started_def)
    with inv r have "x = r" by (auto simp: run_inv_def dest: distinct_map_unique)
    with x inv show ?thesis
      by (auto simp: run_inv_def run_evolves_def timeline_ok_def oversight_ok_def)
  qed
  ultimately show "\<exists>P g. d' = d\<lparr>runs := update_rows P g (runs d)\<rparr> \<and> (\<forall>r. rn_ID (g r) = rn_ID r) \<and>
        (\<forall>r \<in> set (runs d). run_inv d \<longrightarrow> P r \<longrightarrow>
           run_evolves r (g r) \<and> timeline_ok (g r) \<and> oversight_ok (approvals d) (g r))"
    by (intro exI [of _ ?P] exI [of _ ?f]) simp
qed

definition found_in :: "run_row list \<Rightarrow> run_row option \<Rightarrow> run_row option res \<Rightarrow> bool" where
  "found_in cs m x \<longleftrightarrow> (\<forall>c. x = Inr (Some c) \<longrightarrow> c \<in> set cs \<or> m = Some c)"

lemma rg_resolve_loop:
  "rg (on_db run_history) (on_db run_history)
     (\<lambda>x v. run_history (w_db w) (w_db v) \<and> found_in cs m x) (resolve_loop ref cs m) w"
proof (induction cs arbitrary: m w ref)
  case Nil
  then show ?case by (simp add: on_db_def found_in_def)
next
  case (Cons c cs)
  have step: "rg (on_db run_history) (on_db run_history)
     (\<lambda>x v. run_history (w_db w) (w_db v) \<and> found_in (c # cs) m x) (resolve_loop ref cs m') v"
    if "run_history (w_db w) (w_db v)" "m' = m \<or> m' = Some c" for v m m' ref
    by (rule rg_conseq [OF Cons.IH [of v m' ref]])
       (use that in \<open>auto simp: found_in_def intro: rh.R_trans\<close>)
  have fail: "found_in (c # cs) m (Inl e)" for e m by (simp add: found_in_def)
  show ?case
    unfolding resolve_loop.simps
    by (rule rg_bindE [OF rh.on_R(1)], rule rh.rg_mapE_R, rule rh.keeps_rg [OF keeps_pipeline_Get])
       (auto simp: on_db_def fail split: sum.splits intro: step rh.R_trans)
qed

lemma keeps_ResolveExternalRef:
  assumes inv: "run_inv (w_db w)"
  shows "keeps run_history (ResolveExternalRef envs prov repo workflow ref eref url) w"
  unfolding ResolveExternalRef_def FindUnresolvedExecutingRuns_def
proof (rule rh.keeps_query_bind_fact)
  fix d cs and v :: world
  assume R: "run_history (w_db w) d" "run_history d (w_db v)"
    and cs: "Inr (sort_key rn_RequestedAt
          (concat (map (\<lambda>r. map (\<lambda>_. r)
             (filter (\<lambda>p. pl_ID p = rn_PipelineID r \<and> unresolved_match envs prov repo workflow r p)
                (pipelines d))) (runs d)))) = Inr cs"
  from R(1) inv have invd: "run_inv d" by (rule history_inv)
  have started: "started (rn_ID c) d" if "c \<in> set cs" for c
    using that cs by (auto simp: started_def unresolved_match_def)
  let ?k = "\<lambda>match. case match of
       None \<Rightarrow> failE (Sentinel execution_ErrNotFound)
     | Some m \<Rightarrow>
         bindE (mapE (notFound sql_ErrNoRows execution_ErrNotFound)
                  (ResolveRunExternalRef (rn_ID m) (nullString eref) (nullString url)))
           (\<lambda>row. returnE (fromRunRow row))"
  have k: "keeps run_history (?k m) u"
    if u: "run_history (w_db v) (w_db u)" "\<forall>c. m = Some c \<longrightarrow> c \<in> set cs" for m u
  proof (cases m)
    case None
    then show ?thesis by auto
  next
    case (Some c)
    from u R have du: "run_history d (w_db u)" by (blast intro: rh.R_trans)
    with Some u invd have "run_inv (w_db u)" "started (rn_ID c) (w_db u)"
      by (auto intro: history_inv started_mono started)
    with Some show ?thesis
      by (auto intro!: rh.keeps_bindE rh.keeps_mapE keeps_ResolveRunExternalRef)
  qed
  show "keeps run_history (bindE (resolve_loop ref cs None) ?k) v"
    by (rule rh.keeps_bindE_fact, rule rg_conseq [OF rg_resolve_loop]) (auto simp: found_in_def intro: k)
qed

end
