(* ===== verification/Tenancy.thy ===== *)
theory Tenancy
  imports Schema Identity
begin

text \<open>
  Packages \<open>tenant\<close>, \<open>team\<close> and \<open>environment\<close> of \<open>controlplane/internal\<close>: the tenant every row
  belongs to, its teams, and its environments with their AWS identity and per-tier roles.
\<close>

section \<open>Tenants\<close>

record Tenant =
  t_ID :: uuid
  t_Name :: string
  t_TelemetryEnabled :: bool
  t_CreatedAt :: time

definition tenant_fromRow :: "tenant_row \<Rightarrow> Tenant" where
  "tenant_fromRow r =
     \<lparr>t_ID = tn_ID r, t_Name = tn_Name r, t_TelemetryEnabled = tn_TelemetryEnabled r,
      t_CreatedAt = tn_CreatedAt r\<rparr>"

definition CreateTenant :: "string \<Rightarrow> tenant_row go" where
  "CreateTenant name =
     sql (\<lambda>now u d.
       let r = \<lparr>tn_ID = u, tn_Name = name, tn_CreatedAt = now, tn_TelemetryEnabled = False\<rparr>
       in insert_row [(u \<notin> tn_ID ` set (tenants d), ''23505'')] r (d\<lparr>tenants := tenants d @ [r]\<rparr>))"

definition SetTenantTelemetry :: "uuid \<Rightarrow> bool \<Rightarrow> tenant_row go" where
  "SetTenantTelemetry i enabled =
     sql (\<lambda>now u d.
       case update_one (\<lambda>r. tn_ID r = i) (\<lambda>r. r\<lparr>tn_TelemetryEnabled := enabled\<rparr>) (tenants d) of
         Inl e \<Rightarrow> Inl e
       | Inr (r, rows) \<Rightarrow> Inr (r, d\<lparr>tenants := rows\<rparr>))"

definition GetTenant :: "uuid \<Rightarrow> tenant_row go" where
  "GetTenant i = query (\<lambda>d. select_one (\<lambda>r. tn_ID r = i) (tenants d))"

definition AnyTenantExists :: "bool go" where
  "AnyTenantExists = query (\<lambda>d. Inr (tenants d \<noteq> []))"

definition GetSoleTenant :: "tenant_row go" where
  "GetSoleTenant = query (\<lambda>d. select_one (\<lambda>_. True) (tenants d))"

definition tenant_Create :: "string \<Rightarrow> Tenant go" where
  "tenant_Create name =
     (if name = [] then failE (Errorf ''name is required'')
      else bindE (mapE Wrapf (CreateTenant name)) (\<lambda>row. returnE (tenant_fromRow row)))"

definition SetTelemetry :: "uuid \<Rightarrow> bool \<Rightarrow> Tenant go" where
  "SetTelemetry i enabled =
     bindE (mapE (notFound sql_ErrNoRows tenant_ErrNotFound) (SetTenantTelemetry i enabled))
       (\<lambda>row. returnE (tenant_fromRow row))"

definition tenant_Get :: "uuid \<Rightarrow> Tenant go" where
  "tenant_Get i =
     bindE (mapE (notFound sql_ErrNoRows tenant_ErrNotFound) (GetTenant i))
       (\<lambda>row. returnE (tenant_fromRow row))"

definition AnyExists :: "bool go" where
  "AnyExists = mapE Wrapf AnyTenantExists"

definition GetSole :: "Tenant go" where
  "GetSole =
     bindE (mapE (notFound sql_ErrNoRows tenant_ErrNotFound) GetSoleTenant)
       (\<lambda>row. returnE (tenant_fromRow row))"

section \<open>Teams\<close>

record Team =
  te_ID :: uuid
  te_TenantID :: uuid
  te_Name :: string
  te_CreatedAt :: time

definition team_fromRow :: "team_row \<Rightarrow> Team" where
  "team_fromRow r =
     \<lparr>te_ID = tm_ID r, te_TenantID = tm_TenantID r, te_Name = tm_Name r, te_CreatedAt = tm_CreatedAt r\<rparr>"

definition CreateTeam :: "uuid \<Rightarrow> string \<Rightarrow> team_row go" where
  "CreateTeam tenantID name =
     sql (\<lambda>now u d.
       let r = \<lparr>tm_ID = u, tm_TenantID = tenantID, tm_Name = name, tm_CreatedAt = now\<rparr>
       in insert_row
            [(u \<notin> tm_ID ` set (teams d), ''23505''),
             (\<forall>x \<in> set (teams d). \<not> (tm_TenantID x = tenantID \<and> tm_Name x = name), ''23505''),
             (tenantID \<in> tn_ID ` set (tenants d), ''23503'')]
            r (d\<lparr>teams := teams d @ [r]\<rparr>))"

definition GetTeam :: "uuid \<Rightarrow> team_row go" where
  "GetTeam i = query (\<lambda>d. select_one (\<lambda>r. tm_ID r = i) (teams d))"

definition GetTeamByName :: "uuid \<Rightarrow> string \<Rightarrow> team_row go" where
  "GetTeamByName tenantID name =
     query (\<lambda>d. select_one (\<lambda>r. tm_TenantID r = tenantID \<and> tm_Name r = name) (teams d))"

definition team_Create :: "uuid \<Rightarrow> string \<Rightarrow> Team go" where
  "team_Create tenantID name =
     (if tenantID = uuid_Nil then failE (Errorf ''tenant id is required'')
      else if name = [] then failE (Errorf ''name is required'')
      else bindE (mapE Wrapf (CreateTeam tenantID name)) (\<lambda>row. returnE (team_fromRow row)))"

definition team_Get :: "uuid \<Rightarrow> Team go" where
  "team_Get i =
     bindE (mapE (notFound sql_ErrNoRows team_ErrNotFound) (GetTeam i))
       (\<lambda>row. returnE (team_fromRow row))"

definition team_GetByName :: "uuid \<Rightarrow> string \<Rightarrow> Team go" where
  "team_GetByName tenantID name =
     bindE (mapE (notFound sql_ErrNoRows team_ErrNotFound) (GetTeamByName tenantID name))
       (\<lambda>row. returnE (team_fromRow row))"

section \<open>Environments\<close>

record Environment =
  e_ID :: uuid
  e_TenantID :: uuid
  e_Name :: string
  e_Provider :: string
  e_Region :: string
  e_CreatedAt :: time

record AWSConfig =
  acf_EnvironmentID :: uuid
  acf_AccountRef :: string
  acf_ExternalID :: string
  acf_TrustAnchor :: string

record AWSTierRole =
  atr_EnvironmentID :: uuid
  atr_Tier :: tier
  atr_RoleARN :: string

definition environment_fromRow :: "environment_row \<Rightarrow> Environment" where
  "environment_fromRow r =
     \<lparr>e_ID = en_ID r, e_TenantID = en_TenantID r, e_Name = en_Name r, e_Provider = en_Provider r,
      e_Region = en_Region r, e_CreatedAt = en_CreatedAt r\<rparr>"

definition CreateEnvironment :: "uuid \<Rightarrow> string \<Rightarrow> string \<Rightarrow> string \<Rightarrow> environment_row go" where
  "CreateEnvironment tenantID name prov region =
     sql (\<lambda>now u d.
       let r = \<lparr>en_ID = u, en_TenantID = tenantID, en_Name = name, en_Provider = prov,
                en_Region = region, en_CreatedAt = now\<rparr>
       in insert_row
            [(prov \<in> {''aws'', ''gcp'', ''azure''}, ''23514''),
             (u \<notin> en_ID ` set (environments d), ''23505''),
             (\<forall>x \<in> set (environments d). \<not> (en_TenantID x = tenantID \<and> en_Name x = name), ''23505''),
             (tenantID \<in> tn_ID ` set (tenants d), ''23503'')]
            r (d\<lparr>environments := environments d @ [r]\<rparr>))"

definition GetEnvironment :: "uuid \<Rightarrow> environment_row go" where
  "GetEnvironment i = query (\<lambda>d. select_one (\<lambda>r. en_ID r = i) (environments d))"

definition GetEnvironmentByName :: "uuid \<Rightarrow> string \<Rightarrow> environment_row go" where
  "GetEnvironmentByName tenantID name =
     query (\<lambda>d. select_one (\<lambda>r. en_TenantID r = tenantID \<and> en_Name r = name) (environments d))"

definition CreateEnvironmentAWSConfig :: "uuid \<Rightarrow> string \<Rightarrow> string \<Rightarrow> string \<Rightarrow> aws_config_row go" where
  "CreateEnvironmentAWSConfig environmentID accountRef externalID trustAnchor =
     sql (\<lambda>now u d.
       let r = \<lparr>aw_EnvironmentID = environmentID, aw_AccountRef = accountRef,
                aw_ExternalID = externalID, aw_TrustAnchor = trustAnchor\<rparr>
       in insert_row
            [(environmentID \<notin> aw_EnvironmentID ` set (aws_configs d), ''23505''),
             (environmentID \<in> en_ID ` set (environments d), ''23503'')]
            r (d\<lparr>aws_configs := aws_configs d @ [r]\<rparr>))"

definition GetEnvironmentAWSConfig :: "uuid \<Rightarrow> aws_config_row go" where
  "GetEnvironmentAWSConfig environmentID =
     query (\<lambda>d. select_one (\<lambda>r. aw_EnvironmentID r = environmentID) (aws_configs d))"

definition CreateEnvironmentAWSTierRole :: "uuid \<Rightarrow> int \<Rightarrow> string \<Rightarrow> aws_tier_role_row go" where
  "CreateEnvironmentAWSTierRole environmentID tier roleArn =
     sql (\<lambda>now u d.
       let r = \<lparr>ar_EnvironmentID = environmentID, ar_Tier = tier, ar_RoleArn = roleArn\<rparr>
       in insert_row
            [(tier \<ge> 1 \<and> tier \<le> 3, ''23514''),
             (\<forall>x \<in> set (aws_tier_roles d). \<not> (ar_EnvironmentID x = environmentID \<and> ar_Tier x = tier), ''23505''),
             (environmentID \<in> aw_EnvironmentID ` set (aws_configs d), ''23503'')]
            r (d\<lparr>aws_tier_roles := aws_tier_roles d @ [r]\<rparr>))"

definition GetEnvironmentAWSTierRole :: "uuid \<Rightarrow> int \<Rightarrow> aws_tier_role_row go" where
  "GetEnvironmentAWSTierRole environmentID tier =
     query (\<lambda>d. select_one (\<lambda>r. ar_EnvironmentID r = environmentID \<and> ar_Tier r = tier) (aws_tier_roles d))"

definition environment_Create :: "uuid \<Rightarrow> string \<Rightarrow> string \<Rightarrow> string \<Rightarrow> Environment go" where
  "environment_Create tenantID name prov region =
     (if tenantID = uuid_Nil then failE (Errorf ''tenant id is required'')
      else if name = [] then failE (Errorf ''name is required'')
      else if region = [] then failE (Errorf ''region is required'')
      else bindE (mapE Wrapf (CreateEnvironment tenantID name prov region))
             (\<lambda>row. returnE (environment_fromRow row)))"

definition environment_Get :: "uuid \<Rightarrow> Environment go" where
  "environment_Get i =
     bindE (mapE (notFound sql_ErrNoRows environment_ErrNotFound) (GetEnvironment i))
       (\<lambda>row. returnE (environment_fromRow row))"

definition environment_GetByName :: "uuid \<Rightarrow> string \<Rightarrow> Environment go" where
  "environment_GetByName tenantID name =
     bindE (mapE (notFound sql_ErrNoRows environment_ErrNotFound) (GetEnvironmentByName tenantID name))
       (\<lambda>row. returnE (environment_fromRow row))"

definition aws_config_of :: "aws_config_row \<Rightarrow> AWSConfig" where
  "aws_config_of r =
     \<lparr>acf_EnvironmentID = aw_EnvironmentID r, acf_AccountRef = aw_AccountRef r,
      acf_ExternalID = aw_ExternalID r, acf_TrustAnchor = aw_TrustAnchor r\<rparr>"

definition CreateAWSConfig :: "uuid \<Rightarrow> string \<Rightarrow> string \<Rightarrow> string \<Rightarrow> AWSConfig go" where
  "CreateAWSConfig environmentID accountRef externalID trustAnchor =
     (if accountRef = [] \<or> externalID = [] \<or> trustAnchor = [] then
        failE (Errorf ''account ref, external id and trust anchor are all required'')
      else bindE (mapE Wrapf (CreateEnvironmentAWSConfig environmentID accountRef externalID trustAnchor))
             (\<lambda>row. returnE (aws_config_of row)))"

definition GetAWSConfig :: "uuid \<Rightarrow> AWSConfig go" where
  "GetAWSConfig environmentID =
     bindE (mapE (notFound sql_ErrNoRows environment_ErrNotFound) (GetEnvironmentAWSConfig environmentID))
       (\<lambda>row. returnE (aws_config_of row))"

text \<open>\<open>int16(tier)\<close> wraps; the guard makes it the identity.\<close>

definition int16_of :: "int \<Rightarrow> int" where
  "int16_of t = sint (word_of_int t :: 16 word)"

definition aws_tier_role_of :: "aws_tier_role_row \<Rightarrow> AWSTierRole" where
  "aws_tier_role_of r =
     \<lparr>atr_EnvironmentID = ar_EnvironmentID r, atr_Tier = ar_Tier r, atr_RoleARN = ar_RoleArn r\<rparr>"

definition CreateAWSTierRole :: "uuid \<Rightarrow> tier \<Rightarrow> string \<Rightarrow> AWSTierRole go" where
  "CreateAWSTierRole environmentID tier roleARN =
     (if \<not> Tier_Valid tier then failE (Errorf ''invalid tier'')
      else if roleARN = [] then failE (Errorf ''role arn is required'')
      else bindE (mapE Wrapf (CreateEnvironmentAWSTierRole environmentID (int16_of tier) roleARN))
             (\<lambda>row. returnE (aws_tier_role_of row)))"

definition GetAWSTierRole :: "uuid \<Rightarrow> tier \<Rightarrow> AWSTierRole go" where
  "GetAWSTierRole environmentID tier =
     (if \<not> Tier_Valid tier then failE (Errorf ''invalid tier'')
      else bindE (mapE (notFound sql_ErrNoRows environment_ErrNotFound)
                   (GetEnvironmentAWSTierRole environmentID (int16_of tier)))
             (\<lambda>row. returnE (aws_tier_role_of row)))"

lemma int16_of_valid [simp]: "Tier_Valid t \<Longrightarrow> int16_of t = t"
  by (auto simp: int16_of_def Tier_Valid_cases tier_defs)

end
