(* ===== verification/Actors.thy ===== *)
theory Actors
  imports Tenancy Stdlib
begin

text \<open>
  Packages \<open>actor\<close>, \<open>session\<close> and \<open>credential\<close> of \<open>controlplane/internal\<close>: the principals, the
  revocation check behind \<open>identity.Verify\<close>, and the local password login.  \<open>google/uuid\<close>'s text
  forms and \<open>bcrypt\<close> are not under \<open>src/\<close>; they are parameters.
\<close>

section \<open>Actors\<close>

record Actor =
  act_ID :: uuid
  act_TenantID :: uuid
  act_Type :: actor_type
  act_Name :: string
  act_TeamID :: uuid
  act_TrustTier :: tier
  act_AuthorizedBy :: "uuid option"
  act_Status :: string
  act_ExpiresAt :: "time option"
  act_CreatedAt :: time
  act_RevokedAt :: "time option"

record ActorCreateParams =
  acp_TenantID :: uuid
  acp_Type :: actor_type
  acp_Name :: string
  acp_TeamID :: uuid
  acp_TrustTier :: tier
  acp_AuthorizedBy :: "uuid option"
  acp_ExpiresAt :: "time option"
  acp_IdempotencyKey :: "string option"

definition actor_fromRow :: "actor_row \<Rightarrow> Actor" where
  "actor_fromRow r =
     \<lparr>act_ID = ac_ID r, act_TenantID = ac_TenantID r, act_Type = ac_Type r, act_Name = ac_Name r,
      act_TeamID = ac_TeamID r, act_TrustTier = ac_TrustTier r, act_AuthorizedBy = ac_AuthorizedBy r,
      act_Status = ac_Status r, act_ExpiresAt = ac_ExpiresAt r, act_CreatedAt = ac_CreatedAt r,
      act_RevokedAt = ac_RevokedAt r\<rparr>"

definition StatusActive :: string where "StatusActive = ''active''"
definition StatusRevoked :: string where "StatusRevoked = ''revoked''"

text \<open>
  The unique index \<open>(tenant_id, authorized_by, idempotency_key)\<close>: SQL compares no null
  \<open>authorized_by\<close> equal to another.
\<close>

definition actor_key_free :: "ActorCreateParams \<Rightarrow> actor_row list \<Rightarrow> bool" where
  "actor_key_free p rows \<longleftrightarrow>
     acp_IdempotencyKey p = None \<or> acp_AuthorizedBy p = None \<or>
     (\<forall>r \<in> set rows. \<not> (ac_TenantID r = acp_TenantID p \<and> ac_AuthorizedBy r = acp_AuthorizedBy p \<and>
                        ac_IdempotencyKey r = acp_IdempotencyKey p))"

definition CreateActor :: "ActorCreateParams \<Rightarrow> actor_row go" where
  "CreateActor p =
     sql (\<lambda>now u d.
       let r = \<lparr>ac_ID = u, ac_TenantID = acp_TenantID p, ac_Type = acp_Type p, ac_Name = acp_Name p,
                ac_TeamID = acp_TeamID p, ac_TrustTier = int16_of (acp_TrustTier p),
                ac_AuthorizedBy = acp_AuthorizedBy p, ac_Status = StatusActive,
                ac_ExpiresAt = acp_ExpiresAt p, ac_CreatedAt = now, ac_RevokedAt = None,
                ac_IdempotencyKey = acp_IdempotencyKey p\<rparr>
       in insert_row
            [(acp_Type p \<in> {ActorHuman, ActorAgent}, ''23514''),
             (int16_of (acp_TrustTier p) \<ge> 1 \<and> int16_of (acp_TrustTier p) \<le> 3, ''23514''),
             (u \<notin> ac_ID ` set (actors d), ''23505''),
             (actor_key_free p (actors d), ''23505''),
             (acp_TenantID p \<in> tn_ID ` set (tenants d), ''23503''),
             (acp_TeamID p \<in> tm_ID ` set (teams d), ''23503''),
             (acp_AuthorizedBy p = None \<or> acp_AuthorizedBy p \<in> Some ` ac_ID ` set (actors d), ''23503'')]
            r (d\<lparr>actors := actors d @ [r]\<rparr>))"

definition GetActor :: "uuid \<Rightarrow> actor_row go" where
  "GetActor i = query (\<lambda>d. select_one (\<lambda>r. ac_ID r = i) (actors d))"

definition GetRootActor :: "uuid \<Rightarrow> actor_row go" where
  "GetRootActor tenantID =
     query (\<lambda>d. select_one (\<lambda>r. ac_TenantID r = tenantID \<and> ac_AuthorizedBy r = None) (actors d))"

definition GetActorByIdempotencyKey :: "uuid \<Rightarrow> uuid \<Rightarrow> string \<Rightarrow> actor_row go" where
  "GetActorByIdempotencyKey tenantID authorizedBy key =
     query (\<lambda>d. select_one (\<lambda>r. ac_TenantID r = tenantID \<and> ac_AuthorizedBy r = Some authorizedBy \<and>
                               ac_IdempotencyKey r = Some key) (actors d))"

definition GrantActorEnvironment :: "uuid \<Rightarrow> uuid \<Rightarrow> unit go" where
  "GrantActorEnvironment actorID environmentID =
     sql (\<lambda>now u d.
       case violated
              [((\<lparr>ae_ActorID = actorID, ae_EnvironmentID = environmentID\<rparr>) \<notin> set (actor_environments d), ''23505''),
               (actorID \<in> ac_ID ` set (actors d), ''23503''),
               (environmentID \<in> en_ID ` set (environments d), ''23503'')] of
         Some c \<Rightarrow> Inl (PgError c)
       | None \<Rightarrow> Inr ((), d\<lparr>actor_environments := actor_environments d @
                           [\<lparr>ae_ActorID = actorID, ae_EnvironmentID = environmentID\<rparr>]\<rparr>))"

definition ListActorEnvironments :: "uuid \<Rightarrow> uuid list go" where
  "ListActorEnvironments actorID =
     query (\<lambda>d. Inr (map ae_EnvironmentID (filter (\<lambda>r. ae_ActorID r = actorID) (actor_environments d))))"

definition actor_Create :: "ActorCreateParams \<Rightarrow> Actor go" where
  "actor_Create p =
     (if acp_TenantID p = uuid_Nil then failE (Errorf ''tenant id is required'')
      else if acp_TeamID p = uuid_Nil then failE (Errorf ''team id is required'')
      else if acp_Name p = [] then failE (Errorf ''name is required'')
      else if \<not> Tier_Valid (acp_TrustTier p) then failE (Errorf ''invalid trust tier'')
      else bindE (mapE Wrapf (CreateActor p)) (\<lambda>row. returnE (actor_fromRow row)))"

definition actor_Get :: "uuid \<Rightarrow> Actor go" where
  "actor_Get i =
     bindE (mapE (notFound sql_ErrNoRows actor_ErrNotFound) (GetActor i))
       (\<lambda>row. returnE (actor_fromRow row))"

definition GetByIdempotencyKey :: "uuid \<Rightarrow> uuid \<Rightarrow> string \<Rightarrow> Actor go" where
  "GetByIdempotencyKey tenantID authorizedBy key =
     bindE (mapE (notFound sql_ErrNoRows actor_ErrNotFound) (GetActorByIdempotencyKey tenantID authorizedBy key))
       (\<lambda>row. returnE (actor_fromRow row))"

definition GetRoot :: "uuid \<Rightarrow> Actor go" where
  "GetRoot tenantID =
     bindE (mapE (notFound sql_ErrNoRows actor_ErrNotFound) (GetRootActor tenantID))
       (\<lambda>row. returnE (actor_fromRow row))"

definition GrantEnvironment :: "uuid \<Rightarrow> uuid \<Rightarrow> unit go" where
  "GrantEnvironment actorID environmentID = mapE Wrapf (GrantActorEnvironment actorID environmentID)"

definition actor_ListEnvironments :: "uuid \<Rightarrow> uuid list go" where
  "actor_ListEnvironments actorID = mapE Wrapf (ListActorEnvironments actorID)"

section \<open>Sessions\<close>

text \<open>The text forms of an identifier: \<open>uuid.Parse\<close> and \<open>String\<close>.\<close>

record uuid_lib =
  uuid_Parse :: "string \<Rightarrow> uuid res"
  uuid_String :: "uuid \<Rightarrow> string"

definition RevokeSession :: "uuid \<Rightarrow> uuid \<Rightarrow> time \<Rightarrow> revoked_session_row go" where
  "RevokeSession jti actorID expiresAt =
     sql (\<lambda>now u d.
       let r = \<lparr>rs_Jti = jti, rs_ActorID = actorID, rs_RevokedAt = now, rs_ExpiresAt = expiresAt\<rparr>
       in insert_row
            [(jti \<notin> rs_Jti ` set (revoked_sessions d), ''23505''),
             (actorID \<in> ac_ID ` set (actors d), ''23503'')]
            r (d\<lparr>revoked_sessions := revoked_sessions d @ [r]\<rparr>))"

definition is_revoked :: "uuid \<Rightarrow> uuid \<Rightarrow> db \<Rightarrow> bool" where
  "is_revoked actorID jti d \<longleftrightarrow>
     (\<exists>a \<in> set (actors d). ac_ID a = actorID \<and> ac_Status a = StatusRevoked) \<or>
     jti \<in> rs_Jti ` set (revoked_sessions d)"

definition IsRevoked_query :: "uuid \<Rightarrow> uuid \<Rightarrow> bool go" where
  "IsRevoked_query actorID jti = query (\<lambda>d. Inr (is_revoked actorID jti d))"

definition DeleteExpiredSessions :: "nat go" where
  "DeleteExpiredSessions =
     sql (\<lambda>now u d.
       let keep = filter (\<lambda>r. \<not> rs_ExpiresAt r < now) (revoked_sessions d)
       in Inr (length (revoked_sessions d) - length keep, d\<lparr>revoked_sessions := keep\<rparr>))"

definition session_Revoke :: "uuid \<Rightarrow> uuid \<Rightarrow> time \<Rightarrow> revoked_session_row go" where
  "session_Revoke actorID jti expiresAt =
     (if actorID = uuid_Nil then failE (Errorf ''actor id is required'')
      else if jti = uuid_Nil then failE (Errorf ''jti is required'')
      else bindE (mapE Wrapf (RevokeSession jti actorID expiresAt)) (\<lambda>row. returnE row))"

definition session_IsRevoked :: "uuid_lib \<Rightarrow> string \<Rightarrow> string \<Rightarrow> bool go" where
  "session_IsRevoked U actorID jti =
     (case uuid_Parse U actorID of
        Inl e \<Rightarrow> failE (Wrapf e)
      | Inr aid \<Rightarrow>
          (case uuid_Parse U jti of
             Inl e \<Rightarrow> failE (Wrapf e)
           | Inr j \<Rightarrow> mapE Wrapf (IsRevoked_query aid j)))"

definition DeleteExpired :: "nat go" where
  "DeleteExpired = mapE Wrapf DeleteExpiredSessions"

section \<open>Local logins\<close>

record LocalUser =
  lcu_ActorID :: uuid
  lcu_Username :: string
  lcu_CreatedAt :: time

text \<open>\<open>GenerateFromPassword\<close> draws a salt (from the action counter here); \<open>CompareHashAndPassword\<close> is nil on a match.\<close>

record bcrypt_lib =
  bcrypt_Generate :: "nat \<Rightarrow> string \<Rightarrow> string res"
  bcrypt_Compare :: "string \<Rightarrow> string \<Rightarrow> bool"

definition bcrypt_act :: "bcrypt_lib \<Rightarrow> string \<Rightarrow> string go" where
  "bcrypt_act B pw = act (\<lambda>w. (bcrypt_Generate B (tick w) pw, w\<lparr>tick := Suc (tick w)\<rparr>))"

definition CreateLocalUser :: "uuid \<Rightarrow> string \<Rightarrow> string \<Rightarrow> local_user_row go" where
  "CreateLocalUser actorID username hash =
     sql (\<lambda>now u d.
       let r = \<lparr>lu_ActorID = actorID, lu_Username = username, lu_PasswordHash = hash, lu_CreatedAt = now\<rparr>
       in insert_row
            [(actorID \<notin> lu_ActorID ` set (local_users d), ''23505''),
             (username \<notin> lu_Username ` set (local_users d), ''23505''),
             (actorID \<in> ac_ID ` set (actors d), ''23503'')]
            r (d\<lparr>local_users := local_users d @ [r]\<rparr>))"

definition GetLocalUserByUsername :: "string \<Rightarrow> local_user_row go" where
  "GetLocalUserByUsername username =
     query (\<lambda>d. select_one (\<lambda>r. lu_Username r = username) (local_users d))"

definition credential_Create :: "bcrypt_lib \<Rightarrow> uuid \<Rightarrow> string \<Rightarrow> string \<Rightarrow> LocalUser go" where
  "credential_Create B actorID username password =
     (if actorID = uuid_Nil then failE (Errorf ''actor id is required'')
      else if username = [] then failE (Errorf ''username is required'')
      else if password = [] then failE (Errorf ''password is required'')
      else bindE (mapE Wrapf (bcrypt_act B password)) (\<lambda>hash.
           bindE (mapE Wrapf (CreateLocalUser actorID username hash)) (\<lambda>row.
           returnE \<lparr>lcu_ActorID = lu_ActorID row, lcu_Username = lu_Username row,
                    lcu_CreatedAt = lu_CreatedAt row\<rparr>)))"

definition credential_Verify :: "bcrypt_lib \<Rightarrow> string \<Rightarrow> string \<Rightarrow> uuid go" where
  "credential_Verify B username password =
     bindE (mapE (notFound sql_ErrNoRows credential_ErrNotFound) (GetLocalUserByUsername username)) (\<lambda>row.
       if \<not> bcrypt_Compare B (lu_PasswordHash row) password
       then failE (Sentinel credential_ErrIncorrectPassword)
       else returnE (lu_ActorID row))"

end
