(* ===== verification/Workers.thy ===== *)
theory Workers
  imports Schema Stdlib CI
begin

text \<open>
  Package \<open>controlplane/internal/workercred\<close>: the bearer credentials of workers, of which only the
  SHA-256 of the token is stored, and the environments each may serve.
\<close>

section \<open>Credentials\<close>

definition tokenBytes :: nat where "tokenBytes = 32"

record Credential =
  crd_ID :: uuid
  crd_TenantID :: uuid
  crd_Name :: string
  crd_Environments :: "uuid list"
  crd_CreatedAt :: time
  crd_RevokedAt :: "time option"

definition workercred_fromRow :: "worker_credential_row \<Rightarrow> uuid list \<Rightarrow> Credential" where
  "workercred_fromRow r envs =
     \<lparr>crd_ID = wc_ID r, crd_TenantID = wc_TenantID r, crd_Name = wc_Name r, crd_Environments = envs,
      crd_CreatedAt = wc_CreatedAt r, crd_RevokedAt = wc_RevokedAt r\<rparr>"

fun permits_uuid :: "uuid \<Rightarrow> uuid list \<Rightarrow> bool" where
  "permits_uuid e [] = False"
| "permits_uuid e (i # is) = (if i = e then True else permits_uuid e is)"

definition Credential_PermitsEnvironment :: "Credential \<Rightarrow> uuid \<Rightarrow> bool" where
  "Credential_PermitsEnvironment c environmentID = permits_uuid environmentID (crd_Environments c)"

lemma permits_uuid_iff: "permits_uuid e es \<longleftrightarrow> e \<in> set es"
  by (induction es) auto

definition hashToken :: "string \<Rightarrow> string" where
  "hashToken token = hex_EncodeToString (sha256_Sum256 (bytes_of token))"

definition generateToken :: "string go" where
  "generateToken = bindE (mapE Wrapf (rand_Read tokenBytes)) (\<lambda>b. returnE (RawURLEncoding b))"

section \<open>Queries\<close>

definition CreateWorkerCredential :: "uuid \<Rightarrow> string \<Rightarrow> string \<Rightarrow> worker_credential_row go" where
  "CreateWorkerCredential tenantID name hash =
     sql (\<lambda>now u d.
       let r = \<lparr>wc_ID = u, wc_TenantID = tenantID, wc_Name = name, wc_TokenHash = hash,
                wc_CreatedAt = now, wc_RevokedAt = None, wc_CiCallbackUrl = None\<rparr>
       in insert_row
            [(u \<notin> wc_ID ` set (worker_credentials d), ''23505''),
             (hash \<notin> wc_TokenHash ` set (worker_credentials d), ''23505''),
             (\<forall>x \<in> set (worker_credentials d). \<not> (wc_TenantID x = tenantID \<and> wc_Name x = name), ''23505''),
             (tenantID \<in> tn_ID ` set (tenants d), ''23503'')]
            r (d\<lparr>worker_credentials := worker_credentials d @ [r]\<rparr>))"

definition GetWorkerCredentialByTokenHash :: "string \<Rightarrow> worker_credential_row go" where
  "GetWorkerCredentialByTokenHash hash =
     query (\<lambda>d. select_one (\<lambda>r. wc_TokenHash r = hash \<and> wc_RevokedAt r = None) (worker_credentials d))"

definition GetWorkerCredential :: "uuid \<Rightarrow> worker_credential_row go" where
  "GetWorkerCredential i = query (\<lambda>d. select_one (\<lambda>r. wc_ID r = i) (worker_credentials d))"

definition ListWorkerCredentials :: "uuid \<Rightarrow> worker_credential_row list go" where
  "ListWorkerCredentials tenantID =
     query (\<lambda>d. Inr (sort_key wc_Name (filter (\<lambda>r. wc_TenantID r = tenantID) (worker_credentials d))))"

definition GetWorkerCredentialByTenantAndName :: "uuid \<Rightarrow> string \<Rightarrow> worker_credential_row go" where
  "GetWorkerCredentialByTenantAndName tenantID name =
     query (\<lambda>d. select_one (\<lambda>r. wc_TenantID r = tenantID \<and> wc_Name r = name \<and> wc_RevokedAt r = None)
                  (worker_credentials d))"

definition RotateWorkerCredentialToken :: "uuid \<Rightarrow> string \<Rightarrow> worker_credential_row go" where
  "RotateWorkerCredentialToken i hash =
     sql (\<lambda>now u d.
       case update_one (\<lambda>r. wc_ID r = i) (\<lambda>r. r\<lparr>wc_TokenHash := hash\<rparr>) (worker_credentials d) of
         Inl e \<Rightarrow> Inl e
       | Inr (r, rows) \<Rightarrow>
           insert_row
             [(\<forall>x \<in> set (worker_credentials d). wc_TokenHash x = hash \<longrightarrow> wc_ID x = i, ''23505'')]
             r (d\<lparr>worker_credentials := rows\<rparr>))"

definition GrantWorkerCredentialEnvironment :: "uuid \<Rightarrow> uuid \<Rightarrow> unit go" where
  "GrantWorkerCredentialEnvironment credentialID environmentID =
     sql (\<lambda>now u d.
       let r = \<lparr>we_WorkerCredentialID = credentialID, we_EnvironmentID = environmentID\<rparr> in
       if r \<in> set (worker_credential_environments d) then Inr ((), d)
       else (case violated
                    [(credentialID \<in> wc_ID ` set (worker_credentials d), ''23503''),
                     (environmentID \<in> en_ID ` set (environments d), ''23503'')] of
               Some c \<Rightarrow> Inl (PgError c)
             | None \<Rightarrow> Inr ((), d\<lparr>worker_credential_environments := worker_credential_environments d @ [r]\<rparr>)))"

definition ListWorkerCredentialEnvironments :: "uuid \<Rightarrow> uuid list go" where
  "ListWorkerCredentialEnvironments credentialID =
     query (\<lambda>d. Inr (map we_EnvironmentID
       (filter (\<lambda>r. we_WorkerCredentialID r = credentialID) (worker_credential_environments d))))"

definition SetWorkerCICallbackURL :: "uuid \<Rightarrow> string option \<Rightarrow> worker_credential_row go" where
  "SetWorkerCICallbackURL i url =
     sql (\<lambda>now u d.
       case update_one (\<lambda>r. wc_ID r = i) (\<lambda>r. r\<lparr>wc_CiCallbackUrl := url\<rparr>) (worker_credentials d) of
         Inl e \<Rightarrow> Inl e
       | Inr (r, rows) \<Rightarrow> Inr (r, d\<lparr>worker_credentials := rows\<rparr>))"

definition serves_repo :: "db \<Rightarrow> string \<Rightarrow> string \<Rightarrow> worker_credential_row \<Rightarrow> bool" where
  "serves_repo d prov repo wc \<longleftrightarrow>
     wc_CiCallbackUrl wc \<noteq> None \<and> wc_RevokedAt wc = None \<and>
     (\<exists>g \<in> set (worker_credential_environments d). we_WorkerCredentialID g = wc_ID wc \<and>
        (\<exists>p \<in> set (pipelines d). pl_EnvironmentID p = we_EnvironmentID g \<and> pl_Provider p = prov \<and>
           map_of (pl_Settings p) ''repo'' = Some repo))"

definition GetCICallbackURLForRepo :: "string \<Rightarrow> string \<Rightarrow> string option go" where
  "GetCICallbackURLForRepo prov repo =
     query (\<lambda>d. case sort_key (\<lambda>r. - wc_CreatedAt r) (filter (serves_repo d prov repo) (worker_credentials d)) of
                 [] \<Rightarrow> Inl (Sentinel sql_ErrNoRows)
               | r # _ \<Rightarrow> Inr (wc_CiCallbackUrl r))"

section \<open>The store\<close>

fun workercred_Grant :: "uuid \<Rightarrow> uuid list \<Rightarrow> unit go" where
  "workercred_Grant credentialID [] = returnE ()"
| "workercred_Grant credentialID (e # es) =
     bindE (mapE Wrapf (GrantWorkerCredentialEnvironment credentialID e))
       (\<lambda>_. workercred_Grant credentialID es)"

definition mint :: "uuid \<Rightarrow> string \<Rightarrow> uuid list \<Rightarrow> (Credential \<times> string) go" where
  "mint tenantID name environmentIDs =
     (if tenantID = uuid_Nil then failE (Errorf ''tenant id is required'')
      else if name = [] then failE (Errorf ''name is required'')
      else bindE (mapE Wrapf generateToken) (\<lambda>token.
           bindE (mapE Wrapf (CreateWorkerCredential tenantID name (hashToken token))) (\<lambda>row.
           bindE (workercred_Grant (wc_ID row) environmentIDs) (\<lambda>_.
           returnE (workercred_fromRow row environmentIDs, token)))))"

definition workercred_Create :: "uuid \<Rightarrow> string \<Rightarrow> uuid list \<Rightarrow> (Credential \<times> string) go" where
  "workercred_Create tenantID name environmentIDs =
     (if environmentIDs = [] then failE (Errorf ''at least one environment is required'')
      else mint tenantID name environmentIDs)"

definition Bootstrap :: "uuid \<Rightarrow> string \<Rightarrow> (Credential \<times> string) go" where
  "Bootstrap tenantID name =
     (if tenantID = uuid_Nil then failE (Errorf ''tenant id is required'')
      else if name = [] then failE (Errorf ''name is required'')
      else bindP (GetWorkerCredentialByTenantAndName tenantID name) (\<lambda>existing.
        case existing of
          Inl e \<Rightarrow> if errors_Is e sql_ErrNoRows then mint tenantID name [] else failE (Wrapf e)
        | Inr ex \<Rightarrow>
            bindE (mapE Wrapf generateToken) (\<lambda>token.
            bindE (mapE Wrapf (RotateWorkerCredentialToken (wc_ID ex) (hashToken token))) (\<lambda>row.
            bindE (mapE Wrapf (ListWorkerCredentialEnvironments (wc_ID row))) (\<lambda>envIDs.
            returnE (workercred_fromRow row envIDs, token))))))"

fun list_credentials :: "worker_credential_row list \<Rightarrow> Credential list go" where
  "list_credentials [] = returnE []"
| "list_credentials (r # rs) =
     bindE (mapE Wrapf (ListWorkerCredentialEnvironments (wc_ID r))) (\<lambda>envIDs.
     bindE (list_credentials rs) (\<lambda>creds. returnE (workercred_fromRow r envIDs # creds)))"

definition workercred_List :: "uuid \<Rightarrow> Credential list go" where
  "workercred_List tenantID = bindE (mapE Wrapf (ListWorkerCredentials tenantID)) list_credentials"

definition workercred_Get :: "uuid \<Rightarrow> Credential go" where
  "workercred_Get i =
     bindE (mapE (notFound sql_ErrNoRows workercred_ErrNotFound) (GetWorkerCredential i)) (\<lambda>row.
     bindE (mapE Wrapf (ListWorkerCredentialEnvironments (wc_ID row))) (\<lambda>envIDs.
     returnE (workercred_fromRow row envIDs)))"

definition workercred_Verify :: "string \<Rightarrow> Credential go" where
  "workercred_Verify token =
     bindE (mapE (notFound sql_ErrNoRows workercred_ErrNotFound)
              (GetWorkerCredentialByTokenHash (hashToken token))) (\<lambda>row.
     bindE (mapE Wrapf (ListWorkerCredentialEnvironments (wc_ID row))) (\<lambda>envIDs.
     returnE (workercred_fromRow row envIDs)))"

definition SetCICallbackURL :: "uuid \<Rightarrow> string \<Rightarrow> unit go" where
  "SetCICallbackURL credentialID url =
     bindE (mapE Wrapf (SetWorkerCICallbackURL credentialID (if url = [] then None else Some url)))
       (\<lambda>_. returnE ())"

definition CICallbackURLForRepo :: "string \<Rightarrow> string \<Rightarrow> string go" where
  "CICallbackURLForRepo prov repo =
     bindE (mapE (notFound sql_ErrNoRows workercred_ErrNoCallbackURL) (GetCICallbackURLForRepo prov repo))
       (\<lambda>url. returnE (case url of None \<Rightarrow> [] | Some s \<Rightarrow> s))"

end
