(* ===== verification/Verifications.thy ===== *)
theory Verifications
  imports ClaimQueue
begin

text \<open>
  Package \<open>controlplane/internal/verification\<close>: the queue of connectivity checks.  \<open>tier_results\<close> is a
  JSON column; the model stores the map it encodes, so that writing and reading it is the identity.
\<close>

record Verification =
  v_ID :: uuid
  v_TenantID :: uuid
  v_EnvironmentID :: uuid
  v_Status :: string
  v_RequestedBy :: uuid
  v_ClaimedBy :: "uuid option"
  v_TierResults :: "(string \<times> TierResult) list"
  v_RequestedAt :: time
  v_ClaimedAt :: "time option"
  v_CompletedAt :: "time option"

definition StatusPending :: string where "StatusPending = ''pending''"
definition Status_Succeeded :: string where "Status_Succeeded = ''succeeded''"
definition Status_Failed :: string where "Status_Failed = ''failed''"

definition verification_fromRow :: "verification_row \<Rightarrow> Verification" where
  "verification_fromRow r =
     \<lparr>v_ID = ve_ID r, v_TenantID = ve_TenantID r, v_EnvironmentID = ve_EnvironmentID r,
      v_Status = ve_Status r, v_RequestedBy = ve_RequestedBy r, v_ClaimedBy = ve_ClaimedBy r,
      v_TierResults = ve_TierResults r, v_RequestedAt = ve_RequestedAt r,
      v_ClaimedAt = ve_ClaimedAt r, v_CompletedAt = ve_CompletedAt r\<rparr>"

definition CreateVerification :: "uuid \<Rightarrow> uuid \<Rightarrow> uuid \<Rightarrow> verification_row go" where
  "CreateVerification tenantID environmentID requestedBy =
     sql (\<lambda>now u d.
       let r = \<lparr>ve_ID = u, ve_TenantID = tenantID, ve_EnvironmentID = environmentID,
                ve_Status = StatusPending, ve_RequestedBy = requestedBy, ve_ClaimedBy = None,
                ve_TierResults = [], ve_RequestedAt = now, ve_ClaimedAt = None, ve_CompletedAt = None\<rparr>
       in insert_row
            [(u \<notin> ve_ID ` set (verifications d), ''23505''),
             (tenantID \<in> tn_ID ` set (tenants d), ''23503''),
             (environmentID \<in> en_ID ` set (environments d), ''23503''),
             (requestedBy \<in> ac_ID ` set (actors d), ''23503'')]
            r (d\<lparr>verifications := verifications d @ [r]\<rparr>))"

definition GetVerification :: "uuid \<Rightarrow> verification_row go" where
  "GetVerification i = query (\<lambda>d. select_one (\<lambda>r. ve_ID r = i) (verifications d))"

definition claimable_verification :: "uuid list \<Rightarrow> verification_row \<Rightarrow> bool" where
  "claimable_verification envs r \<longleftrightarrow>
     ve_Status r = StatusPending \<and> ve_ClaimedBy r = None \<and> ve_EnvironmentID r \<in> set envs"

definition mark_verification :: "uuid \<Rightarrow> time \<Rightarrow> verification_row \<Rightarrow> verification_row" where
  "mark_verification by_cred now r = r\<lparr>ve_ClaimedBy := Some by_cred, ve_ClaimedAt := Some now\<rparr>"

interpretation verification_queue:
  claim_table "claimable_verification envs" ve_RequestedAt ve_ID "mark_verification c now"
  by unfold_locales (simp_all add: claimable_verification_def mark_verification_def)

definition ClaimNextPendingVerification :: "uuid \<Rightarrow> uuid list \<Rightarrow> verification_row go" where
  "ClaimNextPendingVerification by_cred envs =
     sql (\<lambda>now u d.
       case claim_next (claimable_verification envs) ve_RequestedAt ve_ID (mark_verification by_cred now)
              (verifications d) of
         Inl e \<Rightarrow> Inl e
       | Inr (r, rows) \<Rightarrow>
           (case violated [(by_cred \<in> wc_ID ` set (worker_credentials d), ''23503'')] of
              Some c \<Rightarrow> Inl (PgError c)
            | None \<Rightarrow> Inr (r, d\<lparr>verifications := rows\<rparr>)))"

definition CompleteVerification :: "uuid \<Rightarrow> string \<Rightarrow> (string \<times> TierResult) list \<Rightarrow> uuid \<Rightarrow> verification_row go" where
  "CompleteVerification i status results by_cred =
     sql (\<lambda>now u d.
       case update_one (\<lambda>r. ve_ID r = i \<and> ve_ClaimedBy r = Some by_cred)
              (\<lambda>r. r\<lparr>ve_Status := status, ve_TierResults := results, ve_CompletedAt := Some now\<rparr>)
              (verifications d) of
         Inl e \<Rightarrow> Inl e
       | Inr (r, rows) \<Rightarrow>
           insert_row [(status \<in> {StatusPending, Status_Succeeded, Status_Failed}, ''23514'')]
             r (d\<lparr>verifications := rows\<rparr>))"

section \<open>The store\<close>

definition verification_Create :: "uuid \<Rightarrow> uuid \<Rightarrow> uuid \<Rightarrow> Verification go" where
  "verification_Create tenantID environmentID requestedBy =
     (if tenantID = uuid_Nil \<or> environmentID = uuid_Nil \<or> requestedBy = uuid_Nil then
        failE (Errorf ''tenant id, environment id and requested by are all required'')
      else bindE (mapE Wrapf (CreateVerification tenantID environmentID requestedBy))
             (\<lambda>row. returnE (verification_fromRow row)))"

definition verification_Get :: "uuid \<Rightarrow> Verification go" where
  "verification_Get i =
     bindE (mapE (notFound sql_ErrNoRows verification_ErrNotFound) (GetVerification i))
       (\<lambda>row. returnE (verification_fromRow row))"

definition verification_Claim :: "uuid \<Rightarrow> uuid list \<Rightarrow> Verification go" where
  "verification_Claim workerCredentialID environmentIDs =
     (if workerCredentialID = uuid_Nil then failE (Errorf ''worker credential id is required'')
      else if environmentIDs = [] then failE (Sentinel verification_ErrNotFound)
      else bindE (mapE (notFound sql_ErrNoRows verification_ErrNotFound)
                   (ClaimNextPendingVerification workerCredentialID environmentIDs))
             (\<lambda>row. returnE (verification_fromRow row)))"

text \<open>The loop over the results, with its early exit.\<close>

fun all_ok :: "(string \<times> TierResult) list \<Rightarrow> bool" where
  "all_ok [] = True"
| "all_ok ((k, r) # rs) = (if \<not> tr_OK r then False else all_ok rs)"

definition complete_status :: "(string \<times> TierResult) list \<Rightarrow> string" where
  "complete_status tierResults =
     (if all_ok tierResults \<and> length tierResults > 0 then Status_Succeeded else Status_Failed)"

definition Complete :: "uuid \<Rightarrow> uuid \<Rightarrow> (string \<times> TierResult) list \<Rightarrow> Verification go" where
  "Complete i workerCredentialID tierResults =
     bindE (mapE (notFound sql_ErrNoRows verification_ErrNotFound)
              (CompleteVerification i (complete_status tierResults) tierResults workerCredentialID))
       (\<lambda>row. returnE (verification_fromRow row))"

lemma all_ok_iff: "all_ok rs \<longleftrightarrow> (\<forall>x \<in> set rs. tr_OK (snd x))"
  by (induction rs rule: all_ok.induct) auto

end
