(* ===== verification/AuditLog.thy ===== *)
theory AuditLog
  imports Schema Identity
begin

text \<open>Package \<open>controlplane/internal/audit\<close>: the append-only record of who did what.\<close>

text \<open>An \<open>Event\<close> has the columns of its row; metadata is raw JSON text.\<close>

record AuditParams =
  aup_TenantID :: uuid
  aup_ActorID :: uuid
  aup_Action :: string
  aup_RunID :: "uuid option"
  aup_Tier :: "tier option"
  aup_EnvironmentID :: "uuid option"
  aup_TTLSeconds :: "int option"
  aup_Metadata :: "string option"

record Event =
  ev_ID :: uuid
  ev_TenantID :: uuid
  ev_OccurredAt :: time
  ev_ActorID :: uuid
  ev_Action :: string
  ev_RunID :: "uuid option"
  ev_Tier :: "tier option"
  ev_EnvironmentID :: "uuid option"
  ev_TTLSeconds :: "int option"
  ev_Metadata :: string

definition emptyMetadata :: string where "emptyMetadata = ''{}''"

definition audit_fromRow :: "audit_event_row \<Rightarrow> Event" where
  "audit_fromRow r =
     \<lparr>ev_ID = au_ID r, ev_TenantID = au_TenantID r, ev_OccurredAt = au_OccurredAt r,
      ev_ActorID = au_ActorID r, ev_Action = au_Action r, ev_RunID = au_RunID r, ev_Tier = au_Tier r,
      ev_EnvironmentID = au_EnvironmentID r, ev_TTLSeconds = au_TtlSeconds r, ev_Metadata = au_Metadata r\<rparr>"

text \<open>\<open>int16(*t)\<close> wraps; \<open>Create\<close> has validated the tier.\<close>

definition nullTier :: "tier option \<Rightarrow> int option" where
  "nullTier t = map_option (\<lambda>t. sint (word_of_int t :: 16 word)) t"

definition new_event :: "time \<Rightarrow> uuid \<Rightarrow> AuditParams \<Rightarrow> string \<Rightarrow> audit_event_row" where
  "new_event now u p metadata =
     \<lparr>au_ID = u, au_TenantID = aup_TenantID p, au_OccurredAt = now, au_ActorID = aup_ActorID p,
      au_Action = aup_Action p, au_RunID = aup_RunID p, au_Tier = nullTier (aup_Tier p),
      au_EnvironmentID = aup_EnvironmentID p, au_TtlSeconds = aup_TTLSeconds p, au_Metadata = metadata\<rparr>"

definition CreateAuditEvent :: "AuditParams \<Rightarrow> string \<Rightarrow> audit_event_row go" where
  "CreateAuditEvent p metadata =
     sql (\<lambda>now u d.
       insert_row
         [(case nullTier (aup_Tier p) of None \<Rightarrow> True | Some t \<Rightarrow> t \<ge> 1 \<and> t \<le> 3, ''23514''),
          (u \<notin> au_ID ` set (audit_events d), ''23505''),
          (aup_TenantID p \<in> tn_ID ` set (tenants d), ''23503''),
          (aup_ActorID p \<in> ac_ID ` set (actors d), ''23503''),
          (aup_EnvironmentID p = None \<or> aup_EnvironmentID p \<in> Some ` en_ID ` set (environments d), ''23503''),
          (aup_RunID p = None \<or> aup_RunID p \<in> Some ` rn_ID ` set (runs d), ''23503'')]
         (new_event now u p metadata) (d\<lparr>audit_events := audit_events d @ [new_event now u p metadata]\<rparr>))"

definition GetAuditEvent :: "uuid \<Rightarrow> audit_event_row go" where
  "GetAuditEvent i = query (\<lambda>d. select_one (\<lambda>r. au_ID r = i) (audit_events d))"

definition audit_Create :: "AuditParams \<Rightarrow> Event go" where
  "audit_Create p =
     (if aup_TenantID p = uuid_Nil then failE (Errorf ''tenant id is required'')
      else if aup_ActorID p = uuid_Nil then failE (Errorf ''actor id is required'')
      else if aup_Action p = [] then failE (Errorf ''action is required'')
      else if (case aup_Tier p of None \<Rightarrow> False | Some t \<Rightarrow> \<not> Tier_Valid t) then failE (Errorf ''invalid tier'')
      else bindE (mapE Wrapf (CreateAuditEvent p
                    (case aup_Metadata p of None \<Rightarrow> emptyMetadata | Some m \<Rightarrow> m)))
             (\<lambda>row. returnE (audit_fromRow row)))"

definition audit_Get :: "uuid \<Rightarrow> Event go" where
  "audit_Get i =
     bindE (mapE (notFound sql_ErrNoRows audit_ErrNotFound) (GetAuditEvent i))
       (\<lambda>row. returnE (audit_fromRow row))"

end
