(* ===== verification/Cost.thy ===== *)
theory Cost
  imports Schema "HOL-Library.Signed_Division"
begin

text \<open>
  Package \<open>controlplane/internal/cost\<close>: the cost of a run from its CI duration and an
  operator-declared rate.  Durations and amounts are \<open>int64\<close>.
\<close>

definition SourceCIDuration :: string where "SourceCIDuration = ''ci_duration''"
definition SourceAgentReported :: string where "SourceAgentReported = ''agent_reported''"

record RunCost =
  rcs_ID :: uuid
  rcs_RunID :: uuid
  rcs_Source :: string
  rcs_DurationMS :: "int64 option"
  rcs_AmountMicros :: "int64 option"
  rcs_Currency :: string
  rcs_CapturedAt :: time

definition fromRunCostRow :: "run_cost_row \<Rightarrow> RunCost" where
  "fromRunCostRow r =
     \<lparr>rcs_ID = rc_ID r, rcs_RunID = rc_RunID r, rcs_Source = rc_Source r,
      rcs_DurationMS = rc_DurationMs r, rcs_AmountMicros = rc_AmountMicros r,
      rcs_Currency = rc_Currency r, rcs_CapturedAt = rc_CapturedAt r\<rparr>"

text \<open>\<open>finishedAt.Sub(startedAt)\<close> saturates at the ends of \<open>int64\<close>; \<open>Milliseconds\<close> truncates toward zero.\<close>

definition time_Sub :: "time \<Rightarrow> time \<Rightarrow> int" where
  "time_Sub t u = max (- (2 ^ 63)) (min (2 ^ 63 - 1) (t - u))"

definition Milliseconds :: "int \<Rightarrow> int" where
  "Milliseconds ns = ns sdiv 1000000"

section \<open>Queries\<close>

definition CreateRunCost :: "uuid \<Rightarrow> string \<Rightarrow> int64 option \<Rightarrow> int64 option \<Rightarrow> string \<Rightarrow> run_cost_row go" where
  "CreateRunCost runID source duration amount currency =
     sql (\<lambda>now u d.
       let r = \<lparr>rc_ID = u, rc_RunID = runID, rc_Source = source, rc_DurationMs = duration,
                rc_AmountMicros = amount, rc_Currency = currency, rc_CapturedAt = now\<rparr> in
       if source = SourceCIDuration \<and>
          (\<exists>x \<in> set (run_costs d). rc_RunID x = runID \<and> rc_Source x = SourceCIDuration)
       then Inl (Sentinel sql_ErrNoRows)
       else insert_row
              [(source \<in> {SourceCIDuration, SourceAgentReported}, ''23514''),
               (u \<notin> rc_ID ` set (run_costs d), ''23505''),
               (runID \<in> rn_ID ` set (runs d), ''23503'')]
              r (d\<lparr>run_costs := run_costs d @ [r]\<rparr>))"

definition GetRunCostByRunAndSource :: "uuid \<Rightarrow> string \<Rightarrow> run_cost_row go" where
  "GetRunCostByRunAndSource runID source =
     query (\<lambda>d. select_one (\<lambda>r. rc_RunID r = runID \<and> rc_Source r = source) (run_costs d))"

definition GetCostsForRun :: "uuid \<Rightarrow> run_cost_row list go" where
  "GetCostsForRun runID =
     query (\<lambda>d. Inr (sort_key rc_CapturedAt (filter (\<lambda>r. rc_RunID r = runID) (run_costs d))))"

text \<open>
  The rate lookup: rows whose scope covers the run, the environment-specific before the
  provider-specific before the tenant's default (\<open>ORDER BY ... DESC\<close>).  A null never equals a
  null: without a provider only the rows without one match.
\<close>

definition rate_matches :: "uuid \<Rightarrow> uuid \<Rightarrow> string option \<Rightarrow> cost_rate_row \<Rightarrow> bool" where
  "rate_matches tenantID environmentID prov r \<longleftrightarrow>
     cr_TenantID r = tenantID \<and>
     (cr_EnvironmentID r = Some environmentID \<or> cr_EnvironmentID r = None) \<and>
     ((prov \<noteq> None \<and> cr_CiProvider r = prov) \<or> cr_CiProvider r = None)"

definition rate_rank :: "cost_rate_row \<Rightarrow> nat" where
  "rate_rank r = (if cr_EnvironmentID r \<noteq> None then 0 else 2) + (if cr_CiProvider r \<noteq> None then 0 else 1)"

definition FindCostRate :: "uuid \<Rightarrow> uuid \<Rightarrow> string option \<Rightarrow> cost_rate_row go" where
  "FindCostRate tenantID environmentID prov =
     query (\<lambda>d. case sort_key rate_rank (filter (rate_matches tenantID environmentID prov) (cost_rates d)) of
                 [] \<Rightarrow> Inl (Sentinel sql_ErrNoRows)
               | r # _ \<Rightarrow> Inr r)"

text \<open>The unique index of a scope coalesces nulls with the nil identifier and the empty string.\<close>

definition same_scope :: "uuid \<Rightarrow> uuid option \<Rightarrow> string option \<Rightarrow> cost_rate_row \<Rightarrow> bool" where
  "same_scope tenantID environmentID prov r \<longleftrightarrow>
     cr_TenantID r = tenantID \<and>
     (case cr_EnvironmentID r of None \<Rightarrow> uuid_Nil | Some e \<Rightarrow> e) =
       (case environmentID of None \<Rightarrow> uuid_Nil | Some e \<Rightarrow> e) \<and>
     (case cr_CiProvider r of None \<Rightarrow> [] | Some p \<Rightarrow> p) = (case prov of None \<Rightarrow> [] | Some p \<Rightarrow> p)"

definition UpsertCostRate :: "uuid \<Rightarrow> uuid option \<Rightarrow> string option \<Rightarrow> int64 \<Rightarrow> string \<Rightarrow> cost_rate_row go" where
  "UpsertCostRate tenantID environmentID prov rate currency =
     sql (\<lambda>now u d.
       let r = \<lparr>cr_ID = u, cr_TenantID = tenantID, cr_EnvironmentID = environmentID,
                cr_CiProvider = prov, cr_RateMicrosPerMs = rate, cr_Currency = currency,
                cr_CreatedAt = now\<rparr>;
           upd = (\<lambda>x. x\<lparr>cr_RateMicrosPerMs := rate, cr_Currency := currency\<rparr>) in
       if sint rate < 0 then Inl (PgError ''23514'')
       else case update_one (same_scope tenantID environmentID prov) upd (cost_rates d) of
              Inr (x, rows) \<Rightarrow> Inr (x, d\<lparr>cost_rates := rows\<rparr>)
            | Inl _ \<Rightarrow>
                insert_row
                  [(u \<notin> cr_ID ` set (cost_rates d), ''23505''),
                   (tenantID \<in> tn_ID ` set (tenants d), ''23503''),
                   (environmentID = None \<or> environmentID \<in> Some ` en_ID ` set (environments d), ''23503'')]
                  r (d\<lparr>cost_rates := cost_rates d @ [r]\<rparr>))"

text \<open>
  The roll-up: costs joined with their runs, filtered, grouped by actor.  \<open>SUM\<close> is exact
  (\<open>numeric\<close>); the cast to \<open>bigint\<close> fails out of range (\<open>22003\<close>).
\<close>

definition cost_rows :: "uuid \<Rightarrow> uuid option \<Rightarrow> time option \<Rightarrow> time option \<Rightarrow> db \<Rightarrow> (uuid \<times> run_cost_row) list" where
  "cost_rows tenantID actorID from to d =
     concat (map (\<lambda>c. map (\<lambda>r. (rn_ActorID r, c))
        (filter (\<lambda>r. rn_ID r = rc_RunID c \<and> rn_TenantID r = tenantID \<and>
                     (case actorID of None \<Rightarrow> True | Some a \<Rightarrow> rn_ActorID r = a)) (runs d)))
        (filter (\<lambda>c. (case from of None \<Rightarrow> True | Some t \<Rightarrow> rc_CapturedAt c \<ge> t) \<and>
                     (case to of None \<Rightarrow> True | Some t \<Rightarrow> rc_CapturedAt c < t)) (run_costs d)))"

record ActorCostSummary =
  acs_ActorID :: uuid
  acs_TotalAmountMicros :: "int option"
  acs_TotalDurationMS :: int
  acs_RunCount :: nat

definition opt_sum :: "int64 option list \<Rightarrow> int" where
  "opt_sum xs = sum_list (map (\<lambda>x. case x of None \<Rightarrow> 0 | Some v \<Rightarrow> sint v) xs)"

definition summary_of :: "uuid \<Rightarrow> run_cost_row list \<Rightarrow> ActorCostSummary" where
  "summary_of a cs =
     \<lparr>acs_ActorID = a,
      acs_TotalAmountMicros = (if \<exists>c \<in> set cs. rc_AmountMicros c \<noteq> None
                               then Some (opt_sum (map rc_AmountMicros cs)) else None),
      acs_TotalDurationMS = opt_sum (map rc_DurationMs cs),
      acs_RunCount = length cs\<rparr>"

definition in_int64 :: "int \<Rightarrow> bool" where
  "in_int64 x \<longleftrightarrow> - (2 ^ 63) \<le> x \<and> x < 2 ^ 63"

definition summary_fits :: "run_cost_row list \<Rightarrow> bool" where
  "summary_fits cs \<longleftrightarrow> in_int64 (opt_sum (map rc_AmountMicros cs)) \<and> in_int64 (opt_sum (map rc_DurationMs cs))"

definition group :: "(uuid \<times> run_cost_row) list \<Rightarrow> uuid \<Rightarrow> run_cost_row list" where
  "group rows a = map snd (filter (\<lambda>x. fst x = a) rows)"

definition total_amount :: "run_cost_row list \<Rightarrow> int" where
  "total_amount cs = opt_sum (map rc_AmountMicros cs)"

definition SumCostByActor :: "uuid \<Rightarrow> uuid option \<Rightarrow> time option \<Rightarrow> time option \<Rightarrow> ActorCostSummary list go" where
  "SumCostByActor tenantID actorID from to =
     query (\<lambda>d.
       let rows = cost_rows tenantID actorID from to d;
           as = sort_key (\<lambda>a. - total_amount (group rows a)) (remdups (map fst rows)) in
       if \<forall>a \<in> set as. summary_fits (group rows a) then Inr (map (\<lambda>a. summary_of a (group rows a)) as)
       else Inl (PgError ''22003''))"

section \<open>The store\<close>

definition findRate :: "uuid \<Rightarrow> uuid \<Rightarrow> string \<Rightarrow> cost_rate_row option go" where
  "findRate tenantID environmentID prov =
     bindP (FindCostRate tenantID environmentID (if prov \<noteq> [] then Some prov else None)) (\<lambda>x.
       case x of
         Inl e \<Rightarrow> if errors_Is e sql_ErrNoRows then returnE None else failE (Wrapf e)
       | Inr row \<Rightarrow> returnE (Some row))"

definition CaptureCIDuration :: "uuid \<Rightarrow> uuid \<Rightarrow> uuid \<Rightarrow> string \<Rightarrow> time \<Rightarrow> time \<Rightarrow> RunCost go" where
  "CaptureCIDuration tenantID runID environmentID prov startedAt finishedAt =
     (let durationMS = word_of_int (Milliseconds (time_Sub finishedAt startedAt)) :: int64 in
      if sint durationMS < 0 then failE (Errorf ''finishedAt precedes startedAt'')
      else bindE (mapE Wrapf (findRate tenantID environmentID prov)) (\<lambda>rate.
        let amount = (case rate of None \<Rightarrow> None | Some r \<Rightarrow> Some (durationMS * cr_RateMicrosPerMs r));
            currency = (case rate of None \<Rightarrow> ''USD'' | Some r \<Rightarrow> cr_Currency r) in
        bindP (CreateRunCost runID SourceCIDuration (Some durationMS) amount currency) (\<lambda>x.
          case x of
            Inl e \<Rightarrow>
              if errors_Is e sql_ErrNoRows then
                bindE (mapE Wrapf (GetRunCostByRunAndSource runID SourceCIDuration))
                  (\<lambda>existing. returnE (fromRunCostRow existing))
              else failE (Wrapf e)
          | Inr row \<Rightarrow> returnE (fromRunCostRow row))))"

definition GetForRun :: "uuid \<Rightarrow> RunCost list go" where
  "GetForRun runID = bindE (mapE Wrapf (GetCostsForRun runID)) (\<lambda>rows. returnE (map fromRunCostRow rows))"

definition SumByActor :: "uuid \<Rightarrow> uuid option \<Rightarrow> time option \<Rightarrow> time option \<Rightarrow> ActorCostSummary list go" where
  "SumByActor tenantID actorID from to = mapE Wrapf (SumCostByActor tenantID actorID from to)"

definition SetRate :: "uuid \<Rightarrow> uuid option \<Rightarrow> string option \<Rightarrow> int64 \<Rightarrow> string \<Rightarrow> unit go" where
  "SetRate tenantID environmentID prov rate currency =
     bindE (mapE Wrapf (UpsertCostRate tenantID environmentID prov rate currency)) (\<lambda>_. returnE ())"

end
