(* ===== verification/Instance.thy ===== *)
theory Instance
  imports Tenancy Frame Actors
begin

text \<open>
  Packages \<open>signingkey\<close> and \<open>telemetry\<close> of \<open>controlplane/internal\<close>: the two singletons a deployment
  creates once, whichever replica comes first, and the opt-in usage snapshot.
\<close>

section \<open>The signing key\<close>

definition GetSigningKey :: "signing_key_row go" where
  "GetSigningKey = query (\<lambda>d. select_one (\<lambda>_. True) (signing_keys d))"

definition CreateSigningKey :: "string \<Rightarrow> signing_key_row go" where
  "CreateSigningKey priv =
     sql (\<lambda>now u d.
       let r = \<lparr>sk_PrivateKey = priv, sk_CreatedAt = now\<rparr>
       in insert_row [(signing_keys d = [], ''23505'')] r (d\<lparr>signing_keys := signing_keys d @ [r]\<rparr>))"

text \<open>
  \<open>GenerateKeyPair\<close> is the private half of \<open>ed25519.GenerateKey\<close> of the random bytes read; the
  curve arithmetic is the parameter \<open>ed25519\<close>.
\<close>

definition GenerateKeyPair :: "(8 word list \<Rightarrow> string) \<Rightarrow> string go" where
  "GenerateKeyPair ed25519 = bindE (mapE Wrapf (rand_Read 32)) (\<lambda>seed. returnE (ed25519 seed))"

definition signingkey_LoadOrCreate :: "(8 word list \<Rightarrow> string) \<Rightarrow> string go" where
  "signingkey_LoadOrCreate ed25519 =
     bindP GetSigningKey (\<lambda>x.
       case x of
         Inr row \<Rightarrow> returnE (sk_PrivateKey row)
       | Inl e \<Rightarrow>
           if \<not> errors_Is e sql_ErrNoRows then failE (Wrapf e)
           else bindE (mapE Wrapf (GenerateKeyPair ed25519)) (\<lambda>priv.
             bindP (CreateSigningKey priv) (\<lambda>y.
               case y of
                 Inr created \<Rightarrow> returnE (sk_PrivateKey created)
               | Inl err \<Rightarrow>
                   bindP GetSigningKey (\<lambda>z.
                     case z of
                       Inl getErr \<Rightarrow> failE (Wrapf err)
                     | Inr row \<Rightarrow> returnE (sk_PrivateKey row)))))"

text \<open>Its promise: a stored key is there for good.\<close>

definition key_history :: "db \<Rightarrow> db \<Rightarrow> bool" where
  "key_history d d' \<longleftrightarrow> (signing_keys d \<noteq> [] \<longrightarrow> signing_keys d' = signing_keys d)"

interpretation kh: history key_history
  by unfold_locales (auto simp: key_history_def)

definition the_key :: "string \<Rightarrow> db \<Rightarrow> bool" where
  "the_key k d \<longleftrightarrow> (\<exists>r rest. signing_keys d = r # rest \<and> sk_PrivateKey r = k)"

lemma the_key_stable: "the_key k d \<Longrightarrow> key_history d d' \<Longrightarrow> the_key k d'"
  by (auto simp: the_key_def key_history_def)

lemma the_key_unique: "the_key k d \<Longrightarrow> the_key k' d \<Longrightarrow> k = k'"
  by (auto simp: the_key_def)

lemma rg_GetSigningKey:
  "rg (on_db key_history) (on_db key_history)
     (\<lambda>x v. key_history (w_db w) (w_db v) \<and> (\<forall>r. x = Inr r \<longrightarrow> the_key (sk_PrivateKey r) (w_db v)))
     GetSigningKey w"
  unfolding GetSigningKey_def
proof (rule kh.rg_query_R)
  fix d r and v :: world
  assume "select_one (\<lambda>_. True) (signing_keys d) = Inr r" "key_history d (w_db v)"
  then show "the_key (sk_PrivateKey r) (w_db v)"
    by (auto simp: select_one_def key_history_def the_key_def split: list.splits)
qed

lemma rg_CreateSigningKey:
  "rg (on_db key_history) (on_db key_history)
     (\<lambda>x v. key_history (w_db w) (w_db v) \<and> (\<forall>r. x = Inr r \<longrightarrow> the_key (sk_PrivateKey r) (w_db v)))
     (CreateSigningKey k) w"
  unfolding CreateSigningKey_def Let_def
  by (rule kh.rg_sql_R) (auto simp: insert_row_Inr key_history_def the_key_def)

text \<open>Whatever instance asks, whenever: the key it gets is the one stored, then and later.\<close>

lemma rg_LoadOrCreate:
  "rg (on_db key_history) (on_db key_history)
     (\<lambda>x v. \<forall>k. x = Inr k \<longrightarrow> the_key k (w_db v)) (signingkey_LoadOrCreate ed) w"
  unfolding signingkey_LoadOrCreate_def
proof (rule rg_bindP [OF kh.on_R(1)], rule rg_conseq [OF rg_GetSigningKey])
  fix x :: "signing_key_row res" and v :: world
  let ?Q = "\<lambda>x v. \<forall>k. x = Inr k \<longrightarrow> the_key k (w_db v)"
  assume x: "key_history (w_db w) (w_db v) \<and> (\<forall>r. x = Inr r \<longrightarrow> the_key (sk_PrivateKey r) (w_db v))"
  have ret: "rg (on_db key_history) (on_db key_history) ?Q (returnE k) u"
    if "the_key k (w_db u)" for k and u :: world
    using that by (auto simp: on_db_def intro: the_key_stable)
  have fail: "rg (on_db key_history) (on_db key_history) ?Q (failE e) u" for e :: err and u
    by simp
  have reread: "rg (on_db key_history) (on_db key_history) ?Q
      (bindP GetSigningKey (\<lambda>z. case z of Inl getErr \<Rightarrow> failE (Wrapf e) | Inr row \<Rightarrow> returnE (sk_PrivateKey row))) u"
    for e u
    by (rule rg_bindP [OF kh.on_R(1)], rule rg_conseq [OF rg_GetSigningKey])
       (auto split: sum.splits intro: ret fail simp del: rg.simps)
  have create: "rg (on_db key_history) (on_db key_history) ?Q
      (bindP (CreateSigningKey k) (\<lambda>y. case y of Inr created \<Rightarrow> returnE (sk_PrivateKey created)
         | Inl err \<Rightarrow> bindP GetSigningKey (\<lambda>z. case z of Inl getErr \<Rightarrow> failE (Wrapf err)
               | Inr row \<Rightarrow> returnE (sk_PrivateKey row)))) u" for k u
    by (rule rg_bindP [OF kh.on_R(1)], rule rg_conseq [OF rg_CreateSigningKey])
       (auto split: sum.splits intro: ret reread fail simp del: rg.simps)
  have gen: "keeps key_history (GenerateKeyPair ed) u" for u
    unfolding GenerateKeyPair_def by (auto intro!: kh.keeps_bindE kh.keeps_mapE)
  show "rg (on_db key_history) (on_db key_history) ?Q
     (case x of Inr row \<Rightarrow> returnE (sk_PrivateKey row)
       | Inl e \<Rightarrow>
           if \<not> errors_Is e sql_ErrNoRows then failE (Wrapf e)
           else bindE (mapE Wrapf (GenerateKeyPair ed)) (\<lambda>priv.
             bindP (CreateSigningKey priv) (\<lambda>y.
               case y of
                 Inr created \<Rightarrow> returnE (sk_PrivateKey created)
               | Inl err \<Rightarrow>
                   bindP GetSigningKey (\<lambda>z.
                     case z of
                       Inl getErr \<Rightarrow> failE (Wrapf err)
                     | Inr row \<Rightarrow> returnE (sk_PrivateKey row))))) v"
  proof (cases x)
    case (Inr row)
    with x ret [of "sk_PrivateKey row" v] show ?thesis by (simp del: rg.simps)
  next
    case (Inl e)
    have "rg (on_db key_history) (on_db key_history) ?Q
        (bindE (mapE Wrapf (GenerateKeyPair ed)) (\<lambda>priv.
             bindP (CreateSigningKey priv) (\<lambda>y.
               case y of
                 Inr created \<Rightarrow> returnE (sk_PrivateKey created)
               | Inl err \<Rightarrow>
                   bindP GetSigningKey (\<lambda>z.
                     case z of
                       Inl getErr \<Rightarrow> failE (Wrapf err)
                     | Inr row \<Rightarrow> returnE (sk_PrivateKey row))))) v"
      by (rule rg_bindE [OF kh.on_R(1)], rule kh.rg_mapE_R, rule kh.keeps_rg [OF gen])
         (auto split: sum.splits intro: create fail simp del: rg.simps)
    with Inl show ?thesis by (simp del: rg.simps) (simp add: fail)
  qed
qed

section \<open>Telemetry\<close>

definition Interval :: int where "Interval = 24 * 3600 * 1000000000"

definition GetTelemetryInstance :: "telemetry_instance_row go" where
  "GetTelemetryInstance = query (\<lambda>d. select_one (\<lambda>_. True) (telemetry_instances d))"

definition CreateTelemetryInstance :: "telemetry_instance_row go" where
  "CreateTelemetryInstance =
     sql (\<lambda>now u d.
       let r = \<lparr>ti_ID = u, ti_CreatedAt = now\<rparr>
       in insert_row [(telemetry_instances d = [], ''23505'')] r
            (d\<lparr>telemetry_instances := telemetry_instances d @ [r]\<rparr>))"

definition CountActiveAgents :: "nat go" where
  "CountActiveAgents =
     query (\<lambda>d. Inr (length (filter (\<lambda>a. ac_Type a = ActorAgent \<and> ac_Status a = StatusActive) (actors d))))"

definition CountRunsSince :: "time \<Rightarrow> nat go" where
  "CountRunsSince t = query (\<lambda>d. Inr (length (filter (\<lambda>r. rn_RequestedAt r \<ge> t) (runs d))))"

definition LoadOrCreateInstanceID :: "uuid_lib \<Rightarrow> string go" where
  "LoadOrCreateInstanceID U =
     bindP GetTelemetryInstance (\<lambda>x.
       case x of
         Inr row \<Rightarrow> returnE (uuid_String U (ti_ID row))
       | Inl e \<Rightarrow>
           if \<not> errors_Is e sql_ErrNoRows then failE (Wrapf e)
           else bindP CreateTelemetryInstance (\<lambda>y.
             case y of
               Inr created \<Rightarrow> returnE (uuid_String U (ti_ID created))
             | Inl err \<Rightarrow>
                 bindP GetTelemetryInstance (\<lambda>z.
                   case z of
                     Inl getErr \<Rightarrow> failE (Wrapf err)
                   | Inr row \<Rightarrow> returnE (uuid_String U (ti_ID row)))))"

text \<open>The sender's endpoint and version; \<open>snd_url_ok\<close> says whether \<open>http.NewRequest\<close> takes the endpoint.\<close>

record Sender =
  snd_endpoint :: string
  snd_productVersion :: string
  snd_url_ok :: bool

definition NewSender :: "string \<Rightarrow> string \<Rightarrow> bool \<Rightarrow> Sender" where
  "NewSender endpoint productVersion url_ok =
     \<lparr>snd_endpoint = endpoint, snd_productVersion = productVersion, snd_url_ok = url_ok\<rparr>"

text \<open>One POST: the request leaves, and an answer or an error comes back.\<close>

definition http_post :: "string \<Rightarrow> Payload \<Rightarrow> nat go" where
  "http_post url payload =
     act (\<lambda>w. (post_answer w (tick w), w\<lparr>tick := Suc (tick w), posted := posted w @ [(url, payload)]\<rparr>))"

definition buildPayload :: "uuid_lib \<Rightarrow> Sender \<Rightarrow> Payload go" where
  "buildPayload U s =
     bindE (mapE Wrapf (LoadOrCreateInstanceID U)) (\<lambda>instanceID.
     bindE (mapE Wrapf CountActiveAgents) (\<lambda>agentCount.
     bindP time_Now (\<lambda>periodEnd.
     let periodStart = periodEnd - Interval in
     bindE (mapE Wrapf (CountRunsSince periodStart)) (\<lambda>runCount.
     returnE \<lparr>pay_InstanceID = instanceID, pay_ProductVersion = snd_productVersion s,
              pay_ActiveAgentCount = agentCount, pay_RunCount24h = runCount,
              pay_PeriodStart = periodStart, pay_PeriodEnd = periodEnd\<rparr>))))"

definition telemetry_send :: "Sender \<Rightarrow> Payload \<Rightarrow> unit go" where
  "telemetry_send s payload =
     (if \<not> snd_url_ok s then failE (Wrapf (Errorf ''parse url''))
      else bindE (mapE Wrapf (http_post (snd_endpoint s) payload)) (\<lambda>status.
        if status \<ge> 300 then failE (Errorf ''unexpected status'') else returnE ()))"

text \<open>One tick: errors are logged and dropped.\<close>

definition telemetry_tick :: "uuid_lib \<Rightarrow> Sender \<Rightarrow> (world, unit) prog" where
  "telemetry_tick U s =
     bindP GetSole (\<lambda>x.
       case x of
         Inl e \<Rightarrow> Done ()
       | Inr t \<Rightarrow>
           if \<not> t_TelemetryEnabled t then Done ()
           else bindP (buildPayload U s) (\<lambda>y.
             case y of
               Inl e \<Rightarrow> Done ()
             | Inr payload \<Rightarrow> bindP (telemetry_send s payload) (\<lambda>_. Done ())))"

text \<open>\<open>Sender.Run\<close> when its ticker fires \<open>n\<close> times before the context is done.\<close>

fun telemetry_loop :: "uuid_lib \<Rightarrow> Sender \<Rightarrow> nat \<Rightarrow> (world, unit) prog" where
  "telemetry_loop U s 0 = Done ()"
| "telemetry_loop U s (Suc n) = bindP (telemetry_tick U s) (\<lambda>_. telemetry_loop U s n)"

definition telemetry_Run :: "uuid_lib \<Rightarrow> Sender \<Rightarrow> nat \<Rightarrow> (world, unit) prog" where
  "telemetry_Run U s n = (if snd_endpoint s = [] then Done () else telemetry_loop U s n)"

end
