(* ===== verification/Http.thy ===== *)
theory Http
  imports Frame Actors Workers AuditLog
begin

text \<open>
  The two authentication wrappers of \<open>controlplane/internal/api\<close> (\<open>auth.go\<close>, \<open>workerauth.go\<close>).
\<close>

section \<open>Authentication\<close>

text \<open>
  \<open>requireAuth\<close>: the \<open>Authorization\<close> header (empty when absent) must carry a token that \<open>Verify\<close>
  accepts; the handler runs with its claims.  The verification time is the clock's.  A panic inside
  \<open>Verify\<close> drops the connection.
\<close>

definition requireAuth :: "jwt_lib \<Rightarrow> string \<Rightarrow> uuid_lib \<Rightarrow> string \<Rightarrow> (Claims option \<Rightarrow> 'b handler) \<Rightarrow> 'b handler" where
  "requireAuth L key U header next =
     reject (\<not> HasPrefix header ''Bearer '') unauthorized
       (bindP time_Now (\<lambda>now.
          handleE (Verify L key (Some (session_IsRevoked U)) now (TrimPrefix header ''Bearer ''))
            (\<lambda>e. if e = Panic then Aborted else unauthorized) (\<lambda>claims. next (Some claims))))"

definition requireWorkerAuth :: "string \<Rightarrow> (Credential option \<Rightarrow> 'b handler) \<Rightarrow> 'b handler" where
  "requireWorkerAuth header next =
     reject (\<not> HasPrefix header ''Bearer '') unauthorized
       (handleE (workercred_Verify (TrimPrefix header ''Bearer ''))
          (errIs workercred_ErrNotFound unauthorized) (\<lambda>cred. next (Some cred)))"

section \<open>Audit records\<close>

definition audit_of :: "uuid \<Rightarrow> uuid \<Rightarrow> string \<Rightarrow> AuditParams" where
  "audit_of tenantID actorID action =
     \<lparr>aup_TenantID = tenantID, aup_ActorID = actorID, aup_Action = action, aup_RunID = None,
      aup_Tier = None, aup_EnvironmentID = None, aup_TTLSeconds = None, aup_Metadata = None\<rparr>"

end
