(* ===== verification/ApiRuns.thy ===== *)
theory ApiRuns
  imports Http Queue Cost
begin

text \<open>
  The run handlers, \<open>controlplane/internal/api/runs.go\<close>: requesting, reading and deciding a run for
  an actor; claiming, resolving and reporting one for a worker.
\<close>

section \<open>Requests and responses\<close>

record createRunRequest =
  crq_EnvironmentID :: string
  crq_PipelineID :: string
  crq_IdempotencyKey :: string
  crq_DiffRef :: string

record runResponse =
  rrp_RunID :: string
  rrp_EnvironmentID :: string
  rrp_PipelineID :: string
  rrp_Tier :: string
  rrp_Status :: string

primrec status_text :: "run_status \<Rightarrow> string" where
  "status_text StatusRequested = ''requested''"
| "status_text StatusPolicyChecked = ''policy_checked''"
| "status_text StatusDenied = ''denied''"
| "status_text StatusAwaitingApproval = ''awaiting_approval''"
| "status_text StatusQueued = ''queued''"
| "status_text StatusExecuting = ''executing''"
| "status_text StatusSucceeded = ''succeeded''"
| "status_text StatusFailed = ''failed''"
| "status_text StatusCancelled = ''cancelled''"
| "status_text StatusTimedOut = ''timed_out''"

definition runToResponse :: "uuid_lib \<Rightarrow> Run \<Rightarrow> runResponse" where
  "runToResponse U r =
     \<lparr>rrp_RunID = uuid_String U (r_ID r), rrp_EnvironmentID = uuid_String U (r_EnvironmentID r),
      rrp_PipelineID = uuid_String U (r_PipelineID r), rrp_Tier = Tier_String (r_Tier r),
      rrp_Status = status_text (r_Status r)\<rparr>"

section \<open>Requesting and reading\<close>

definition handlePostRuns :: "uuid_lib \<Rightarrow> Store \<Rightarrow> createRunRequest option \<Rightarrow> Claims option \<Rightarrow> runResponse handler" where
  "handlePostRuns U st body ctx =
     orNone ctx internalError (\<lambda>claims.
     orNone body badRequest (\<lambda>req.
     orFail (uuid_Parse U (crq_EnvironmentID req)) badRequest (\<lambda>environmentID.
     orFail (uuid_Parse U (crq_PipelineID req)) badRequest (\<lambda>pipelineID.
     orFail (uuid_Parse U (cl_TenantID claims)) internalError (\<lambda>tenantID.
     orFail (uuid_Parse U (cl_ActorID claims)) internalError (\<lambda>actorID.
     handleE (environment_Get environmentID) (errIs environment_ErrNotFound notFoundResp) (\<lambda>env.
     reject (e_TenantID env \<noteq> tenantID) notFoundResp (
     handleE (Request st \<lparr>rp_TenantID = tenantID, rp_ActorID = actorID,
                rp_EnvironmentID = environmentID, rp_PipelineID = pipelineID, rp_Tier = cl_Tier claims,
                rp_IdempotencyKey = crq_IdempotencyKey req, rp_DiffRef = crq_DiffRef req\<rparr>)
       (\<lambda>e. if errors_Is e execution_ErrPolicyDenied then Error 403 codePolicyDenied
            else errIs pipeline_ErrNotFound notFoundResp e) (\<lambda>run.
     handleE (audit_Create ((audit_of tenantID actorID ''run.requested'')
                \<lparr>aup_RunID := Some (r_ID run), aup_Tier := Some (r_Tier run),
                 aup_EnvironmentID := Some environmentID\<rparr>)) anyErr (\<lambda>_.
     Done (Reply 201 (runToResponse U run))))))))))))"

definition handleGetRun :: "uuid_lib \<Rightarrow> string \<Rightarrow> Claims option \<Rightarrow> runResponse handler" where
  "handleGetRun U pathID ctx =
     orNone ctx internalError (\<lambda>claims.
     orFail (uuid_Parse U (cl_TenantID claims)) internalError (\<lambda>tenantID.
     orFail (uuid_Parse U pathID) badRequest (\<lambda>i.
     handleE (execution_Get tenantID i) (errIs execution_ErrNotFound notFoundResp) (\<lambda>run.
     Done (Reply 200 (runToResponse U run))))))"

section \<open>Deciding\<close>

definition parse_decision :: "string \<Rightarrow> bool option" where
  "parse_decision s =
     (if s = ''approved'' then Some True else if s = ''denied'' then Some False else None)"

definition handlePostRunDecision :: "uuid_lib \<Rightarrow> Store \<Rightarrow> string \<Rightarrow> string option \<Rightarrow> Claims option \<Rightarrow> runResponse handler" where
  "handlePostRunDecision U st pathID body ctx =
     orNone ctx internalError (\<lambda>claims.
     reject (cl_Tier claims = TierReadOnly) forbidden (
     orNone body badRequest (\<lambda>decision.
     orNone (parse_decision decision) badRequest (\<lambda>approved.
     orFail (uuid_Parse U (cl_TenantID claims)) internalError (\<lambda>tenantID.
     orFail (uuid_Parse U (cl_ActorID claims)) internalError (\<lambda>actorID.
     orFail (uuid_Parse U pathID) badRequest (\<lambda>i.
     handleE (execution_Get tenantID i) (errIs execution_ErrNotFound notFoundResp) (\<lambda>existing.
     reject (r_ActorID existing = actorID) forbidden (
     handleE (Decide st i actorID approved) (errIs execution_ErrAlreadyDecided conflict) (\<lambda>run.
     handleE (audit_Create ((audit_of tenantID actorID ''approval.decided'')
                \<lparr>aup_RunID := Some (r_ID run)\<rparr>)) anyErr (\<lambda>_.
     Done (Reply 200 (runToResponse U run)))))))))))))"

section \<open>The worker's side\<close>

record nextRunResponse =
  nrr_RunID :: string
  nrr_Provider :: string
  nrr_WorkflowRef :: string
  nrr_Settings :: settings

definition handleGetNextWorkerRun :: "uuid_lib \<Rightarrow> Credential option \<Rightarrow> nextRunResponse handler" where
  "handleGetNextWorkerRun U ctx =
     orNone ctx internalError (\<lambda>cred.
     handleE (execution_Claim (crd_ID cred) (crd_Environments cred))
       (errIs execution_ErrNotFound (Status 204)) (\<lambda>run.
     handleE (pipeline_Get (r_TenantID run) (r_PipelineID run)) anyErr (\<lambda>p.
     Done (Reply 200 \<lparr>nrr_RunID = uuid_String U (r_ID run), nrr_Provider = p_Provider p,
                      nrr_WorkflowRef = p_WorkflowRef p, nrr_Settings = p_Settings p\<rparr>))))"

record reportRunResultRequest =
  rpr_Status :: string
  rpr_CIExternalRef :: string
  rpr_CIURL :: string
  rpr_CIRawStatus :: string

definition validTerminalRunStatuses :: "(string \<times> run_status) list" where
  "validTerminalRunStatuses =
     map (\<lambda>s. (status_text s, s)) [StatusSucceeded, StatusFailed, StatusCancelled, StatusTimedOut]"

text \<open>A failure to capture the cost is logged; dereferencing a nil \<open>FinishedAt\<close> would panic.\<close>

definition captureCost :: "Run \<Rightarrow> 'b handler \<Rightarrow> 'b handler" where
  "captureCost r k =
     (case r_StartedAt r of
        None \<Rightarrow> k
      | Some startedAt \<Rightarrow>
          (case r_FinishedAt r of
             None \<Rightarrow> Done Aborted
           | Some finishedAt \<Rightarrow>
               bindP (CaptureCIDuration (r_TenantID r) (r_ID r) (r_EnvironmentID r)
                        (r_CIProvider r) startedAt finishedAt) (\<lambda>_. k)))"

definition handlePostWorkerRunResult :: "uuid_lib \<Rightarrow> string \<Rightarrow> reportRunResultRequest option \<Rightarrow> Credential option \<Rightarrow> runResponse handler" where
  "handlePostWorkerRunResult U pathID body ctx =
     orNone ctx internalError (\<lambda>cred.
     orFail (uuid_Parse U pathID) badRequest (\<lambda>i.
     orNone body badRequest (\<lambda>req.
     orNone (map_of validTerminalRunStatuses (rpr_Status req)) badRequest (\<lambda>status.
     handleE (ReportResult i (crd_ID cred)
                \<lparr>rr_Status = status, rr_CIExternalRef = rpr_CIExternalRef req, rr_CIURL = rpr_CIURL req,
                 rr_CIRawStatus = rpr_CIRawStatus req\<rparr>)
       (errIs execution_ErrNotFound notFoundResp) (\<lambda>run.
     captureCost run (Done (Reply 200 (runToResponse U run))))))))"

record resolveRunRequest =
  rsq_Provider :: string
  rsq_Repo :: string
  rsq_WorkflowRef :: string
  rsq_Ref :: string
  rsq_CIExternalRef :: string
  rsq_CIURL :: string

record resolveRunResponse =
  rsp_RunID :: string
  rsp_Tier :: int
  rsp_AccountRef :: string
  rsp_ExternalID :: string
  rsp_TrustAnchor :: string
  rsp_RoleARN :: string

definition handlePostWorkerRunResolve :: "uuid_lib \<Rightarrow> resolveRunRequest option \<Rightarrow> Credential option \<Rightarrow> resolveRunResponse handler" where
  "handlePostWorkerRunResolve U body ctx =
     orNone ctx internalError (\<lambda>cred.
     orNone body badRequest (\<lambda>req.
     handleE (ResolveExternalRef (crd_Environments cred) (rsq_Provider req) (rsq_Repo req)
                (rsq_WorkflowRef req) (rsq_Ref req) (rsq_CIExternalRef req) (rsq_CIURL req))
       (\<lambda>e. if errors_Is e execution_ErrNotFound then notFoundResp
            else errIs execution_ErrAmbiguousMatch conflict e) (\<lambda>run.
     handleE (pipeline_Get (r_TenantID run) (r_PipelineID run)) anyErr (\<lambda>p.
     if Check (r_Tier run) (p_Mutating p) \<noteq> Allow then
       handleE (ReportResult (r_ID run) (crd_ID cred)
                  \<lparr>rr_Status = StatusFailed, rr_CIExternalRef = rsq_CIExternalRef req,
                   rr_CIURL = rsq_CIURL req, rr_CIRawStatus = ''denied at credential mint''\<rparr>) anyErr
         (\<lambda>_. Done (Error 403 codePolicyDenied))
     else
       handleE (GetAWSConfig (r_EnvironmentID run)) anyErr (\<lambda>awsConfig.
       handleE (GetAWSTierRole (r_EnvironmentID run) (r_Tier run)) anyErr (\<lambda>role.
       handleE (audit_Create ((audit_of (r_TenantID run) (r_ActorID run) ''credential.minted'')
                  \<lparr>aup_RunID := Some (r_ID run), aup_Tier := Some (r_Tier run),
                   aup_EnvironmentID := Some (r_EnvironmentID run)\<rparr>)) anyErr (\<lambda>_.
       Done (Reply 200
         \<lparr>rsp_RunID = uuid_String U (r_ID run), rsp_Tier = int16_of (r_Tier run),
          rsp_AccountRef = acf_AccountRef awsConfig, rsp_ExternalID = acf_ExternalID awsConfig,
          rsp_TrustAnchor = acf_TrustAnchor awsConfig, rsp_RoleARN = atr_RoleARN role\<rparr>))))))))"

end
