(* ===== verification/ApiCatalog.thy ===== *)
theory ApiCatalog
  imports Http Pipeline Verifications
begin

text \<open>
  The catalog handlers of \<open>controlplane/internal/api\<close>: pipelines (\<open>pipelines.go\<close>), environments
  (\<open>environments.go\<close>) and their connectivity checks (\<open>verifications.go\<close>).  A Go map is the list of
  its entries in the order an iteration visits them.
\<close>

section \<open>Pipelines\<close>

definition pipelineProviders :: "(string \<times> provider) list" where
  "pipelineProviders =
     [(''github_actions'', ProviderGitHubActions), (''gitlab_ci'', ProviderGitLabCI),
      (''jenkins'', ProviderJenkins), (''atlantis'', ProviderAtlantis),
      (''bitbucket_pipelines'', ProviderBitbucket)]"

record createPipelineRequest =
  cpr_EnvironmentID :: string
  cpr_Provider :: string
  cpr_WorkflowRef :: string
  cpr_Settings :: settings
  cpr_Mutating :: "bool option"

record pipelineResponse =
  ppr_PipelineID :: string
  ppr_EnvironmentID :: string
  ppr_Provider :: string
  ppr_WorkflowRef :: string
  ppr_Settings :: settings
  ppr_Mutating :: bool

definition pipelineToResponse :: "uuid_lib \<Rightarrow> Pipeline \<Rightarrow> pipelineResponse" where
  "pipelineToResponse U p =
     \<lparr>ppr_PipelineID = uuid_String U (p_ID p), ppr_EnvironmentID = uuid_String U (p_EnvironmentID p),
      ppr_Provider = p_Provider p, ppr_WorkflowRef = p_WorkflowRef p, ppr_Settings = p_Settings p,
      ppr_Mutating = p_Mutating p\<rparr>"

text \<open>Only an autonomous actor may declare a pipeline harmless.\<close>

definition effective_mutating :: "tier \<Rightarrow> bool option \<Rightarrow> bool" where
  "effective_mutating tier requested =
     (case requested of
        Some m \<Rightarrow> if tier = TierAutonomous then m else True
      | None \<Rightarrow> True)"

definition handlePostPipelines :: "uuid_lib \<Rightarrow> createPipelineRequest option \<Rightarrow> Claims option \<Rightarrow> pipelineResponse handler" where
  "handlePostPipelines U body ctx =
     orNone ctx internalError (\<lambda>claims.
     reject (cl_Tier claims = TierReadOnly) forbidden (
     orNone body badRequest (\<lambda>req.
     orFail (uuid_Parse U (cpr_EnvironmentID req)) badRequest (\<lambda>environmentID.
     orNone (map_of pipelineProviders (cpr_Provider req)) badRequest (\<lambda>provider.
     reject (cpr_WorkflowRef req = []) badRequest (
     orFail (uuid_Parse U (cl_TenantID claims)) internalError (\<lambda>tenantID.
     handleE (environment_Get environmentID) (errIs environment_ErrNotFound notFoundResp) (\<lambda>env.
     reject (e_TenantID env \<noteq> tenantID) notFoundResp (
     handleE (pipeline_Create tenantID environmentID provider (cpr_WorkflowRef req) (cpr_Settings req)
                (effective_mutating (cl_Tier claims) (cpr_Mutating req))) anyErr (\<lambda>p.
     Done (Reply 201 (pipelineToResponse U p))))))))))))"

definition handleGetPipeline :: "uuid_lib \<Rightarrow> string \<Rightarrow> Claims option \<Rightarrow> pipelineResponse handler" where
  "handleGetPipeline U pathID ctx =
     orNone ctx internalError (\<lambda>claims.
     orFail (uuid_Parse U (cl_TenantID claims)) internalError (\<lambda>tenantID.
     orFail (uuid_Parse U pathID) badRequest (\<lambda>i.
     handleE (pipeline_Get tenantID i) (errIs pipeline_ErrNotFound notFoundResp) (\<lambda>p.
     Done (Reply 200 (pipelineToResponse U p))))))"

section \<open>Environments\<close>

definition tierNames :: "(string \<times> tier) list" where
  "tierNames =
     [(''read_only'', TierReadOnly), (''human_in_the_loop'', TierHumanInTheLoop),
      (''autonomous'', TierAutonomous)]"

record createEnvironmentRequest =
  cer_Name :: string
  cer_Provider :: string
  cer_Region :: string
  cer_AccountRef :: string
  cer_ExternalID :: string
  cer_TrustAnchor :: string
  cer_RoleARNs :: "(string \<times> string) list"

record createEnvironmentResponse =
  cep_EnvironmentID :: string
  cep_Name :: string
  cep_Provider :: string
  cep_Region :: string

text \<open>The loop that turns tier names into tiers, with its early returns.\<close>

fun role_arns :: "(string \<times> string) list \<Rightarrow> (tier \<times> string) list option" where
  "role_arns [] = Some []"
| "role_arns ((name, arn) # rest) =
     (case map_of tierNames name of
        None \<Rightarrow> None
      | Some tier \<Rightarrow>
          if arn = [] then None
          else (case role_arns rest of None \<Rightarrow> None | Some m \<Rightarrow> Some ((tier, arn) # m)))"

fun missing_tier :: "(tier \<times> string) list \<Rightarrow> tier list \<Rightarrow> bool" where
  "missing_tier m [] = False"
| "missing_tier m (t # ts) = (if map_of m t = None then True else missing_tier m ts)"

fun create_tier_roles :: "uuid \<Rightarrow> (tier \<times> string) list \<Rightarrow> unit go" where
  "create_tier_roles e [] = returnE ()"
| "create_tier_roles e ((tier, arn) # rest) =
     bindE (CreateAWSTierRole e tier arn) (\<lambda>_. create_tier_roles e rest)"

definition handlePostEnvironments :: "uuid_lib \<Rightarrow> createEnvironmentRequest option \<Rightarrow> Claims option \<Rightarrow> createEnvironmentResponse handler" where
  "handlePostEnvironments U body ctx =
     orNone ctx internalError (\<lambda>claims.
     reject (cl_Tier claims \<noteq> TierAutonomous) forbidden (
     orNone body badRequest (\<lambda>req.
     reject (cer_Name req = []) badRequest (
     reject (cer_Provider req \<noteq> ''aws'') badRequest (
     reject (cer_Region req = []) badRequest (
     reject (cer_AccountRef req = [] \<or> cer_ExternalID req = [] \<or> cer_TrustAnchor req = []) badRequest (
     orNone (role_arns (cer_RoleARNs req)) badRequest (\<lambda>roleARNs.
     reject (missing_tier roleARNs [TierReadOnly, TierHumanInTheLoop, TierAutonomous]) badRequest (
     orFail (uuid_Parse U (cl_TenantID claims)) internalError (\<lambda>tenantID.
     orFail (uuid_Parse U (cl_ActorID claims)) internalError (\<lambda>actorID.
     handleE (environment_Create tenantID (cer_Name req) ''aws'' (cer_Region req)) anyErr (\<lambda>newEnv.
     handleE (CreateAWSConfig (e_ID newEnv) (cer_AccountRef req) (cer_ExternalID req) (cer_TrustAnchor req))
       anyErr (\<lambda>_.
     handleE (create_tier_roles (e_ID newEnv) roleARNs) anyErr (\<lambda>_.
     handleE (audit_Create (audit_of tenantID actorID ''environment.registered'')) anyErr (\<lambda>_.
     Done (Reply 201
       \<lparr>cep_EnvironmentID = uuid_String U (e_ID newEnv), cep_Name = e_Name newEnv,
        cep_Provider = e_Provider newEnv, cep_Region = e_Region newEnv\<rparr>))))))))))))))))"

section \<open>Connectivity checks\<close>

record createVerificationResponse =
  cvr_VerificationID :: string
  cvr_Status :: string

definition handlePostEnvironmentVerify :: "uuid_lib \<Rightarrow> string \<Rightarrow> Claims option \<Rightarrow> createVerificationResponse handler" where
  "handlePostEnvironmentVerify U pathName ctx =
     orNone ctx internalError (\<lambda>claims.
     orFail (uuid_Parse U (cl_TenantID claims)) internalError (\<lambda>tenantID.
     orFail (uuid_Parse U (cl_ActorID claims)) internalError (\<lambda>actorID.
     handleE (environment_GetByName tenantID pathName) (errIs environment_ErrNotFound notFoundResp) (\<lambda>env.
     handleE (verification_Create tenantID (e_ID env) actorID) anyErr (\<lambda>v.
     handleE (audit_Create ((audit_of tenantID actorID ''environment.verify.requested'')
                \<lparr>aup_EnvironmentID := Some (e_ID env)\<rparr>)) anyErr (\<lambda>_.
     Done (Reply 201 \<lparr>cvr_VerificationID = uuid_String U (v_ID v), cvr_Status = v_Status v\<rparr>)))))))"

record getVerificationResponse =
  gvr_VerificationID :: string
  gvr_Status :: string
  gvr_TierResults :: "(string \<times> TierResult) list"
  gvr_RequestedAt :: time
  gvr_CompletedAt :: "time option"

definition handleGetVerification :: "uuid_lib \<Rightarrow> string \<Rightarrow> string \<Rightarrow> Claims option \<Rightarrow> getVerificationResponse handler" where
  "handleGetVerification U pathName pathID ctx =
     orNone ctx internalError (\<lambda>claims.
     orFail (uuid_Parse U (cl_TenantID claims)) internalError (\<lambda>tenantID.
     orFail (uuid_Parse U pathID) badRequest (\<lambda>i.
     handleE (environment_GetByName tenantID pathName) (errIs environment_ErrNotFound notFoundResp) (\<lambda>env.
     handleE (verification_Get i) (errIs verification_ErrNotFound notFoundResp) (\<lambda>v.
     reject (v_TenantID v \<noteq> tenantID \<or> v_EnvironmentID v \<noteq> e_ID env) notFoundResp (
     Done (Reply 200
       \<lparr>gvr_VerificationID = uuid_String U (v_ID v), gvr_Status = v_Status v,
        gvr_TierResults = v_TierResults v, gvr_RequestedAt = v_RequestedAt v,
        gvr_CompletedAt = v_CompletedAt v\<rparr>)))))))"

record nextVerificationResponse =
  nvr_VerificationID :: string
  nvr_Environment :: string
  nvr_Provider :: string
  nvr_AccountRef :: string
  nvr_ExternalID :: string
  nvr_TrustAnchor :: string
  nvr_RoleARNs :: "(string \<times> string) list"

fun tier_role_arns :: "uuid \<Rightarrow> (string \<times> tier) list \<Rightarrow> (string \<times> string) list go" where
  "tier_role_arns e [] = returnE []"
| "tier_role_arns e ((name, tier) # rest) =
     bindE (GetAWSTierRole e tier) (\<lambda>role.
     bindE (tier_role_arns e rest) (\<lambda>m. returnE ((name, atr_RoleARN role) # m)))"

definition handleGetNextWorkerVerification :: "uuid_lib \<Rightarrow> Credential option \<Rightarrow> nextVerificationResponse handler" where
  "handleGetNextWorkerVerification U ctx =
     orNone ctx internalError (\<lambda>cred.
     handleE (verification_Claim (crd_ID cred) (crd_Environments cred))
       (errIs verification_ErrNotFound (Status 204)) (\<lambda>v.
     handleE (environment_Get (v_EnvironmentID v)) anyErr (\<lambda>env.
     handleE (GetAWSConfig (e_ID env)) anyErr (\<lambda>awsConfig.
     handleE (tier_role_arns (e_ID env) tierNames) anyErr (\<lambda>roleARNs.
     Done (Reply 200
       \<lparr>nvr_VerificationID = uuid_String U (v_ID v), nvr_Environment = e_Name env,
        nvr_Provider = e_Provider env, nvr_AccountRef = acf_AccountRef awsConfig,
        nvr_ExternalID = acf_ExternalID awsConfig, nvr_TrustAnchor = acf_TrustAnchor awsConfig,
        nvr_RoleARNs = roleARNs\<rparr>))))))"

definition handlePostWorkerVerificationResult :: "uuid_lib \<Rightarrow> string \<Rightarrow> (string \<times> TierResult) list option \<Rightarrow> Credential option \<Rightarrow> createVerificationResponse handler" where
  "handlePostWorkerVerificationResult U pathID body ctx =
     orNone ctx internalError (\<lambda>cred.
     orFail (uuid_Parse U pathID) badRequest (\<lambda>i.
     orNone body badRequest (\<lambda>tierResults.
     reject (length tierResults = 0) badRequest (
     handleE (Complete i (crd_ID cred) tierResults) (errIs verification_ErrNotFound notFoundResp) (\<lambda>v.
     Done (Reply 200 \<lparr>cvr_VerificationID = uuid_String U (v_ID v), cvr_Status = v_Status v\<rparr>))))))"

end
