(* ===== verification/ApiAccess.thy ===== *)
theory ApiAccess
  imports ApiCatalog
begin

text \<open>
  The handlers of \<open>controlplane/internal/api\<close> that create identities and hand out credentials:
  \<open>setup.go\<close>, \<open>token.go\<close>, \<open>agents.go\<close>, \<open>tenant.go\<close> and \<open>workers.go\<close>.  Times appear in responses as such,
  not as their RFC 3339 text.
\<close>

text \<open>\<open>issuer.Issue\<close> with the clock and a fresh \<open>jti\<close>.\<close>

record issuer =
  is_jwt :: jwt_lib
  is_key :: string
  is_uuid :: uuid_lib

definition issuer_Issue :: "issuer \<Rightarrow> IssueRequest \<Rightarrow> tier \<Rightarrow> string go" where
  "issuer_Issue I req issuerTier =
     bindP time_Now (\<lambda>now. bindP uuid_New (\<lambda>jti.
       Done (Issue (is_jwt I) (is_key I) now (uuid_String (is_uuid I) jti) req issuerTier)))"

section \<open>Setup\<close>

definition tokenTTL :: int64 where "tokenTTL = 8 * 3600 * 1000000000"
definition minPasswordLength :: nat where "minPasswordLength = 12"
definition defaultTeamName :: string where "defaultTeamName = ''default''"

definition handleGetSetup :: "bool handler" where
  "handleGetSetup = handleE AnyExists anyErr (\<lambda>exists. Done (Reply 200 (\<not> exists)))"

record setupRequest =
  sur_TenantName :: string
  sur_AdminUsername :: string
  sur_AdminPassword :: string
  sur_TelemetryEnabled :: bool

record setupResponse =
  sup_TenantID :: string
  sup_ActorID :: string
  sup_Token :: string

definition isSerializationFailure :: "err \<Rightarrow> bool" where
  "isSerializationFailure e \<longleftrightarrow> sqlstate e = Some ''40001''"

text \<open>
  The body of the transaction.  Every error inside answers 500, so its identity is dropped; only
  finding a tenant has an answer of its own.
\<close>

definition setup_gone :: err where "setup_gone = Errorf ''setup has already run''"
definition setup_failed :: "err \<Rightarrow> err" where "setup_failed e = Errorf ''internal error''"

definition setup_tx :: "bcrypt_lib \<Rightarrow> setupRequest \<Rightarrow> (Tenant \<times> Actor) go" where
  "setup_tx B req =
     bindE (mapE setup_failed AnyExists) (\<lambda>exists.
     if exists then failE setup_gone
     else mapE setup_failed
       (bindE (tenant_Create (sur_TenantName req)) (\<lambda>created.
        bindE (if sur_TelemetryEnabled req then SetTelemetry (t_ID created) True else returnE created) (\<lambda>newTenant.
        bindE (team_Create (t_ID newTenant) defaultTeamName) (\<lambda>newTeam.
        bindE (actor_Create
                 \<lparr>acp_TenantID = t_ID newTenant, acp_Type = ActorHuman, acp_Name = sur_AdminUsername req,
                  acp_TeamID = te_ID newTeam, acp_TrustTier = TierAutonomous, acp_AuthorizedBy = None,
                  acp_ExpiresAt = None, acp_IdempotencyKey = None\<rparr>) (\<lambda>newActor.
        bindE (credential_Create B (act_ID newActor) (sur_AdminUsername req) (sur_AdminPassword req)) (\<lambda>_.
        bindE (audit_Create (audit_of (t_ID newTenant) (act_ID newActor) ''setup.completed'')) (\<lambda>_.
        bindE (if sur_TelemetryEnabled req
               then bindE (audit_Create (audit_of (t_ID newTenant) (act_ID newActor) ''telemetry.toggled''))
                      (\<lambda>_. returnE ())
               else returnE ()) (\<lambda>_.
        returnE (newTenant, newActor))))))))))"

definition root_request :: "uuid_lib \<Rightarrow> uuid \<Rightarrow> uuid \<Rightarrow> actor_type \<Rightarrow> tier \<Rightarrow> IssueRequest" where
  "root_request U tenantID actorID typ tier =
     \<lparr>ir_TenantID = uuid_String U tenantID, ir_ActorID = uuid_String U actorID, ir_ActorType = typ,
      ir_Tier = tier, ir_Environments = [], ir_Delegation = None, ir_TTL = tokenTTL\<rparr>"

definition handlePostSetup :: "bcrypt_lib \<Rightarrow> issuer \<Rightarrow> setupRequest option \<Rightarrow> setupResponse handler" where
  "handlePostSetup B I body =
     orNone body badRequest (\<lambda>req.
     reject (sur_TenantName req = []) badRequest (
     reject (sur_AdminUsername req = []) badRequest (
     reject (length (sur_AdminPassword req) < minPasswordLength) badRequest (
     handleE AnyExists anyErr (\<lambda>exists.
     reject exists (Error 410 codeGone) (
     handleE (in_tx setup_failed Wrapf (setup_tx B req))
       (\<lambda>e. if e = setup_gone then Error 410 codeGone
            else if isSerializationFailure e then conflict else internalError) (\<lambda>(newTenant, newActor).
     handleE (issuer_Issue I
                (root_request (is_uuid I) (t_ID newTenant) (act_ID newActor) ActorHuman TierAutonomous)
                TierAutonomous) anyErr (\<lambda>token.
     Done (Reply 201
       \<lparr>sup_TenantID = uuid_String (is_uuid I) (t_ID newTenant),
        sup_ActorID = uuid_String (is_uuid I) (act_ID newActor), sup_Token = token\<rparr>)))))))))"

section \<open>Login\<close>

record tokenRequest =
  tkr_Username :: string
  tkr_Password :: string

definition handlePostToken :: "bcrypt_lib \<Rightarrow> issuer \<Rightarrow> tokenRequest option \<Rightarrow> string handler" where
  "handlePostToken B I body =
     orNone body badRequest (\<lambda>req.
     reject (tkr_Username req = [] \<or> tkr_Password req = []) badRequest (
     handleE (credential_Verify B (tkr_Username req) (tkr_Password req))
       (\<lambda>e. if errors_Is e credential_ErrNotFound \<or> errors_Is e credential_ErrIncorrectPassword
            then unauthorized else internalError) (\<lambda>actorID.
     handleE (actor_Get actorID) (errIs actor_ErrNotFound unauthorized) (\<lambda>a.
     reject (act_Status a \<noteq> StatusActive) unauthorized (
     handleE (issuer_Issue I
                (root_request (is_uuid I) (act_TenantID a) (act_ID a) (act_Type a) (act_TrustTier a))
                (act_TrustTier a)) anyErr (\<lambda>token.
     handleE (audit_Create (audit_of (act_TenantID a) (act_ID a) ''session.issued'')) anyErr (\<lambda>_.
     Done (Reply 200 token))))))))"

section \<open>Tenant settings\<close>

definition handlePatchTenantTelemetry :: "uuid_lib \<Rightarrow> bool option \<Rightarrow> Claims option \<Rightarrow> bool handler" where
  "handlePatchTenantTelemetry U body ctx =
     orNone ctx internalError (\<lambda>claims.
     reject (cl_Tier claims = TierReadOnly) forbidden (
     orFail (uuid_Parse U (cl_TenantID claims)) internalError (\<lambda>tenantID.
     orFail (uuid_Parse U (cl_ActorID claims)) internalError (\<lambda>actorID.
     orNone body badRequest (\<lambda>enabled.
     handleE (SetTelemetry tenantID enabled) (errIs tenant_ErrNotFound notFoundResp) (\<lambda>updated.
     handleE (audit_Create (audit_of tenantID actorID ''telemetry.toggled'')) anyErr (\<lambda>_.
     Done (Reply 200 (t_TelemetryEnabled updated)))))))))"

section \<open>Enrolling agents\<close>

definition time_Second :: int64 where "time_Second = 1000000000"
definition maxAgentTTL :: int64 where "maxAgentTTL = 30 * 24 * 3600 * 1000000000"

record createAgentRequest =
  car_Name :: string
  car_Team :: string
  car_Tier :: string
  car_Environments :: "string list"
  car_TTLSeconds :: int64
  car_IdempotencyKey :: string

record createAgentResponse =
  cap_ActorID :: string
  cap_Token :: string

text \<open>
  The loop that resolves environment names and checks each against the caller's own scope; the
  root actor, without a delegation, is exempt.  \<open>Inl\<close> is the response already written.
\<close>

definition outside_scope :: "uuid_lib \<Rightarrow> Claims \<Rightarrow> uuid \<Rightarrow> bool" where
  "outside_scope U claims e \<longleftrightarrow>
     cl_Delegation claims \<noteq> None \<and> \<not> PermitsEnvironment claims (uuid_String U e)"

fun resolveWorkerEnvironments :: "uuid_lib \<Rightarrow> Claims \<Rightarrow> uuid \<Rightarrow> string list \<Rightarrow> (world, 'b response + uuid list) prog" where
  "resolveWorkerEnvironments U claims tenantID [] = Done (Inr [])"
| "resolveWorkerEnvironments U claims tenantID (name # names) =
     bindP (environment_GetByName tenantID name) (\<lambda>r.
       case r of
         Inl e \<Rightarrow> Done (Inl (errIs environment_ErrNotFound badRequest e))
       | Inr env \<Rightarrow>
           if outside_scope U claims (e_ID env) then Done (Inl forbidden)
           else bindP (resolveWorkerEnvironments U claims tenantID names) (\<lambda>rest.
             Done (case rest of Inl resp \<Rightarrow> Inl resp | Inr ids \<Rightarrow> Inr (e_ID env # ids))))"

definition orResp :: "(world, 'b response + 'a) prog \<Rightarrow> ('a \<Rightarrow> 'b handler) \<Rightarrow> 'b handler" where
  "orResp p k = bindP p (\<lambda>r. case r of Inl resp \<Rightarrow> Done resp | Inr a \<Rightarrow> k a)"

text \<open>The scope check of the replay path, over the stored grants.\<close>

fun any_outside :: "uuid_lib \<Rightarrow> Claims \<Rightarrow> uuid list \<Rightarrow> bool" where
  "any_outside U claims [] = False"
| "any_outside U claims (e # es) =
     (if \<not> PermitsEnvironment claims (uuid_String U e) then True else any_outside U claims es)"

fun grant_environments :: "uuid \<Rightarrow> uuid list \<Rightarrow> unit go" where
  "grant_environments a [] = returnE ()"
| "grant_environments a (e # es) = bindE (GrantEnvironment a e) (\<lambda>_. grant_environments a es)"

definition agent_request :: "uuid_lib \<Rightarrow> Claims \<Rightarrow> Actor \<Rightarrow> uuid list \<Rightarrow> int64 \<Rightarrow> IssueRequest" where
  "agent_request U claims a envIDs ttl =
     \<lparr>ir_TenantID = cl_TenantID claims, ir_ActorID = uuid_String U (act_ID a), ir_ActorType = ActorAgent,
      ir_Tier = act_TrustTier a, ir_Environments = map (uuid_String U) envIDs,
      ir_Delegation = Some \<lparr>AuthorizedBy = cl_ActorID claims, TeamID = uuid_String U (act_TeamID a)\<rparr>,
      ir_TTL = ttl\<rparr>"

text \<open>\<open>time.Until\<close> saturates like \<open>Sub\<close>.\<close>

definition until :: "time \<Rightarrow> time \<Rightarrow> int64" where
  "until t now = word_of_int (max (- (2 ^ 63)) (min (2 ^ 63 - 1) (t - now)))"

definition reissueAgentToken :: "issuer \<Rightarrow> Claims \<Rightarrow> Actor \<Rightarrow> uuid list \<Rightarrow> string go" where
  "reissueAgentToken I claims existing environmentIDs =
     bindP (case act_ExpiresAt existing of
              None \<Rightarrow> Done 0
            | Some t \<Rightarrow> bindP time_Now (\<lambda>now. Done (until t now))) (\<lambda>ttl.
     mapE Wrapf (issuer_Issue I (agent_request (is_uuid I) claims existing environmentIDs ttl) (cl_Tier claims)))"

definition replayAgent :: "issuer \<Rightarrow> Claims \<Rightarrow> uuid \<Rightarrow> uuid \<Rightarrow> Actor \<Rightarrow> createAgentResponse handler" where
  "replayAgent I claims tenantID authorizedBy existing =
     reject (act_TrustTier existing > cl_Tier claims) forbidden (
     handleE (actor_ListEnvironments (act_ID existing)) anyErr (\<lambda>existingEnvIDs.
     reject (cl_Delegation claims \<noteq> None \<and> any_outside (is_uuid I) claims existingEnvIDs) forbidden (
     handleE (reissueAgentToken I claims existing existingEnvIDs) anyErr (\<lambda>token.
     handleE (audit_Create (audit_of tenantID authorizedBy ''agent.token.reissued'')) anyErr (\<lambda>_.
     Done (Reply 200 \<lparr>cap_ActorID = uuid_String (is_uuid I) (act_ID existing), cap_Token = token\<rparr>))))))"

definition createAgent :: "issuer \<Rightarrow> Claims \<Rightarrow> uuid \<Rightarrow> uuid \<Rightarrow> createAgentRequest \<Rightarrow> tier \<Rightarrow> int64 \<Rightarrow> createAgentResponse handler" where
  "createAgent I claims tenantID authorizedBy req tier ttl =
     handleE (team_GetByName tenantID (car_Team req)) (errIs team_ErrNotFound badRequest) (\<lambda>tm.
     orResp (resolveWorkerEnvironments (is_uuid I) claims tenantID (car_Environments req)) (\<lambda>envIDs.
     bindP time_Now (\<lambda>now.
     handleE (actor_Create
                \<lparr>acp_TenantID = tenantID, acp_Type = ActorAgent, acp_Name = car_Name req,
                 acp_TeamID = te_ID tm, acp_TrustTier = tier, acp_AuthorizedBy = Some authorizedBy,
                 acp_ExpiresAt = Some (now + sint ttl),
                 acp_IdempotencyKey = (if car_IdempotencyKey req \<noteq> [] then Some (car_IdempotencyKey req) else None)\<rparr>)
       anyErr (\<lambda>newActor.
     handleE (grant_environments (act_ID newActor) envIDs) anyErr (\<lambda>_.
     handleE (issuer_Issue I
                \<lparr>ir_TenantID = cl_TenantID claims, ir_ActorID = uuid_String (is_uuid I) (act_ID newActor),
                 ir_ActorType = ActorAgent, ir_Tier = tier,
                 ir_Environments = map (uuid_String (is_uuid I)) envIDs,
                 ir_Delegation = Some \<lparr>AuthorizedBy = cl_ActorID claims,
                                       TeamID = uuid_String (is_uuid I) (te_ID tm)\<rparr>,
                 ir_TTL = ttl\<rparr> (cl_Tier claims))
       (errIs identity_ErrPrivilegeEscalation forbidden) (\<lambda>token.
     handleE (audit_Create (audit_of tenantID authorizedBy ''agent.enrolled'')) anyErr (\<lambda>_.
     Done (Reply 201 \<lparr>cap_ActorID = uuid_String (is_uuid I) (act_ID newActor), cap_Token = token\<rparr>))))))))"

definition handlePostAgents :: "issuer \<Rightarrow> createAgentRequest option \<Rightarrow> Claims option \<Rightarrow> createAgentResponse handler" where
  "handlePostAgents I body ctx =
     orNone ctx internalError (\<lambda>claims.
     reject (cl_ActorType claims = ActorAgent) forbidden (
     orNone body badRequest (\<lambda>req.
     reject (car_Name req = []) badRequest (
     reject (car_Team req = []) badRequest (
     orNone (map_of tierNames (car_Tier req)) badRequest (\<lambda>tier.
     reject (sint (car_TTLSeconds req) \<le> 0) badRequest (
     let ttl = car_TTLSeconds req * time_Second in
     reject (sint ttl > sint maxAgentTTL) badRequest (
     reject (tier > cl_Tier claims) forbidden (
     orFail (uuid_Parse (is_uuid I) (cl_TenantID claims)) internalError (\<lambda>tenantID.
     orFail (uuid_Parse (is_uuid I) (cl_ActorID claims)) internalError (\<lambda>authorizedBy.
     if car_IdempotencyKey req = [] then createAgent I claims tenantID authorizedBy req tier ttl
     else bindP (GetByIdempotencyKey tenantID authorizedBy (car_IdempotencyKey req)) (\<lambda>r.
       case r of
         Inr existing \<Rightarrow> replayAgent I claims tenantID authorizedBy existing
       | Inl e \<Rightarrow>
           if \<not> errors_Is e actor_ErrNotFound then Done internalError
           else createAgent I claims tenantID authorizedBy req tier ttl))))))))))))"

section \<open>Workers\<close>

record createWorkerRequest =
  cwr_Name :: string
  cwr_Environments :: "string list"

record createWorkerResponse =
  cwp_WorkerCredentialID :: string
  cwp_Token :: string

definition handlePostWorkers :: "uuid_lib \<Rightarrow> createWorkerRequest option \<Rightarrow> Claims option \<Rightarrow> createWorkerResponse handler" where
  "handlePostWorkers U body ctx =
     orNone ctx internalError (\<lambda>claims.
     reject (cl_Tier claims \<noteq> TierAutonomous) forbidden (
     orNone body badRequest (\<lambda>req.
     reject (cwr_Name req = []) badRequest (
     reject (length (cwr_Environments req) = 0) badRequest (
     orFail (uuid_Parse U (cl_TenantID claims)) internalError (\<lambda>tenantID.
     orFail (uuid_Parse U (cl_ActorID claims)) internalError (\<lambda>actorID.
     orResp (resolveWorkerEnvironments U claims tenantID (cwr_Environments req)) (\<lambda>envIDs.
     handleE (workercred_Create tenantID (cwr_Name req) envIDs) anyErr (\<lambda>(cred, token).
     handleE (audit_Create (audit_of tenantID actorID ''worker.enrolled'')) anyErr (\<lambda>_.
     Done (Reply 201 \<lparr>cwp_WorkerCredentialID = uuid_String U (crd_ID cred), cwp_Token = token\<rparr>)))))))))))"

record workerCredentialResponse =
  wcr_WorkerCredentialID :: string
  wcr_Name :: string
  wcr_Environments :: "string list"
  wcr_RevokedAt :: "time option"

fun env_names :: "uuid list \<Rightarrow> string list go" where
  "env_names [] = returnE []"
| "env_names (e # es) =
     bindE (environment_Get e) (\<lambda>env. bindE (env_names es) (\<lambda>ns. returnE (e_Name env # ns)))"

fun worker_items :: "uuid_lib \<Rightarrow> Credential list \<Rightarrow> workerCredentialResponse list go" where
  "worker_items U [] = returnE []"
| "worker_items U (c # cs) =
     bindE (env_names (crd_Environments c)) (\<lambda>names.
     bindE (worker_items U cs) (\<lambda>items.
     returnE (\<lparr>wcr_WorkerCredentialID = uuid_String U (crd_ID c), wcr_Name = crd_Name c,
               wcr_Environments = names, wcr_RevokedAt = crd_RevokedAt c\<rparr> # items)))"

definition handleGetWorkers :: "uuid_lib \<Rightarrow> Claims option \<Rightarrow> workerCredentialResponse list handler" where
  "handleGetWorkers U ctx =
     orNone ctx internalError (\<lambda>claims.
     orFail (uuid_Parse U (cl_TenantID claims)) internalError (\<lambda>tenantID.
     handleE (workercred_List tenantID) anyErr (\<lambda>creds.
     handleE (worker_items U creds) anyErr (\<lambda>items.
     Done (Reply 200 items)))))"

definition handlePostWorkerBootstrap :: "uuid_lib \<Rightarrow> string \<Rightarrow> string \<Rightarrow> string option \<Rightarrow> createWorkerResponse handler" where
  "handlePostWorkerBootstrap U bootstrapToken header body =
     reject (\<not> HasPrefix header ''Bearer '') unauthorized (
     reject (TrimPrefix header ''Bearer '' \<noteq> bootstrapToken) unauthorized (
     orNone body badRequest (\<lambda>name.
     reject (name = []) badRequest (
     handleE GetSole (errIs tenant_ErrNotFound conflict) (\<lambda>tn.
     handleE (GetRoot (t_ID tn)) anyErr (\<lambda>root.
     handleE (Bootstrap (t_ID tn) name) anyErr (\<lambda>(cred, token).
     handleE (audit_Create (audit_of (t_ID tn) (act_ID root) ''worker.self_registered'')) anyErr (\<lambda>_.
     Done (Reply 200 \<lparr>cwp_WorkerCredentialID = uuid_String U (crd_ID cred), cwp_Token = token\<rparr>)))))))))"

definition handlePostWorkerGrantEnvironments :: "uuid_lib \<Rightarrow> string \<Rightarrow> string list option \<Rightarrow> Claims option \<Rightarrow> unit handler" where
  "handlePostWorkerGrantEnvironments U pathID body ctx =
     orNone ctx internalError (\<lambda>claims.
     reject (cl_Tier claims \<noteq> TierAutonomous) forbidden (
     orFail (uuid_Parse U pathID) badRequest (\<lambda>credentialID.
     orNone body badRequest (\<lambda>names.
     reject (length names = 0) badRequest (
     orFail (uuid_Parse U (cl_TenantID claims)) internalError (\<lambda>tenantID.
     orFail (uuid_Parse U (cl_ActorID claims)) internalError (\<lambda>actorID.
     handleE (workercred_Get credentialID) (errIs workercred_ErrNotFound notFoundResp) (\<lambda>cred.
     reject (crd_TenantID cred \<noteq> tenantID) notFoundResp (
     orResp (resolveWorkerEnvironments U claims tenantID names) (\<lambda>envIDs.
     handleE (workercred_Grant (crd_ID cred) envIDs) anyErr (\<lambda>_.
     handleE (audit_Create (audit_of tenantID actorID ''worker.environment_granted'')) anyErr (\<lambda>_.
     Done (Status 204)))))))))))))"

text \<open>\<open>url.Parse\<close> gives scheme and host, or an error.\<close>

type_synonym url_parser = "string \<Rightarrow> (string \<times> string) res"

definition isValidCallbackURL :: "url_parser \<Rightarrow> string \<Rightarrow> bool" where
  "isValidCallbackURL url_Parse raw =
     (case url_Parse raw of
        Inl e \<Rightarrow> False
      | Inr (scheme, host) \<Rightarrow> host \<noteq> [] \<and> (scheme = ''http'' \<or> scheme = ''https''))"

definition handlePutWorkerCICallbackURL :: "url_parser \<Rightarrow> string option \<Rightarrow> Credential option \<Rightarrow> unit handler" where
  "handlePutWorkerCICallbackURL url_Parse body ctx =
     orNone ctx internalError (\<lambda>cred.
     orNone body badRequest (\<lambda>url.
     reject (\<not> isValidCallbackURL url_Parse url) badRequest (
     handleE (SetCICallbackURL (crd_ID cred) url) anyErr (\<lambda>_.
     Done (Status 200)))))"

definition handleGetCICallbackURL :: "string \<Rightarrow> string \<Rightarrow> string handler" where
  "handleGetCICallbackURL provider repo =
     reject (provider = [] \<or> repo = []) badRequest (
     handleE (CICallbackURLForRepo provider repo) (errIs workercred_ErrNoCallbackURL notFoundResp) (\<lambda>url.
     Done (Reply 200 url)))"

end
