(* ===== verification/ApiCosts.thy ===== *)
theory ApiCosts
  imports ApiRuns
begin

text \<open>
  The cost handlers, \<open>controlplane/internal/api/cost.go\<close>.  RFC 3339 parsing is the parameter
  \<open>time_Parse\<close>; times appear in responses as such.
\<close>

record runCostResponse =
  rco_Source :: string
  rco_DurationMS :: "int64 option"
  rco_AmountMicros :: "int64 option"
  rco_Currency :: string
  rco_CapturedAt :: time

definition cost_item :: "RunCost \<Rightarrow> runCostResponse" where
  "cost_item row =
     \<lparr>rco_Source = rcs_Source row, rco_DurationMS = rcs_DurationMS row,
      rco_AmountMicros = rcs_AmountMicros row, rco_Currency = rcs_Currency row,
      rco_CapturedAt = rcs_CapturedAt row\<rparr>"

definition handleGetRunCost :: "uuid_lib \<Rightarrow> string \<Rightarrow> Claims option \<Rightarrow> runCostResponse list handler" where
  "handleGetRunCost U pathID ctx =
     orNone ctx internalError (\<lambda>claims.
     orFail (uuid_Parse U (cl_TenantID claims)) internalError (\<lambda>tenantID.
     orFail (uuid_Parse U pathID) badRequest (\<lambda>i.
     handleE (execution_Get tenantID i) (errIs execution_ErrNotFound notFoundResp) (\<lambda>_.
     handleE (GetForRun i) anyErr (\<lambda>rows.
     Done (Reply 200 (map cost_item rows)))))))"

record actorCostSummaryResponse =
  aco_ActorID :: string
  aco_TotalAmountMicros :: "int option"
  aco_TotalDurationMS :: int
  aco_RunCount :: nat

definition summary_item :: "uuid_lib \<Rightarrow> ActorCostSummary \<Rightarrow> actorCostSummaryResponse" where
  "summary_item U s =
     \<lparr>aco_ActorID = uuid_String U (acs_ActorID s), aco_TotalAmountMicros = acs_TotalAmountMicros s,
      aco_TotalDurationMS = acs_TotalDurationMS s, aco_RunCount = acs_RunCount s\<rparr>"

definition parseOptional :: "(string \<Rightarrow> 'a res) \<Rightarrow> string \<Rightarrow> 'a option res" where
  "parseOptional parse v =
     (if v = [] then Inr None
      else (case parse v of Inl e \<Rightarrow> Inl (Wrapf e) | Inr t \<Rightarrow> Inr (Some t)))"

definition handleGetCostsByActor :: "uuid_lib \<Rightarrow> (string \<Rightarrow> time res) \<Rightarrow> string \<Rightarrow> string \<Rightarrow> string \<Rightarrow> Claims option \<Rightarrow> actorCostSummaryResponse list handler" where
  "handleGetCostsByActor U time_Parse qActor qFrom qTo ctx =
     orNone ctx internalError (\<lambda>claims.
     orFail (uuid_Parse U (cl_TenantID claims)) internalError (\<lambda>tenantID.
     orFail (parseOptional (uuid_Parse U) qActor) badRequest (\<lambda>actorID.
     orFail (parseOptional time_Parse qFrom) badRequest (\<lambda>from.
     orFail (parseOptional time_Parse qTo) badRequest (\<lambda>to.
     handleE (SumByActor tenantID actorID from to) anyErr (\<lambda>summaries.
     Done (Reply 200 (map (summary_item U) summaries))))))))"

record setCostRateRequest =
  scr_EnvironmentID :: string
  scr_CIProvider :: string
  scr_RateMicrosPerMS :: int64
  scr_Currency :: string

definition handlePutCostRate :: "uuid_lib \<Rightarrow> setCostRateRequest option \<Rightarrow> Claims option \<Rightarrow> unit handler" where
  "handlePutCostRate U body ctx =
     orNone ctx internalError (\<lambda>claims.
     reject (cl_Tier claims = TierReadOnly) forbidden (
     orFail (uuid_Parse U (cl_TenantID claims)) internalError (\<lambda>tenantID.
     orNone body badRequest (\<lambda>req.
     reject (sint (scr_RateMicrosPerMS req) < 0) badRequest (
     let currency = (if scr_Currency req = [] then ''USD'' else scr_Currency req) in
     orFail (parseOptional (uuid_Parse U) (scr_EnvironmentID req)) badRequest (\<lambda>environmentID.
     let ciProvider = (if scr_CIProvider req \<noteq> [] then Some (scr_CIProvider req) else None) in
     handleE (SetRate tenantID environmentID ciProvider (scr_RateMicrosPerMS req) currency) anyErr (\<lambda>_.
     Done (Reply 200 ()))))))))"

end
