(* ===== verification/Server.thy ===== *)
theory Server
  imports ApiAccess ApiCosts
begin

text \<open>
  \<open>controlplane/internal/api/server.go\<close>: the dependencies of the handlers and the routes.  A request
  is a constructor per route with what its handler reads: the \<open>Authorization\<close> header, path and query
  values, and the decoded body.
\<close>

record server =
  sv_issuer :: issuer
  sv_publicKey :: string
  sv_bcrypt :: bcrypt_lib
  sv_workerBootstrapToken :: string
  sv_runs :: "Store option"
  sv_url_Parse :: url_parser
  sv_time_Parse :: "string \<Rightarrow> time res"

definition EnableExecution :: "Store \<Rightarrow> server \<Rightarrow> server" where
  "EnableExecution st s = s\<lparr>sv_runs := Some st\<rparr>"

definition EnableWorkerBootstrap :: "string \<Rightarrow> server \<Rightarrow> server" where
  "EnableWorkerBootstrap token s = s\<lparr>sv_workerBootstrapToken := token\<rparr>"

datatype request =
    GetSetup
  | PostSetup "setupRequest option"
  | PostToken "tokenRequest option"
  | PostAgents string "createAgentRequest option"
  | PostEnvironments string "createEnvironmentRequest option"
  | PostWorkers string "createWorkerRequest option"
  | GetWorkers string
  | PostWorkerGrantEnvironments string string "string list option"
  | PostWorkerBootstrap string "string option"
  | PostEnvironmentVerify string string
  | GetVerificationStatus string string string
  | GetNextWorkerVerification string
  | PostWorkerVerificationResult string string "(string \<times> TierResult) list option"
  | PutWorkerCICallbackURL string "string option"
  | GetCICallbackURL string string
  | PostPipelines string "createPipelineRequest option"
  | GetPipelineByID string string
  | PatchTenantTelemetry string "bool option"
  | PostRuns string "createRunRequest option"
  | GetRunByID string string
  | PostRunDecision string string "string option"
  | GetNextWorkerRun string
  | PostWorkerRunResult string string "reportRunResultRequest option"
  | PostWorkerRunResolve string "resolveRunRequest option"
  | GetRunCost string string
  | GetCostsByActor string string string string
  | PutCostRate string "setCostRateRequest option"

text \<open>The status line of a response; a route that is not registered answers 404.\<close>

fun status_code :: "'b response \<Rightarrow> nat option" where
  "status_code (Reply n b) = Some n"
| "status_code (Error n c) = Some n"
| "status_code (Status n) = Some n"
| "status_code Aborted = None"

definition coded :: "'b handler \<Rightarrow> (world, nat option) prog" where
  "coded h = bindP h (\<lambda>r. Done (status_code r))"

definition auth :: "server \<Rightarrow> string \<Rightarrow> (Claims option \<Rightarrow> 'b handler) \<Rightarrow> (world, nat option) prog" where
  "auth s header next =
     coded (requireAuth (is_jwt (sv_issuer s)) (sv_publicKey s) (is_uuid (sv_issuer s)) header next)"

definition worker_auth :: "string \<Rightarrow> (Credential option \<Rightarrow> 'b handler) \<Rightarrow> (world, nat option) prog" where
  "worker_auth header next = coded (requireWorkerAuth header next)"

definition with_runs :: "server \<Rightarrow> (Store \<Rightarrow> (world, nat option) prog) \<Rightarrow> (world, nat option) prog" where
  "with_runs s k = (case sv_runs s of None \<Rightarrow> Done (Some 404) | Some st \<Rightarrow> k st)"

fun Routes :: "server \<Rightarrow> request \<Rightarrow> (world, nat option) prog" where
  "Routes s GetSetup = coded handleGetSetup"
| "Routes s (PostSetup b) = coded (handlePostSetup (sv_bcrypt s) (sv_issuer s) b)"
| "Routes s (PostToken b) = coded (handlePostToken (sv_bcrypt s) (sv_issuer s) b)"
| "Routes s (PostAgents h b) = auth s h (handlePostAgents (sv_issuer s) b)"
| "Routes s (PostEnvironments h b) = auth s h (handlePostEnvironments (is_uuid (sv_issuer s)) b)"
| "Routes s (PostWorkers h b) = auth s h (handlePostWorkers (is_uuid (sv_issuer s)) b)"
| "Routes s (GetWorkers h) = auth s h (handleGetWorkers (is_uuid (sv_issuer s)))"
| "Routes s (PostWorkerGrantEnvironments h i b) =
     auth s h (handlePostWorkerGrantEnvironments (is_uuid (sv_issuer s)) i b)"
| "Routes s (PostWorkerBootstrap h b) =
     (if length (sv_workerBootstrapToken s) > 0
      then coded (handlePostWorkerBootstrap (is_uuid (sv_issuer s)) (sv_workerBootstrapToken s) h b)
      else Done (Some 404))"
| "Routes s (PostEnvironmentVerify h n) = auth s h (handlePostEnvironmentVerify (is_uuid (sv_issuer s)) n)"
| "Routes s (GetVerificationStatus h n i) = auth s h (handleGetVerification (is_uuid (sv_issuer s)) n i)"
| "Routes s (GetNextWorkerVerification h) =
     worker_auth h (handleGetNextWorkerVerification (is_uuid (sv_issuer s)))"
| "Routes s (PostWorkerVerificationResult h i b) =
     worker_auth h (handlePostWorkerVerificationResult (is_uuid (sv_issuer s)) i b)"
| "Routes s (PutWorkerCICallbackURL h b) = worker_auth h (handlePutWorkerCICallbackURL (sv_url_Parse s) b)"
| "Routes s (GetCICallbackURL p r) = coded (handleGetCICallbackURL p r)"
| "Routes s (PostPipelines h b) = auth s h (handlePostPipelines (is_uuid (sv_issuer s)) b)"
| "Routes s (GetPipelineByID h i) = auth s h (handleGetPipeline (is_uuid (sv_issuer s)) i)"
| "Routes s (PatchTenantTelemetry h b) = auth s h (handlePatchTenantTelemetry (is_uuid (sv_issuer s)) b)"
| "Routes s (PostRuns h b) =
     with_runs s (\<lambda>st. auth s h (handlePostRuns (is_uuid (sv_issuer s)) st b))"
| "Routes s (GetRunByID h i) = with_runs s (\<lambda>st. auth s h (handleGetRun (is_uuid (sv_issuer s)) i))"
| "Routes s (PostRunDecision h i b) =
     with_runs s (\<lambda>st. auth s h (handlePostRunDecision (is_uuid (sv_issuer s)) st i b))"
| "Routes s (GetNextWorkerRun h) =
     with_runs s (\<lambda>st. worker_auth h (handleGetNextWorkerRun (is_uuid (sv_issuer s))))"
| "Routes s (PostWorkerRunResult h i b) =
     with_runs s (\<lambda>st. worker_auth h (handlePostWorkerRunResult (is_uuid (sv_issuer s)) i b))"
| "Routes s (PostWorkerRunResolve h b) =
     with_runs s (\<lambda>st. worker_auth h (handlePostWorkerRunResolve (is_uuid (sv_issuer s)) b))"
| "Routes s (GetRunCost h i) = with_runs s (\<lambda>st. auth s h (handleGetRunCost (is_uuid (sv_issuer s)) i))"
| "Routes s (GetCostsByActor h a f t) =
     with_runs s (\<lambda>st. auth s h (handleGetCostsByActor (is_uuid (sv_issuer s)) (sv_time_Parse s) a f t))"
| "Routes s (PutCostRate h b) = with_runs s (\<lambda>st. auth s h (handlePutCostRate (is_uuid (sv_issuer s)) b))"

end
