(* ===== verification/Bystanders.thy ===== *)
theory Bystanders
  imports Server
begin

text \<open>
  Most of the control plane never writes the tables a given promise is about.  The locale
  \<open>bystander\<close> says so of a history: it admits every change to the tables of the other components,
  and appending to the audit log.  Inside it each statement, store operation and handler that only
  touches those tables is shown to keep the history, once for all promises.
\<close>

named_theorems frame
named_theorems stores

locale bystander = history +
  assumes teams_R: "R d (d\<lparr>teams := x1\<rparr>)"
    and environments_R: "R d (d\<lparr>environments := x2\<rparr>)"
    and actors_R: "R d (d\<lparr>actors := x3\<rparr>)"
    and actor_environments_R: "R d (d\<lparr>actor_environments := x4\<rparr>)"
    and aws_configs_R: "R d (d\<lparr>aws_configs := x5\<rparr>)"
    and aws_tier_roles_R: "R d (d\<lparr>aws_tier_roles := x6\<rparr>)"
    and audit_events_R: "R d (d\<lparr>audit_events := audit_events d @ x7\<rparr>)"
    and revoked_sessions_R: "R d (d\<lparr>revoked_sessions := x8\<rparr>)"
    and local_users_R: "R d (d\<lparr>local_users := x9\<rparr>)"
    and worker_credentials_R: "R d (d\<lparr>worker_credentials := y1\<rparr>)"
    and worker_credential_environments_R: "R d (d\<lparr>worker_credential_environments := y2\<rparr>)"
    and verifications_R: "R d (d\<lparr>verifications := y3\<rparr>)"
    and run_costs_R: "R d (d\<lparr>run_costs := y4\<rparr>)"
    and cost_rates_R: "R d (d\<lparr>cost_rates := y5\<rparr>)"
    and telemetry_instances_R: "R d (d\<lparr>telemetry_instances := y6\<rparr>)"
    and signing_keys_R: "R d (d\<lparr>signing_keys := y7\<rparr>)"
begin

lemmas bystander_laws = R_refl teams_R environments_R actors_R actor_environments_R aws_configs_R
  aws_tier_roles_R audit_events_R revoked_sessions_R local_users_R worker_credentials_R
  worker_credential_environments_R verifications_R run_costs_R cost_rates_R
  telemetry_instances_R signing_keys_R

section \<open>Statements\<close>

lemma keeps_tenancy [frame]:
  "keeps R (GetTenant i) w" "keeps R AnyTenantExists w"
  "keeps R GetSoleTenant w" "keeps R (CreateTeam t n) w"
  "keeps R (GetTeam i) w" "keeps R (GetTeamByName t n) w"
  "keeps R (CreateEnvironment t n p r) w" "keeps R (GetEnvironment i) w"
  "keeps R (GetEnvironmentByName t n) w"
  "keeps R (CreateEnvironmentAWSConfig i x y z) w"
  "keeps R (GetEnvironmentAWSConfig i) w"
  "keeps R (CreateEnvironmentAWSTierRole i k x) w"
  "keeps R (GetEnvironmentAWSTierRole i k) w"
  unfolding GetTenant_def AnyTenantExists_def GetSoleTenant_def
    CreateTeam_def GetTeam_def GetTeamByName_def CreateEnvironment_def GetEnvironment_def
    GetEnvironmentByName_def CreateEnvironmentAWSConfig_def GetEnvironmentAWSConfig_def
    CreateEnvironmentAWSTierRole_def GetEnvironmentAWSTierRole_def Let_def
  by (auto intro!: keeps_sql bystander_laws simp: insert_row_Inr split: sum.splits)

lemma keeps_actors [frame]:
  "keeps R (CreateActor p) w" "keeps R (GetActor i) w"
  "keeps R (GetRootActor i) w" "keeps R (GetActorByIdempotencyKey i j k) w"
  "keeps R (GrantActorEnvironment i j) w" "keeps R (ListActorEnvironments i) w"
  "keeps R (RevokeSession i j t) w" "keeps R (IsRevoked_query i j) w"
  "keeps R DeleteExpiredSessions w" "keeps R (CreateLocalUser i n h) w"
  "keeps R (GetLocalUserByUsername n) w"
  unfolding CreateActor_def GetActor_def GetRootActor_def GetActorByIdempotencyKey_def
    GrantActorEnvironment_def ListActorEnvironments_def RevokeSession_def IsRevoked_query_def
    DeleteExpiredSessions_def CreateLocalUser_def GetLocalUserByUsername_def Let_def
  by (auto intro!: keeps_sql bystander_laws simp: insert_row_Inr split: sum.splits option.splits)

lemma keeps_workers [frame]:
  "keeps R (CreateWorkerCredential t n h) w"
  "keeps R (GetWorkerCredentialByTokenHash h) w" "keeps R (GetWorkerCredential i) w"
  "keeps R (ListWorkerCredentials t) w"
  "keeps R (GetWorkerCredentialByTenantAndName t n) w"
  "keeps R (RotateWorkerCredentialToken i h) w"
  "keeps R (GrantWorkerCredentialEnvironment i j) w"
  "keeps R (ListWorkerCredentialEnvironments i) w"
  "keeps R (SetWorkerCICallbackURL i url) w" "keeps R (GetCICallbackURLForRepo p r) w"
  unfolding CreateWorkerCredential_def GetWorkerCredentialByTokenHash_def GetWorkerCredential_def
    ListWorkerCredentials_def GetWorkerCredentialByTenantAndName_def RotateWorkerCredentialToken_def
    GrantWorkerCredentialEnvironment_def ListWorkerCredentialEnvironments_def SetWorkerCICallbackURL_def
    GetCICallbackURLForRepo_def Let_def
  by (auto intro!: keeps_sql bystander_laws simp: insert_row_Inr split: sum.splits option.splits if_splits)

lemma keeps_others [frame]:
  "keeps R (CreateAuditEvent p m) w" "keeps R (GetAuditEvent i) w"
  "keeps R (CreateVerification t e a) w" "keeps R (GetVerification i) w"
  "keeps R (ClaimNextPendingVerification c es) w"
  "keeps R (CompleteVerification i s rs c) w"
  "keeps R (CreateRunCost i s x y z) w" "keeps R (GetRunCostByRunAndSource i s) w"
  "keeps R (GetCostsForRun i) w" "keeps R (FindCostRate t e po) w"
  "keeps R (UpsertCostRate t eo po r cur) w" "keeps R (SumCostByActor t ao f g) w"
  "keeps R (GetRun t i) w" "keeps R (GetApprovalByRunID i) w"
  unfolding CreateAuditEvent_def GetAuditEvent_def CreateVerification_def GetVerification_def
    ClaimNextPendingVerification_def CompleteVerification_def CreateRunCost_def
    GetRunCostByRunAndSource_def GetCostsForRun_def FindCostRate_def UpsertCostRate_def
    SumCostByActor_def GetRun_def GetApprovalByRunID_def Let_def
  by (auto intro!: keeps_sql bystander_laws simp: insert_row_Inr split: sum.splits option.splits if_splits)

lemma keeps_bcrypt [frame]: "keeps R (bcrypt_act B pw) w"
  unfolding keeps_def bcrypt_act_def
  by (rule rg_act) (auto simp: on_db_def intro: R_trans)

section \<open>Stores\<close>

lemmas store_rules = keeps_bindE keeps_bindP keeps_mapE keeps_Done keeps_time_Now
  keeps_uuid_New keeps_rand_Read

lemma keeps_tenancy_stores [stores]:
  "keeps R AnyExists w" "keeps R GetSole w" "keeps R (team_Create t n) w"
  "keeps R (team_GetByName t n) w" "keeps R (environment_Create t n p r) w"
  "keeps R (environment_Get i) w" "keeps R (environment_GetByName t n) w"
  "keeps R (CreateAWSConfig i x y z) w" "keeps R (GetAWSConfig i) w"
  "keeps R (CreateAWSTierRole i k x) w" "keeps R (GetAWSTierRole i k) w"
  unfolding AnyExists_def GetSole_def team_Create_def
    team_GetByName_def environment_Create_def environment_Get_def environment_GetByName_def
    CreateAWSConfig_def GetAWSConfig_def CreateAWSTierRole_def GetAWSTierRole_def
  by (auto intro!: store_rules frame)

lemma keeps_actor_stores [stores]:
  "keeps R (actor_Create p) w" "keeps R (actor_Get i) w"
  "keeps R (GetByIdempotencyKey i j k) w" "keeps R (GetRoot i) w"
  "keeps R (GrantEnvironment i j) w" "keeps R (actor_ListEnvironments i) w"
  "keeps R (session_IsRevoked U x y) w" "keeps R (credential_Create B i n pw) w"
  "keeps R (credential_Verify B n pw) w" "keeps R (audit_Create q) w"
  unfolding actor_Create_def actor_Get_def GetByIdempotencyKey_def GetRoot_def GrantEnvironment_def
    actor_ListEnvironments_def session_IsRevoked_def credential_Create_def credential_Verify_def
    audit_Create_def
  by (auto intro!: store_rules frame split: sum.split)

lemma keeps_generateToken [stores]: "keeps R generateToken w"
  unfolding generateToken_def by (auto intro!: store_rules)

lemma keeps_Grant [stores]: "keeps R (workercred_Grant i es) w"
  by (induction es arbitrary: w) (auto intro!: store_rules frame)

lemma keeps_mint [stores]: "keeps R (mint t n es) w"
  unfolding mint_def by (auto intro!: store_rules frame stores)

lemma keeps_list_credentials [stores]: "keeps R (list_credentials rs) w"
  by (induction rs arbitrary: w) (auto intro!: store_rules frame)

lemma keeps_worker_stores [stores]:
  "keeps R (workercred_Create t n es) w" "keeps R (Bootstrap t n) w"
  "keeps R (workercred_List t) w" "keeps R (workercred_Get i) w"
  "keeps R (workercred_Verify tok) w" "keeps R (SetCICallbackURL i url) w"
  "keeps R (CICallbackURLForRepo p r) w"
  unfolding workercred_Create_def Bootstrap_def workercred_List_def workercred_Get_def
    workercred_Verify_def SetCICallbackURL_def CICallbackURLForRepo_def
  by (auto intro!: store_rules frame stores split: sum.split)

lemma keeps_verification_stores [stores]:
  "keeps R (verification_Create t e a) w" "keeps R (verification_Get i) w"
  "keeps R (verification_Claim c es) w" "keeps R (Complete i c rs) w"
  unfolding verification_Create_def verification_Get_def verification_Claim_def Complete_def
  by (auto intro!: store_rules frame)

lemma keeps_findRate [stores]: "keeps R (findRate t e p) w"
  unfolding findRate_def by (auto intro!: store_rules frame split: sum.split)

lemma keeps_cost_stores [stores]:
  "keeps R (CaptureCIDuration t i e p a b) w" "keeps R (GetForRun i) w"
  "keeps R (SumByActor t ao f g) w" "keeps R (SetRate t eo po r cur) w"
  unfolding CaptureCIDuration_def GetForRun_def SumByActor_def SetRate_def Let_def
  by (auto intro!: store_rules frame stores split: sum.split)

lemma keeps_pipeline_stores [stores]:
  "keeps R (pipeline_Get t i) w" "keeps R (execution_Get t i) w"
  unfolding pipeline_Get_def GetPipeline_def execution_Get_def
  by (auto intro!: store_rules frame)

section \<open>Handlers\<close>

lemmas handler_rules = keeps_handler store_rules

lemma keeps_Issue [stores]: "keeps R (issuer_Issue I q t) w"
  unfolding issuer_Issue_def by (auto intro!: store_rules)

lemma keeps_resolve [stores]: "keeps R (resolveWorkerEnvironments U c t ns) w"
  by (induction ns arbitrary: w) (auto intro!: store_rules stores split: sum.split)

lemma keeps_orResp:
  "keeps R p w \<Longrightarrow>
     (\<And>a v. R (w_db w) (w_db v) \<Longrightarrow> keeps R (k a) v) \<Longrightarrow>
     keeps R (orResp p k) w"
  unfolding orResp_def by (rule keeps_bindP) (auto split: sum.split)

lemma keeps_grant_environments [stores]: "keeps R (grant_environments a es) w"
  by (induction es arbitrary: w) (auto intro!: store_rules stores)

lemma keeps_create_tier_roles [stores]: "keeps R (create_tier_roles e rs) w"
  by (induction rs arbitrary: w) (auto intro!: store_rules stores)

lemma keeps_tier_role_arns [stores]: "keeps R (tier_role_arns e ts) w"
  by (induction ts arbitrary: w) (auto intro!: store_rules stores)

lemma keeps_env_names [stores]: "keeps R (env_names es) w"
  by (induction es arbitrary: w) (auto intro!: store_rules stores)

lemma keeps_worker_items [stores]: "keeps R (worker_items U cs) w"
  by (induction cs arbitrary: w) (auto intro!: store_rules stores)

lemma keeps_reissue [stores]: "keeps R (reissueAgentToken I c a es) w"
  unfolding reissueAgentToken_def by (auto intro!: store_rules stores split: option.split)

lemma keeps_access_handlers:
  "keeps R handleGetSetup w" "keeps R (handlePostToken B I b2) w"
  "keeps R (handlePostWorkers U b4 ctx) w" "keeps R (handleGetWorkers U ctx) w"
  "keeps R (handlePostWorkerBootstrap U bt h b5) w"
  "keeps R (handlePostWorkerGrantEnvironments U i b6 ctx) w"
  "keeps R (handlePutWorkerCICallbackURL up b7 cred) w"
  "keeps R (handleGetCICallbackURL pr rp) w"
  unfolding handleGetSetup_def handlePostToken_def
    handlePostWorkers_def handleGetWorkers_def handlePostWorkerBootstrap_def
    handlePostWorkerGrantEnvironments_def handlePutWorkerCICallbackURL_def handleGetCICallbackURL_def
  by (auto intro!: handler_rules keeps_orResp stores)

lemma keeps_createAgent: "keeps R (createAgent I c t a req k ttl) w"
  unfolding createAgent_def by (auto intro!: handler_rules keeps_orResp stores)

lemma keeps_replayAgent: "keeps R (replayAgent I c t a ex) w"
  unfolding replayAgent_def by (auto intro!: handler_rules stores)

lemma keeps_handlePostAgents: "keeps R (handlePostAgents I b ctx) w"
  unfolding handlePostAgents_def Let_def
  by (auto intro!: handler_rules stores keeps_createAgent keeps_replayAgent split: sum.split)

lemma keeps_catalog_handlers:
  "keeps R (handleGetPipeline U i ctx) w"
  "keeps R (handlePostEnvironments U b2 ctx) w"
  "keeps R (handlePostEnvironmentVerify U n ctx) w"
  "keeps R (handleGetVerification U n i ctx) w"
  "keeps R (handleGetNextWorkerVerification U cred) w"
  "keeps R (handlePostWorkerVerificationResult U i b3 cred) w"
  unfolding handleGetPipeline_def handlePostEnvironments_def
    handlePostEnvironmentVerify_def handleGetVerification_def handleGetNextWorkerVerification_def
    handlePostWorkerVerificationResult_def
  by (auto intro!: handler_rules stores)

lemma keeps_cost_handlers:
  "keeps R (handleGetRunCost U i ctx) w"
  "keeps R (handleGetCostsByActor U tp a f t ctx) w"
  "keeps R (handlePutCostRate U b ctx) w"
  unfolding handleGetRunCost_def handleGetCostsByActor_def handlePutCostRate_def Let_def
  by (auto intro!: handler_rules stores)

section \<open>Authentication\<close>

lemma keeps_Verify: "(\<And>x y v. keeps R (chk x y) v) \<Longrightarrow>
    keeps R (Verify L key (Some chk) now tok) w"
  unfolding Verify_def by (auto intro!: store_rules split: prod.split option.split)

lemma keeps_auth:
  "(\<And>c v. R (w_db w) (w_db v) \<Longrightarrow> keeps R (next c) v) \<Longrightarrow> keeps R (auth s h next) w"
  unfolding auth_def coded_def requireAuth_def
  by (intro keeps_bindP keeps_reject keeps_time_Now keeps_handleE keeps_Verify
        keeps_actor_stores keeps_Done) (blast intro: R_trans)+

lemma keeps_worker_auth:
  "(\<And>c v. R (w_db w) (w_db v) \<Longrightarrow> keeps R (next c) v) \<Longrightarrow> keeps R (worker_auth h next) w"
  unfolding worker_auth_def coded_def requireWorkerAuth_def
  by (intro keeps_bindP keeps_reject keeps_handleE keeps_worker_stores keeps_Done) blast

lemma keeps_coded: "keeps R h w \<Longrightarrow> keeps R (coded h) w"
  unfolding coded_def by (intro keeps_bindP keeps_Done)

lemma keeps_captureCost: "(\<And>v. R (w_db w) (w_db v) \<Longrightarrow> keeps R k v) \<Longrightarrow> keeps R (captureCost r k) w"
  unfolding captureCost_def by (auto intro!: handler_rules stores split: option.split)

lemma keeps_handleGetRun: "keeps R (handleGetRun U i ctx) w"
  unfolding handleGetRun_def by (auto intro!: handler_rules stores)

end

end
