(* ===== verification/Startup.thy ===== *)
theory Startup
  imports Server Instance Stdlib
begin

text \<open>
  Package \<open>controlplane/internal/server\<close> with \<open>controlplane/internal/db\<close>: the settings of the control
  plane, what \<open>Run\<close> builds before it serves, and its background loop over the sessions.
\<close>

section \<open>What start-up calls\<close>

text \<open>
  The environment and the files, the connection and migration libraries with the outcome of each call,
  River's constructor, start and \<open>Insert\<close>, and the libraries the server is built with.
\<close>

record boot_lib =
  bt_getenv :: "string \<Rightarrow> string"
  bt_ReadFile :: "string \<Rightarrow> string res"
  bt_sql_Open :: "string \<Rightarrow> unit res"
  bt_Ping :: "unit res"
  bt_iofs_New :: "unit res"
  bt_WithInstance :: "unit res"
  bt_NewWithInstance :: "unit res"
  bt_Up :: "unit res"
  bt_pgxpool_New :: "string \<Rightarrow> unit res"
  bt_river_NewClient :: "unit res"
  bt_river_Start :: "unit res"
  bt_Insert :: "uuid \<Rightarrow> nat \<Rightarrow> unit go"
  bt_ed25519 :: "8 word list \<Rightarrow> string"
  bt_Public :: "string \<Rightarrow> string"
  bt_jwt :: jwt_lib
  bt_uuid :: uuid_lib
  bt_bcrypt :: bcrypt_lib
  bt_url_Parse :: url_parser
  bt_time_Parse :: "string \<Rightarrow> time res"
  bt_url_ok :: "string \<Rightarrow> bool"

text \<open>Calls whose error is wrapped, in sequence.\<close>

definition wrapped :: "'a res \<Rightarrow> 'a res" where
  "wrapped r = (case r of Inl e \<Rightarrow> Inl (Wrapf e) | Inr a \<Rightarrow> Inr a)"

definition andThen :: "'a res \<Rightarrow> ('a \<Rightarrow> 'b res) \<Rightarrow> 'b res" where
  "andThen r k = (case r of Inl e \<Rightarrow> Inl e | Inr a \<Rightarrow> k a)"

lemma andThen_Inr: "andThen r k = Inr b \<longleftrightarrow> (\<exists>a. r = Inr a \<and> k a = Inr b)"
  by (simp add: andThen_def split: sum.split)

lemma wrapped_Inr [simp]: "wrapped r = Inr a \<longleftrightarrow> r = Inr a"
  by (simp add: wrapped_def split: sum.split)

section \<open>Settings\<close>

record server_config =
  scf_databaseURL :: string
  scf_listenAddr :: string
  scf_workerBootstrapToken :: string
  scf_telemetryEndpointURL :: string
  scf_productVersion :: string

definition loadWorkerBootstrapToken :: "boot_lib \<Rightarrow> string res" where
  "loadWorkerBootstrapToken B =
     (let fromEnv = bt_getenv B ''WORKER_BOOTSTRAP_TOKEN''; fromFile = bt_getenv B ''WORKER_BOOTSTRAP_TOKEN_FILE'' in
      if fromEnv \<noteq> [] \<and> fromFile \<noteq> [] then Inl (Errorf ''set only one'')
      else if fromEnv \<noteq> [] then Inr fromEnv
      else if fromFile \<noteq> [] then andThen (wrapped (bt_ReadFile B fromFile)) (\<lambda>b. Inr (TrimSpace b))
      else Inr [])"

definition loadConfig :: "boot_lib \<Rightarrow> server_config res" where
  "loadConfig B =
     (let databaseURL = bt_getenv B ''DATABASE_URL'' in
      if databaseURL = [] then Inl (Errorf ''DATABASE_URL is required'')
      else let env = bt_getenv B ''LISTEN_PORT''; port = (if env = [] then ''8080'' else env) in
        andThen (loadWorkerBootstrapToken B) (\<lambda>token.
        Inr \<lparr>scf_databaseURL = databaseURL, scf_listenAddr = CHR '':'' # port, scf_workerBootstrapToken = token,
             scf_telemetryEndpointURL = bt_getenv B ''TELEMETRY_ENDPOINT_URL'',
             scf_productVersion = bt_getenv B ''PRODUCT_VERSION''\<rparr>))"

section \<open>The database\<close>

definition db_Open :: "boot_lib \<Rightarrow> string \<Rightarrow> unit res" where
  "db_Open B dsn = andThen (wrapped (bt_sql_Open B dsn)) (\<lambda>_. wrapped (bt_Ping B))"

definition db_Migrate :: "boot_lib \<Rightarrow> unit res" where
  "db_Migrate B =
     andThen (wrapped (bt_iofs_New B)) (\<lambda>_.
     andThen (wrapped (bt_WithInstance B)) (\<lambda>_.
     andThen (wrapped (bt_NewWithInstance B)) (\<lambda>_.
     case bt_Up B of
       Inl e \<Rightarrow> if \<not> errors_Is e migrate_ErrNoChange then Inl (Wrapf e) else Inr ()
     | Inr u \<Rightarrow> Inr ())))"

section \<open>Starting\<close>

definition NewServer :: "boot_lib \<Rightarrow> string \<Rightarrow> server" where
  "NewServer B priv =
     \<lparr>sv_issuer = \<lparr>is_jwt = bt_jwt B, is_key = priv, is_uuid = bt_uuid B\<rparr>, sv_publicKey = bt_Public B priv,
      sv_bcrypt = bt_bcrypt B, sv_workerBootstrapToken = [], sv_runs = None,
      sv_url_Parse = bt_url_Parse B, sv_time_Parse = bt_time_Parse B\<rparr>"

text \<open>A running instance: its routes, its queue's registry, its sender, and where it listens.\<close>

record instance_state =
  ins_server :: server
  ins_adapters :: "unit registry"
  ins_sender :: Sender
  ins_listenAddr :: string

definition server_start :: "boot_lib \<Rightarrow> instance_state go" where
  "server_start B =
     bindE (Done (wrapped (loadConfig B))) (\<lambda>cfg.
     bindE (Done (wrapped (db_Open B (scf_databaseURL cfg)))) (\<lambda>_.
     bindE (Done (wrapped (db_Migrate B))) (\<lambda>_.
     bindE (mapE Wrapf (signingkey_LoadOrCreate (bt_ed25519 B))) (\<lambda>priv.
     let srv = NewServer B priv;
         srv1 = (if scf_workerBootstrapToken cfg \<noteq> []
                 then EnableWorkerBootstrap (scf_workerBootstrapToken cfg) srv else srv) in
     bindE (Done (wrapped (bt_pgxpool_New B (scf_databaseURL cfg)))) (\<lambda>_.
     case NewRegistry (\<lambda>_. ProviderGitHubActions) [()] of
       None \<Rightarrow> failE Panic
     | Some adapters \<Rightarrow>
         bindE (Done (wrapped (wrapped (bt_river_NewClient B)))) (\<lambda>_.
         let runs = NewQueueClient True (bt_Insert B) in
         bindE (Done (wrapped (bt_river_Start B))) (\<lambda>_.
         returnE \<lparr>ins_server = EnableExecution runs srv1, ins_adapters = adapters,
                  ins_sender = NewSender (scf_telemetryEndpointURL cfg) (scf_productVersion cfg)
                    (bt_url_ok B (scf_telemetryEndpointURL cfg)),
                  ins_listenAddr = scf_listenAddr cfg\<rparr>)))))))"

text \<open>How serving ends: the context is done and the shutdown has its outcome, or the listener fails.\<close>

datatype serve_event = CtxDone "unit res" | ServeErr err

definition serve_outcome :: "serve_event \<Rightarrow> unit res" where
  "serve_outcome ev = (case ev of CtxDone r \<Rightarrow> wrapped r | ServeErr e \<Rightarrow> Inl (Wrapf e))"

definition server_Run :: "boot_lib \<Rightarrow> serve_event \<Rightarrow> unit go" where
  "server_Run B ev = bindE (server_start B) (\<lambda>_. Done (serve_outcome ev))"

text \<open>\<open>cmd/server\<close>, up to the status it exits with.\<close>

definition server_main :: "boot_lib \<Rightarrow> serve_event \<Rightarrow> (world, nat) prog" where
  "server_main B ev = bindP (server_Run B ev) (\<lambda>r. Done (exit_status r))"

section \<open>Pruning sessions\<close>

text \<open>The ticker fires \<open>n\<close> times before the context is done; an error is logged and the loop goes on.\<close>

fun pruneExpiredSessions :: "nat \<Rightarrow> (world, unit) prog" where
  "pruneExpiredSessions 0 = Done ()"
| "pruneExpiredSessions (Suc n) = bindP DeleteExpired (\<lambda>_. pruneExpiredSessions n)"

section \<open>What has started\<close>

text \<open>Apart from the signing key, start-up computes from its settings alone.\<close>

definition instance_of :: "boot_lib \<Rightarrow> server_config \<Rightarrow> string \<Rightarrow> instance_state" where
  "instance_of B cfg priv =
     \<lparr>ins_server = EnableExecution (NewQueueClient True (bt_Insert B))
        ((NewServer B priv)\<lparr>sv_workerBootstrapToken := scf_workerBootstrapToken cfg\<rparr>),
      ins_adapters = [(ProviderGitHubActions, ())],
      ins_sender = NewSender (scf_telemetryEndpointURL cfg) (scf_productVersion cfg) (bt_url_ok B (scf_telemetryEndpointURL cfg)),
      ins_listenAddr = scf_listenAddr cfg\<rparr>"

lemma server_start_Inr:
  assumes "run (server_start B) w = (Inr ins, v)"
  shows "\<exists>cfg priv. loadConfig B = Inr cfg \<and> db_Open B (scf_databaseURL cfg) = Inr () \<and> db_Migrate B = Inr () \<and>
     run (signingkey_LoadOrCreate (bt_ed25519 B)) w = (Inr priv, v) \<and> ins = instance_of B cfg priv"
  using assms
  by (auto simp: server_start_def Let_def run_bindE run_mapE NewRegistry_def wrapped_def instance_of_def
      EnableWorkerBootstrap_def EnableExecution_def NewServer_def split: sum.splits prod.splits if_splits)

lemma loadConfig_Inr:
  "loadConfig B = Inr cfg \<longleftrightarrow>
     bt_getenv B ''DATABASE_URL'' \<noteq> [] \<and> loadWorkerBootstrapToken B = Inr (scf_workerBootstrapToken cfg) \<and>
     cfg = \<lparr>scf_databaseURL = bt_getenv B ''DATABASE_URL'',
            scf_listenAddr = CHR '':'' # (if bt_getenv B ''LISTEN_PORT'' = [] then ''8080'' else bt_getenv B ''LISTEN_PORT''),
            scf_workerBootstrapToken = scf_workerBootstrapToken cfg,
            scf_telemetryEndpointURL = bt_getenv B ''TELEMETRY_ENDPOINT_URL'', scf_productVersion = bt_getenv B ''PRODUCT_VERSION''\<rparr>"
  by (auto simp: loadConfig_def Let_def andThen_Inr)

lemma loadWorkerBootstrapToken_Inr:
  assumes "loadWorkerBootstrapToken B = Inr token"
  shows "(bt_getenv B ''WORKER_BOOTSTRAP_TOKEN'' \<noteq> [] \<and> bt_getenv B ''WORKER_BOOTSTRAP_TOKEN_FILE'' = [] \<and>
       token = bt_getenv B ''WORKER_BOOTSTRAP_TOKEN'') \<or>
     (bt_getenv B ''WORKER_BOOTSTRAP_TOKEN'' = [] \<and>
      (\<exists>b. bt_ReadFile B (bt_getenv B ''WORKER_BOOTSTRAP_TOKEN_FILE'') = Inr b \<and> token = TrimSpace b)) \<or>
     (bt_getenv B ''WORKER_BOOTSTRAP_TOKEN'' = [] \<and> bt_getenv B ''WORKER_BOOTSTRAP_TOKEN_FILE'' = [] \<and> token = [])"
  using assms by (auto simp: loadWorkerBootstrapToken_def Let_def andThen_Inr split: if_splits)

end
