(* ===== verification/Background.thy ===== *)
theory Background
  imports Bystanders Startup
begin

text \<open>
  What runs besides requests and jobs keeps every promise: the background loops, \<open>pruneExpiredSessions\<close>
  of \<open>server/server.go\<close> and \<open>Sender.Run\<close> of \<open>telemetry/telemetry.go\<close>, and the start of another instance.
\<close>

context bystander begin

lemma keeps_signing_key [frame]: "keeps R GetSigningKey w" "keeps R (CreateSigningKey k) w"
  unfolding GetSigningKey_def CreateSigningKey_def Let_def
  by (auto intro!: keeps_sql bystander_laws simp: insert_row_Inr split: sum.splits option.splits)

lemma keeps_http_post [frame]: "keeps R (http_post url payload) w"
  unfolding keeps_def http_post_def
  by (rule rg_act) (auto simp: on_db_def intro: R_trans)

lemma keeps_telemetry_statements [frame]:
  "keeps R GetTelemetryInstance w" "keeps R CreateTelemetryInstance w" "keeps R CountActiveAgents w" "keeps R (CountRunsSince t) w"
  unfolding GetTelemetryInstance_def CreateTelemetryInstance_def CountActiveAgents_def CountRunsSince_def Let_def
  by (auto intro!: keeps_sql bystander_laws simp: insert_row_Inr split: sum.splits option.splits)

lemma keeps_telemetry_tick [stores]: "keeps R (telemetry_tick U s) w"
  unfolding telemetry_tick_def buildPayload_def LoadOrCreateInstanceID_def telemetry_send_def Let_def
  by (auto intro!: store_rules frame stores split: sum.splits)

lemma keeps_telemetry_loop: "keeps R (telemetry_loop U s n) w"
  by (induction n arbitrary: w) (auto intro!: store_rules stores)

lemma keeps_telemetry_Run [stores]: "keeps R (telemetry_Run U s n) w"
  unfolding telemetry_Run_def by (auto intro!: store_rules keeps_telemetry_loop)

lemma keeps_prune [stores]: "keeps R (pruneExpiredSessions n) w"
  by (induction n arbitrary: w) (auto simp: DeleteExpired_def intro!: store_rules frame)

lemma keeps_LoadOrCreate [stores]: "keeps R (signingkey_LoadOrCreate ed) w"
  unfolding signingkey_LoadOrCreate_def GenerateKeyPair_def
  by (auto intro!: store_rules frame split: sum.splits)

lemma keeps_server_start [stores]: "keeps R (server_start B) w"
  unfolding server_start_def Let_def
  by (auto intro!: store_rules stores split: option.splits)

end

end
