(* ===== verification/System.thy ===== *)
theory System
  imports RunMachine Background
begin

text \<open>
  The control plane as a whole: the routes of \<open>Server.Routes\<close> and the queue's job as the set of
  programs that may run at any time, in any number and interleaving, over one database.  A promise
  is a history with an invariant that the operations writing its tables keep; whatever is promised
  then holds along every schedule.
\<close>

text \<open>The store the server runs with: over a database handle, dispatching through an enqueuer.\<close>

definition good_store :: "Store \<Rightarrow> bool" where
  "good_store st \<longleftrightarrow> st_sqlDB st \<and> enqueuer (st_Enqueue st)"

definition wired_server :: "server \<Rightarrow> bool" where
  "wired_server s \<longleftrightarrow> (case sv_runs s of None \<Rightarrow> True | Some st \<Rightarrow> good_store st)"

text \<open>
  Everything that runs: any request, the delivery of any run's job, the two background loops with any
  number of ticks (and any sender: its endpoint and version do not matter here), and the start of any
  further instance.
\<close>

definition control_plane :: "server \<Rightarrow> 'a registry \<Rightarrow> (world, unit) prog set" where
  "control_plane s reg = range (\<lambda>q. forget (Routes s q)) \<union> range (\<lambda>i. forget (Worker_Work reg i)) \<union>
     range pruneExpiredSessions \<union> range (\<lambda>(T, n). telemetry_Run (is_uuid (sv_issuer s)) T n) \<union>
     range (\<lambda>B. forget (server_start B))"

section \<open>Promises\<close>

locale promise = bystander +
  fixes inv :: "db \<Rightarrow> bool"
  assumes inv_R: "inv d \<Longrightarrow> R d d' \<Longrightarrow> inv d'"
    and setup_keeps: "inv (w_db w) \<Longrightarrow> keeps R (in_tx setup_failed Wrapf (setup_tx B sreq)) w"
    and telemetry_keeps: "inv (w_db w) \<Longrightarrow> keeps R (SetTelemetry i on) w"
    and pipeline_keeps: "inv (w_db w) \<Longrightarrow> keeps R (pipeline_Create t e p ref ss m) w"
    and request_keeps: "inv (w_db w) \<Longrightarrow> good_store st \<Longrightarrow> keeps R (Request st q) w"
    and decision_keeps: "inv (w_db w) \<Longrightarrow> good_store st \<Longrightarrow>
        keeps R (handlePostRunDecision U st pid body ctx) w"
    and claim_keeps: "inv (w_db w) \<Longrightarrow> keeps R (execution_Claim c es) w"
    and report_keeps: "inv (w_db w) \<Longrightarrow> terminal (rr_Status res) \<Longrightarrow> keeps R (ReportResult i c res) w"
    and resolve_keeps: "inv (w_db w) \<Longrightarrow> keeps R (ResolveExternalRef es p repo wfl ref x url) w"
    and work_keeps: "inv (w_db w) \<Longrightarrow> keeps R (Worker_Work (reg :: 'b registry) i) w"
begin

lemmas op_keeps = setup_keeps telemetry_keeps pipeline_keeps request_keeps claim_keeps report_keeps
  resolve_keeps

lemma valid_terminal: "map_of validTerminalRunStatuses s = Some st \<Longrightarrow> terminal st"
  by (auto simp: validTerminalRunStatuses_def terminal_def split: if_splits)

lemma keeps_writers:
  assumes inv: "inv (w_db w)"
  shows "keeps R (handlePostSetup B I b1) w" "keeps R (handlePatchTenantTelemetry U b2 ctx) w"
    "keeps R (handlePostPipelines U b3 ctx) w" "good_store st \<Longrightarrow> keeps R (handlePostRuns U st b4 ctx) w"
    "keeps R (handleGetNextWorkerRun U cred) w" "keeps R (handlePostWorkerRunResult U i b5 cred) w"
    "keeps R (handlePostWorkerRunResolve U b6 cred) w"
proof -
  have inv': "inv (w_db v)" if "R (w_db w) (w_db v)" for v :: world
    using inv that by (rule inv_R)
  have failed: "keeps R (ReportResult i c \<lparr>rr_Status = StatusFailed, rr_CIExternalRef = x,
      rr_CIURL = y, rr_CIRawStatus = z\<rparr>) v" if "inv (w_db v)" for i c x y z v
    using that by (intro report_keeps) (auto simp: terminal_def)
  have inv2: "inv (w_db u)" if "R (w_db w) (w_db v)" "R (w_db v) (w_db u)" for v u :: world
    using inv' [OF that(1)] that(2) by (rule inv_R)
  show "keeps R (handlePostSetup B I b1) w" "keeps R (handlePatchTenantTelemetry U b2 ctx) w"
    "keeps R (handlePostPipelines U b3 ctx) w" "keeps R (handleGetNextWorkerRun U cred) w"
    "keeps R (handlePostWorkerRunResult U i b5 cred) w"
    unfolding handlePostSetup_def handlePatchTenantTelemetry_def handlePostPipelines_def
      handleGetNextWorkerRun_def handlePostWorkerRunResult_def
    using inv
    by (auto intro!: handler_rules stores op_keeps keeps_captureCost intro: inv' inv_R valid_terminal)
  show "keeps R (handlePostRuns U st b4 ctx) w" if "good_store st"
    unfolding handlePostRuns_def
    using inv that by (auto intro!: handler_rules stores op_keeps intro: inv')
  show "keeps R (handlePostWorkerRunResolve U b6 cred) w"
    unfolding handlePostWorkerRunResolve_def
    using inv by (auto intro!: handler_rules stores resolve_keeps failed intro: inv' inv2)
qed

lemma keeps_Routes:
  assumes inv: "inv (w_db w)" and s: "wired_server s"
  shows "keeps R (Routes s q) w"
proof -
  have runs: "keeps R (with_runs s k) w"
    if "\<And>st. sv_runs s = Some st \<Longrightarrow> good_store st \<Longrightarrow> keeps R (k st) w" for k
    using that s by (auto simp: with_runs_def wired_server_def split: option.splits)
  show ?thesis
    by (cases q)
       (auto intro!: runs keeps_auth keeps_worker_auth keeps_coded keeps_access_handlers
          keeps_catalog_handlers keeps_cost_handlers keeps_handlePostAgents keeps_handleGetRun
          keeps_writers decision_keeps inv intro: inv_R [OF inv])
qed

text \<open>Along any schedule of the control plane the promise is kept, between any two of its moments.\<close>

lemma promised:
  assumes inv: "inv (w_db w)" and s: "wired_server s"
    and one: "(sched (control_plane s (reg :: 'b registry)))\<^sup>*\<^sup>* ([], w) (ps, w')"
    and two: "(sched (control_plane s reg))\<^sup>*\<^sup>* (ps, w') (ps', w'')"
  shows "inv (w_db w')" and "R (w_db w') (w_db w'')"
proof -
  have "R (w_db w) (w_db w') \<and> R (w_db w') (w_db w'')"
  proof (rule keeps_sched2 [OF _ one two])
    fix p and v :: world
    assume "p \<in> control_plane s reg" and "R (w_db w) (w_db v)"
    with inv s show "keeps R p v"
      by (auto simp: control_plane_def intro!: keeps_forget keeps_Routes work_keeps keeps_prune keeps_telemetry_Run keeps_server_start intro: inv_R)
  qed
  with inv show "inv (w_db w')" and "R (w_db w') (w_db w'')" by (auto intro: inv_R)
qed

end

text \<open>A history that also ignores the tables of runs, approvals and pipelines.\<close>

locale indifferent = bystander +
  assumes runs_R: "R d (d\<lparr>runs := x1\<rparr>)"
    and approvals_R: "R d (d\<lparr>approvals := x2\<rparr>)"
    and pipelines_R: "R d (d\<lparr>pipelines := x3\<rparr>)"
begin

lemmas indifferent_laws = bystander_laws runs_R approvals_R pipelines_R

lemma keeps_run_statements [frame]:
  "keeps R (CreateRun cp) w" "keeps R (UpdateRunStatus new i old) w" "keeps R (CreateApproval i) w"
  "keeps R (DecideApproval dec ap i) w" "keeps R (ClaimNextExecutingRun c es) w"
  "keeps R (ReportRunResult i c res) w" "keeps R (FindUnresolvedExecutingRuns es p rp wfl) w"
  "keeps R (ResolveRunExternalRef i x y) w" "keeps R (CreatePipeline t e p ref ss m) w"
  unfolding CreateRun_def UpdateRunStatus_def CreateApproval_def DecideApproval_def
    ClaimNextExecutingRun_def ReportRunResult_def FindUnresolvedExecutingRuns_def
    ResolveRunExternalRef_def CreatePipeline_def Let_def
  by (auto intro!: keeps_sql indifferent_laws simp: insert_row_Inr split: sum.splits option.splits)

lemma keeps_pipeline_Create: "keeps R (pipeline_Create t e p ref ss m) w"
  unfolding pipeline_Create_def by (auto intro!: store_rules frame)

lemma keeps_pair_indifferent: "keeps R (createRunWithApproval st cp) w"
  unfolding createRunWithApproval_def Let_def
  by (auto intro!: store_rules frame keeps_in_tx)

lemma keeps_Enqueue: "good_store st \<Longrightarrow> keeps R (st_Enqueue st i) w"
  unfolding keeps_def good_store_def
  by (rule enqueuer.enqueue_rg [OF conjunct2 reflp_R transp_R])

lemma keeps_Request_indifferent: "good_store st \<Longrightarrow> keeps R (Request st q) w"
  unfolding Request_def
  by (auto intro!: store_rules frame stores keeps_pair_indifferent keeps_Enqueue split: Decision.split)

lemma keeps_Decide_indifferent: "good_store st \<Longrightarrow> keeps R (Decide st i u b) w"
  unfolding Decide_def Let_def
  by (auto intro!: store_rules frame keeps_Enqueue)

lemma keeps_decision: "good_store st \<Longrightarrow> keeps R (handlePostRunDecision U st pid body ctx) w"
  unfolding handlePostRunDecision_def
  by (auto intro!: handler_rules stores keeps_Decide_indifferent)

lemma keeps_claim: "keeps R (execution_Claim c es) w" "keeps R (ReportResult i c res) w"
  unfolding execution_Claim_def ReportResult_def by (auto intro!: store_rules frame)

lemma keeps_resolve_loop: "keeps R (resolve_loop ref cs m) w"
  by (induction cs arbitrary: m w) (auto intro!: store_rules stores)

lemma keeps_resolve_ref: "keeps R (ResolveExternalRef es p repo wfl ref x url) w"
  unfolding ResolveExternalRef_def
  by (auto intro!: store_rules frame keeps_resolve_loop split: option.split)

lemma keeps_transition: "keeps R (transitionStatus i old new) w"
  unfolding transitionStatus_def by (auto intro!: store_rules frame)

lemma keeps_work: "keeps R (Worker_Work reg i) w"
  unfolding Worker_Work_def failClosed_def
  by (auto intro!: store_rules stores keeps_transition split: sum.split)

lemmas indifferent_ops = keeps_pipeline_Create keeps_Request_indifferent keeps_decision keeps_claim
  keeps_resolve_ref keeps_work

end

end
