(* ===== verification/Promises.thy ===== *)
theory Promises
  imports System "HOL-Library.Sublist"
begin

text \<open>
  The three promises of the control plane, each as an interpretation of \<open>promise\<close>: the run store's
  (\<open>run_history\<close>), setup's (a single tenant, once), and the audit log's (append-only).
\<close>

section \<open>The run store\<close>

lemma CreatePipeline_history: "keeps run_history (CreatePipeline t e p ref s m) w"
  unfolding CreatePipeline_def Let_def
  by (rule rh.keeps_sql) (auto simp: insert_row_Inr intro!: run_history_pipeline)

interpretation rb: bystander run_history
  by unfold_locales (simp_all add: run_history_other)

lemma keeps_run_pipeline_Create: "keeps run_history (pipeline_Create t e p ref ss m) w"
  unfolding pipeline_Create_def by (auto intro!: rb.store_rules CreatePipeline_history)

lemma SetTelemetry_history: "keeps run_history (SetTelemetry i on) w"
  unfolding SetTelemetry_def SetTenantTelemetry_def
  by (intro rb.store_rules rh.keeps_sql run_history_other) (auto split: sum.splits)

lemma keeps_run_setup_tx: "keeps run_history (setup_tx B req) w"
proof -
  have tenant: "keeps run_history (tenant_Create n) v" for n v
    unfolding tenant_Create_def CreateTenant_def Let_def
    by (auto intro!: rb.store_rules rh.keeps_sql run_history_other simp: insert_row_Inr)
  show ?thesis
    unfolding setup_tx_def by (auto intro!: rb.store_rules stores tenant SetTelemetry_history)
qed

text \<open>What the tenant-scoped read tells the decision handler of the run stays true.\<close>

lemma handleE_returnE: "handleE (bindE p (\<lambda>a. returnE (g a))) f k = handleE p f (\<lambda>a. k (g a))"
  by (simp add: handleE_def bindE_def bindP_assoc)
     (rule arg_cong [where f = "bindP p"], auto split: sum.split)

lemma keeps_execution_Get_bind:
  assumes inv: "run_inv (w_db w)"
    and k: "\<And>r v. run_inv (w_db v) \<Longrightarrow> \<exists>y \<in> set (runs (w_db v)). rn_ID y = i \<and> rn_ActorID y = r_ActorID r \<Longrightarrow>
              keeps run_history (k r) v"
  shows "keeps run_history (handleE (execution_Get t i) f k) w"
  unfolding execution_Get_def GetRun_def handleE_returnE
proof (rule rh.keeps_handleE_fact, rule rh.rg_mapE_R, rule rg_conseq)
  let ?P = "\<lambda>row v. keeps run_history (k (fromRunRow row)) v"
  show "rg (on_db run_history) (on_db run_history)
      (\<lambda>x v. run_history (w_db w) (w_db v) \<and> (\<forall>a. x = Inr a \<longrightarrow> ?P a v))
      (query (\<lambda>d. select_one (\<lambda>r. rn_TenantID r = t \<and> rn_ID r = i) (runs d))) w"
  proof (rule rh.rg_query_R)
    fix d row and v :: world
    assume R: "run_history (w_db w) d" "run_history d (w_db v)"
      and row: "select_one (\<lambda>r. rn_TenantID r = t \<and> rn_ID r = i) (runs d) = Inr row"
    from R inv have inv': "run_inv d" "run_inv (w_db v)" by (auto intro: history_inv)
    from row have "row \<in> set (runs d)" "rn_ID row = i" by (auto dest!: select_one_Inr)
    with R(2) inv'(1) have "\<exists>y \<in> set (runs (w_db v)). rn_ID y = i \<and> rn_ActorID y = rn_ActorID row"
      unfolding run_history_def run_evolution_def run_evolves_def by metis
    then show "?P row v" using inv'(2) by (intro k) (simp_all add: fromRunRow_def)
  qed
qed (auto split: sum.splits)

context enqueuer begin

lemma keeps_handlePostRunDecision:
  assumes "run_inv (w_db w)" and "st_Enqueue s = Enqueue"
  shows "keeps run_history (handlePostRunDecision U s i b ctx) w"
  unfolding handlePostRunDecision_def
  using assms
  by (auto intro!: rh.keeps_orNone rh.keeps_orFail rh.keeps_reject keeps_execution_Get_bind
        rh.keeps_handleE [OF keeps_Decide] rh.keeps_handleE [OF rb.keeps_actor_stores(10)] rh.keeps_Done)

end

interpretation run_promise: promise run_history run_inv
proof unfold_locales
  fix w :: world and st q U pid body ctx
  assume "run_inv (w_db w)" "good_store st"
  then show "keeps run_history (Request st q) w"
    and "keeps run_history (handlePostRunDecision U st pid body ctx) w"
    by (auto simp: good_store_def intro: enqueuer.keeps_Request enqueuer.keeps_handlePostRunDecision)
qed (auto intro: history_inv rh.keeps_in_tx keeps_run_setup_tx SetTelemetry_history
      keeps_run_pipeline_Create keeps_execution_Claim keeps_ReportResult keeps_ResolveExternalRef
      keeps_Worker_Work)

section \<open>Setup\<close>

text \<open>What a tenant row keeps for good: everything but its telemetry switch.\<close>

definition tenant_key :: "tenant_row \<Rightarrow> uuid \<times> string \<times> time" where
  "tenant_key t = (tn_ID t, tn_Name t, tn_CreatedAt t)"

definition same_tenants :: "db \<Rightarrow> db \<Rightarrow> bool" where
  "same_tenants d d' \<longleftrightarrow> map tenant_key (tenants d') = map tenant_key (tenants d)"

definition single_tenant :: "db \<Rightarrow> bool" where
  "single_tenant d \<longleftrightarrow> length (tenants d) \<le> 1"

text \<open>While there is at most one tenant there never is another, and it stays the same.\<close>

definition setup_history :: "db \<Rightarrow> db \<Rightarrow> bool" where
  "setup_history d d' \<longleftrightarrow> (single_tenant d \<longrightarrow> single_tenant d' \<and>
     prefix (map tenant_key (tenants d)) (map tenant_key (tenants d')))"

interpretation st: bystander same_tenants
  by unfold_locales (simp_all add: same_tenants_def)

lemma SetTelemetry_same: "keeps same_tenants (SetTelemetry i on) w"
  unfolding SetTelemetry_def SetTenantTelemetry_def
  by (intro st.store_rules st.keeps_sql)
     (auto simp: same_tenants_def map_update_rows tenant_key_def dest!: update_one_Inr split: sum.splits)

lemma same_tenants_setup: "same_tenants d d' \<Longrightarrow> setup_history d d'"
  by (auto simp: same_tenants_def setup_history_def single_tenant_def dest: map_eq_imp_length_eq)

interpretation si: indifferent setup_history
proof unfold_locales
  show "setup_history d d''" if "setup_history d d'" "setup_history d' d''" for d d' d''
    using that by (auto simp: setup_history_def)
qed (simp_all add: same_tenants_setup same_tenants_def)

lemma tenant_Create_run:
  assumes "run (tenant_Create n) w = (Inr t, w')"
  shows "\<exists>r. tenants (w_db w') = tenants (w_db w) @ [r]"
  using assms
  by (auto simp: tenant_Create_def CreateTenant_def run_simps Let_def insert_row_Inr
      split: if_splits sum.splits option.splits prod.splits)

text \<open>A transaction of setup that succeeds found no tenant and leaves exactly one.\<close>

lemma setup_tx_run:
  assumes "run (setup_tx B req) w = (Inr a, w')"
  shows "tenants (w_db w) = [] \<and> length (tenants (w_db w')) = 1"
proof -
  let ?rest = "\<lambda>created.
        bindE (if sur_TelemetryEnabled req then SetTelemetry (t_ID created) True else returnE created) (\<lambda>newTenant.
        bindE (team_Create (t_ID newTenant) defaultTeamName) (\<lambda>newTeam.
        bindE (actor_Create
                 \<lparr>acp_TenantID = t_ID newTenant, acp_Type = ActorHuman, acp_Name = sur_AdminUsername req,
                  acp_TeamID = te_ID newTeam, acp_TrustTier = TierAutonomous, acp_AuthorizedBy = None,
                  acp_ExpiresAt = None, acp_IdempotencyKey = None\<rparr>) (\<lambda>newActor.
        bindE (credential_Create B (act_ID newActor) (sur_AdminUsername req) (sur_AdminPassword req)) (\<lambda>_.
        bindE (audit_Create (audit_of (t_ID newTenant) (act_ID newActor) ''setup.completed'')) (\<lambda>_.
        bindE (if sur_TelemetryEnabled req
               then bindE (audit_Create (audit_of (t_ID newTenant) (act_ID newActor) ''telemetry.toggled''))
                      (\<lambda>_. returnE ())
               else returnE ()) (\<lambda>_.
        returnE (newTenant, newActor)))))))"
  have rest: "keeps same_tenants (?rest created) v" for created v
    by (auto intro!: st.store_rules stores SetTelemetry_same)
  from assms obtain v0 v1 created where ex: "run AnyExists w = (Inr False, v0)"
    and cr: "run (tenant_Create (sur_TenantName req)) v0 = (Inr created, v1)"
    and re: "run (?rest created) v1 = (Inr a, w')"
    unfolding setup_tx_def
    by (auto simp: run_bindE run_mapE split: sum.splits prod.splits if_splits)
  from ex have "tenants (w_db w) = []" and "w_db v0 = w_db w"
    by (auto simp: AnyExists_def AnyTenantExists_def run_simps split: option.splits sum.splits prod.splits)
  with tenant_Create_run [OF cr] obtain r where "tenants (w_db v1) = [r]" by auto
  with st.keeps_run [OF rest re] \<open>tenants (w_db w) = []\<close> show ?thesis
    by (auto simp: same_tenants_def dest: map_eq_imp_length_eq)
qed

interpretation setup_promise: promise setup_history single_tenant
proof unfold_locales
  fix w :: world and B sreq
  show "keeps setup_history (in_tx setup_failed Wrapf (setup_tx B sreq)) w"
    by (rule si.keeps_in_tx_run) (auto simp: setup_history_def single_tenant_def dest!: setup_tx_run)
  show "keeps setup_history (SetTelemetry i on) w" for i on
    using SetTelemetry_same [of i on w] unfolding SetTelemetry_def SetTenantTelemetry_def
    by (intro si.store_rules si.keeps_sql same_tenants_setup)
       (auto simp: same_tenants_def map_update_rows tenant_key_def dest!: update_one_Inr split: sum.splits)
qed (auto simp: setup_history_def intro: si.indifferent_ops)

section \<open>The audit log\<close>

definition audit_history :: "db \<Rightarrow> db \<Rightarrow> bool" where
  "audit_history d d' \<longleftrightarrow> prefix (audit_events d) (audit_events d')"

interpretation au: indifferent audit_history
  by unfold_locales (auto simp: audit_history_def)

lemma SetTelemetry_audit: "keeps audit_history (SetTelemetry i on) w"
  unfolding SetTelemetry_def SetTenantTelemetry_def
  by (intro au.store_rules au.keeps_sql) (auto simp: audit_history_def split: sum.splits)

lemma tenant_Create_audit: "keeps audit_history (tenant_Create n) w"
  unfolding tenant_Create_def CreateTenant_def Let_def
  by (auto intro!: au.store_rules au.keeps_sql simp: insert_row_Inr audit_history_def)

lemma setup_tx_audit: "keeps audit_history (setup_tx B req) w"
  unfolding setup_tx_def
  by (auto intro!: au.store_rules stores tenant_Create_audit SetTelemetry_audit)

interpretation audit_promise: promise audit_history "\<lambda>_. True"
  by unfold_locales
     (auto intro: au.indifferent_ops au.keeps_in_tx setup_tx_audit SetTelemetry_audit)

end
