(* ===== verification/Sample.thy ===== *)
theory Sample
  imports Queue
begin

text \<open>
  Concrete tables on which the theorems about single operations are applied: one tenant with its
  root actor and an agent, one environment with its roles, a mutating and a harmless pipeline, and a
  worker's credential.
\<close>

definition sample_actor :: "uuid \<Rightarrow> tier \<Rightarrow> uuid option \<Rightarrow> actor_row" where
  "sample_actor i tier by_actor =
     \<lparr>ac_ID = i, ac_TenantID = 1, ac_Type = (if by_actor = None then ActorHuman else ActorAgent), ac_Name = ''a'',
      ac_TeamID = 2, ac_TrustTier = tier, ac_AuthorizedBy = by_actor, ac_Status = ''active'',
      ac_ExpiresAt = None, ac_CreatedAt = 0, ac_RevokedAt = None, ac_IdempotencyKey = None\<rparr>"

definition sample_pipeline :: "uuid \<Rightarrow> bool \<Rightarrow> pipeline_row" where
  "sample_pipeline i mutating =
     \<lparr>pl_ID = i, pl_TenantID = 1, pl_EnvironmentID = 5, pl_Provider = ''github_actions'',
      pl_WorkflowRef = ''deploy.yml'', pl_Settings = [(''repo'', ''acme/app'')], pl_Mutating = mutating,
      pl_CreatedAt = 0\<rparr>"

definition sample_run :: "uuid \<Rightarrow> tier \<Rightarrow> run_status \<Rightarrow> uuid option \<Rightarrow> run_row" where
  "sample_run i tier status claimed =
     \<lparr>rn_ID = i, rn_TenantID = 1, rn_ActorID = 4, rn_EnvironmentID = 5, rn_BindingID = None,
      rn_PipelineID = 6, rn_Tier = tier, rn_Status = status, rn_CiProvider = ''github_actions'',
      rn_CiExternalRef = None, rn_CiRawStatus = None, rn_CiUrl = None, rn_IdempotencyKey = None,
      rn_DiffRef = None, rn_RequestedAt = int (unat i), 
      rn_StartedAt = (if status = StatusExecuting then Some 0 else None), rn_FinishedAt = None,
      rn_CreatedAt = 0, rn_ClaimedBy = claimed, rn_ClaimedAt = (if claimed = None then None else Some 0)\<rparr>"

definition sample_approval :: "uuid \<Rightarrow> string option \<Rightarrow> approval_row" where
  "sample_approval i decision =
     \<lparr>ap_ID = i, ap_RunID = i, ap_RequestedAt = 0,
      ap_ApproverActorID = (if decision = None then None else Some 3), ap_Decision = decision,
      ap_DecidedAt = (if decision = None then None else Some 0)\<rparr>"

definition sample_db :: "run_row list \<Rightarrow> approval_row list \<Rightarrow> db" where
  "sample_db rs aps = empty_db
     \<lparr>tenants := [\<lparr>tn_ID = 1, tn_Name = ''acme'', tn_CreatedAt = 0, tn_TelemetryEnabled = False\<rparr>],
      teams := [\<lparr>tm_ID = 2, tm_TenantID = 1, tm_Name = ''default'', tm_CreatedAt = 0\<rparr>],
      actors := [sample_actor 3 TierAutonomous None, sample_actor 4 TierReadOnly (Some 3)],
      environments := [\<lparr>en_ID = 5, en_TenantID = 1, en_Name = ''prod'', en_Provider = ''aws'',
                        en_Region = ''r'', en_CreatedAt = 0\<rparr>],
      aws_configs := [\<lparr>aw_EnvironmentID = 5, aw_AccountRef = ''a'', aw_ExternalID = ''x'', aw_TrustAnchor = ''t''\<rparr>],
      aws_tier_roles := [\<lparr>ar_EnvironmentID = 5, ar_Tier = 1, ar_RoleArn = ''r1''\<rparr>,
                         \<lparr>ar_EnvironmentID = 5, ar_Tier = 3, ar_RoleArn = ''r3''\<rparr>],
      pipelines := [sample_pipeline 6 True, sample_pipeline 7 False],
      worker_credentials := [\<lparr>wc_ID = 8, wc_TenantID = 1, wc_Name = ''w'', wc_TokenHash = ''h'',
                              wc_CreatedAt = 0, wc_RevokedAt = None, wc_CiCallbackUrl = None\<rparr>],
      worker_credential_environments := [\<lparr>we_WorkerCredentialID = 8, we_EnvironmentID = 5\<rparr>],
      runs := rs, approvals := aps\<rparr>"

definition sample_world :: "db \<Rightarrow> world" where
  "sample_world d = \<lparr>w_db = d, tick = 0, clock = int, rand = (\<lambda>n. word_of_nat (100 + n)),
     fault = (\<lambda>_. None), entropy = (\<lambda>n k. Some (replicate k 0)), river = [],
     post_answer = (\<lambda>_. Inr 200), posted = []\<rparr>"

definition sample_store :: Store where
  "sample_store = NewQueueClient True river_Insert"

lemma sample_enqueuer: "enqueuer (st_Enqueue sample_store)"
  using wired.enqueuer_axioms by (simp add: sample_store_def NewQueueClient_def NewStore_def)

end
