(* ===== verification/RunOperations.thy ===== *)
theory RunOperations
  imports RunMachine Sample
begin

text \<open>
  What the operations of the run store and of the queue's job do and return, on every branch, when
  they run alone.
\<close>

section \<open>Requesting\<close>

lemma run_UpdateRunStatus_Inr:
  "run (UpdateRunStatus new i old) w = (Inr r, w') \<Longrightarrow>
     w_db w' = (w_db w)\<lparr>runs := update_rows (\<lambda>r. rn_ID r = i \<and> rn_Status r = old)
                  (set_status (clock w (tick w)) new) (runs (w_db w))\<rparr> \<and>
     (\<exists>r0 \<in> set (runs (w_db w)). rn_ID r0 = i \<and> rn_Status r0 = old \<and> r = set_status (clock w (tick w)) new r0)"
  by (auto simp: UpdateRunStatus_def split: option.splits sum.splits prod.splits dest!: update_one_Inr)

lemma run_UpdateRunStatus_Inl: "run (UpdateRunStatus new i old) w = (Inl e, w') \<Longrightarrow> w_db w' = w_db w"
  by (auto simp: UpdateRunStatus_def split: option.splits sum.splits prod.splits)

lemma createRunWithApproval_run_any:
  assumes "run (createRunWithApproval s p) w = (Inr r, w')"
  shows "\<exists>now u a. u \<notin> rn_ID ` set (runs (w_db w)) \<and> r = fromRunRow (new_run now u p) \<and>
     ap_RunID a = u \<and> ap_ApproverActorID a = None \<and> ap_Decision a = None \<and> ap_DecidedAt a = None \<and>
     w_db w' = (w_db w)\<lparr>runs := runs (w_db w) @ [new_run now u p], approvals := approvals (w_db w) @ [a]\<rparr>"
proof (cases "st_sqlDB s")
  case False
  then have "createRunWithApproval s p = createRunWithApproval (s\<lparr>st_sqlDB := False\<rparr>) p"
    by (simp add: createRunWithApproval_def)
  with assms createRunWithApproval_run show ?thesis by metis
next
  case True
  let ?body = "createRunWithApproval (s\<lparr>st_sqlDB := False\<rparr>) p"
  have eq: "createRunWithApproval s p = in_tx Wrapf Wrapf ?body"
    using True by (simp add: createRunWithApproval_def Let_def)
  let ?v = "w\<lparr>tick := Suc (tick w), clock := (\<lambda>_. clock w (tick w))\<rparr>"
  from assms obtain v where "run ?body ?v = (Inr r, v)" "w_db w' = w_db v"
    unfolding eq by (auto simp: run_tx_def Let_def split: option.splits prod.splits sum.splits)
  from createRunWithApproval_run [OF this(1)] this(2) show ?thesis by simp
qed

lemma request_allow_db:
  assumes fresh: "u \<notin> rn_ID ` set (runs d)"
  shows "update_rows (\<lambda>r. rn_ID r = u \<and> rn_Status r = old) f (runs d @ [x]) =
     runs d @ (if rn_ID x = u \<and> rn_Status x = old then [f x] else [x])"
proof -
  have "update_rows (\<lambda>r. rn_ID r = u \<and> rn_Status r = old) f (runs d) = runs d"
    using fresh by (intro update_rows_none) auto
  then show ?thesis by (simp add: update_rows_def)
qed

context enqueuer begin

lemma Request_Inr:
  assumes s: "st_Enqueue s = Enqueue" and run: "run (Request s q) w = (Inr r, w')"
  shows "\<exists>p \<in> set (pipelines (w_db w)). pl_ID p = rp_PipelineID q \<and> pl_TenantID p = rp_TenantID q \<and>
     Check (rp_Tier q) (pl_Mutating p) \<noteq> Deny \<and>
     (\<exists>row aps. r = fromRunRow row \<and> rn_ID row \<notin> rn_ID ` set (runs (w_db w)) \<and>
        w_db w' = (w_db w)\<lparr>runs := runs (w_db w) @ [row], approvals := approvals (w_db w) @ aps\<rparr> \<and>
        rn_TenantID row = rp_TenantID q \<and> rn_ActorID row = rp_ActorID q \<and>
        rn_EnvironmentID row = rp_EnvironmentID q \<and> rn_PipelineID row = rp_PipelineID q \<and>
        rn_Tier row = rp_Tier q \<and> rn_CiProvider row = pl_Provider p \<and>
        (if Check (rp_Tier q) (pl_Mutating p) = Allow then rn_Status row = StatusQueued \<and> aps = []
         else rn_Status row = StatusAwaitingApproval \<and>
              (\<exists>a. aps = [a] \<and> ap_RunID a = rn_ID row \<and> ap_Decision a = None \<and> ap_ApproverActorID a = None)))"
proof -
  from run have valid: "Tier_Valid (rp_Tier q)" by (simp add: Request_def split: if_splits)
  let ?k = "\<lambda>p. case Check (rp_Tier q) (p_Mutating p) of
          Deny \<Rightarrow> failE (Sentinel execution_ErrPolicyDenied)
        | Allow \<Rightarrow>
            bindE (mapE Wrapf (CreateRun (create_params q p StatusPolicyChecked))) (\<lambda>runRow.
            bindE (mapE Wrapf (UpdateRunStatus StatusQueued (rn_ID runRow) StatusPolicyChecked)) (\<lambda>queuedRow.
            bindE (mapE Wrapf (st_Enqueue s (rn_ID queuedRow))) (\<lambda>_.
            returnE (fromRunRow queuedRow))))
        | RequiresApproval \<Rightarrow>
            mapE Wrapf (createRunWithApproval s (create_params q p StatusAwaitingApproval))"
  from run valid obtain pp v where get: "run (pipeline_Get (rp_TenantID q) (rp_PipelineID q)) w = (Inr pp, v)"
    and k: "run (?k pp) v = (Inr r, w')"
    by (auto simp: Request_def run_bindE run_mapE split: sum.splits prod.splits)
  from pl.get_run_Inr [OF get] obtain p where p: "p \<in> set (pipelines (w_db w))" "pl_ID p = rp_PipelineID q"
      "pl_TenantID p = rp_TenantID q" "pp = pipeline_fromRow p" by blast
  have v: "w_db v = w_db w" by (rule pl.get_run_db [OF get])
  have mut: "p_Mutating pp = pl_Mutating p" "p_Provider pp = pl_Provider p"
    by (simp_all add: p(4) pipeline_fromRow_def)
  show ?thesis
  proof (intro bexI [OF _ p(1)] conjI p(2,3))
    show "Check (rp_Tier q) (pl_Mutating p) \<noteq> Deny" using k mut by auto
    show "\<exists>row aps. r = fromRunRow row \<and> rn_ID row \<notin> rn_ID ` set (runs (w_db w)) \<and>
        w_db w' = (w_db w)\<lparr>runs := runs (w_db w) @ [row], approvals := approvals (w_db w) @ aps\<rparr> \<and>
        rn_TenantID row = rp_TenantID q \<and> rn_ActorID row = rp_ActorID q \<and>
        rn_EnvironmentID row = rp_EnvironmentID q \<and> rn_PipelineID row = rp_PipelineID q \<and>
        rn_Tier row = rp_Tier q \<and> rn_CiProvider row = pl_Provider p \<and>
        (if Check (rp_Tier q) (pl_Mutating p) = Allow then rn_Status row = StatusQueued \<and> aps = []
         else rn_Status row = StatusAwaitingApproval \<and>
              (\<exists>a. aps = [a] \<and> ap_RunID a = rn_ID row \<and> ap_Decision a = None \<and> ap_ApproverActorID a = None))"
    proof (cases "Check (rp_Tier q) (pl_Mutating p)")
      case Deny
      with k mut show ?thesis by simp
    next
      case RequiresApproval
      with k mut have "run (createRunWithApproval s (create_params q pp StatusAwaitingApproval)) v = (Inr r, w')"
        by (auto simp: run_mapE split: sum.splits prod.splits)
      from createRunWithApproval_run_any [OF this] obtain now u a where
        "u \<notin> rn_ID ` set (runs (w_db v))" "r = fromRunRow (new_run now u (create_params q pp StatusAwaitingApproval))"
        "ap_RunID a = u" "ap_ApproverActorID a = None" "ap_Decision a = None"
        "w_db w' = (w_db v)\<lparr>runs := runs (w_db v) @ [new_run now u (create_params q pp StatusAwaitingApproval)],
            approvals := approvals (w_db v) @ [a]\<rparr>" by blast
      with RequiresApproval show ?thesis
        by (intro exI [of _ "new_run now u (create_params q pp StatusAwaitingApproval)"] exI [of _ "[a]"])
           (simp add: v mut create_params_def tierToInt16_valid [OF valid])
    next
      case Allow
      let ?cp = "create_params q pp StatusPolicyChecked"
      from k mut Allow obtain row v1 q1 v2 v3 where c: "run (CreateRun ?cp) v = (Inr row, v1)"
        and u: "run (UpdateRunStatus StatusQueued (rn_ID row) StatusPolicyChecked) v1 = (Inr q1, v2)"
        and e: "run (Enqueue (rn_ID q1)) v2 = (Inr (), w')" and r: "r = fromRunRow q1"
        by (auto simp: run_bindE run_mapE s split: sum.splits prod.splits)
      let ?u = "rand v (tick v)" and ?row = "new_run (clock v (tick v)) (rand v (tick v)) ?cp"
      let ?q = "set_status (clock v1 (tick v1)) StatusQueued ?row"
      from CreateRun_run [OF c] v have fresh: "?u \<notin> rn_ID ` set (runs (w_db w))" and row: "row = ?row"
        and v1: "w_db v1 = (w_db w)\<lparr>runs := runs (w_db w) @ [?row]\<rparr>" by auto
      have st: "cp_Status ?cp = StatusPolicyChecked" by (simp add: create_params_def)
      from run_UpdateRunStatus_Inr [OF u] have v2: "w_db v2 = (w_db w)\<lparr>runs := runs (w_db w) @ [?q]\<rparr>"
        and "\<exists>r0 \<in> set (runs (w_db v1)). rn_ID r0 = ?u \<and> q1 = set_status (clock v1 (tick v1)) StatusQueued r0"
        using fresh by (auto simp: row v1 st request_allow_db simp del: update_rows_append)
      with fresh have q1: "q1 = ?q" by (force simp: v1)
      from v2 have w': "w_db w' = (w_db w)\<lparr>runs := runs (w_db w) @ [?q]\<rparr>"
        by (simp add: enqueue_run_db [OF e])
      show ?thesis
        by (intro exI [of _ ?q] exI [of _ "[]"])
           (use Allow fresh in \<open>simp add: r q1 w' mut set_status_def create_params_def
              tierToInt16_valid [OF valid]\<close>)
    qed
  qed
qed

end


text \<open>A tier gate that denies: nothing is created.\<close>

lemma Request_Deny:
  assumes "\<And>p. p \<in> set (pipelines (w_db w)) \<Longrightarrow> pl_ID p = rp_PipelineID q \<Longrightarrow> pl_TenantID p = rp_TenantID q \<Longrightarrow>
             Check (rp_Tier q) (pl_Mutating p) = Deny"
    and "run (Request s q) w = (x, w')"
  shows "\<exists>e. x = Inl e \<and> w_db w' = w_db w"
proof (cases "run (pipeline_Get (rp_TenantID q) (rp_PipelineID q)) w")
  case (Pair y v)
  have v: "w_db v = w_db w" by (rule pl.get_run_db [OF Pair])
  show ?thesis
  proof (cases y)
    case (Inl e)
    with Pair v assms(2) show ?thesis by (auto simp: Request_def run_bindE run_mapE split: if_splits)
  next
    case (Inr pp)
    with pl.get_run_Inr [of "rp_TenantID q" "rp_PipelineID q" w pp v] Pair assms(1)
    have "Check (rp_Tier q) (p_Mutating pp) = Deny" by (auto simp: pipeline_fromRow_def)
    with Pair v Inr assms(2) show ?thesis by (auto simp: Request_def run_bindE run_mapE split: if_splits)
  qed
qed

section \<open>Deciding\<close>

lemma run_DecideApproval_Inr:
  "run (DecideApproval dec u i) w = (Inr a, w') \<Longrightarrow>
     (\<exists>a0 \<in> set (approvals (w_db w)). ap_RunID a0 = i \<and> ap_Decision a0 = None) \<and>
     w_db w' = (w_db w)\<lparr>approvals := update_rows (\<lambda>a. ap_RunID a = i \<and> ap_Decision a = None)
        (\<lambda>a. a\<lparr>ap_Decision := dec, ap_DecidedAt := Some (clock w (tick w)), ap_ApproverActorID := u\<rparr>)
        (approvals (w_db w))\<rparr>"
  by (auto simp: DecideApproval_def split: option.splits sum.splits prod.splits dest!: update_one_Inr)

lemma run_DecideApproval_none:
  assumes "\<forall>a \<in> set (approvals (w_db w)). ap_RunID a = i \<longrightarrow> ap_Decision a \<noteq> None"
  shows "\<exists>e w'. run (DecideApproval dec u i) w = (Inl e, w') \<and> w_db w' = w_db w \<and>
           (fault w (tick w) = None \<longrightarrow> e = Sentinel sql_ErrNoRows)"
proof (cases "fault w (tick w)")
  case None
  have "update_one (\<lambda>a. ap_RunID a = i \<and> ap_Decision a = None) f (approvals (w_db w)) = Inl (Sentinel sql_ErrNoRows)" for f
    using assms by (auto simp: update_one_Inl)
  with None show ?thesis by (simp add: DecideApproval_def)
qed (simp add: DecideApproval_def)

context enqueuer begin

lemma Decide_Inr:
  assumes s: "st_Enqueue s = Enqueue" and run: "run (Decide s i u b) w = (Inr r, w')"
  shows "(\<exists>a \<in> set (approvals (w_db w)). ap_RunID a = i \<and> ap_Decision a = None) \<and>
     (\<exists>now now' r0. r0 \<in> set (runs (w_db w)) \<and> rn_ID r0 = i \<and> rn_Status r0 = StatusAwaitingApproval \<and>
        r = fromRunRow (set_status now' (if b then StatusQueued else StatusDenied) r0) \<and>
        w_db w' = (w_db w)
          \<lparr>approvals := update_rows (\<lambda>a. ap_RunID a = i \<and> ap_Decision a = None)
             (\<lambda>a. a\<lparr>ap_Decision := Some (if b then ''approved'' else ''denied''), ap_DecidedAt := Some now,
                    ap_ApproverActorID := Some u\<rparr>) (approvals (w_db w)),
           runs := update_rows (\<lambda>r. rn_ID r = i \<and> rn_Status r = StatusAwaitingApproval)
             (set_status now' (if b then StatusQueued else StatusDenied)) (runs (w_db w))\<rparr>)"
proof -
  let ?dec = "if b then ''approved'' else ''denied''" and ?new = "if b then StatusQueued else StatusDenied"
  have dec: "nullString ?dec = Some ?dec" by (simp add: nullString_def)
  from run obtain a v row v' where a: "run (DecideApproval (Some ?dec) (Some u) i) w = (Inr a, v)"
    and u: "run (UpdateRunStatus ?new i StatusAwaitingApproval) v = (Inr row, v')"
    and r: "r = fromRunRow row"
    and rest: "if b then run (Enqueue (rn_ID row)) v' = (Inr (), w') else w' = v'"
    unfolding Decide_def Let_def dec
    by (auto simp: run_bindE run_mapE s split: sum.splits prod.splits if_splits)
  from rest have w': "w_db w' = w_db v'" by (auto split: if_splits dest: enqueue_run_db)
  from run_DecideApproval_Inr [OF a] run_UpdateRunStatus_Inr [OF u] w' r show ?thesis
    by (intro conjI exI [of _ "clock w (tick w)"] exI [of _ "clock v (tick v)"]) auto
qed

end

text \<open>
  C25.  One decision per run.  A decision that returns found the run's approval undecided and the run
  waiting; it records exactly that decision, its approver and its time, and moves the run to
  queued or denied.  A run whose approvals are all decided is not decided again: the call fails
  and changes nothing, with \<open>ErrAlreadyDecided\<close> unless the statement itself was lost.
\<close>

theorem Decide_once:
  assumes "enqueuer (st_Enqueue s)" and "run (Decide s i u b) w = (x, w')"
  shows "(\<forall>r. x = Inr r \<longrightarrow>
       (\<exists>a \<in> set (approvals (w_db w)). ap_RunID a = i \<and> ap_Decision a = None) \<and>
       (\<exists>now now' r0. r0 \<in> set (runs (w_db w)) \<and> rn_ID r0 = i \<and> rn_Status r0 = StatusAwaitingApproval \<and>
          r = fromRunRow (set_status now' (if b then StatusQueued else StatusDenied) r0) \<and>
          w_db w' = (w_db w)
            \<lparr>approvals := update_rows (\<lambda>a. ap_RunID a = i \<and> ap_Decision a = None)
               (\<lambda>a. a\<lparr>ap_Decision := Some (if b then ''approved'' else ''denied''), ap_DecidedAt := Some now,
                      ap_ApproverActorID := Some u\<rparr>) (approvals (w_db w)),
             runs := update_rows (\<lambda>r. rn_ID r = i \<and> rn_Status r = StatusAwaitingApproval)
               (set_status now' (if b then StatusQueued else StatusDenied)) (runs (w_db w))\<rparr>)) \<and>
     ((\<forall>a \<in> set (approvals (w_db w)). ap_RunID a = i \<longrightarrow> ap_Decision a \<noteq> None) \<longrightarrow>
       w_db w' = w_db w \<and> (\<exists>e. x = Inl e \<and>
         (fault w (tick w) = None \<longrightarrow> e = Sentinel execution_ErrAlreadyDecided)))"
proof (intro conjI [OF allI [OF impI] impI])
  fix r assume "x = Inr r"
  with assms(2) have "run (Decide s i u b) w = (Inr r, w')" by simp
  from enqueuer.Decide_Inr [OF assms(1) refl this]
  show "(\<exists>a \<in> set (approvals (w_db w)). ap_RunID a = i \<and> ap_Decision a = None) \<and>
       (\<exists>now now' r0. r0 \<in> set (runs (w_db w)) \<and> rn_ID r0 = i \<and> rn_Status r0 = StatusAwaitingApproval \<and>
          r = fromRunRow (set_status now' (if b then StatusQueued else StatusDenied) r0) \<and>
          w_db w' = (w_db w)
            \<lparr>approvals := update_rows (\<lambda>a. ap_RunID a = i \<and> ap_Decision a = None)
               (\<lambda>a. a\<lparr>ap_Decision := Some (if b then ''approved'' else ''denied''), ap_DecidedAt := Some now,
                      ap_ApproverActorID := Some u\<rparr>) (approvals (w_db w)),
             runs := update_rows (\<lambda>r. rn_ID r = i \<and> rn_Status r = StatusAwaitingApproval)
               (set_status now' (if b then StatusQueued else StatusDenied)) (runs (w_db w))\<rparr>)" .
next
  assume all: "\<forall>a \<in> set (approvals (w_db w)). ap_RunID a = i \<longrightarrow> ap_Decision a \<noteq> None"
  let ?dec = "nullString (if b then ''approved'' else ''denied'')"
  from run_DecideApproval_none [OF all] obtain e v where "run (DecideApproval ?dec (Some u) i) w = (Inl e, v)"
      "w_db v = w_db w" "fault w (tick w) = None \<longrightarrow> e = Sentinel sql_ErrNoRows" by blast
  with assms(2) show "w_db w' = w_db w \<and> (\<exists>e. x = Inl e \<and>
      (fault w (tick w) = None \<longrightarrow> e = Sentinel execution_ErrAlreadyDecided))"
    by (auto simp: Decide_def Let_def run_bindE run_mapE notFound_def)
qed

section \<open>Claiming\<close>

lemma execution_Claim_Inr:
  assumes dist: "distinct (map rn_ID (runs (w_db w)))" and run: "run (execution_Claim c envs) w = (Inr r, w')"
  shows "\<exists>r0 \<in> set (runs (w_db w)). \<exists>now. claimable_run envs r0 \<and>
     (\<forall>x \<in> set (runs (w_db w)). claimable_run envs x \<longrightarrow> rn_RequestedAt r0 \<le> rn_RequestedAt x) \<and>
     r = fromRunRow (mark_run c now r0) \<and>
     w_db w' = (w_db w)\<lparr>runs := update_rows (\<lambda>x. rn_ID x = rn_ID r0) (mark_run c now) (runs (w_db w))\<rparr>"
proof -
  from run obtain row rows where cl: "claim_next (claimable_run envs) rn_RequestedAt rn_ID
        (mark_run c (clock w (tick w))) (runs (w_db w)) = Inr (row, rows)"
      and r: "r = fromRunRow row" and w': "w_db w' = (w_db w)\<lparr>runs := rows\<rparr>"
    by (auto simp: execution_Claim_def ClaimNextExecutingRun_def run_bindE run_mapE
        split: if_splits option.splits sum.splits prod.splits)
  from run_queue.claim_Inr [OF dist cl] r w' show ?thesis by blast
qed


section \<open>The job\<close>

lemma update_one_key:
  assumes "distinct (map rn_ID rs)" and "r \<in> set rs" and "rn_ID r = i" and "rn_Status r = old"
  shows "update_one (\<lambda>x. rn_ID x = i \<and> rn_Status x = old) f rs =
     Inr (f r, update_rows (\<lambda>x. rn_ID x = i \<and> rn_Status x = old) f rs)"
  using assms by (intro update_one_select select_one_key [of rn_ID]) auto

lemma run_UpdateRunStatus_ok:
  assumes "distinct (map rn_ID (runs (w_db w)))" and "r \<in> set (runs (w_db w))" and "rn_ID r = i"
    and "rn_Status r = old" and "fault w (tick w) = None"
  shows "run (UpdateRunStatus new i old) w =
     (Inr (set_status (clock w (tick w)) new r),
      (advance w)\<lparr>w_db := (w_db w)\<lparr>runs := update_rows (\<lambda>x. rn_ID x = i \<and> rn_Status x = old)
         (set_status (clock w (tick w)) new) (runs (w_db w))\<rparr>\<rparr>)"
  using assms by (simp add: UpdateRunStatus_def update_one_key)

lemma run_UpdateRunStatus_stale:
  assumes "\<forall>r \<in> set (runs (w_db w)). rn_ID r = i \<longrightarrow> rn_Status r \<noteq> old" and "fault w (tick w) = None"
  shows "run (UpdateRunStatus new i old) w = (Inl (Sentinel sql_ErrNoRows), advance w)"
proof -
  have "update_one (\<lambda>r. rn_ID r = i \<and> rn_Status r = old) (set_status (clock w (tick w)) new) (runs (w_db w)) =
      Inl (Sentinel sql_ErrNoRows)" using assms(1) by (auto simp: update_one_Inl)
  with assms(2) show ?thesis by (simp add: UpdateRunStatus_def)
qed

lemma run_pipeline_Get_ok:
  assumes "distinct (map pl_ID (pipelines (w_db w)))" and "p \<in> set (pipelines (w_db w))"
    and "fault w (tick w) = None"
  shows "run (pipeline_Get (pl_TenantID p) (pl_ID p)) w = (Inr (pipeline_fromRow p), advance w)"
proof -
  have "select_one (\<lambda>x. pl_ID x = pl_ID p \<and> pl_TenantID x = pl_TenantID p) (pipelines (w_db w)) = Inr p"
    using assms(1,2) by (intro select_one_key [of pl_ID]) auto
  with assms(3) show ?thesis by (simp add: pipeline_Get_def GetPipeline_def run_bindE run_mapE)
qed

lemma registry_get: "Registry_Get reg p = (if p \<in> fst ` set reg then Inr (the (map_of reg p))
     else Inl (Wrapf (Sentinel ci_ErrUnknownProvider)))"
  by (auto simp: Registry_Get_def map_of_eq_None_iff split: option.splits) (metis map_of_eq_None_iff option.distinct(1))+

lemma set_status_sel [simp]:
  "rn_ID (set_status now s r) = rn_ID r" "rn_Status (set_status now s r) = s"
  "rn_TenantID (set_status now s r) = rn_TenantID r" "rn_PipelineID (set_status now s r) = rn_PipelineID r"
  "rn_Tier (set_status now s r) = rn_Tier r"
  by (simp_all add: set_status_def)

lemma fromRunRow_sel [simp]:
  "r_ID (fromRunRow r) = rn_ID r" "r_TenantID (fromRunRow r) = rn_TenantID r"
  "r_PipelineID (fromRunRow r) = rn_PipelineID r" "r_Tier (fromRunRow r) = rn_Tier r"
  "r_Status (fromRunRow r) = rn_Status r" "r_ActorID (fromRunRow r) = rn_ActorID r"
  "r_EnvironmentID (fromRunRow r) = rn_EnvironmentID r"
  by (simp_all add: fromRunRow_def)

lemma pipeline_fromRow_sel [simp]:
  "p_Mutating (pipeline_fromRow p) = pl_Mutating p" "p_Provider (pipeline_fromRow p) = pl_Provider p"
  by (simp_all add: pipeline_fromRow_def)

lemma Worker_Work_starts:
  assumes inv: "run_inv (w_db w)" and ok: "\<forall>n. fault w n = None"
    and r: "r \<in> set (runs (w_db w))" "rn_Status r = StatusQueued"
    and p: "p \<in> set (pipelines (w_db w))" "pl_ID p = rn_PipelineID r"
    and allowed: "Check (rn_Tier r) (pl_Mutating p) = Allow" "pl_Provider p \<in> fst ` set reg"
  shows "run (Worker_Work reg (rn_ID r)) w = (Inr (), advance ((advance w)\<lparr>w_db := (w_db w)\<lparr>runs := update_rows
     (\<lambda>x. rn_ID x = rn_ID r \<and> rn_Status x = StatusQueued) (set_status (clock w (tick w)) StatusExecuting) (runs (w_db w))\<rparr>\<rparr>))"
proof -
  from inv have dist: "distinct (map rn_ID (runs (w_db w)))" "distinct (map pl_ID (pipelines (w_db w)))"
    by (simp_all add: run_inv_def)
  from inv r(1) obtain p' where "p' \<in> set (pipelines (w_db w))" "pl_ID p' = rn_PipelineID r" "pl_TenantID p' = rn_TenantID r"
    by (auto simp: run_inv_def pipeline_ok_def)
  with p dist(2) have t: "pl_TenantID p = rn_TenantID r" by (metis distinct_map_unique)
  note upd = run_UpdateRunStatus_ok [OF dist(1) r(1) refl r(2) spec [OF ok], of StatusExecuting]
  let ?v = "(advance w)\<lparr>w_db := (w_db w)\<lparr>runs := update_rows (\<lambda>x. rn_ID x = rn_ID r \<and> rn_Status x = StatusQueued)
       (set_status (clock w (tick w)) StatusExecuting) (runs (w_db w))\<rparr>\<rparr>"
  have get: "run (pipeline_Get (rn_TenantID r) (rn_PipelineID r)) ?v = (Inr (pipeline_fromRow p), advance ?v)"
    using run_pipeline_Get_ok [of ?v p] dist(2) p t ok by simp
  from allowed upd get show ?thesis
    by (simp add: Worker_Work_def transitionStatus_def run_simps registry_get)
qed

lemma Worker_Work_queued:
  assumes "run_inv (w_db w)" and "\<forall>n. fault w n = None" and "r \<in> set (runs (w_db w))"
    and q: "rn_Status r = StatusQueued"
  shows "\<exists>p \<in> set (pipelines (w_db w)). \<exists>w'. \<exists>r' \<in> set (runs (w_db w')).
          pl_ID p = rn_PipelineID r \<and> pl_TenantID p = rn_TenantID r \<and>
          run (Worker_Work reg (rn_ID r)) w = (Inr (), w') \<and> rn_ID r' = rn_ID r \<and>
          rn_Status r' = (if Check (rn_Tier r) (pl_Mutating p) = Allow \<and> pl_Provider p \<in> fst ` set reg
                          then StatusExecuting else StatusFailed)"
proof -
  let ?t = "clock w (tick w)"
  from assms(1) have dist: "distinct (map rn_ID (runs (w_db w)))" "distinct (map pl_ID (pipelines (w_db w)))"
    by (simp_all add: run_inv_def)
  let ?d = "(w_db w)\<lparr>runs := update_rows (\<lambda>x. rn_ID x = rn_ID r \<and> rn_Status x = StatusQueued)
       (set_status ?t StatusExecuting) (runs (w_db w))\<rparr>"
  let ?w1 = "(advance w)\<lparr>w_db := ?d\<rparr>" and ?r1 = "set_status ?t StatusExecuting r"
  have upd: "run (UpdateRunStatus StatusExecuting (rn_ID r) StatusQueued) w = (Inr ?r1, ?w1)"
    using dist(1) assms(2,3) q by (intro run_UpdateRunStatus_ok) simp_all
  from assms(1,3) have "pipeline_ok (pipelines (w_db w)) r" by (simp add: run_inv_def)
  then obtain p where p: "p \<in> set (pipelines (w_db w))" "pl_ID p = rn_PipelineID r" "pl_TenantID p = rn_TenantID r"
    by (auto simp: pipeline_ok_def)
  have get: "run (pipeline_Get (rn_TenantID r) (rn_PipelineID r)) ?w1 = (Inr (pipeline_fromRow p), advance ?w1)"
    using run_pipeline_Get_ok [of ?w1 p] dist(2) p assms(2) by simp
  have r1: "?r1 \<in> set (runs ?d)"
    using update_rows_mem [OF assms(3), of "\<lambda>x. rn_ID x = rn_ID r \<and> rn_Status x = StatusQueued"
        "set_status ?t StatusExecuting"] q by simp
  have d1: "distinct (map rn_ID (runs ?d))" using dist(1) by (simp add: map_update_rows)
  let ?w2 = "advance ?w1"
  let ?r2 = "set_status (clock w (Suc (Suc (tick w)))) StatusFailed ?r1"
  let ?w3 = "(advance ?w2)\<lparr>w_db := (w_db ?w2)\<lparr>runs := update_rows
      (\<lambda>x. rn_ID x = rn_ID r \<and> rn_Status x = StatusExecuting) (set_status (clock w (Suc (Suc (tick w)))) StatusFailed)
      (runs (w_db ?w2))\<rparr>\<rparr>"
  have "run (UpdateRunStatus StatusFailed (rn_ID r) StatusExecuting) ?w2 = (Inr ?r2, ?w3)"
    using d1 r1 assms(2) run_UpdateRunStatus_ok [of ?w2 ?r1 "rn_ID r" StatusExecuting StatusFailed] by simp
  then have fail: "run (failClosed (rn_ID r)) ?w2 = (Inr (), ?w3)"
    by (simp add: failClosed_def transitionStatus_def run_simps)
  have r2: "?r2 \<in> set (runs (w_db ?w3))"
    using update_rows_mem [OF r1, of "\<lambda>x. rn_ID x = rn_ID r \<and> rn_Status x = StatusExecuting"
        "set_status (clock w (Suc (Suc (tick w)))) StatusFailed"] by simp
  show ?thesis
  proof (cases "Check (rn_Tier r) (pl_Mutating p) = Allow \<and> pl_Provider p \<in> fst ` set reg")
    case True
    then have "run (Worker_Work reg (rn_ID r)) w = (Inr (), ?w2)"
      using Worker_Work_starts [OF assms(1-3) q p(1,2)] by blast
    with True p r1 show ?thesis by (intro bexI [OF _ p(1)] exI [of _ ?w2] bexI [of _ ?r1]) simp_all
  next
    case False
    then have "run (Worker_Work reg (rn_ID r)) w = (Inr (), ?w3)"
      by (cases "Check (rn_Tier r) (pl_Mutating p) = Allow")
         (simp_all add: Worker_Work_def transitionStatus_def run_simps upd get registry_get fail)
    with False p r2 show ?thesis by (intro bexI [OF _ p(1)] exI [of _ ?w3] bexI [of _ ?r2]) simp_all
  qed
qed

lemma Worker_Work_stale:
  assumes "run_inv (w_db w)" and "\<forall>n. fault w n = None" and "r \<in> set (runs (w_db w))"
    and "rn_Status r \<noteq> StatusQueued"
  shows "\<exists>w'. run (Worker_Work reg (rn_ID r)) w = (Inr (), w') \<and> w_db w' = w_db w"
proof -
  from assms(1) have "distinct (map rn_ID (runs (w_db w)))" by (simp add: run_inv_def)
  with assms(3,4) have "\<forall>x \<in> set (runs (w_db w)). rn_ID x = rn_ID r \<longrightarrow> rn_Status x \<noteq> StatusQueued"
    using distinct_map_unique by metis
  from run_UpdateRunStatus_stale [OF this, of StatusExecuting] assms(2)
  have "run (Worker_Work reg (rn_ID r)) w = (Inr (), advance w)"
    by (simp add: Worker_Work_def transitionStatus_def run_simps)
  then show ?thesis by simp
qed


section \<open>Reporting\<close>

lemma ReportResult_Inr:
  "run (ReportResult i c res) w = (Inr r, w') \<Longrightarrow>
     (\<exists>r0 \<in> set (runs (w_db w)). rn_ID r0 = i \<and> rn_ClaimedBy r0 = Some c \<and> rn_Status r0 = StatusExecuting \<and>
        r = fromRunRow (set_result (clock w (tick w)) res r0)) \<and>
     w_db w' = (w_db w)\<lparr>runs := update_rows
        (\<lambda>r. rn_ID r = i \<and> rn_ClaimedBy r = Some c \<and> rn_Status r = StatusExecuting)
        (set_result (clock w (tick w)) res) (runs (w_db w))\<rparr>"
  by (auto simp: ReportResult_def ReportRunResult_def run_bindE run_mapE
      split: option.splits sum.splits prod.splits dest!: update_one_Inr)

text \<open>
  Only the worker that claimed a run reports its result, and only while it executes.  A
  report that returns found the run executing and claimed by the reporting credential, and sets
  status, CI reference and finish time of that run alone; any other report fails with
  \<open>ErrNotFound\<close> (or the error of a lost statement) and changes nothing.
\<close>

theorem ReportResult_owner:
  assumes "run (ReportResult i c res) w = (x, w')"
  shows "(\<forall>r. x = Inr r \<longrightarrow> (\<exists>r0 \<in> set (runs (w_db w)). \<exists>now.
       rn_ID r0 = i \<and> rn_ClaimedBy r0 = Some c \<and> rn_Status r0 = StatusExecuting \<and>
       r = fromRunRow (set_result now res r0) \<and>
       w_db w' = (w_db w)\<lparr>runs := update_rows
          (\<lambda>r. rn_ID r = i \<and> rn_ClaimedBy r = Some c \<and> rn_Status r = StatusExecuting) (set_result now res)
          (runs (w_db w))\<rparr>)) \<and>
     ((\<forall>r \<in> set (runs (w_db w)). rn_ID r = i \<longrightarrow> rn_ClaimedBy r \<noteq> Some c \<or> rn_Status r \<noteq> StatusExecuting) \<longrightarrow>
       w_db w' = w_db w \<and> (\<exists>e. x = Inl e \<and> (fault w (tick w) = None \<longrightarrow> e = Sentinel execution_ErrNotFound)))"
proof (intro conjI allI impI)
  fix r assume "x = Inr r"
  with assms show "\<exists>r0 \<in> set (runs (w_db w)). \<exists>now.
       rn_ID r0 = i \<and> rn_ClaimedBy r0 = Some c \<and> rn_Status r0 = StatusExecuting \<and>
       r = fromRunRow (set_result now res r0) \<and>
       w_db w' = (w_db w)\<lparr>runs := update_rows
          (\<lambda>r. rn_ID r = i \<and> rn_ClaimedBy r = Some c \<and> rn_Status r = StatusExecuting) (set_result now res)
          (runs (w_db w))\<rparr>"
    using ReportResult_Inr by blast
next
  let ?P = "\<lambda>r. rn_ID r = i \<and> rn_ClaimedBy r = Some c \<and> rn_Status r = StatusExecuting"
  assume none: "\<forall>r \<in> set (runs (w_db w)). rn_ID r = i \<longrightarrow> rn_ClaimedBy r \<noteq> Some c \<or> rn_Status r \<noteq> StatusExecuting"
  have "update_one ?P f (runs (w_db w)) = Inl (Sentinel sql_ErrNoRows)" for f
    using none by (auto simp: update_one_Inl)
  with assms show "w_db w' = w_db w"
    and "\<exists>e. x = Inl e \<and> (fault w (tick w) = None \<longrightarrow> e = Sentinel execution_ErrNotFound)"
    by (auto simp: ReportResult_def ReportRunResult_def run_bindE run_mapE notFound_def
        split: option.splits)
qed

section \<open>Applied\<close>

definition sample_request :: "tier \<Rightarrow> RequestParams" where
  "sample_request tier =
     \<lparr>rp_TenantID = 1, rp_ActorID = 4, rp_EnvironmentID = 5, rp_PipelineID = 6, rp_Tier = tier,
      rp_IdempotencyKey = [], rp_DiffRef = []\<rparr>"

lemma sample_request_run:
  "case run (Request sample_store (sample_request TierHumanInTheLoop)) (sample_world (sample_db [] [])) of
     (Inr r, w) \<Rightarrow> r_Status r = StatusAwaitingApproval | (Inl e, w) \<Rightarrow> False"
  by code_simp


lemma sample_decide_run:
  "case run (Decide sample_store 9 3 True)
      (sample_world (sample_db [sample_run 9 TierHumanInTheLoop StatusAwaitingApproval None] [sample_approval 9 None])) of
     (Inr r, w) \<Rightarrow> r_Status r = StatusQueued | (Inl e, w) \<Rightarrow> False"
  by code_simp

theorem Decide_once_witness:
  "\<exists>r w. run (Decide sample_store 9 3 True)
      (sample_world (sample_db [sample_run 9 TierHumanInTheLoop StatusAwaitingApproval None] [sample_approval 9 None])) = (Inr r, w) \<and>
     r_Status r = StatusQueued \<and> (\<exists>a \<in> set (approvals (w_db w)). ap_Decision a = Some ''approved'')"
proof -
  let ?w = "sample_world (sample_db [sample_run 9 TierHumanInTheLoop StatusAwaitingApproval None] [sample_approval 9 None])"
  from sample_decide_run obtain r w where run: "run (Decide sample_store 9 3 True) ?w = (Inr r, w)"
      and st: "r_Status r = StatusQueued"
    by (auto split: prod.splits sum.splits)
  obtain now where "approvals (w_db w) = update_rows (\<lambda>a. ap_RunID a = 9 \<and> ap_Decision a = None)
               (\<lambda>a. a\<lparr>ap_Decision := Some ''approved'', ap_DecidedAt := Some now, ap_ApproverActorID := Some 3\<rparr>)
               [sample_approval 9 None]"
    using Decide_once [OF sample_enqueuer run] by (auto simp: sample_world_def sample_db_def)
  then have "\<exists>a \<in> set (approvals (w_db w)). ap_Decision a = Some ''approved''"
    by (simp add: update_rows_def sample_approval_def)
  with run st show ?thesis by blast
qed

definition sample_executing :: world where
  "sample_executing = sample_world (sample_db [sample_run 9 TierAutonomous StatusExecuting None,
     sample_run 10 TierAutonomous StatusExecuting None] [])"

lemma sample_claim_run:
  "case run (execution_Claim 8 [5]) sample_executing of (Inr r, w) \<Rightarrow> r_ID r = 9 | (Inl e, w) \<Rightarrow> False"
  by code_simp


definition sample_queued :: "tier \<Rightarrow> string option \<Rightarrow> world" where
  "sample_queued tier decision = sample_world (sample_db [sample_run 9 tier StatusQueued None]
     (if decision = None then [] else [sample_approval 9 decision]))"

lemma sample_queued_inv: "run_inv (w_db (sample_queued TierHumanInTheLoop (Some ''approved'')))"
  by (simp add: sample_queued_def sample_world_def sample_db_def run_inv_def timeline_ok_def pipeline_ok_def
      oversight_ok_def approval_ok_def decided_def sample_run_def sample_approval_def sample_pipeline_def
      before_executing_def terminal_def Tier_Valid_def tier_defs)


lemma sample_report_run:
  "case run (ReportResult 9 8 \<lparr>rr_Status = StatusSucceeded, rr_CIExternalRef = [], rr_CIURL = [], rr_CIRawStatus = []\<rparr>)
      (sample_world (sample_db [sample_run 9 TierAutonomous StatusExecuting (Some 8)] [])) of
     (Inr r, w) \<Rightarrow> r_Status r = StatusSucceeded | (Inl e, w) \<Rightarrow> False"
  by code_simp

theorem ReportResult_owner_witness:
  "\<exists>x w. run (ReportResult 9 8 \<lparr>rr_Status = StatusSucceeded, rr_CIExternalRef = [], rr_CIURL = [], rr_CIRawStatus = []\<rparr>)
      (sample_world (sample_db [sample_run 9 TierAutonomous StatusExecuting (Some 8)] [])) = (Inr x, w) \<and>
     (\<exists>r0 \<in> set [sample_run 9 TierAutonomous StatusExecuting (Some 8)]. rn_ClaimedBy r0 = Some 8)"
proof -
  from sample_report_run obtain x w where run: "run (ReportResult 9 8 \<lparr>rr_Status = StatusSucceeded,
        rr_CIExternalRef = [], rr_CIURL = [], rr_CIRawStatus = []\<rparr>)
      (sample_world (sample_db [sample_run 9 TierAutonomous StatusExecuting (Some 8)] [])) = (Inr x, w)"
    by (auto split: prod.splits sum.splits)
  have "runs (w_db (sample_world (sample_db [sample_run 9 TierAutonomous StatusExecuting (Some 8)] []))) =
      [sample_run 9 TierAutonomous StatusExecuting (Some 8)]"
    by (simp add: sample_world_def sample_db_def)
  with ReportResult_owner [OF run] run show ?thesis by force
qed

section \<open>Two gaps\<close>



end
