(* ===== verification/RunHandlers.thy ===== *)
theory RunHandlers
  imports RunOperations ApiRuns
begin

text \<open>
  What the run handlers promise of the requests they accept: who may request and decide a run, and
  what a worker learns when it resolves or reports one.
\<close>

section \<open>Reads and the audit record\<close>

lemma reply_not_error [simp]:
  "errIs s (Error n c) e \<noteq> Reply m b" "errIs s (Status n) e \<noteq> Reply m b" "anyErr e \<noteq> Reply m b"
  by (simp_all add: errIs_def anyErr_def internalError_def)

lemma errIs_resp [simp]:
  "errIs s notFoundResp e \<noteq> Reply m b" "errIs s conflict e \<noteq> Reply m b" "errIs s unauthorized e \<noteq> Reply m b"
  "errIs s badRequest e \<noteq> Reply m b" "errIs s forbidden e \<noteq> Reply m b"
  "internalError \<noteq> Reply m b" "badRequest \<noteq> Reply m b" "forbidden \<noteq> Reply m b"
  "notFoundResp \<noteq> Reply m b" "unauthorized \<noteq> Reply m b" "conflict \<noteq> Reply m b"
  by (simp_all add: errIs_def resp_defs)

lemma environment_Get_Inr:
  "run (environment_Get i) w = (Inr e, w') \<Longrightarrow>
     w_db w' = w_db w \<and> (\<exists>r \<in> set (environments (w_db w)). en_ID r = i \<and> e = environment_fromRow r)"
  by (auto simp: environment_Get_def GetEnvironment_def run_bindE run_mapE
      split: option.splits sum.splits prod.splits dest!: select_one_Inr)

lemma environment_Get_db: "run (environment_Get i) w = (x, w') \<Longrightarrow> w_db w' = w_db w"
  by (auto simp: environment_Get_def GetEnvironment_def run_bindE run_mapE
      split: option.splits sum.splits prod.splits)

lemma execution_Get_Inr:
  "run (execution_Get t i) w = (Inr r, w') \<Longrightarrow>
     w_db w' = w_db w \<and> (\<exists>x \<in> set (runs (w_db w)). rn_ID x = i \<and> rn_TenantID x = t \<and> r = fromRunRow x)"
  by (auto simp: execution_Get_def GetRun_def run_bindE run_mapE
      split: option.splits sum.splits prod.splits dest!: select_one_Inr)

lemma execution_Get_db: "run (execution_Get t i) w = (x, w') \<Longrightarrow> w_db w' = w_db w"
  by (auto simp: execution_Get_def GetRun_def run_bindE run_mapE
      split: option.splits sum.splits prod.splits)

text \<open>The event an \<open>audit_Create\<close> that returns has appended.\<close>

definition logged :: "AuditParams \<Rightarrow> db \<Rightarrow> db \<Rightarrow> bool" where
  "logged q d d' \<longleftrightarrow> (\<exists>now u md. d' = d\<lparr>audit_events := audit_events d @ [new_event now u q md]\<rparr>)"

lemma CreateAuditEvent_Inr:
  "run (CreateAuditEvent q md) w = (Inr r, w') \<Longrightarrow>
     w_db w' = (w_db w)\<lparr>audit_events := audit_events (w_db w) @ [new_event (clock w (tick w)) (rand w (tick w)) q md]\<rparr>"
  by (simp add: CreateAuditEvent_def insert_row_Inr split: option.splits sum.splits prod.splits)
     (auto simp: insert_row_Inr)

lemma audit_Create_Inr:
  assumes "run (audit_Create q) w = (Inr e, w')"
  shows "logged q (w_db w) (w_db w')"
proof -
  let ?md = "case aup_Metadata q of None \<Rightarrow> emptyMetadata | Some m \<Rightarrow> m"
  from assms obtain r where "run (CreateAuditEvent q ?md) w = (Inr r, w')"
    by (simp add: audit_Create_def run_bindE run_mapE split: if_splits sum.splits prod.splits)
  from CreateAuditEvent_Inr [OF this] show ?thesis by (auto simp: logged_def)
qed

lemma logged_runs: "logged q d d' \<Longrightarrow> runs d' = runs d \<and> approvals d' = approvals d \<and> pipelines d' = pipelines d"
  by (auto simp: logged_def)

section \<open>Requesting a run\<close>

lemma handlePostRuns_Reply:
  assumes "run (handlePostRuns U st body ctx) w = (Reply n rr, w')"
  shows "\<exists>claims req e p t a env v r v' ev.
     n = 201 \<and> ctx = Some claims \<and> body = Some req \<and> uuid_Parse U (crq_EnvironmentID req) = Inr e \<and>
     uuid_Parse U (crq_PipelineID req) = Inr p \<and> uuid_Parse U (cl_TenantID claims) = Inr t \<and>
     uuid_Parse U (cl_ActorID claims) = Inr a \<and> run (environment_Get e) w = (Inr env, v) \<and>
     e_TenantID env = t \<and>
     run (Request st \<lparr>rp_TenantID = t, rp_ActorID = a, rp_EnvironmentID = e, rp_PipelineID = p,
        rp_Tier = cl_Tier claims, rp_IdempotencyKey = crq_IdempotencyKey req, rp_DiffRef = crq_DiffRef req\<rparr>) v = (Inr r, v') \<and>
     run (audit_Create ((audit_of t a ''run.requested'') \<lparr>aup_RunID := Some (r_ID r), aup_Tier := Some (r_Tier r),
        aup_EnvironmentID := Some e\<rparr>)) v' = (Inr ev, w') \<and> rr = runToResponse U r"
  using assms unfolding handlePostRuns_def
  by (auto simp: handler_simps split: if_splits option.splits sum.splits prod.splits)

text \<open>
  C8.  A requested run acts with the authority of its requester and no more.  When the handler
  answers 201, the caller's claims were there, the environment belongs to the caller's tenant, and
  the one new run carries the tenant, actor and tier of the claims; it is queued only when the gate
  allows that tier on the pipeline, and otherwise waits for approval; and the request is in the audit log.
\<close>

theorem handlePostRuns_authority:
  assumes "enqueuer (st_Enqueue st)" and "run (handlePostRuns U st body ctx) w = (Reply n rr, w')"
  shows "\<exists>claims t a row p. ctx = Some claims \<and> uuid_Parse U (cl_TenantID claims) = Inr t \<and>
     uuid_Parse U (cl_ActorID claims) = Inr a \<and> runs (w_db w') = runs (w_db w) @ [row] \<and>
     rn_TenantID row = t \<and> rn_ActorID row = a \<and> rn_Tier row = cl_Tier claims \<and>
     (\<exists>e \<in> set (environments (w_db w)). en_ID e = rn_EnvironmentID row \<and> en_TenantID e = t) \<and>
     p \<in> set (pipelines (w_db w)) \<and> pl_ID p = rn_PipelineID row \<and> pl_TenantID p = t \<and>
     Check (cl_Tier claims) (pl_Mutating p) \<noteq> Deny \<and>
     rn_Status row = (if Check (cl_Tier claims) (pl_Mutating p) = Allow then StatusQueued else StatusAwaitingApproval) \<and>
     (\<exists>ev. audit_events (w_db w') = audit_events (w_db w) @ [ev] \<and> au_Action ev = ''run.requested'' \<and>
        au_ActorID ev = a \<and> au_RunID ev = Some (rn_ID row))"
proof -
  from handlePostRuns_Reply [OF assms(2)] obtain claims e p t a env v r v' ev and req :: createRunRequest where
    ctx: "ctx = Some claims" and ids: "uuid_Parse U (cl_TenantID claims) = Inr t" "uuid_Parse U (cl_ActorID claims) = Inr a"
    and env: "run (environment_Get e) w = (Inr env, v)" "e_TenantID env = t"
    and req: "run (Request st \<lparr>rp_TenantID = t, rp_ActorID = a, rp_EnvironmentID = e, rp_PipelineID = p,
        rp_Tier = cl_Tier claims, rp_IdempotencyKey = crq_IdempotencyKey req, rp_DiffRef = crq_DiffRef req\<rparr>) v = (Inr r, v')"
    and aud: "run (audit_Create ((audit_of t a ''run.requested'') \<lparr>aup_RunID := Some (r_ID r), aup_Tier := Some (r_Tier r),
        aup_EnvironmentID := Some e\<rparr>)) v' = (Inr ev, w')"
    by blast
  from environment_Get_Inr [OF env(1)] env(2) have v: "w_db v = w_db w"
    and e: "\<exists>x \<in> set (environments (w_db w)). en_ID x = e \<and> en_TenantID x = t"
    by (auto simp: environment_fromRow_def)
  from enqueuer.Request_Inr [OF assms(1) refl req] v obtain pl row aps where
    pl: "pl \<in> set (pipelines (w_db w))" "pl_ID pl = p" "pl_TenantID pl = t" "Check (cl_Tier claims) (pl_Mutating pl) \<noteq> Deny"
    and row: "r = fromRunRow row" "rn_TenantID row = t" "rn_ActorID row = a" "rn_EnvironmentID row = e"
      "rn_PipelineID row = p" "rn_Tier row = cl_Tier claims"
      "if Check (cl_Tier claims) (pl_Mutating pl) = Allow then rn_Status row = StatusQueued \<and> aps = []
       else rn_Status row = StatusAwaitingApproval \<and>
         (\<exists>a. aps = [a] \<and> ap_RunID a = rn_ID row \<and> ap_Decision a = None \<and> ap_ApproverActorID a = None)"
    and v': "w_db v' = (w_db w)\<lparr>runs := runs (w_db w) @ [row], approvals := approvals (w_db w) @ aps\<rparr>"
    unfolding v RequestParams.select_convs by blast
  from row(7) have st: "rn_Status row = (if Check (cl_Tier claims) (pl_Mutating pl) = Allow then StatusQueued else StatusAwaitingApproval)"
    by presburger
  have log: "logged ((audit_of t a ''run.requested'') \<lparr>aup_RunID := Some (r_ID r), aup_Tier := Some (r_Tier r),
        aup_EnvironmentID := Some e\<rparr>) (w_db v') (w_db w')" using aud by (rule audit_Create_Inr)
  then have rs: "runs (w_db w') = runs (w_db w) @ [row]" by (auto simp: v' dest: logged_runs)
  from log have ev: "\<exists>ev. audit_events (w_db w') = audit_events (w_db w) @ [ev] \<and> au_Action ev = ''run.requested'' \<and>
        au_ActorID ev = a \<and> au_RunID ev = Some (rn_ID row)"
    by (auto simp: logged_def v' new_event_def audit_of_def row(1))
  show ?thesis
    by (intro exI [of _ claims] exI [of _ t] exI [of _ a] exI [of _ row] exI [of _ pl] conjI)
       (use ctx ids e pl row(2-6) st rs ev in simp_all)
qed

section \<open>Deciding a run\<close>

lemma handlePostRunDecision_Reply:
  assumes "run (handlePostRunDecision U st pid body ctx) w = (Reply n rr, w')"
  shows "\<exists>claims dec b t a i ex v r v' ev.
     ctx = Some claims \<and> cl_Tier claims \<noteq> TierReadOnly \<and> body = Some dec \<and> parse_decision dec = Some b \<and>
     uuid_Parse U (cl_TenantID claims) = Inr t \<and> uuid_Parse U (cl_ActorID claims) = Inr a \<and>
     uuid_Parse U pid = Inr i \<and> run (execution_Get t i) w = (Inr ex, v) \<and> r_ActorID ex \<noteq> a \<and>
     run (Decide st i a b) v = (Inr r, v') \<and>
     run (audit_Create ((audit_of t a ''approval.decided'') \<lparr>aup_RunID := Some (r_ID r)\<rparr>)) v' = (Inr ev, w')"
  using assms unfolding handlePostRunDecision_def
  by (auto simp: handler_simps split: if_splits option.splits sum.splits prod.splits)

lemma handlePostRunDecision_accepted:
  assumes "enqueuer (st_Enqueue st)" and "run (handlePostRunDecision U st pid body ctx) w = (Reply n rr, w')"
    and "ctx = Some claims" and "uuid_Parse U (cl_ActorID claims) = Inr a" and "uuid_Parse U pid = Inr i"
  shows "cl_Tier claims \<noteq> TierReadOnly \<and>
       (\<exists>r0 \<in> set (runs (w_db w)). rn_ID r0 = i \<and> rn_ActorID r0 \<noteq> a \<and>
          uuid_Parse U (cl_TenantID claims) = Inr (rn_TenantID r0)) \<and>
       (\<exists>ap \<in> set (approvals (w_db w)). ap_RunID ap = i \<and> ap_Decision ap = None) \<and>
       (\<exists>ap \<in> set (approvals (w_db w')). ap_RunID ap = i \<and> ap_ApproverActorID ap = Some a \<and> ap_Decision ap = body) \<and>
       (\<exists>ev. audit_events (w_db w') = audit_events (w_db w) @ [ev] \<and> au_Action ev = ''approval.decided'' \<and>
          au_ActorID ev = a \<and> au_RunID ev = Some i)"
proof -
  from handlePostRunDecision_Reply [OF assms(2)] assms(3-5) obtain dec b t ex v r v' ev where
    tier: "cl_Tier claims \<noteq> TierReadOnly" and body: "body = Some dec" "parse_decision dec = Some b"
    and t: "uuid_Parse U (cl_TenantID claims) = Inr t"
    and get: "run (execution_Get t i) w = (Inr ex, v)" "r_ActorID ex \<noteq> a"
    and dc: "run (Decide st i a b) v = (Inr r, v')"
    and aud: "run (audit_Create ((audit_of t a ''approval.decided'') \<lparr>aup_RunID := Some (r_ID r)\<rparr>)) v' = (Inr ev, w')"
    by auto
  from execution_Get_Inr [OF get(1)] get(2) t have v: "w_db v = w_db w"
    and r0: "\<exists>r0 \<in> set (runs (w_db w)). rn_ID r0 = i \<and> rn_ActorID r0 \<noteq> a \<and>
          uuid_Parse U (cl_TenantID claims) = Inr (rn_TenantID r0)" by auto
  let ?P = "\<lambda>a. ap_RunID a = i \<and> ap_Decision a = None"
  note D = enqueuer.Decide_Inr [OF assms(1) refl dc, unfolded v]
  from conjunct1 [OF D] obtain ap where
    ap: "ap \<in> set (approvals (w_db w))" "ap_RunID ap = i" "ap_Decision ap = None" by blast
  from conjunct2 [OF D] obtain now now' r0 where r: "rn_ID r0 = i"
      "r = fromRunRow (set_status now' (if b then StatusQueued else StatusDenied) r0)"
    and v': "w_db v' = (w_db w)\<lparr>approvals := update_rows ?P
       (\<lambda>x. x\<lparr>ap_Decision := Some (if b then ''approved'' else ''denied''), ap_DecidedAt := Some now,
              ap_ApproverActorID := Some a\<rparr>) (approvals (w_db w)),
       runs := update_rows (\<lambda>r. rn_ID r = i \<and> rn_Status r = StatusAwaitingApproval)
          (set_status now' (if b then StatusQueued else StatusDenied)) (runs (w_db w))\<rparr>" by blast
  from r have rID: "r_ID r = i" by simp
  let ?ap = "ap\<lparr>ap_Decision := Some (if b then ''approved'' else ''denied''), ap_DecidedAt := Some now,
              ap_ApproverActorID := Some a\<rparr>"
  have dec: "Some (if b then ''approved'' else ''denied'') = body"
    using body by (auto simp: parse_decision_def split: if_splits)
  from audit_Create_Inr [OF aud] have log: "logged ((audit_of t a ''approval.decided'') \<lparr>aup_RunID := Some i\<rparr>) (w_db v') (w_db w')"
    by (simp add: rID)
  have "?ap \<in> set (approvals (w_db v'))"
    using update_rows_mem [OF ap(1), of ?P "\<lambda>x. x\<lparr>ap_Decision := Some (if b then ''approved'' else ''denied''),
        ap_DecidedAt := Some now, ap_ApproverActorID := Some a\<rparr>"] ap(2,3) by (simp add: v')
  then have "\<exists>ap \<in> set (approvals (w_db w')). ap_RunID ap = i \<and> ap_ApproverActorID ap = Some a \<and> ap_Decision ap = body"
    using logged_runs [OF log] ap(2) dec by (intro bexI [of _ ?ap]) simp_all
  moreover from log have "\<exists>ev. audit_events (w_db w') = audit_events (w_db w) @ [ev] \<and> au_Action ev = ''approval.decided'' \<and>
          au_ActorID ev = a \<and> au_RunID ev = Some i"
    by (auto simp: logged_def v' new_event_def audit_of_def)
  ultimately show ?thesis using tier r0 ap by blast
qed

lemma handlePostRunDecision_own:
  assumes "run (handlePostRunDecision U st pid body ctx) w = (resp, w')"
    and "ctx = Some claims" and "uuid_Parse U (cl_ActorID claims) = Inr a" and "uuid_Parse U pid = Inr i"
    and own: "\<forall>r0 \<in> set (runs (w_db w)). rn_ID r0 = i \<longrightarrow> rn_ActorID r0 = a"
  shows "w_db w' = w_db w"
proof -
  have no: "r_ActorID ex = a" if "run (execution_Get t i) w = (Inr ex, v)" for t ex v
    using execution_Get_Inr [OF that] own by auto
  show ?thesis
  proof (cases "uuid_Parse U (cl_TenantID claims)")
    case (Inl e)
    with assms(1-4) show ?thesis unfolding handlePostRunDecision_def
      by (simp add: handler_simps split: if_splits option.splits)
  next
    case (Inr t)
    obtain x v where g: "run (execution_Get t i) w = (x, v)" by fastforce
    then have "w_db v = w_db w" by (rule execution_Get_db)
    moreover have "r_ActorID ex = a" if "x = Inr ex" for ex using no g that by simp
    ultimately show ?thesis using assms(1-4) Inr g unfolding handlePostRunDecision_def
      by (cases x) (auto simp: handler_simps split: if_splits option.splits)
  qed
qed

text \<open>
  C15.  Separation of duties.  A decision that is answered 200 was made by a caller above the read-only
  tier, on a run of the caller's own tenant whose actor is somebody else, which was waiting
  undecided; the approval then names the caller as approver, and the audit log has the decision.
  On a run that is the caller's own, nothing changes.
\<close>

theorem handlePostRunDecision_separation:
  assumes "enqueuer (st_Enqueue st)" and "run (handlePostRunDecision U st pid body ctx) w = (resp, w')"
    and "ctx = Some claims" and "uuid_Parse U (cl_ActorID claims) = Inr a" and "uuid_Parse U pid = Inr i"
  shows "(\<forall>n rr. resp = Reply n rr \<longrightarrow> cl_Tier claims \<noteq> TierReadOnly \<and>
       (\<exists>r0 \<in> set (runs (w_db w)). rn_ID r0 = i \<and> rn_ActorID r0 \<noteq> a \<and>
          uuid_Parse U (cl_TenantID claims) = Inr (rn_TenantID r0)) \<and>
       (\<exists>ap \<in> set (approvals (w_db w)). ap_RunID ap = i \<and> ap_Decision ap = None) \<and>
       (\<exists>ap \<in> set (approvals (w_db w')). ap_RunID ap = i \<and> ap_ApproverActorID ap = Some a \<and>
          ap_Decision ap = body) \<and>
       (\<exists>ev. audit_events (w_db w') = audit_events (w_db w) @ [ev] \<and> au_Action ev = ''approval.decided'' \<and>
          au_ActorID ev = a \<and> au_RunID ev = Some i)) \<and>
     ((\<forall>r0 \<in> set (runs (w_db w)). rn_ID r0 = i \<longrightarrow> rn_ActorID r0 = a) \<longrightarrow> w_db w' = w_db w)"
proof (intro conjI [OF allI [OF allI [OF impI]] impI])
  fix n rr assume "resp = Reply n rr"
  with assms(2) have "run (handlePostRunDecision U st pid body ctx) w = (Reply n rr, w')" by simp
  from handlePostRunDecision_accepted [OF assms(1) this assms(3-5)] show "cl_Tier claims \<noteq> TierReadOnly \<and>
       (\<exists>r0 \<in> set (runs (w_db w)). rn_ID r0 = i \<and> rn_ActorID r0 \<noteq> a \<and>
          uuid_Parse U (cl_TenantID claims) = Inr (rn_TenantID r0)) \<and>
       (\<exists>ap \<in> set (approvals (w_db w)). ap_RunID ap = i \<and> ap_Decision ap = None) \<and>
       (\<exists>ap \<in> set (approvals (w_db w')). ap_RunID ap = i \<and> ap_ApproverActorID ap = Some a \<and> ap_Decision ap = body) \<and>
       (\<exists>ev. audit_events (w_db w') = audit_events (w_db w) @ [ev] \<and> au_Action ev = ''approval.decided'' \<and>
          au_ActorID ev = a \<and> au_RunID ev = Some i)" .
qed (rule handlePostRunDecision_own [OF assms(2-5)])

section \<open>Resolving and reporting\<close>

lemma resolve_loop_Inr:
  "run (resolve_loop ref cs m) w = (Inr (Some c), w') \<Longrightarrow> w_db w' = w_db w \<and> (c \<in> set cs \<or> m = Some c)"
proof (induction cs arbitrary: m w)
  case (Cons x cs)
  then obtain p v where get: "run (pipeline_Get (rn_TenantID x) (rn_PipelineID x)) w = (Inr p, v)"
    by (auto simp: run_bindE run_mapE split: sum.splits prod.splits)
  have v: "w_db v = w_db w" by (rule pl.get_run_db [OF get])
  show ?case
  proof (cases "normalizeRef (settings_get (p_Settings p) ''ref'') \<noteq> ref")
    case True
    with Cons.prems get have "run (resolve_loop ref cs m) v = (Inr (Some c), w')"
      by (simp add: run_bindE run_mapE)
    from Cons.IH [OF this] v show ?thesis by auto
  next
    case False
    with Cons.prems get have "run (resolve_loop ref cs (Some x)) v = (Inr (Some c), w')"
      by (simp add: run_bindE run_mapE split: if_splits)
    from Cons.IH [OF this] v show ?thesis by auto
  qed
qed simp

definition with_ref :: "string \<Rightarrow> string \<Rightarrow> run_row \<Rightarrow> run_row" where
  "with_ref x url r = r\<lparr>rn_CiExternalRef := nullString x, rn_CiUrl := nullString url\<rparr>"

lemma ResolveExternalRef_Inr:
  assumes dist: "distinct (map rn_ID (runs (w_db w)))"
    and run: "run (ResolveExternalRef es prov repo wfl ref x url) w = (Inr r, w')"
  shows "\<exists>r0 \<in> set (runs (w_db w)). \<exists>p \<in> set (pipelines (w_db w)).
     unresolved_match es prov repo wfl r0 p \<and> pl_ID p = rn_PipelineID r0 \<and>
     r = fromRunRow (with_ref x url r0) \<and>
     w_db w' = (w_db w)\<lparr>runs := update_rows (\<lambda>r. rn_ID r = rn_ID r0 \<and> rn_CiExternalRef r = None) (with_ref x url) (runs (w_db w))\<rparr>"
proof -
  let ?f = "with_ref x url"
  from run obtain cs v m v' row where f: "run (FindUnresolvedExecutingRuns es prov repo wfl) w = (Inr cs, v)"
    and l: "run (resolve_loop ref cs None) v = (Inr (Some m), v')"
    and u: "run (ResolveRunExternalRef (rn_ID m) (nullString x) (nullString url)) v' = (Inr row, w')"
    and r: "r = fromRunRow row"
    by (auto simp: ResolveExternalRef_def run_bindE run_mapE split: sum.splits prod.splits option.splits)
  from f have v: "w_db v = w_db w" and cs: "\<And>c. c \<in> set cs \<Longrightarrow> c \<in> set (runs (w_db w)) \<and>
      (\<exists>p \<in> set (pipelines (w_db w)). pl_ID p = rn_PipelineID c \<and> unresolved_match es prov repo wfl c p)"
    by (auto simp: FindUnresolvedExecutingRuns_def split: option.splits)
  from resolve_loop_Inr [OF l] v have v': "w_db v' = w_db w" and m: "m \<in> set cs" by auto
  from cs [OF m] obtain p where mm: "m \<in> set (runs (w_db w))" and p: "p \<in> set (pipelines (w_db w))"
      "pl_ID p = rn_PipelineID m" "unresolved_match es prov repo wfl m p" by blast
  then have None: "rn_CiExternalRef m = None" by (simp add: unresolved_match_def)
  have "update_one (\<lambda>r. rn_ID r = rn_ID m \<and> rn_CiExternalRef r = None) ?f (runs (w_db w)) =
      Inr (?f m, update_rows (\<lambda>r. rn_ID r = rn_ID m \<and> rn_CiExternalRef r = None) ?f (runs (w_db w)))"
    using dist mm None by (intro update_one_select select_one_key [of rn_ID]) auto
  with u v' r have "r = fromRunRow (?f m)"
    "w_db w' = (w_db w)\<lparr>runs := update_rows (\<lambda>r. rn_ID r = rn_ID m \<and> rn_CiExternalRef r = None) ?f (runs (w_db w))\<rparr>"
    by (auto simp: ResolveRunExternalRef_def with_ref_def [abs_def] split: option.splits)
  with mm p show ?thesis by blast
qed

lemma GetAWSTierRole_Inr:
  assumes "run (GetAWSTierRole e t) w = (Inr role, w')"
  shows "w_db w' = w_db w \<and> Tier_Valid t \<and> (\<exists>x \<in> set (aws_tier_roles (w_db w)). ar_EnvironmentID x = e \<and>
     ar_Tier x = t \<and> ar_RoleArn x = atr_RoleARN role)"
proof -
  from assms have "Tier_Valid t" by (simp add: GetAWSTierRole_def split: if_splits)
  with assms show ?thesis
    by (auto simp: GetAWSTierRole_def GetEnvironmentAWSTierRole_def run_bindE run_mapE aws_tier_role_of_def
        split: option.splits sum.splits prod.splits dest!: select_one_Inr)
qed

lemma GetAWSConfig_db: "run (GetAWSConfig e) w = (x, w') \<Longrightarrow> w_db w' = w_db w"
  by (auto simp: GetAWSConfig_def GetEnvironmentAWSConfig_def run_bindE run_mapE
      split: option.splits sum.splits prod.splits)

lemma handlePostWorkerRunResolve_Reply:
  assumes "run (handlePostWorkerRunResolve U body ctx) w = (Reply n resp, w')"
  shows "\<exists>cred req r v p v1 cfg v2 role v3 ev. ctx = Some cred \<and> body = Some req \<and>
     run (ResolveExternalRef (crd_Environments cred) (rsq_Provider req) (rsq_Repo req) (rsq_WorkflowRef req)
        (rsq_Ref req) (rsq_CIExternalRef req) (rsq_CIURL req)) w = (Inr r, v) \<and>
     run (pipeline_Get (r_TenantID r) (r_PipelineID r)) v = (Inr p, v1) \<and>
     Check (r_Tier r) (p_Mutating p) = Allow \<and>
     run (GetAWSConfig (r_EnvironmentID r)) v1 = (Inr cfg, v2) \<and>
     run (GetAWSTierRole (r_EnvironmentID r) (r_Tier r)) v2 = (Inr role, v3) \<and>
     run (audit_Create ((audit_of (r_TenantID r) (r_ActorID r) ''credential.minted'')
        \<lparr>aup_RunID := Some (r_ID r), aup_Tier := Some (r_Tier r), aup_EnvironmentID := Some (r_EnvironmentID r)\<rparr>)) v3 = (Inr ev, w') \<and>
     rsp_RoleARN resp = atr_RoleARN role \<and> rsp_RunID resp = uuid_String U (r_ID r)"
  using assms unfolding handlePostWorkerRunResolve_def
  by (auto simp: handler_simps split: if_splits option.splits sum.splits prod.splits)

lemma resolve_allowed:
  assumes "run_inv (w_db w)" and "run (handlePostWorkerRunResolve U body ctx) w = (Reply n resp, w')"
  shows "\<exists>cred req r0 p. ctx = Some cred \<and> body = Some req \<and>
     r0 \<in> set (runs (w_db w)) \<and> rn_Status r0 = StatusExecuting \<and> rn_CiExternalRef r0 = None \<and>
     rn_EnvironmentID r0 \<in> set (crd_Environments cred) \<and> rsp_RunID resp = uuid_String U (rn_ID r0) \<and>
     p \<in> set (pipelines (w_db w)) \<and> pl_ID p = rn_PipelineID r0 \<and> pl_TenantID p = rn_TenantID r0 \<and>
     pl_Provider p = rsq_Provider req \<and> pl_WorkflowRef p = rsq_WorkflowRef req \<and>
     map_of (pl_Settings p) ''repo'' = Some (rsq_Repo req) \<and>
     Check (rn_Tier r0) (pl_Mutating p) = Allow \<and>
     (\<exists>x \<in> set (aws_tier_roles (w_db w)). ar_EnvironmentID x = rn_EnvironmentID r0 \<and> ar_Tier x = rn_Tier r0 \<and>
        rsp_RoleARN resp = ar_RoleArn x) \<and>
     (\<exists>ev. audit_events (w_db w') = audit_events (w_db w) @ [ev] \<and> au_Action ev = ''credential.minted'' \<and>
        au_RunID ev = Some (rn_ID r0) \<and> au_ActorID ev = rn_ActorID r0)"
proof -
  from handlePostWorkerRunResolve_Reply [OF assms(2)]
  obtain cred r v pp v1 cfg v2 role v3 ev and req :: resolveRunRequest where c: "ctx = Some cred" "body = Some req"
    and res: "run (ResolveExternalRef (crd_Environments cred) (rsq_Provider req) (rsq_Repo req) (rsq_WorkflowRef req)
        (rsq_Ref req) (rsq_CIExternalRef req) (rsq_CIURL req)) w = (Inr r, v)"
    and pg: "run (pipeline_Get (r_TenantID r) (r_PipelineID r)) v = (Inr pp, v1)"
    and chk: "Check (r_Tier r) (p_Mutating pp) = Allow"
    and cfg: "run (GetAWSConfig (r_EnvironmentID r)) v1 = (Inr cfg, v2)"
    and role: "run (GetAWSTierRole (r_EnvironmentID r) (r_Tier r)) v2 = (Inr role, v3)"
    and aud: "run (audit_Create ((audit_of (r_TenantID r) (r_ActorID r) ''credential.minted'')
        \<lparr>aup_RunID := Some (r_ID r), aup_Tier := Some (r_Tier r), aup_EnvironmentID := Some (r_EnvironmentID r)\<rparr>)) v3 = (Inr ev, w')"
    and resp: "rsp_RoleARN resp = atr_RoleARN role" "rsp_RunID resp = uuid_String U (r_ID r)" by blast
  from assms(1) have dist: "distinct (map rn_ID (runs (w_db w)))" "distinct (map pl_ID (pipelines (w_db w)))"
    by (simp_all add: run_inv_def)
  from ResolveExternalRef_Inr [OF dist(1) res] obtain r0 p where
    r0: "r0 \<in> set (runs (w_db w))" "r = fromRunRow (with_ref (rsq_CIExternalRef req) (rsq_CIURL req) r0)"
    and p: "p \<in> set (pipelines (w_db w))" "pl_ID p = rn_PipelineID r0"
      "unresolved_match (crd_Environments cred) (rsq_Provider req) (rsq_Repo req) (rsq_WorkflowRef req) r0 p"
    and v: "\<exists>rs. w_db v = (w_db w)\<lparr>runs := rs\<rparr>" by blast
  have r: "r_ID r = rn_ID r0" "r_TenantID r = rn_TenantID r0" "r_PipelineID r = rn_PipelineID r0"
    "r_Tier r = rn_Tier r0" "r_EnvironmentID r = rn_EnvironmentID r0" "r_ActorID r = rn_ActorID r0"
    by (simp_all add: r0(2) with_ref_def)
  from v have pv: "pipelines (w_db v) = pipelines (w_db w)" "aws_tier_roles (w_db v) = aws_tier_roles (w_db w)"
    "audit_events (w_db v) = audit_events (w_db w)" by auto
  from pl.get_run_Inr [OF pg] obtain p' where "p' \<in> set (pipelines (w_db w))" "pl_ID p' = rn_PipelineID r0"
      "pl_TenantID p' = rn_TenantID r0" "pp = pipeline_fromRow p'" by (auto simp: pv r)
  moreover from this(1,2) p(1,2) dist(2) have "p' = p" by (auto intro: distinct_map_unique)
  ultimately have p': "pl_TenantID p = rn_TenantID r0" "pp = pipeline_fromRow p" by simp_all
  have v3: "w_db v3 = w_db v" "\<exists>x \<in> set (aws_tier_roles (w_db v)). ar_EnvironmentID x = rn_EnvironmentID r0 \<and>
      ar_Tier x = rn_Tier r0 \<and> ar_RoleArn x = atr_RoleARN role"
    using GetAWSTierRole_Inr [OF role] GetAWSConfig_db [OF cfg] pl.get_run_db [OF pg] by (simp_all add: r)
  from audit_Create_Inr [OF aud] have "\<exists>ev. audit_events (w_db w') = audit_events (w_db w) @ [ev] \<and>
      au_Action ev = ''credential.minted'' \<and> au_RunID ev = Some (rn_ID r0) \<and> au_ActorID ev = rn_ActorID r0"
    by (auto simp: logged_def v3(1) pv new_event_def audit_of_def r)
  with c r0(1) p p' chk v3(2) resp show ?thesis
    by (intro exI [of _ cred] exI [of _ req] exI [of _ r0] exI [of _ p])
       (auto simp: unresolved_match_def r pv)
qed


lemma not_aborted [simp]:
  "errIs s (Error n c) e \<noteq> Aborted" "errIs s notFoundResp e \<noteq> Aborted" "internalError \<noteq> Aborted" "badRequest \<noteq> Aborted"
  "notFoundResp \<noteq> Aborted"
  by (simp_all add: errIs_def resp_defs)

text \<open>
  Reporting a result never panics on a missing finish time, whatever the tables hold, and an
  accepted report comes from the credential that claimed the run, found it executing and ends it in
  one of the four terminal statuses named in the request.
\<close>

theorem report_never_aborts:
  assumes "run (handlePostWorkerRunResult U pid body ctx) w = (resp, w')"
  shows "resp \<noteq> Aborted \<and>
     (\<forall>n rr. resp = Reply n rr \<longrightarrow> (\<exists>cred req i status. ctx = Some cred \<and> body = Some req \<and> uuid_Parse U pid = Inr i \<and>
        rpr_Status req = status_text status \<and> terminal status \<and> rrp_Status rr = status_text status \<and>
        (\<exists>r0 \<in> set (runs (w_db w)). rn_ID r0 = i \<and> rn_ClaimedBy r0 = Some (crd_ID cred) \<and>
           rn_Status r0 = StatusExecuting)))"
proof -
  have st: "terminal s" "t = status_text s" if "map_of validTerminalRunStatuses t = Some s" for t s
    using that by (auto simp: validTerminalRunStatuses_def terminal_def split: if_splits)
  have fin: "\<exists>now. r_FinishedAt r = Some now" "r_Status r = rr_Status res"
     "\<exists>r0 \<in> set (runs (w_db w)). rn_ID r0 = i \<and> rn_ClaimedBy r0 = Some c \<and> rn_Status r0 = StatusExecuting"
    if "run (ReportResult i c res) w = (Inr r, v)" and "terminal (rr_Status res)" for i c res r v
    using ReportResult_Inr [OF that(1)] that(2) by (auto simp: fromRunRow_def set_result_def)
  show ?thesis
  proof (cases "(\<exists>cred. ctx = Some cred) \<and> (\<exists>i. uuid_Parse U pid = Inr i) \<and>
      (\<exists>req status. body = Some req \<and> map_of validTerminalRunStatuses (rpr_Status req) = Some status)")
    case False
    with assms show ?thesis unfolding handlePostWorkerRunResult_def
      by (auto simp: handler_simps split: option.splits sum.splits)
  next
    case True
    then obtain cred i req status where c: "ctx = Some cred" "uuid_Parse U pid = Inr i" "body = Some req"
        "map_of validTerminalRunStatuses (rpr_Status req) = Some status" by blast
    let ?res = "\<lparr>rr_Status = status, rr_CIExternalRef = rpr_CIExternalRef req, rr_CIURL = rpr_CIURL req,
        rr_CIRawStatus = rpr_CIRawStatus req\<rparr>"
    obtain x v where x: "run (ReportResult i (crd_ID cred) ?res) w = (x, v)" by fastforce
    show ?thesis
    proof (cases x)
      case (Inl e)
      with assms c x show ?thesis unfolding handlePostWorkerRunResult_def by (auto simp: handler_simps)
    next
      case (Inr r)
      have res: "terminal (rr_Status ?res)" using st(1) [OF c(4)] by simp
      note f = fin [OF x [unfolded Inr] res]
      from f(1) obtain now where now: "r_FinishedAt r = Some now" ..
      have "resp = Reply 200 (runToResponse U r)"
        using assms c x Inr now unfolding handlePostWorkerRunResult_def captureCost_def
        by (auto simp: handler_simps run_bindP split: option.splits prod.splits)
      with c f(2,3) st [OF c(4)] show ?thesis
        by (auto simp: runToResponse_def)
    qed
  qed
qed

section \<open>Applied\<close>

text \<open>Identifiers as one digit or letter.\<close>

definition sample_uuid :: uuid_lib where
  "sample_uuid =
     \<lparr>uuid_Parse = (\<lambda>s. case s of [c] \<Rightarrow> Inr (word_of_nat (of_char c - 48)) | _ \<Rightarrow> Inl (Errorf ''uuid'')),
      uuid_String = (\<lambda>u. [char_of (unat u + 48)])\<rparr>"

definition sample_claims :: "string \<Rightarrow> tier \<Rightarrow> Claims" where
  "sample_claims actor tier =
     \<lparr>cl_TenantID = ''1'', cl_ActorID = actor, cl_Jti = ''j'',
      cl_ActorType = (if actor = ''3'' then ActorHuman else ActorAgent), cl_Tier = tier, cl_Environments = [],
      cl_Delegation = (if actor = ''3'' then None else Some \<lparr>AuthorizedBy = ''3'', TeamID = ''2''\<rparr>),
      cl_IssuedAt = 0, cl_ExpiresAt = 1000\<rparr>"

definition sample_run_body :: "string \<Rightarrow> createRunRequest" where
  "sample_run_body p = \<lparr>crq_EnvironmentID = ''5'', crq_PipelineID = p, crq_IdempotencyKey = [], crq_DiffRef = []\<rparr>"

fun reply_code :: "'b response \<Rightarrow> nat" where
  "reply_code (Reply n b) = n"
| "reply_code _ = 0"

lemma reply_code_Reply: "reply_code r = n \<Longrightarrow> n \<noteq> 0 \<Longrightarrow> \<exists>b. r = Reply n b"
  by (cases r) auto

text \<open>
  The environments of a token do not limit the runs it requests.  An agent whose token permits
  no environment is answered 201 for a run in one: the handler checks that the environment is the
  tenant's, never \<open>PermitsEnvironment\<close>.
\<close>

theorem environments_not_enforced:
  "case run (handlePostRuns sample_uuid sample_store (Some (sample_run_body ''7'')) (Some (sample_claims ''4'' TierReadOnly)))
      (sample_world (sample_db [] [])) of
     (resp, w) \<Rightarrow> reply_code resp = 201 \<and> map rn_EnvironmentID (runs (w_db w)) = [5] \<and>
        \<not> PermitsEnvironment (sample_claims ''4'' TierReadOnly) ''5''"
  by code_simp

lemma sample_post_run:
  "reply_code (fst (run (handlePostRuns sample_uuid sample_store (Some (sample_run_body ''7''))
     (Some (sample_claims ''4'' TierReadOnly))) (sample_world (sample_db [] [])))) = 201"
  by code_simp

theorem handlePostRuns_authority_witness:
  "\<exists>rr w'. run (handlePostRuns sample_uuid sample_store (Some (sample_run_body ''7''))
       (Some (sample_claims ''4'' TierReadOnly))) (sample_world (sample_db [] [])) = (Reply 201 rr, w') \<and>
     (\<exists>row. runs (w_db w') = [row] \<and> rn_ActorID row = 4 \<and> rn_Tier row = TierReadOnly)"
proof -
  let ?p = "handlePostRuns sample_uuid sample_store (Some (sample_run_body ''7'')) (Some (sample_claims ''4'' TierReadOnly))"
  from reply_code_Reply [OF sample_post_run] obtain rr w' where
    run: "run ?p (sample_world (sample_db [] [])) = (Reply 201 rr, w')" by (metis prod.collapse zero_neq_numeral)
  from handlePostRuns_authority [OF sample_enqueuer run]
  have "\<exists>row. runs (w_db w') = [row] \<and> rn_ActorID row = 4 \<and> rn_Tier row = TierReadOnly"
    by (auto simp: sample_claims_def sample_uuid_def sample_world_def sample_db_def)
  with run show ?thesis by blast
qed

definition sample_waiting :: world where
  "sample_waiting = sample_world (sample_db [sample_run 9 TierHumanInTheLoop StatusAwaitingApproval None] [sample_approval 9 None])"

lemma sample_decision:
  "reply_code (fst (run (handlePostRunDecision sample_uuid sample_store ''9'' (Some ''approved'')
     (Some (sample_claims ''3'' TierAutonomous))) sample_waiting)) = 200"
  by code_simp

theorem handlePostRunDecision_separation_witness:
  "\<exists>rr w'. run (handlePostRunDecision sample_uuid sample_store ''9'' (Some ''approved'')
       (Some (sample_claims ''3'' TierAutonomous))) sample_waiting = (Reply 200 rr, w') \<and>
     (\<exists>ap \<in> set (approvals (w_db w')). ap_RunID ap = 9 \<and> ap_ApproverActorID ap = Some 3)"
proof -
  let ?p = "handlePostRunDecision sample_uuid sample_store ''9'' (Some ''approved'') (Some (sample_claims ''3'' TierAutonomous))"
  from reply_code_Reply [OF sample_decision] obtain rr w' where
    run: "run ?p sample_waiting = (Reply 200 rr, w')" by (metis prod.collapse zero_neq_numeral)
  have ids: "uuid_Parse sample_uuid (cl_ActorID (sample_claims ''3'' TierAutonomous)) = Inr 3"
      "uuid_Parse sample_uuid ''9'' = Inr 9"
    by (simp_all add: sample_uuid_def sample_claims_def)
  from handlePostRunDecision_separation [OF sample_enqueuer run refl ids] run show ?thesis by blast
qed

definition sample_credential :: Credential where
  "sample_credential = \<lparr>crd_ID = 8, crd_TenantID = 1, crd_Name = ''w'', crd_Environments = [5], crd_CreatedAt = 0,
     crd_RevokedAt = None\<rparr>"

definition sample_resolve :: resolveRunRequest where
  "sample_resolve = \<lparr>rsq_Provider = ''github_actions'', rsq_Repo = ''acme/app'', rsq_WorkflowRef = ''deploy.yml'',
     rsq_Ref = ''refs/heads/main'', rsq_CIExternalRef = ''1'', rsq_CIURL = ''u''\<rparr>"

definition sample_claimed :: world where
  "sample_claimed = sample_world (sample_db [sample_run 9 TierAutonomous StatusExecuting (Some 8)] [])"

lemma sample_claimed_inv: "run_inv (w_db sample_claimed)"
  by (simp add: sample_claimed_def sample_world_def sample_db_def run_inv_def timeline_ok_def pipeline_ok_def
      oversight_ok_def sample_run_def sample_pipeline_def before_executing_def terminal_def Tier_Valid_def tier_defs
      empty_db_def)

lemma sample_resolve_run:
  "reply_code (fst (run (handlePostWorkerRunResolve sample_uuid (Some sample_resolve) (Some sample_credential)) sample_claimed)) = 200"
  by code_simp


definition sample_result :: reportRunResultRequest where
  "sample_result = \<lparr>rpr_Status = ''succeeded'', rpr_CIExternalRef = [], rpr_CIURL = [], rpr_CIRawStatus = []\<rparr>"

lemma sample_report:
  "reply_code (fst (run (handlePostWorkerRunResult sample_uuid ''9'' (Some sample_result) (Some sample_credential)) sample_claimed)) = 200"
  by code_simp

theorem report_never_aborts_witness:
  "\<exists>rr w'. run (handlePostWorkerRunResult sample_uuid ''9'' (Some sample_result) (Some sample_credential)) sample_claimed =
       (Reply 200 rr, w') \<and> rrp_Status rr = ''succeeded''"
proof -
  from reply_code_Reply [OF sample_report] obtain rr w' where
    run: "run (handlePostWorkerRunResult sample_uuid ''9'' (Some sample_result) (Some sample_credential)) sample_claimed =
      (Reply 200 rr, w')" by (metis prod.collapse zero_neq_numeral)
  from report_never_aborts [OF run] have "rrp_Status rr = ''succeeded''"
    by (auto simp: sample_result_def)
  with run show ?thesis by blast
qed

text \<open>
  A claimed run can be lost on the way.  The worker's poll claims the run and then reads its
  pipeline; when that read is lost the poll is answered 500, and the run, claimed for good, is handed
  to nobody by the polls that follow.
\<close>

theorem claimed_not_delivered:
  "case run (handleGetNextWorkerRun sample_uuid (Some sample_credential))
      ((sample_world (sample_db [sample_run 9 TierAutonomous StatusExecuting None] []))
         \<lparr>fault := (\<lambda>n. if n = 1 then Some ''08006'' else None)\<rparr>) of
     (x1, w1) \<Rightarrow> case run (handleGetNextWorkerRun sample_uuid (Some sample_credential)) w1 of
     (x2, w2) \<Rightarrow> x1 = internalError \<and> x2 = Status 204 \<and> map rn_ClaimedBy (runs (w_db w2)) = [Some 8] \<and>
        map rn_Status (runs (w_db w2)) = [StatusExecuting]"
  by code_simp

end
