(* ===== verification/Deployment.thy ===== *)
theory Deployment
  imports Promises
begin

text \<open>
  A small deployment, on which the system-wide theorems are applied: concrete stand-ins for the
  libraries that are parameters of the model, one server, and a day of requests.  Setup, an
  environment, a mutating pipeline, an agent of the human-in-the-loop tier, its run, the approval by
  the root actor, and the delivery of the run's job.
\<close>

text \<open>Identifiers print as one character; a token is its actor's identifier.\<close>

definition demo_uuid :: uuid_lib where
  "demo_uuid =
     \<lparr>uuid_Parse = (\<lambda>s. case s of [c] \<Rightarrow> Inr (word_of_nat (of_char c)) | _ \<Rightarrow> Inl (Errorf ''uuid'')),
      uuid_String = (\<lambda>u. [char_of (unat u)])\<rparr>"

definition demo_claims :: "string \<Rightarrow> jwtClaims" where
  "demo_claims actor =
     \<lparr>jc_ID = ''j'', jc_Subject = actor, jc_IssuedAt = Some 0, jc_ExpiresAt = Some 1000,
      jc_TenantID = ''C'', jc_ActorType = (if actor = ''E'' then ActorHuman else ActorAgent),
      jc_Tier = (if actor = ''E'' then TierAutonomous else TierHumanInTheLoop),
      jc_Environments = [], jc_Delegation = None\<rparr>"

definition demo_jwt :: jwt_lib where
  "demo_jwt =
     \<lparr>jwt_NumericDate = id, jwt_SignedString = (\<lambda>key c. Inr (jc_Subject c)),
      jwt_ParseWithClaims = (\<lambda>key ms now tok. (demo_claims tok, None))\<rparr>"

definition demo_bcrypt :: bcrypt_lib where
  "demo_bcrypt = \<lparr>bcrypt_Generate = (\<lambda>n pw. Inr pw), bcrypt_Compare = (=)\<rparr>"

definition demo_server :: server where
  "demo_server = EnableExecution (NewQueueClient True river_Insert)
     \<lparr>sv_issuer = \<lparr>is_jwt = demo_jwt, is_key = [], is_uuid = demo_uuid\<rparr>, sv_publicKey = [],
      sv_bcrypt = demo_bcrypt, sv_workerBootstrapToken = [], sv_runs = None,
      sv_url_Parse = (\<lambda>s. Inr (''http'', s)), sv_time_Parse = (\<lambda>s. Inl (Errorf ''time''))\<rparr>"

lemma demo_wired: "wired_server demo_server"
  using wired.enqueuer_axioms
  by (simp add: demo_server_def EnableExecution_def wired_server_def good_store_def NewQueueClient_def NewStore_def)

definition demo_start :: world where
  "demo_start = \<lparr>w_db = empty_db, tick = 0, clock = int, rand = (\<lambda>n. word_of_nat (64 + n)),
     fault = (\<lambda>_. None), entropy = (\<lambda>n k. Some (replicate k 0)), river = [],
     post_answer = (\<lambda>_. Inr 200), posted = []\<rparr>"

fun serve :: "server \<Rightarrow> request list \<Rightarrow> world \<Rightarrow> nat option list \<times> world" where
  "serve s [] w = ([], w)"
| "serve s (q # qs) w =
     (case run (Routes s q) w of (c, w') \<Rightarrow> (case serve s qs w' of (cs, w'') \<Rightarrow> (c # cs, w'')))"

definition demo_requests :: "request list" where
  "demo_requests =
    [PostSetup (Some \<lparr>sur_TenantName = ''acme'', sur_AdminUsername = ''root'',
       sur_AdminPassword = ''correct horse'', sur_TelemetryEnabled = False\<rparr>),
     PostEnvironments ''Bearer E'' (Some \<lparr>cer_Name = ''prod'', cer_Provider = ''aws'', cer_Region = ''r'',
       cer_AccountRef = ''a'', cer_ExternalID = ''x'', cer_TrustAnchor = ''t'',
       cer_RoleARNs = [(''read_only'', ''r1''), (''human_in_the_loop'', ''r2''), (''autonomous'', ''r3'')]\<rparr>),
     PostPipelines ''Bearer E'' (Some \<lparr>cpr_EnvironmentID = ''N'', cpr_Provider = ''github_actions'',
       cpr_WorkflowRef = ''deploy.yml'', cpr_Settings = [(''repo'', ''acme/app'')], cpr_Mutating = None\<rparr>),
     PostAgents ''Bearer E'' (Some \<lparr>car_Name = ''bot'', car_Team = ''default'', car_Tier = ''human_in_the_loop'',
       car_Environments = [''prod''], car_TTLSeconds = 3600, car_IdempotencyKey = []\<rparr>),
     PostRuns ''Bearer ]'' (Some \<lparr>crq_EnvironmentID = ''N'', crq_PipelineID = ''W'', crq_IdempotencyKey = [],
       crq_DiffRef = []\<rparr>)]"

definition demo_decision :: "request list" where
  "demo_decision = [PostRunDecision ''Bearer E'' ''g'' (Some ''approved'')]"

definition demo_registry :: "unit registry" where
  "demo_registry = [(ProviderGitHubActions, ())]"

text \<open>Three moments: the run waits, it is approved and queued, its job has been delivered.\<close>

definition demo_waiting :: world where
  "demo_waiting = snd (serve demo_server demo_requests demo_start)"

definition demo_queued :: world where
  "demo_queued = snd (serve demo_server demo_decision demo_waiting)"

definition demo_delivered :: world where
  "demo_delivered = snd (run (Worker_Work demo_registry 103) demo_queued)"

definition demo_facts :: "world \<Rightarrow> (uuid \<times> run_status) list \<times> (uuid \<times> string option) list \<times> nat \<times> nat" where
  "demo_facts w =
     (map (\<lambda>r. (rn_ID r, rn_Status r)) (runs (w_db w)),
      map (\<lambda>a. (ap_RunID a, ap_Decision a)) (approvals (w_db w)),
      length (tenants (w_db w)), length (audit_events (w_db w)))"

lemma demo_run:
  "case serve demo_server demo_requests demo_start of (cs1, w1) \<Rightarrow>
   case serve demo_server demo_decision w1 of (cs2, w2) \<Rightarrow>
   case run (Worker_Work demo_registry 103) w2 of (x, w3) \<Rightarrow>
     cs1 = [Some 201, Some 201, Some 201, Some 201, Some 201] \<and> cs2 = [Some 200] \<and> x = Inr () \<and>
     demo_facts w1 = ([(103, StatusAwaitingApproval)], [(103, None)], 1, 4) \<and>
     demo_facts w2 = ([(103, StatusQueued)], [(103, Some ''approved'')], 1, 5) \<and>
     demo_facts w3 = ([(103, StatusFailed)], [(103, Some ''approved'')], 1, 5)"
  by code_simp

end
