(* ===== verification/Guarantees.thy ===== *)
theory Guarantees
  imports Deployment
begin

text \<open>
  What the control plane guarantees along every schedule from an empty database: any number of
  requests and job deliveries, interleaved action by action, with any clock, any random values and
  any statement lost to a fault.
\<close>

lemma single_tenant_empty: "single_tenant empty_db"
  by (simp add: single_tenant_def empty_db_def)

text \<open>The demonstration is a schedule.\<close>

lemma serve_sched:
  "\<exists>qs'. (sched (control_plane s reg))\<^sup>*\<^sup>* (ps, w) (ps @ qs', snd (serve s qs w))"
proof (induction qs arbitrary: ps w)
  case Nil
  show ?case by (intro exI [of _ "[]"]) simp
next
  case (Cons q qs)
  let ?w = "snd (run (forget (Routes s q)) w)"
  have w: "?w = snd (run (Routes s q) w)" by (simp add: forget_def run_bindP split: prod.split)
  have "forget (Routes s q) \<in> control_plane s reg" by (simp add: control_plane_def)
  from sched_run [OF this]
  obtain a where "(sched (control_plane s reg))\<^sup>*\<^sup>* (ps, w) (ps @ [Done a], ?w)" ..
  moreover from Cons.IH [of "ps @ [Done a]" ?w]
  obtain qs' where "(sched (control_plane s reg))\<^sup>*\<^sup>* (ps @ [Done a], ?w)
      ((ps @ [Done a]) @ qs', snd (serve s qs ?w))" ..
  ultimately have "(sched (control_plane s reg))\<^sup>*\<^sup>* (ps, w) ((ps @ [Done a]) @ qs', snd (serve s qs ?w))"
    by (rule rtranclp_trans)
  moreover have "snd (serve s (q # qs) w) = snd (serve s qs ?w)"
    unfolding w by (simp split: prod.split)
  ultimately show ?case by (intro exI [of _ "Done a # qs'"]) simp
qed

lemma work_sched:
  "\<exists>a. (sched (control_plane s reg))\<^sup>*\<^sup>* (ps, w) (ps @ [Done a], snd (run (Worker_Work reg i) w))"
proof -
  have "forget (Worker_Work reg i) \<in> control_plane s reg" by (simp add: control_plane_def)
  moreover have "snd (run (forget (Worker_Work reg i)) w) = snd (run (Worker_Work reg i) w)"
    by (simp add: forget_def run_bindP split: prod.split)
  ultimately show ?thesis using sched_run by metis
qed

lemma demo_sched:
  "\<exists>ps1 ps2. (sched (control_plane demo_server demo_registry))\<^sup>*\<^sup>* ([], demo_start) (ps1, demo_waiting) \<and>
     (sched (control_plane demo_server demo_registry))\<^sup>*\<^sup>* (ps1, demo_waiting) (ps2, demo_delivered)"
proof -
  let ?S = "sched (control_plane demo_server demo_registry)"
  obtain ps1 where 1: "?S\<^sup>*\<^sup>* ([], demo_start) (ps1, demo_waiting)"
    using serve_sched [of demo_server demo_registry "[]" demo_start demo_requests]
    by (auto simp: demo_waiting_def)
  obtain ps2 where "?S\<^sup>*\<^sup>* (ps1, demo_waiting) (ps2, demo_queued)"
    using serve_sched [of demo_server demo_registry ps1 demo_waiting demo_decision]
    by (auto simp: demo_queued_def)
  moreover obtain ps3 where "?S\<^sup>*\<^sup>* (ps2, demo_queued) (ps3, demo_delivered)"
    using work_sched [of demo_server demo_registry ps2 demo_queued 103]
    by (auto simp: demo_delivered_def)
  ultimately have "?S\<^sup>*\<^sup>* (ps1, demo_waiting) (ps3, demo_delivered)" by (rule rtranclp_trans)
  with 1 show ?thesis by blast
qed

lemma demo_facts_run:
  "demo_facts demo_waiting = ([(103, StatusAwaitingApproval)], [(103, None)], 1, 4)"
  "demo_facts demo_queued = ([(103, StatusQueued)], [(103, Some ''approved'')], 1, 5)"
  "demo_facts demo_delivered = ([(103, StatusFailed)], [(103, Some ''approved'')], 1, 5)"
  using demo_run
  by (auto simp: demo_waiting_def demo_queued_def demo_delivered_def split: prod.splits)

lemma demo_start_empty: "w_db demo_start = empty_db"
  by (simp add: demo_start_def)

section \<open>Human oversight\<close>

text \<open>
  C2.  Human oversight cannot be bypassed.  At every moment of any interleaving of requests, job
  deliveries, background loops and starts of instances, a run of the human-in-the-loop tier
  that has left \<open>awaiting_approval\<close> other than by denial carries an approval decided
  \<open>approved\<close> by somebody who is not the run's own actor, a denied one a decision \<open>denied\<close> of
  the same kind; a run of the read-only tier sits on a non-mutating pipeline of its own tenant; and
  no run has a tier outside the three.
\<close>

theorem human_oversight:
  assumes "w_db w = empty_db" and "wired_server s"
    and "(sched (control_plane s reg))\<^sup>*\<^sup>* ([], w) (ps, w')" and "r \<in> set (runs (w_db w'))"
  shows "Tier_Valid (rn_Tier r) \<and>
    (rn_Tier r = TierHumanInTheLoop \<and> rn_Status r \<noteq> StatusAwaitingApproval \<longrightarrow>
       (\<exists>a \<in> set (approvals (w_db w')). ap_RunID a = rn_ID r \<and>
          ap_Decision a = Some (if rn_Status r = StatusDenied then ''denied'' else ''approved'') \<and>
          (\<exists>u. ap_ApproverActorID a = Some u \<and> u \<noteq> rn_ActorID r))) \<and>
    (rn_Status r \<in> {StatusAwaitingApproval, StatusDenied} \<longrightarrow> rn_Tier r = TierHumanInTheLoop) \<and>
    (rn_Tier r = TierReadOnly \<longrightarrow>
       (\<exists>p \<in> set (pipelines (w_db w')). pl_ID p = rn_PipelineID r \<and> pl_TenantID p = rn_TenantID r \<and>
          \<not> pl_Mutating p))"
proof -
  have inv: "run_inv (w_db w')"
    using run_promise.promised(1) [OF _ assms(2,3) rtranclp.rtrancl_refl] assms(1) run_inv_empty by simp
  with assms(4) have ok: "oversight_ok (approvals (w_db w')) r" "pipeline_ok (pipelines (w_db w')) r"
    by (auto simp: run_inv_def)
  have other: "\<exists>u. ap_ApproverActorID a = Some u \<and> u \<noteq> rn_ActorID r"
    if a: "a \<in> set (approvals (w_db w'))" "ap_RunID a = rn_ID r" "ap_Decision a \<noteq> None" for a
  proof -
    from inv a(1) have "approval_ok (runs (w_db w')) a" by (simp add: run_inv_def)
    with a(2,3) obtain x u where x: "x \<in> set (runs (w_db w'))" "rn_ID x = rn_ID r"
      and u: "ap_ApproverActorID a = Some u" "u \<noteq> rn_ActorID x"
      by (auto simp: approval_ok_def)
    from inv x assms(4) have "x = r" by (auto simp: run_inv_def intro: distinct_map_unique)
    with u show ?thesis by blast
  qed
  have "\<exists>a \<in> set (approvals (w_db w')). ap_RunID a = rn_ID r \<and>
          ap_Decision a = Some (if rn_Status r = StatusDenied then ''denied'' else ''approved'')"
    if "rn_Tier r = TierHumanInTheLoop" "rn_Status r \<noteq> StatusAwaitingApproval"
    using ok(1) that by (auto simp: oversight_ok_def decided_def)
  with ok other show ?thesis
    unfolding oversight_ok_def pipeline_ok_def by (metis option.distinct(1))
qed

theorem human_oversight_witness:
  "\<exists>r \<in> set (runs (w_db demo_delivered)). rn_ID r = 103 \<and> rn_Status r = StatusFailed \<and>
     Tier_Valid (rn_Tier r)"
proof -
  obtain ps1 ps2 where s: "(sched (control_plane demo_server demo_registry))\<^sup>*\<^sup>* ([], demo_start) (ps2, demo_delivered)"
    using demo_sched by (meson rtranclp_trans)
  from demo_facts_run(3) obtain r where "r \<in> set (runs (w_db demo_delivered))" "rn_ID r = 103"
      "rn_Status r = StatusFailed"
    by (auto simp: demo_facts_def)
  with human_oversight [OF demo_start_empty demo_wired s] show ?thesis by blast
qed

section \<open>Well-formed runs\<close>

text \<open>
  C9. Every stored run is well formed.  At every moment run identifiers are unique and each run has a tier
  and a provider its pipeline has, in its own tenant; it has a start time exactly when it has reached
  executing, a finish time exactly when it is terminal, and a claim with its time or neither; and each of
  its approvals has a decision, an approver and a time together or none of them.
\<close>

theorem stored_runs_well_formed:
  assumes "w_db w = empty_db" and "wired_server s"
    and "(sched (control_plane s reg))\<^sup>*\<^sup>* ([], w) (ps, w')" and "r \<in> set (runs (w_db w'))"
  shows "distinct (map rn_ID (runs (w_db w'))) \<and> Tier_Valid (rn_Tier r) \<and>
    (\<exists>p \<in> set (pipelines (w_db w')). pl_ID p = rn_PipelineID r \<and> pl_TenantID p = rn_TenantID r \<and> pl_Provider p = rn_CiProvider r) \<and>
    (rn_StartedAt r \<noteq> None \<longleftrightarrow> \<not> before_executing (rn_Status r)) \<and> (rn_FinishedAt r \<noteq> None \<longleftrightarrow> terminal (rn_Status r)) \<and>
    (rn_ClaimedAt r = None \<longleftrightarrow> rn_ClaimedBy r = None) \<and>
    (\<forall>a \<in> set (approvals (w_db w')). ap_RunID a = rn_ID r \<longrightarrow>
       (ap_Decision a = None \<longleftrightarrow> ap_ApproverActorID a = None) \<and> (ap_Decision a = None \<longleftrightarrow> ap_DecidedAt a = None))"
proof -
  have inv: "run_inv (w_db w')"
    using run_promise.promised(1) [OF _ assms(2,3) rtranclp.rtrancl_refl] assms(1) run_inv_empty by simp
  with assms(4) have "timeline_ok r" "pipeline_ok (pipelines (w_db w')) r" "Tier_Valid (rn_Tier r)"
    by (auto simp: run_inv_def oversight_ok_def)
  then have "\<exists>p \<in> set (pipelines (w_db w')). pl_ID p = rn_PipelineID r \<and> pl_TenantID p = rn_TenantID r \<and> pl_Provider p = rn_CiProvider r"
    and "(rn_StartedAt r \<noteq> None \<longleftrightarrow> \<not> before_executing (rn_Status r)) \<and> (rn_FinishedAt r \<noteq> None \<longleftrightarrow> terminal (rn_Status r)) \<and>
    (rn_ClaimedAt r = None \<longleftrightarrow> rn_ClaimedBy r = None)"
    and "Tier_Valid (rn_Tier r)"
    by (auto simp: timeline_ok_def pipeline_ok_def)
  moreover from inv have "distinct (map rn_ID (runs (w_db w')))" by (simp add: run_inv_def)
  moreover from inv have "\<forall>a \<in> set (approvals (w_db w')). ap_RunID a = rn_ID r \<longrightarrow>
       (ap_Decision a = None \<longleftrightarrow> ap_ApproverActorID a = None) \<and> (ap_Decision a = None \<longleftrightarrow> ap_DecidedAt a = None)"
    unfolding run_inv_def approval_ok_def by blast
  ultimately show ?thesis by blast
qed

theorem stored_runs_well_formed_witness:
  "\<exists>r \<in> set (runs (w_db demo_delivered)). rn_Status r = StatusFailed \<and> rn_FinishedAt r \<noteq> None"
proof -
  obtain ps1 ps2 where s: "(sched (control_plane demo_server demo_registry))\<^sup>*\<^sup>* ([], demo_start) (ps2, demo_delivered)"
    using demo_sched by (meson rtranclp_trans)
  from demo_facts_run(3) obtain r where r: "r \<in> set (runs (w_db demo_delivered))" "rn_Status r = StatusFailed"
    by (auto simp: demo_facts_def)
  from stored_runs_well_formed [OF demo_start_empty demo_wired s r(1)] r show ?thesis by (auto simp: terminal_def)
qed

section \<open>The life of a run\<close>

text \<open>
  C4.  Between any two moments of a schedule every run is still there, with the same tenant, actor,
  environment, pipeline, tier and key; its status moved along the state machine only; a terminal or
  denied status is final; a run that had started never goes back before executing; a claim never
  changes hands; and its start and finish times, set exactly when it started and finished, stay.
\<close>

theorem run_lifecycle:
  assumes "w_db w = empty_db" and "wired_server s"
    and "(sched (control_plane s reg))\<^sup>*\<^sup>* ([], w) (ps, w')"
    and "(sched (control_plane s reg))\<^sup>*\<^sup>* (ps, w') (ps', w'')" and "r \<in> set (runs (w_db w'))"
  shows "\<exists>r' \<in> set (runs (w_db w'')). run_evolves r r' \<and>
     (terminal (rn_Status r) \<or> rn_Status r = StatusDenied \<longrightarrow> rn_Status r' = rn_Status r) \<and>
     (rn_Status r = StatusExecuting \<longrightarrow> rn_Status r' = StatusExecuting \<or> terminal (rn_Status r')) \<and>
     (rn_StartedAt r' \<noteq> None \<longleftrightarrow> rn_Status r' = StatusExecuting \<or> terminal (rn_Status r')) \<and>
     (rn_FinishedAt r' \<noteq> None \<longleftrightarrow> terminal (rn_Status r'))"
proof -
  have 0: "run_inv (w_db w)" using assms(1) run_inv_empty by simp
  have inv: "run_inv (w_db w')" and R: "run_history (w_db w') (w_db w'')"
    using run_promise.promised [OF 0 assms(2-4)] by blast+
  then have inv': "run_inv (w_db w'')" by (rule_tac history_inv)
  from inv R assms(5) obtain r' where r': "r' \<in> set (runs (w_db w''))" "run_evolves r r'"
    unfolding run_history_def run_evolution_def by blast
  then have leg: "legal\<^sup>*\<^sup>* (rn_Status r) (rn_Status r')" by (simp add: run_evolves_def)
  from inv' r'(1) have t: "timeline_ok r'" by (simp add: run_inv_def)
  have "rn_Status r' = StatusExecuting \<or> terminal (rn_Status r') \<longleftrightarrow> \<not> before_executing (rn_Status r')"
    using status_cases [of "rn_Status r'"] t by (auto simp: timeline_ok_def)
  with t have "(rn_StartedAt r' \<noteq> None \<longleftrightarrow> rn_Status r' = StatusExecuting \<or> terminal (rn_Status r')) \<and>
     (rn_FinishedAt r' \<noteq> None \<longleftrightarrow> terminal (rn_Status r'))"
    by (auto simp: timeline_ok_def)
  moreover have "terminal (rn_Status r) \<or> rn_Status r = StatusDenied \<longrightarrow> rn_Status r' = rn_Status r"
    using legal_star_terminal [OF leg] legal_star_denied [OF leg] by metis
  moreover have "rn_Status r = StatusExecuting \<longrightarrow> rn_Status r' = StatusExecuting \<or> terminal (rn_Status r')"
    using legal_star_executing [OF leg] by blast
  ultimately show ?thesis using r' by (intro bexI [of _ r']) simp_all
qed

theorem run_lifecycle_witness:
  "\<exists>r \<in> set (runs (w_db demo_waiting)). rn_Status r = StatusAwaitingApproval \<and>
     (\<exists>r' \<in> set (runs (w_db demo_delivered)). run_evolves r r' \<and> rn_FinishedAt r' \<noteq> None)"
proof -
  obtain ps1 ps2 where s: "(sched (control_plane demo_server demo_registry))\<^sup>*\<^sup>* ([], demo_start) (ps1, demo_waiting)"
     "(sched (control_plane demo_server demo_registry))\<^sup>*\<^sup>* (ps1, demo_waiting) (ps2, demo_delivered)"
    using demo_sched by blast
  from demo_facts_run(1) obtain r where r: "r \<in> set (runs (w_db demo_waiting))"
      "rn_Status r = StatusAwaitingApproval"
    by (auto simp: demo_facts_def)
  obtain r' where "r' \<in> set (runs (w_db demo_delivered))" "run_evolves r r'"
      "rn_FinishedAt r' \<noteq> None \<longleftrightarrow> terminal (rn_Status r')"
    using run_lifecycle [OF demo_start_empty demo_wired s r(1)] by blast
  moreover from this(1) demo_facts_run(3) have "rn_Status r' = StatusFailed"
    by (auto simp: demo_facts_def)
  ultimately show ?thesis using r by (auto simp: terminal_def)
qed

section \<open>Decisions, setup, audit\<close>

text \<open>
  A decision is final and unique: at every moment each run has at most one approval row, and
  a row that has been decided is in the table, unchanged, at every later moment.
\<close>

theorem decisions_final:
  assumes "w_db w = empty_db" and "wired_server s"
    and "(sched (control_plane s reg))\<^sup>*\<^sup>* ([], w) (ps, w')"
    and "(sched (control_plane s reg))\<^sup>*\<^sup>* (ps, w') (ps', w'')"
    and "a \<in> set (approvals (w_db w'))" and "ap_Decision a \<noteq> None"
  shows "a \<in> set (approvals (w_db w'')) \<and>
     (\<forall>b \<in> set (approvals (w_db w'')). ap_RunID b = ap_RunID a \<longrightarrow> b = a)"
proof -
  have 0: "run_inv (w_db w)" using assms(1) run_inv_empty by simp
  have inv: "run_inv (w_db w')" and R: "run_history (w_db w') (w_db w'')"
    using run_promise.promised [OF 0 assms(2-4)] by blast+
  then have inv': "run_inv (w_db w'')" by (rule_tac history_inv)
  from inv R assms(5) obtain b where "b \<in> set (approvals (w_db w''))" "approval_evolves a b"
    unfolding run_history_def run_evolution_def by blast
  with assms(6) have a: "a \<in> set (approvals (w_db w''))" by (simp add: approval_evolves_def)
  with inv' show ?thesis by (auto simp: run_inv_def intro: distinct_map_unique)
qed

theorem decisions_final_witness:
  "\<exists>a. a \<in> set (approvals (w_db demo_queued)) \<and> a \<in> set (approvals (w_db demo_delivered))"
proof -
  let ?S = "sched (control_plane demo_server demo_registry)"
  obtain ps1 where "?S\<^sup>*\<^sup>* ([], demo_start) (ps1, demo_waiting)" using demo_sched by blast
  moreover obtain ps2 where "?S\<^sup>*\<^sup>* (ps1, demo_waiting) (ps2, demo_queued)"
    using serve_sched [of demo_server demo_registry ps1 demo_waiting demo_decision]
    by (auto simp: demo_queued_def)
  ultimately have 1: "?S\<^sup>*\<^sup>* ([], demo_start) (ps2, demo_queued)" by (rule rtranclp_trans)
  obtain ps3 where 2: "?S\<^sup>*\<^sup>* (ps2, demo_queued) (ps3, demo_delivered)"
    using work_sched [of demo_server demo_registry ps2 demo_queued 103]
    by (auto simp: demo_delivered_def)
  from demo_facts_run(2) obtain a where "a \<in> set (approvals (w_db demo_queued))" "ap_Decision a \<noteq> None"
    by (auto simp: demo_facts_def)
  with decisions_final [OF demo_start_empty demo_wired 1 2] show ?thesis by blast
qed

text \<open>
  C31.  Setup happens once: at every moment there is at most one tenant, and a tenant that exists
  is the same one at every later moment (identifier, name and creation time).
\<close>

theorem setup_once:
  assumes "w_db w = empty_db" and "wired_server s"
    and "(sched (control_plane s reg))\<^sup>*\<^sup>* ([], w) (ps, w')"
    and "(sched (control_plane s reg))\<^sup>*\<^sup>* (ps, w') (ps', w'')"
  shows "length (tenants (w_db w')) \<le> 1 \<and>
     (tenants (w_db w') \<noteq> [] \<longrightarrow> map tenant_key (tenants (w_db w'')) = map tenant_key (tenants (w_db w')))"
proof -
  have 0: "single_tenant (w_db w)" using assms(1) single_tenant_empty by simp
  have inv: "single_tenant (w_db w')" and R: "setup_history (w_db w') (w_db w'')"
    using setup_promise.promised [OF 0 assms(2-4)] by blast+
  have eq: "ys = xs" if "prefix xs ys" "xs \<noteq> []" "length ys \<le> 1" for xs ys :: "(uuid \<times> string \<times> time) list"
    using that by (cases xs; cases ys) auto
  from inv R show ?thesis
    by (auto simp: single_tenant_def setup_history_def intro!: eq)
qed

theorem setup_once_witness:
  "map tenant_key (tenants (w_db demo_delivered)) = map tenant_key (tenants (w_db demo_waiting)) \<and>
   length (tenants (w_db demo_delivered)) = 1"
proof -
  obtain ps1 ps2 where s: "(sched (control_plane demo_server demo_registry))\<^sup>*\<^sup>* ([], demo_start) (ps1, demo_waiting)"
     "(sched (control_plane demo_server demo_registry))\<^sup>*\<^sup>* (ps1, demo_waiting) (ps2, demo_delivered)"
    using demo_sched by blast
  have "length (tenants (w_db demo_waiting)) = 1" "length (tenants (w_db demo_delivered)) = 1"
    using demo_facts_run by (simp_all add: demo_facts_def)
  with setup_once [OF demo_start_empty demo_wired s] show ?thesis by auto
qed

text \<open>
  C32.  The audit log is append-only: whatever it holds at one moment is a prefix of what it holds
  at every later one.  This needs nothing of the initial tables.
\<close>

theorem audit_append_only:
  assumes "wired_server s" and "(sched (control_plane s reg))\<^sup>*\<^sup>* ([], w) (ps, w')"
    and "(sched (control_plane s reg))\<^sup>*\<^sup>* (ps, w') (ps', w'')"
  shows "prefix (audit_events (w_db w')) (audit_events (w_db w''))"
  using audit_promise.promised(2) [OF _ assms] by (simp add: audit_history_def)

theorem audit_append_only_witness:
  "\<exists>e \<in> set (audit_events (w_db demo_waiting)). e \<in> set (audit_events (w_db demo_delivered))"
proof -
  obtain ps1 ps2 where s: "(sched (control_plane demo_server demo_registry))\<^sup>*\<^sup>* ([], demo_start) (ps1, demo_waiting)"
     "(sched (control_plane demo_server demo_registry))\<^sup>*\<^sup>* (ps1, demo_waiting) (ps2, demo_delivered)"
    using demo_sched by blast
  have "audit_events (w_db demo_waiting) \<noteq> []"
    using demo_facts_run(1) by (auto simp: demo_facts_def)
  moreover have "set (audit_events (w_db demo_waiting)) \<subseteq> set (audit_events (w_db demo_delivered))"
    using audit_append_only [OF demo_wired s] by (rule set_mono_prefix)
  ultimately show ?thesis by (cases "audit_events (w_db demo_waiting)") auto
qed

end
