(* ===== verification/RunSpec.thy ===== *)
theory RunSpec
  imports Guarantees
begin

text \<open>
  The abstract specification of the run store: a map from run to tier, status and verdict, and the
  steps it may take.  The control plane refines it: what any schedule does to the database is, seen
  through the abstraction, a sequence of these steps.
\<close>

section \<open>The specification\<close>

datatype verdict = Undecided | Approved | Rejected

type_synonym governed_run = "tier \<times> run_status \<times> verdict"

text \<open>A request creates a run that is checked by the policy, or one that waits for a person.\<close>

definition requested :: "governed_run \<Rightarrow> bool" where
  "requested g \<longleftrightarrow>
     (case g of (t, s, v) \<Rightarrow> v = Undecided \<and> Tier_Valid t \<and>
        s = (if t = TierHumanInTheLoop then StatusAwaitingApproval else StatusPolicyChecked))"

inductive run_step :: "governed_run \<Rightarrow> governed_run \<Rightarrow> bool" where
  decide: "v \<noteq> Undecided \<Longrightarrow> run_step (TierHumanInTheLoop, StatusAwaitingApproval, Undecided) (TierHumanInTheLoop, StatusAwaitingApproval, v)"
| queue_checked: "t \<noteq> TierHumanInTheLoop \<Longrightarrow> run_step (t, StatusPolicyChecked, v) (t, StatusQueued, v)"
| queue_approved: "run_step (t, StatusAwaitingApproval, Approved) (t, StatusQueued, Approved)"
| deny: "run_step (t, StatusAwaitingApproval, Rejected) (t, StatusDenied, Rejected)"
| execute: "run_step (t, StatusQueued, v) (t, StatusExecuting, v)"
| finish: "terminal s \<Longrightarrow> run_step (t, StatusExecuting, v) (t, s, v)"

inductive governed :: "(uuid \<Rightarrow> governed_run option) \<Rightarrow> (uuid \<Rightarrow> governed_run option) \<Rightarrow> bool" where
  request: "m i = None \<Longrightarrow> requested g \<Longrightarrow> governed m (m(i \<mapsto> g))"
| advance: "m i = Some g \<Longrightarrow> run_step g g' \<Longrightarrow> governed m (m(i \<mapsto> g'))"

inductive_simps run_step_iff: "run_step (t, s, v) g"

text \<open>
  What the specification alone guarantees: an ended run stays as it is, and a run that a person must
  oversee has no other history than an approved or a rejected one.
\<close>

lemma run_step_final: "terminal s \<or> s = StatusDenied \<Longrightarrow> \<not> run_step (t, s, v) g"
  by (auto simp: run_step_iff terminal_def)

definition overseen :: "governed_run \<Rightarrow> bool" where
  "overseen g \<longleftrightarrow> (case g of (t, s, v) \<Rightarrow>
     t = TierHumanInTheLoop \<longrightarrow> s = StatusAwaitingApproval \<or> s = StatusDenied \<and> v = Rejected \<or>
       s \<in> {StatusQueued, StatusExecuting} \<union> {s. terminal s} \<and> v = Approved)"

lemma run_step_overseen: "run_step g g' \<Longrightarrow> overseen g \<Longrightarrow> overseen g'"
  by (induction rule: run_step.induct) (auto simp: overseen_def terminal_def split: if_splits)

lemma governed_overseen: "governed\<^sup>*\<^sup>* m m' \<Longrightarrow> \<forall>i g. m i = Some g \<longrightarrow> overseen g \<Longrightarrow> m' i = Some g \<Longrightarrow> overseen g"
proof (induction arbitrary: i g rule: rtranclp_induct)
  case (step y z)
  note IH = step.IH [OF step.prems(1)]
  from step.hyps(2) show ?case
  proof cases
    case (request j h)
    then have "overseen h" by (auto simp: requested_def overseen_def split: if_splits prod.splits)
    with request IH step.prems(2) show ?thesis by (cases "i = j") auto
  next
    case (advance j h h')
    then have "overseen h'" using IH run_step_overseen by blast
    with advance IH step.prems(2) show ?thesis by (cases "i = j") auto
  qed
qed auto

section \<open>The abstraction\<close>

definition verdict_of :: "approval_row list \<Rightarrow> run_row \<Rightarrow> verdict" where
  "verdict_of aps r =
     (if rn_Tier r \<noteq> TierHumanInTheLoop then Undecided
      else if decided ''approved'' (rn_ID r) aps then Approved
      else if decided ''denied'' (rn_ID r) aps then Rejected else Undecided)"

definition abs_run :: "approval_row list \<Rightarrow> run_row \<Rightarrow> governed_run" where
  "abs_run aps r = (rn_Tier r, rn_Status r, verdict_of aps r)"

definition governance :: "db \<Rightarrow> uuid \<Rightarrow> governed_run option" where
  "governance d = map_of (map (\<lambda>r. (rn_ID r, abs_run (approvals d) r)) (runs d))"

lemma governance_None: "governance d i = None \<longleftrightarrow> i \<notin> rn_ID ` set (runs d)"
  by (auto simp: governance_def map_of_eq_None_iff image_image)

lemma governance_Some:
  assumes "distinct (map rn_ID (runs d))"
  shows "governance d i = Some g \<longleftrightarrow> (\<exists>r \<in> set (runs d). rn_ID r = i \<and> g = abs_run (approvals d) r)"
proof -
  have "distinct (map fst (map (\<lambda>r. (rn_ID r, abs_run (approvals d) r)) (runs d)))" using assms by (simp add: comp_def)
  then show ?thesis unfolding governance_def by (subst map_of_eq_Some_iff) auto
qed

section \<open>One run\<close>

lemma legal_steps:
  assumes "legal\<^sup>*\<^sup>* s s'" and "s = StatusPolicyChecked \<and> t \<noteq> TierHumanInTheLoop \<or> s = StatusQueued \<or> s = StatusExecuting \<or> terminal s"
  shows "run_step\<^sup>*\<^sup>* (t, s, v) (t, s', v)"
  using assms
proof (induction rule: converse_rtranclp_induct)
  case (step y z)
  then have "run_step (t, y, v) (t, z, v)" and "z = StatusQueued \<or> z = StatusExecuting \<or> terminal z"
    by (auto simp: legal_def terminal_def intro: run_step.intros)
  with step.IH show ?case by (meson converse_rtranclp_into_rtranclp)
qed simp

lemma legal_from_waiting:
  "legal\<^sup>*\<^sup>* s s' \<Longrightarrow> s = StatusAwaitingApproval \<Longrightarrow> s' = StatusAwaitingApproval \<or> s' = StatusDenied \<or> legal\<^sup>*\<^sup>* StatusQueued s'"
  by (induction rule: rtranclp_induct) (auto simp: legal_def terminal_def intro: rtranclp.rtrancl_into_rtrancl)

text \<open>What the invariant says of the abstraction of a run.\<close>

definition consistent :: "governed_run \<Rightarrow> bool" where
  "consistent g \<longleftrightarrow> (case g of (t, s, v) \<Rightarrow> Tier_Valid t \<and> s \<noteq> StatusRequested \<and>
     (t \<noteq> TierHumanInTheLoop \<longrightarrow> v = Undecided \<and> s \<notin> {StatusAwaitingApproval, StatusDenied}) \<and>
     (t = TierHumanInTheLoop \<longrightarrow> s \<noteq> StatusPolicyChecked \<and>
        (s = StatusDenied \<longrightarrow> v = Rejected) \<and> (s \<notin> {StatusAwaitingApproval, StatusDenied} \<longrightarrow> v = Approved)))"

lemma decided_unique:
  assumes "distinct (map ap_RunID aps)" and "decided d1 i aps" and "decided d2 i aps"
  shows "d1 = d2"
proof -
  from assms(2,3) obtain a b where "a \<in> set aps" "ap_RunID a = i" "ap_Decision a = Some d1"
      "b \<in> set aps" "ap_RunID b = i" "ap_Decision b = Some d2"
    unfolding decided_def by blast
  with distinct_map_unique [OF assms(1), of a b] show ?thesis by simp
qed

lemma abs_run_consistent:
  assumes "run_inv d" and "r \<in> set (runs d)"
  shows "consistent (abs_run (approvals d) r)"
proof -
  let ?H = "rn_Tier r = TierHumanInTheLoop"
  from assms have "timeline_ok r" and ov: "oversight_ok (approvals d) r" and ap: "distinct (map ap_RunID (approvals d))"
    by (auto simp: run_inv_def)
  then have "rn_Status r \<noteq> StatusRequested" unfolding timeline_ok_def by blast
  moreover from ov have "Tier_Valid (rn_Tier r)" "\<not> ?H \<Longrightarrow> rn_Status r \<notin> {StatusAwaitingApproval, StatusDenied}"
      "?H \<Longrightarrow> rn_Status r \<noteq> StatusPolicyChecked"
    and no: "?H \<Longrightarrow> rn_Status r = StatusDenied \<Longrightarrow> decided ''denied'' (rn_ID r) (approvals d)"
    and yes: "?H \<Longrightarrow> rn_Status r \<notin> {StatusAwaitingApproval, StatusDenied} \<Longrightarrow> decided ''approved'' (rn_ID r) (approvals d)"
    unfolding oversight_ok_def by blast+
  moreover have "\<not> decided ''approved'' (rn_ID r) (approvals d)" if "decided ''denied'' (rn_ID r) (approvals d)"
    using decided_unique [OF ap that, of "''approved''"] by auto
  ultimately show ?thesis
    unfolding consistent_def abs_run_def verdict_of_def by simp
qed

lemma run_reaches:
  assumes "consistent (t, s, v)" and "consistent (t, s', v')" and "legal\<^sup>*\<^sup>* s s'" and "v \<noteq> Undecided \<Longrightarrow> v' = v"
  shows "run_step\<^sup>*\<^sup>* (t, s, v) (t, s', v')"
proof (cases "s = StatusAwaitingApproval")
  case True
  with assms(1) have t: "t = TierHumanInTheLoop" by (auto simp: consistent_def)
  have vote: "run_step\<^sup>*\<^sup>* (t, StatusAwaitingApproval, v) (t, StatusAwaitingApproval, v')"
    using assms(4) t by (cases "v = v'") (auto intro!: r_into_rtranclp decide)
  consider "s' = StatusAwaitingApproval" | "s' = StatusDenied" | "legal\<^sup>*\<^sup>* StatusQueued s'" "s' \<notin> {StatusAwaitingApproval, StatusDenied}"
    using legal_from_waiting [OF assms(3) True] by blast
  then show ?thesis
  proof cases
    case 1
    with vote True show ?thesis by simp
  next
    case 2
    with assms(2) t have "v' = Rejected" by (simp add: consistent_def)
    with vote True 2 show ?thesis by (auto intro: rtranclp.rtrancl_into_rtrancl run_step.deny)
  next
    case 3
    with assms(2) t have v': "v' = Approved" by (simp add: consistent_def)
    have "run_step\<^sup>*\<^sup>* (t, StatusQueued, Approved) (t, s', Approved)" by (rule legal_steps [OF 3(1)]) simp
    with vote True v' show ?thesis
      by (auto intro: rtranclp_trans rtranclp.rtrancl_into_rtrancl run_step.queue_approved)
  qed
next
  case False
  have same: "v' = v" using assms False legal_star_denied [OF assms(3)] by (auto simp: consistent_def split: if_splits)
  show ?thesis
  proof (cases "s = StatusDenied")
    case True
    with legal_star_denied [OF assms(3)] same show ?thesis by simp
  next
    case nd: False
    have "s = StatusPolicyChecked \<and> t \<noteq> TierHumanInTheLoop \<or> s = StatusQueued \<or> s = StatusExecuting \<or> terminal s"
      using status_cases [of s] False nd assms(1) by (auto simp: consistent_def before_executing_def)
    from legal_steps [OF assms(3) this] same show ?thesis by simp
  qed
qed

lemma consistent_requested:
  assumes "consistent g"
  shows "\<exists>g0. requested g0 \<and> run_step\<^sup>*\<^sup>* g0 g"
proof -
  obtain t s v where g: "g = (t, s, v)" by (cases g)
  let ?s0 = "if t = TierHumanInTheLoop then StatusAwaitingApproval else StatusPolicyChecked"
  have con: "consistent (t, ?s0, Undecided)" "requested (t, ?s0, Undecided)"
    using assms g by (auto simp: consistent_def requested_def)
  have t: "s = StatusAwaitingApproval \<or> s = StatusDenied \<Longrightarrow> t = TierHumanInTheLoop" "s = StatusPolicyChecked \<Longrightarrow> t \<noteq> TierHumanInTheLoop"
    using assms g by (auto simp: consistent_def)
  have "legal ?s0 StatusQueued" "legal StatusQueued StatusExecuting" by (auto simp: legal_def)
  then have ex: "legal\<^sup>*\<^sup>* ?s0 StatusExecuting" by (rule converse_rtranclp_into_rtranclp [OF _ r_into_rtranclp])
  have fin: "legal\<^sup>*\<^sup>* ?s0 s" if "terminal s"
    using ex by (rule rtranclp.rtrancl_into_rtrancl) (use that in \<open>simp add: legal_def\<close>)
  have one: "legal ?s0 s" if "s = StatusDenied \<or> s = StatusQueued"
    using that t by (auto simp: legal_def)
  consider "s = ?s0" | "s = StatusDenied \<or> s = StatusQueued" | "s = StatusExecuting" | "terminal s"
    using assms g by (cases s) (auto simp: consistent_def terminal_def)
  then have "legal\<^sup>*\<^sup>* ?s0 s"
  proof cases
    case 1
    then show ?thesis by (simp only: rtranclp.rtrancl_refl)
  next
    case 2
    from r_into_rtranclp [of legal, OF one [OF 2]] show ?thesis .
  next
    case 3
    with ex show ?thesis by (simp only:)
  next
    case 4
    then show ?thesis by (rule fin)
  qed
  from run_reaches [OF con(1) _ this] con(2) assms g show ?thesis by blast
qed

section \<open>All runs\<close>

lemma governed_advance:
  "run_step\<^sup>*\<^sup>* g g' \<Longrightarrow> m i = Some g \<Longrightarrow> governed\<^sup>*\<^sup>* m (m(i \<mapsto> g'))"
proof (induction rule: rtranclp_induct)
  case base
  then show ?case by (simp add: fun_upd_idem)
next
  case (step y z)
  have "governed (m(i \<mapsto> y)) (m(i \<mapsto> y, i \<mapsto> z))" by (rule governed.advance [OF _ step(2)]) simp
  then have "governed (m(i \<mapsto> y)) (m(i \<mapsto> z))" by (simp only: fun_upd_upd)
  with step.IH [OF step.prems] show ?case by (metis rtranclp.rtrancl_into_rtrancl)
qed

lemma governed_request:
  assumes "m i = None" and "requested g" and "run_step\<^sup>*\<^sup>* g g'"
  shows "governed\<^sup>*\<^sup>* m (m(i \<mapsto> g'))"
proof -
  have "governed m (m(i \<mapsto> g))" using assms(1,2) by (rule governed.request)
  moreover have "governed\<^sup>*\<^sup>* (m(i \<mapsto> g)) (m(i \<mapsto> g, i \<mapsto> g'))" by (rule governed_advance [OF assms(3)]) simp
  ultimately show ?thesis by (auto intro: converse_rtranclp_into_rtranclp)
qed

lemma governed_lift:
  assumes "\<And>i g. m i = Some g \<Longrightarrow> \<exists>g'. m' i = Some g' \<and> run_step\<^sup>*\<^sup>* g g'"
    and "\<And>i g'. m i = None \<Longrightarrow> m' i = Some g' \<Longrightarrow> \<exists>g. requested g \<and> run_step\<^sup>*\<^sup>* g g'"
  shows "governed\<^sup>*\<^sup>* m (\<lambda>i. if i \<in> set is then m' i else m i)"
proof (induction "is")
  case (Cons j js)
  let ?h = "\<lambda>i. if i \<in> set js then m' i else m i"
  have "governed\<^sup>*\<^sup>* ?h (?h(j := m' j))"
  proof (cases "j \<in> set js")
    case True
    then have "?h(j := m' j) = ?h" by auto
    then show ?thesis by simp
  next
    case out: False
    show ?thesis
    proof (cases "m j")
      case (Some g)
      with assms(1) obtain g' where "m' j = Some g'" "run_step\<^sup>*\<^sup>* g g'" by blast
      with Some out show ?thesis using governed_advance [of g g' ?h j] by simp
    next
      case None
      show ?thesis
      proof (cases "m' j")
        case n: None
        then have "?h(j := m' j) = ?h" using out None by auto
        then show ?thesis by simp
      next
        case (Some g')
        with assms(2) None obtain g where "requested g" "run_step\<^sup>*\<^sup>* g g'" by blast
        with None Some out show ?thesis using governed_request [of ?h j g g'] by simp
      qed
    qed
  qed
  moreover have "(\<lambda>i. if i \<in> set (j # js) then m' i else m i) = ?h(j := m' j)" by auto
  ultimately show ?case using Cons by (auto intro: rtranclp_trans)
qed simp

lemma history_governed:
  assumes inv: "run_inv d" and R: "run_history d d'"
  shows "governed\<^sup>*\<^sup>* (governance d) (governance d')"
proof -
  from history_inv [OF R inv] have inv': "run_inv d'" .
  then have dist: "distinct (map rn_ID (runs d))" "distinct (map rn_ID (runs d'))" "distinct (map ap_RunID (approvals d'))"
    using inv by (simp_all add: run_inv_def)
  have old: "\<exists>g'. governance d' i = Some g' \<and> run_step\<^sup>*\<^sup>* g g'" if "governance d i = Some g" for i g
  proof -
    from that obtain r where r: "r \<in> set (runs d)" "rn_ID r = i" "g = abs_run (approvals d) r"
      by (auto simp: governance_Some [OF dist(1)])
    from R inv r(1) obtain r' where r': "r' \<in> set (runs d')" and ev: "run_evolves r r'"
      and aps: "\<forall>a \<in> set (approvals d). \<exists>b \<in> set (approvals d'). approval_evolves a b"
      unfolding run_history_def run_evolution_def by blast
    from ev have same: "rn_ID r' = i" "rn_Tier r' = rn_Tier r" "legal\<^sup>*\<^sup>* (rn_Status r) (rn_Status r')"
      using r(2) by (simp_all add: run_evolves_def)
    have "verdict_of (approvals d) r \<noteq> Undecided \<Longrightarrow> verdict_of (approvals d') r' = verdict_of (approvals d) r"
      using decided_mono [OF aps, of "''approved''" i] decided_mono [OF aps, of "''denied''" i] same(1,2) r(2)
        decided_unique [OF dist(3), of "''denied''" i "''approved''"]
      by (auto simp: verdict_of_def split: if_splits)
    then have "run_step\<^sup>*\<^sup>* g (abs_run (approvals d') r')"
      using run_reaches same abs_run_consistent [OF inv r(1)] abs_run_consistent [OF inv' r'] r(3) by (simp add: abs_run_def)
    with r' same(1) show ?thesis unfolding governance_Some [OF dist(2)] by blast
  qed
  have new: "\<exists>g. requested g \<and> run_step\<^sup>*\<^sup>* g g'" if "governance d' i = Some g'" for i g'
    using that consistent_requested [OF abs_run_consistent [OF inv']] unfolding governance_Some [OF dist(2)] by blast
  have "governed\<^sup>*\<^sup>* (governance d) (\<lambda>i. if i \<in> set (map rn_ID (runs d')) then governance d' i else governance d i)"
    by (rule governed_lift) (use old new in blast)+
  moreover have "(\<lambda>i. if i \<in> set (map rn_ID (runs d')) then governance d' i else governance d i) = governance d'"
  proof
    fix i
    have "governance d i = governance d' i" if "i \<notin> set (map rn_ID (runs d'))"
    proof -
      from that have n: "governance d' i = None" by (simp add: governance_None)
      with old [of i] show ?thesis by (cases "governance d i") auto
    qed
    then show "(if i \<in> set (map rn_ID (runs d')) then governance d' i else governance d i) = governance d' i" by simp
  qed
  ultimately show ?thesis by simp
qed

section \<open>Refinement\<close>

text \<open>
  C3.  The control plane refines the specification of governed runs.  Whatever a schedule of HTTP
  requests and job deliveries does between two of its moments, seen as tier, status and verdict of
  each run, is a sequence of requests and of steps of single runs: decided once, queued when checked
  or approved, denied when rejected, executed from the queue and finished from executing.
\<close>

theorem control_plane_refines:
  assumes "w_db w = empty_db" and "wired_server s"
    and "(sched (control_plane s reg))\<^sup>*\<^sup>* ([], w) (ps, w')"
    and "(sched (control_plane s reg))\<^sup>*\<^sup>* (ps, w') (ps', w'')"
  shows "governed\<^sup>*\<^sup>* Map.empty (governance (w_db w')) \<and> governed\<^sup>*\<^sup>* (governance (w_db w')) (governance (w_db w''))"
proof -
  have 0: "run_inv (w_db w)" using assms(1) run_inv_empty by simp
  have inv: "run_inv (w_db w')" and R: "run_history (w_db w') (w_db w'')"
    using run_promise.promised [OF 0 assms(2-4)] by blast+
  have "run_history (w_db w) (w_db w')"
    using run_promise.promised(2) [OF 0 assms(2) rtranclp.rtrancl_refl assms(3)] .
  then have "governed\<^sup>*\<^sup>* (governance (w_db w)) (governance (w_db w'))" by (rule history_governed [OF 0])
  moreover have "governance (w_db w) = Map.empty" using assms(1) by (simp add: governance_def empty_db_def)
  ultimately show ?thesis using history_governed [OF inv R] by simp
qed

theorem control_plane_refines_witness:
  "governed\<^sup>*\<^sup>* Map.empty (governance (w_db demo_waiting)) \<and> governed\<^sup>*\<^sup>* (governance (w_db demo_waiting)) (governance (w_db demo_delivered))"
proof -
  obtain ps1 ps2 where "(sched (control_plane demo_server demo_registry))\<^sup>*\<^sup>* ([], demo_start) (ps1, demo_waiting)"
     "(sched (control_plane demo_server demo_registry))\<^sup>*\<^sup>* (ps1, demo_waiting) (ps2, demo_delivered)"
    using demo_sched by blast
  from control_plane_refines [OF demo_start_empty demo_wired this] show ?thesis .
qed

end
