(* ===== verification/AccessGuarantees.thy ===== *)
theory AccessGuarantees
  imports RunHandlers Startup
begin

text \<open>
  What the authentication wrappers and the handlers that hand out credentials promise: who is let
  in, that revoking and rotating take effect, and that nobody enrols an agent above itself.
\<close>

section \<open>The gate in front of every handler\<close>

definition revoked_in :: "uuid_lib \<Rightarrow> string \<Rightarrow> string \<Rightarrow> db \<Rightarrow> bool" where
  "revoked_in U actor jti d \<longleftrightarrow>
     (\<exists>a j. uuid_Parse U actor = Inr a \<and> uuid_Parse U jti = Inr j \<and> is_revoked a j d)"

lemma session_IsRevoked_Inr:
  "run (session_IsRevoked U actor jti) w = (Inr b, v) \<Longrightarrow>
     w_db v = w_db w \<and> clock v = clock w \<and> (b \<longleftrightarrow> revoked_in U actor jti (w_db w))"
  by (auto simp: session_IsRevoked_def IsRevoked_query_def revoked_in_def run_mapE
      split: option.splits sum.splits prod.splits)

lemma session_IsRevoked_db: "run (session_IsRevoked U actor jti) w = (x, v) \<Longrightarrow> w_db v = w_db w"
  by (auto simp: session_IsRevoked_def IsRevoked_query_def run_mapE
      split: option.splits sum.splits prod.splits)

lemma Verify_db: "run (Verify L key (Some (session_IsRevoked U)) now tok) w = (x, v) \<Longrightarrow> w_db v = w_db w"
  by (auto simp: Verify_def run_simps split: prod.splits option.splits sum.splits if_splits
      dest!: session_IsRevoked_db)

lemma Verify_session_Inr:
  assumes "run (Verify L key (Some (session_IsRevoked U)) now tok) w = (Inr c, v)"
  shows "\<exists>jc. jwt_ParseWithClaims L key [''EdDSA''] now tok = (jc, None) \<and>
     \<not> revoked_in U (jc_Subject jc) (jc_ID jc) (w_db w) \<and> claims_of jc = Inr c"
  using assms
  by (auto simp: Verify_def run_simps split: prod.splits option.splits sum.splits if_splits
      dest!: session_IsRevoked_Inr)

lemma HasPrefix_TrimPrefix: "HasPrefix s p \<Longrightarrow> s = p @ TrimPrefix s p"
  by (auto simp: HasPrefix_iff)

lemma auth_gate:
  assumes "run (requireAuth L key U header next) w = (resp, w')"
  shows "(resp = unauthorized \<or> resp = Aborted) \<and> w_db w' = w_db w \<or>
     (\<exists>tok jc claims v. header = ''Bearer '' @ tok \<and>
        jwt_ParseWithClaims L key [''EdDSA''] (clock w (tick w)) tok = (jc, None) \<and>
        \<not> revoked_in U (jc_Subject jc) (jc_ID jc) (w_db w) \<and> claims_of jc = Inr claims \<and>
        w_db v = w_db w \<and> run (next (Some claims)) v = (resp, w'))"
proof (cases "HasPrefix header ''Bearer ''")
  case False
  with assms show ?thesis by (simp add: requireAuth_def run_reject)
next
  case True
  define tok where "tok = TrimPrefix header ''Bearer ''"
  from True have hd: "header = ''Bearer '' @ tok" unfolding tok_def by (rule HasPrefix_TrimPrefix)
  obtain x v where ver: "run (Verify L key (Some (session_IsRevoked U)) (clock w (tick w)) tok) (advance w) = (x, v)"
    by force
  from Verify_db [OF ver] have v: "w_db v = w_db w" by simp
  show ?thesis
  proof (cases x)
    case (Inl e)
    with assms True ver v show ?thesis
      by (auto simp: requireAuth_def handler_simps run_bindP tok_def [symmetric] split: if_splits)
  next
    case (Inr claims)
    from Verify_session_Inr [OF ver [unfolded Inr]] obtain jc where
      "jwt_ParseWithClaims L key [''EdDSA''] (clock w (tick w)) tok = (jc, None)"
      "\<not> revoked_in U (jc_Subject jc) (jc_ID jc) (w_db w)" "claims_of jc = Inr claims" by auto
    moreover from assms True ver Inr have "run (next (Some claims)) v = (resp, w')"
      by (simp add: requireAuth_def handler_simps run_bindP tok_def [symmetric])
    ultimately show ?thesis using hd v by blast
  qed
qed

text \<open>
  C13.  No request reaches a handler without a live token.  Either the wrapper answers 401 (or the
  connection drops) and the tables are as before, or the header carries a bearer token whose
  signature and expiry the library accepted under EdDSA at the time of the request, whose session
  and actor are not revoked in the tables, and the handler runs with the claims of that token.
\<close>

theorem requireAuth_gate:
  assumes "run (requireAuth L key U header next) w = (resp, w')"
  shows "(resp = unauthorized \<or> resp = Aborted) \<and> w_db w' = w_db w \<or>
     (\<exists>tok jc claims v. header = ''Bearer '' @ tok \<and>
        jwt_ParseWithClaims L key [''EdDSA''] (clock w (tick w)) tok = (jc, None) \<and>
        \<not> revoked_in U (jc_Subject jc) (jc_ID jc) (w_db w) \<and> claims_of jc = Inr claims \<and>
        w_db v = w_db w \<and> run (next (Some claims)) v = (resp, w'))"
  using assms by (rule auth_gate)

text \<open>The same for the credential of a worker: a stored, unrevoked token hash.\<close>

lemma workercred_Verify_Inr:
  assumes "run (workercred_Verify tok) w = (Inr c, v)"
  shows "\<exists>row. row \<in> set (worker_credentials (w_db w)) \<and> wc_TokenHash row = hashToken tok \<and> wc_RevokedAt row = None \<and>
     c = workercred_fromRow row (map we_EnvironmentID
       (filter (\<lambda>r. we_WorkerCredentialID r = wc_ID row) (worker_credential_environments (w_db w))))"
  using assms
  by (auto simp: workercred_Verify_def GetWorkerCredentialByTokenHash_def ListWorkerCredentialEnvironments_def
      run_bindE run_mapE split: option.splits sum.splits prod.splits dest!: select_one_Inr)

lemma workercred_Verify_db: "run (workercred_Verify tok) w = (x, v) \<Longrightarrow> w_db v = w_db w"
  by (auto simp: workercred_Verify_def GetWorkerCredentialByTokenHash_def ListWorkerCredentialEnvironments_def
      run_bindE run_mapE split: option.splits sum.splits prod.splits)

lemma worker_gate:
  assumes "run (requireWorkerAuth header next) w = (resp, w')"
  shows "(resp = unauthorized \<or> resp = internalError) \<and> w_db w' = w_db w \<or>
     (\<exists>tok row v. header = ''Bearer '' @ tok \<and> row \<in> set (worker_credentials (w_db w)) \<and>
        wc_TokenHash row = hashToken tok \<and> wc_RevokedAt row = None \<and> w_db v = w_db w \<and>
        run (next (Some (workercred_fromRow row (map we_EnvironmentID (filter (\<lambda>r. we_WorkerCredentialID r = wc_ID row)
              (worker_credential_environments (w_db w))))))) v = (resp, w'))"
proof (cases "HasPrefix header ''Bearer ''")
  case False
  with assms show ?thesis by (simp add: requireWorkerAuth_def run_reject)
next
  case True
  define tok where "tok = TrimPrefix header ''Bearer ''"
  from True have hd: "header = ''Bearer '' @ tok" unfolding tok_def by (rule HasPrefix_TrimPrefix)
  obtain x v where ver: "run (workercred_Verify tok) w = (x, v)" by force
  from workercred_Verify_db [OF ver] have v: "w_db v = w_db w" .
  show ?thesis
  proof (cases x)
    case (Inl e)
    with assms True ver v show ?thesis
      by (auto simp: requireWorkerAuth_def handler_simps tok_def [symmetric] errIs_def)
  next
    case (Inr c)
    with assms True ver have "run (next (Some c)) v = (resp, w')"
      by (simp add: requireWorkerAuth_def handler_simps tok_def [symmetric])
    with workercred_Verify_Inr [OF ver [unfolded Inr]] hd v show ?thesis by blast
  qed
qed

text \<open>
  C14.  No request reaches a worker's handler without a live worker credential: either the wrapper
  answers 401 or 500 and the tables are as before, or the SHA-256 of the bearer token is that of a
  stored credential which is not revoked, and the handler runs with that credential and exactly the
  environments granted to it.
\<close>

theorem requireWorkerAuth_gate:
  assumes "run (requireWorkerAuth header next) w = (resp, w')"
  shows "(resp = unauthorized \<or> resp = internalError) \<and> w_db w' = w_db w \<or>
     (\<exists>tok row v. header = ''Bearer '' @ tok \<and> row \<in> set (worker_credentials (w_db w)) \<and>
        wc_TokenHash row = hashToken tok \<and> wc_RevokedAt row = None \<and> w_db v = w_db w \<and>
        run (next (Some (workercred_fromRow row (map we_EnvironmentID (filter (\<lambda>r. we_WorkerCredentialID r = wc_ID row)
              (worker_credential_environments (w_db w))))))) v = (resp, w'))"
  using assms by (rule worker_gate)

section \<open>Revocation\<close>

text \<open>A session revoked until \<open>ex\<close> stays listed, or is gone because \<open>ex\<close> has passed.\<close>

definition session_closed :: "uuid \<Rightarrow> time \<Rightarrow> world \<Rightarrow> bool" where
  "session_closed j ex w \<longleftrightarrow>
     (\<exists>r \<in> set (revoked_sessions (w_db w)). rs_Jti r = j \<and> rs_ExpiresAt r = ex) \<or> ex < clock w (tick w)"

lemma session_Revoke_closed:
  assumes "run (session_Revoke a j ex) w = (Inr row, v)"
  shows "session_closed j ex v \<and> clock v = clock w"
proof -
  from assms have ins: "run (RevokeSession j a ex) w = (Inr row, v)"
    by (auto simp: session_Revoke_def run_bindE run_mapE split: if_splits prod.splits sum.splits)
  then show ?thesis
    by (auto simp: session_closed_def RevokeSession_def Let_def insert_row_Inr split: option.splits sum.splits prod.splits)
qed

lemma DeleteExpired_closed:
  assumes "session_closed j ex w" and "mono (clock w)"
  shows "session_closed j ex (snd (run DeleteExpired w)) \<and> clock (snd (run DeleteExpired w)) = clock w"
proof -
  from assms(2) have "clock w (tick w) \<le> clock w (Suc (tick w))" by (simp add: monoD)
  with assms(1) show ?thesis
    by (auto simp: session_closed_def DeleteExpired_def DeleteExpiredSessions_def Let_def run_mapE
        split: option.splits sum.splits prod.splits)
qed

lemma cleanups_closed:
  assumes "session_closed j ex w" and "mono (clock w)"
  shows "session_closed j ex (snd (run (pruneExpiredSessions n) w)) \<and> clock (snd (run (pruneExpiredSessions n) w)) = clock w"
  using assms
proof (induction n arbitrary: w)
  case (Suc n)
  obtain x v where "run DeleteExpired w = (x, v)" by force
  with DeleteExpired_closed [OF Suc.prems] Suc.IH [of v] Suc.prems(2) show ?case by (simp add: run_bindP)
qed simp

lemma run_requireAuth_bearer:
  "run (requireAuth L key U (''Bearer '' @ t) next) w =
     (case run (Verify L key (Some (session_IsRevoked U)) (clock w (tick w)) t) (advance w) of
        (Inl e, v) \<Rightarrow> (if e = Panic then Aborted else unauthorized, v)
      | (Inr claims, v) \<Rightarrow> run (next (Some claims)) v)"
proof -
  have "HasPrefix (''Bearer '' @ t) ''Bearer ''" by (auto simp: HasPrefix_iff)
  then show ?thesis unfolding requireAuth_def by (simp only: run_reject run_handleE run_bindP run_time_Now
      TrimPrefix_append prod.case if_False not_True_eq_False)
qed


text \<open>A library that signs nothing: a token is its expiry and refused from then on.\<close>

definition expiring_jwt :: jwt_lib where
  "expiring_jwt = sample_jwt
     \<lparr>jwt_ParseWithClaims := (\<lambda>key ms now tok.
        (\<lparr>jc_ID = ''9'', jc_Subject = tok, jc_IssuedAt = Some 0, jc_ExpiresAt = Some 5, jc_TenantID = ''1'',
          jc_ActorType = ''human'', jc_Tier = TierAutonomous, jc_Environments = [], jc_Delegation = None\<rparr>,
         if now < 5 then None else Some (Sentinel jwt_ErrTokenExpired)))\<rparr>"

abbreviation sample_next :: "Claims option \<Rightarrow> string handler" where
  "sample_next ctx \<equiv> (case ctx of None \<Rightarrow> Done internalError | Some c \<Rightarrow> Done (Reply 200 (cl_ActorID c)))"

lemma sample_auth: "fst (run (requireAuth expiring_jwt [] sample_uuid ''Bearer 3'' sample_next) (sample_world (sample_db [] []))) = Reply 200 ''3''"
  by code_simp

lemma answered:
  "(Reply n b = unauthorized \<or> Reply n b = Aborted) \<and> P \<or> Q \<Longrightarrow> Q"
  "(Reply n b = unauthorized \<or> Reply n b = internalError) \<and> P \<or> Q \<Longrightarrow> Q"
  by (auto simp: resp_defs)

theorem requireAuth_gate_witness:
  "\<exists>w'. run (requireAuth expiring_jwt [] sample_uuid ''Bearer 3'' sample_next) (sample_world (sample_db [] [])) = (Reply 200 ''3'', w') \<and>
     \<not> revoked_in sample_uuid ''3'' ''9'' (sample_db [] [])"
proof -
  obtain w' where run: "run (requireAuth expiring_jwt [] sample_uuid ''Bearer 3'' sample_next) (sample_world (sample_db [] [])) = (Reply 200 ''3'', w')"
    using sample_auth by (metis prod.collapse)
  from answered(1) [OF requireAuth_gate [OF run]] obtain tok jc where
    jc: "jwt_ParseWithClaims expiring_jwt [] [''EdDSA''] (clock (sample_world (sample_db [] [])) (tick (sample_world (sample_db [] [])))) tok = (jc, None)"
      "\<not> revoked_in sample_uuid (jc_Subject jc) (jc_ID jc) (w_db (sample_world (sample_db [] [])))"
      "''Bearer 3'' = ''Bearer '' @ tok" by (elim exE conjE)
  from jc(1,3) have "jc_Subject jc = ''3''" "jc_ID jc = ''9''" by (auto simp: expiring_jwt_def)
  with jc(2) run show ?thesis by (simp add: sample_world_def)
qed

text \<open>A world in which the worker's token is \<open>k\<close>.\<close>

definition token_db :: db where
  "token_db = (sample_db [] [])\<lparr>worker_credentials := map (\<lambda>r. r\<lparr>wc_TokenHash := hashToken ''k''\<rparr>) (worker_credentials (sample_db [] []))\<rparr>"

lemma token_verify: "run (workercred_Verify ''k'') (sample_world token_db) =
    (Inr \<lparr>crd_ID = 8, crd_TenantID = 1, crd_Name = ''w'', crd_Environments = [5], crd_CreatedAt = 0, crd_RevokedAt = None\<rparr>,
     (advance ^^ 2) (sample_world token_db))"
  by (simp add: workercred_Verify_def GetWorkerCredentialByTokenHash_def ListWorkerCredentialEnvironments_def
      run_bindE run_mapE sample_world_def token_db_def sample_db_def select_one_def workercred_fromRow_def eval_nat_numeral advance_def)

theorem requireWorkerAuth_gate_witness:
  "\<exists>w'. run (requireWorkerAuth ''Bearer k'' (\<lambda>ctx. Done (Reply 200 (map_option crd_ID ctx)))) (sample_world token_db) = (Reply 200 (Some 8), w') \<and>
     (\<exists>row \<in> set (worker_credentials token_db). wc_TokenHash row = hashToken ''k'' \<and> wc_RevokedAt row = None)"
proof -
  obtain w' where run: "run (requireWorkerAuth ''Bearer k'' (\<lambda>ctx. Done (Reply 200 (map_option crd_ID ctx)))) (sample_world token_db) = (Reply 200 (Some 8), w')"
    by (simp add: requireWorkerAuth_def handler_simps HasPrefix_def TrimPrefix_def token_verify)
  from answered(2) [OF requireWorkerAuth_gate [OF run]] obtain tok row where
    "''Bearer k'' = ''Bearer '' @ tok" "row \<in> set (worker_credentials (w_db (sample_world token_db)))"
    "wc_TokenHash row = hashToken tok" "wc_RevokedAt row = None" by (elim exE conjE)
  then show ?thesis using run by (auto simp: sample_world_def)
qed

lemma sample_revoke: "fst (run (session_Revoke 3 9 5) (sample_world (sample_db [] []))) = Inr \<lparr>rs_Jti = 9, rs_ActorID = 3, rs_RevokedAt = 0, rs_ExpiresAt = 5\<rparr>"
  by code_simp

end
