(* ===== verification/CredentialLife.thy ===== *)
theory CredentialLife
  imports AccessGuarantees
begin

text \<open>
  The life of a worker's credential: what minting stores, that the minted token verifies to the
  credential it was minted for, and that bootstrapping again replaces the token.
\<close>

section \<open>Minting\<close>

definition grants_of :: "uuid \<Rightarrow> db \<Rightarrow> uuid list" where
  "grants_of i d = map we_EnvironmentID (filter (\<lambda>g. we_WorkerCredentialID g = i) (worker_credential_environments d))"

lemma grant_statement_Inr:
  assumes "run (GrantWorkerCredentialEnvironment i e) w = (Inr x, v)"
  shows "worker_credentials (w_db v) = worker_credentials (w_db w) \<and>
     set (worker_credential_environments (w_db v)) =
       insert \<lparr>we_WorkerCredentialID = i, we_EnvironmentID = e\<rparr> (set (worker_credential_environments (w_db w)))"
  using assms
  by (auto simp: GrantWorkerCredentialEnvironment_def Let_def split: option.splits if_splits sum.splits prod.splits)

lemma workercred_Grant_Inr:
  "run (workercred_Grant i es) w = (Inr x, v) \<Longrightarrow>
     worker_credentials (w_db v) = worker_credentials (w_db w) \<and>
     set (worker_credential_environments (w_db v)) = set (worker_credential_environments (w_db w)) \<union>
       (\<lambda>e. \<lparr>we_WorkerCredentialID = i, we_EnvironmentID = e\<rparr>) ` set es"
proof (induction es arbitrary: w)
  case Nil
  then show ?case by simp
next
  case (Cons e es)
  from Cons.prems obtain y u where g: "run (GrantWorkerCredentialEnvironment i e) w = (Inr y, u)"
    and rest: "run (workercred_Grant i es) u = (Inr x, v)"
    by (auto simp: run_bindE run_mapE split: prod.splits sum.splits)
  from grant_statement_Inr [OF g] Cons.IH [OF rest] show ?case by auto
qed

lemma CreateWorkerCredential_Inr:
  assumes "run (CreateWorkerCredential t n h) w = (Inr row, v)"
  shows "worker_credentials (w_db v) = worker_credentials (w_db w) @ [row] \<and>
     worker_credential_environments (w_db v) = worker_credential_environments (w_db w) \<and>
     wc_ID row \<notin> wc_ID ` set (worker_credentials (w_db w)) \<and> h \<notin> wc_TokenHash ` set (worker_credentials (w_db w)) \<and>
     wc_TokenHash row = h \<and> wc_TenantID row = t \<and> wc_Name row = n \<and> wc_RevokedAt row = None"
  using assms
  by (auto simp: CreateWorkerCredential_def Let_def insert_row_Inr split: option.splits sum.splits prod.splits)

lemma generateToken_db: "run generateToken w = (x, v) \<Longrightarrow> w_db v = w_db w"
  by (auto simp: generateToken_def run_bindE run_mapE split: option.splits sum.splits prod.splits)

lemma workercred_mint_Inr:
  assumes "run (mint t n es) w = (Inr (c, tok), v)"
  shows "\<exists>row. worker_credentials (w_db v) = worker_credentials (w_db w) @ [row] \<and>
     wc_ID row \<notin> wc_ID ` set (worker_credentials (w_db w)) \<and>
     hashToken tok \<notin> wc_TokenHash ` set (worker_credentials (w_db w)) \<and>
     wc_TokenHash row = hashToken tok \<and> wc_TenantID row = t \<and> wc_Name row = n \<and> wc_RevokedAt row = None \<and>
     c = workercred_fromRow row es \<and>
     set (worker_credential_environments (w_db v)) = set (worker_credential_environments (w_db w)) \<union>
       (\<lambda>e. \<lparr>we_WorkerCredentialID = wc_ID row, we_EnvironmentID = e\<rparr>) ` set es"
proof -
  from assms obtain u1 u2 row x where tok: "run generateToken w = (Inr tok, u1)"
    and row: "run (CreateWorkerCredential t n (hashToken tok)) u1 = (Inr row, u2)"
    and gr: "run (workercred_Grant (wc_ID row) es) u2 = (Inr x, v)" and c: "c = workercred_fromRow row es"
    by (auto simp: mint_def run_bindE run_mapE split: if_splits prod.splits sum.splits)
  from generateToken_db [OF tok] CreateWorkerCredential_Inr [OF row] workercred_Grant_Inr [OF gr] c
  show ?thesis by (intro exI [of _ row]) auto
qed

text \<open>Grants name credentials that exist (the foreign key of their table).\<close>

definition grants_valid :: "db \<Rightarrow> bool" where
  "grants_valid d \<longleftrightarrow> (\<forall>g \<in> set (worker_credential_environments d). we_WorkerCredentialID g \<in> wc_ID ` set (worker_credentials d))"

lemma workercred_Verify_run:
  assumes "fault w (tick w) = None" and "fault w (Suc (tick w)) = None"
    and "select_one (\<lambda>r. wc_TokenHash r = hashToken tok \<and> wc_RevokedAt r = None) (worker_credentials (w_db w)) = Inr row"
  shows "run (workercred_Verify tok) w = (Inr (workercred_fromRow row (grants_of (wc_ID row) (w_db w))), (advance ^^ 2) w)"
  using assms
  by (simp add: workercred_Verify_def GetWorkerCredentialByTokenHash_def ListWorkerCredentialEnvironments_def
      grants_of_def run_bindE run_mapE eval_nat_numeral)

text \<open>
  C34.  A token handed to a worker works, and for that worker only.  After a credential is created,
  the token returned to the caller verifies (when neither read is lost) to the same credential,
  tenant and name, unrevoked, with exactly the environments asked for: only the token's hash is
  stored, and hashing what the worker presents finds it again.
\<close>

theorem worker_token_roundtrip:
  assumes made: "run (workercred_Create t n es) w = (Inr (c, tok), v)" and fk: "grants_valid (w_db w)"
    and reads: "fault v (tick v) = None" "fault v (Suc (tick v)) = None"
  shows "\<exists>c' v'. run (workercred_Verify tok) v = (Inr c', v') \<and> crd_ID c' = crd_ID c \<and> crd_TenantID c' = t \<and>
     crd_Name c' = n \<and> crd_RevokedAt c' = None \<and> set (crd_Environments c') = set es"
proof -
  from made have "run (mint t n es) w = (Inr (c, tok), v)" by (auto simp: workercred_Create_def split: if_splits)
  from workercred_mint_Inr [OF this] obtain row where
    rows: "worker_credentials (w_db v) = worker_credentials (w_db w) @ [row]"
    and fresh: "wc_ID row \<notin> wc_ID ` set (worker_credentials (w_db w))"
      "hashToken tok \<notin> wc_TokenHash ` set (worker_credentials (w_db w))"
    and row: "wc_TokenHash row = hashToken tok" "wc_TenantID row = t" "wc_Name row = n" "wc_RevokedAt row = None"
      "c = workercred_fromRow row es"
    and grants: "set (worker_credential_environments (w_db v)) = set (worker_credential_environments (w_db w)) \<union>
       (\<lambda>e. \<lparr>we_WorkerCredentialID = wc_ID row, we_EnvironmentID = e\<rparr>) ` set es" by blast
  have sel: "select_one (\<lambda>r. wc_TokenHash r = hashToken tok \<and> wc_RevokedAt r = None) (worker_credentials (w_db v)) = Inr row"
  proof -
    have "filter (\<lambda>r. wc_TokenHash r = hashToken tok \<and> wc_RevokedAt r = None) (worker_credentials (w_db w)) = []"
      using fresh(2) by (force simp: filter_empty_conv)
    then show ?thesis using row(1,4) by (simp add: rows select_one_def)
  qed
  have none: "we_WorkerCredentialID g \<noteq> wc_ID row" if "g \<in> set (worker_credential_environments (w_db w))" for g
    using that fk fresh(1) unfolding grants_valid_def by metis
  have "set (grants_of (wc_ID row) (w_db v)) = set es"
    using grants none by (force simp: grants_of_def)
  with workercred_Verify_run [OF reads sel] row show ?thesis
    by (intro exI [of _ "workercred_fromRow row (grants_of (wc_ID row) (w_db v))"]) (simp add: workercred_fromRow_def)
qed

section \<open>Bootstrapping again\<close>

lemma RotateWorkerCredentialToken_Inr:
  assumes "run (RotateWorkerCredentialToken i h) w = (Inr row, v)"
  shows "wc_ID row = i \<and> worker_credentials (w_db v) =
       update_rows (\<lambda>r. wc_ID r = i) (\<lambda>r. r\<lparr>wc_TokenHash := h\<rparr>) (worker_credentials (w_db w)) \<and>
     worker_credential_environments (w_db v) = worker_credential_environments (w_db w)"
  using assms
  by (auto simp: RotateWorkerCredentialToken_def insert_row_Inr split: option.splits sum.splits prod.splits
      dest!: update_one_Inr)

lemma Bootstrap_Inr:
  assumes "run (Bootstrap t n) w = (Inr (c, tok), v)"
  shows "(\<exists>row. worker_credentials (w_db v) = worker_credentials (w_db w) @ [row] \<and> crd_ID c = wc_ID row \<and>
            wc_ID row \<notin> wc_ID ` set (worker_credentials (w_db w)) \<and> wc_TokenHash row = hashToken tok \<and>
            crd_Environments c = []) \<or>
     (\<exists>ex \<in> set (worker_credentials (w_db w)). wc_TenantID ex = t \<and> wc_Name ex = n \<and> wc_RevokedAt ex = None \<and>
        crd_ID c = wc_ID ex \<and> crd_Environments c = grants_of (wc_ID ex) (w_db w) \<and>
        worker_credentials (w_db v) =
          update_rows (\<lambda>r. wc_ID r = wc_ID ex) (\<lambda>r. r\<lparr>wc_TokenHash := hashToken tok\<rparr>) (worker_credentials (w_db w)))"
proof -
  obtain x u where get: "run (GetWorkerCredentialByTenantAndName t n) w = (x, u)" by force
  then have u: "w_db u = w_db w"
    by (auto simp: GetWorkerCredentialByTenantAndName_def split: option.splits)
  show ?thesis
  proof (cases x)
    case (Inl e)
    with assms get have "run (mint t n []) u = (Inr (c, tok), v)"
      by (auto simp: Bootstrap_def run_bindP split: if_splits)
    from workercred_mint_Inr [OF this] u show ?thesis by (auto simp: workercred_fromRow_def)
  next
    case (Inr ex)
    with get have ex: "ex \<in> set (worker_credentials (w_db w))" "wc_TenantID ex = t" "wc_Name ex = n" "wc_RevokedAt ex = None"
      by (auto simp: GetWorkerCredentialByTenantAndName_def split: option.splits dest: select_one_Inr)
    from assms get Inr obtain u1 u2 row where gen: "run generateToken u = (Inr tok, u1)"
      and rot: "run (RotateWorkerCredentialToken (wc_ID ex) (hashToken tok)) u1 = (Inr row, u2)"
      and c: "\<exists>es. run (ListWorkerCredentialEnvironments (wc_ID row)) u2 = (Inr es, v) \<and> c = workercred_fromRow row es"
      by (auto simp: Bootstrap_def run_bindP run_bindE run_mapE split: if_splits prod.splits sum.splits)
    from c have "w_db v = w_db u2 \<and> c = workercred_fromRow row (grants_of (wc_ID row) (w_db u2))"
      by (auto simp: ListWorkerCredentialEnvironments_def grants_of_def split: option.splits)
    with RotateWorkerCredentialToken_Inr [OF rot] generateToken_db [OF gen] u ex show ?thesis
      by (intro disjI2 bexI [of _ ex]) (auto simp: workercred_fromRow_def grants_of_def)
  qed
qed

text \<open>
  Bootstrapping leaves one working token per worker.  After \<open>Bootstrap\<close> returns a credential and
  a token, every stored row of that credential holds this token's hash, so an older token of it
  verifies to that credential no more; the rows of all other credentials are as they were; and an
  existing credential keeps its identity and the environments granted to it.
\<close>

theorem Bootstrap_rotates:
  assumes "run (Bootstrap t n) w = (Inr (c, tok), v)"
  shows "(\<forall>row \<in> set (worker_credentials (w_db v)). wc_ID row = crd_ID c \<longrightarrow> wc_TokenHash row = hashToken tok) \<and>
     (\<forall>old c' v'. hashToken old \<noteq> hashToken tok \<and> run (workercred_Verify old) v = (Inr c', v') \<longrightarrow> crd_ID c' \<noteq> crd_ID c) \<and>
     filter (\<lambda>r. wc_ID r \<noteq> crd_ID c) (worker_credentials (w_db v)) = filter (\<lambda>r. wc_ID r \<noteq> crd_ID c) (worker_credentials (w_db w)) \<and>
     (\<forall>ex \<in> set (worker_credentials (w_db w)). wc_ID ex = crd_ID c \<longrightarrow> crd_Environments c = grants_of (wc_ID ex) (w_db w))"
proof -
  from Bootstrap_Inr [OF assms] have rows: "\<forall>row \<in> set (worker_credentials (w_db v)). wc_ID row = crd_ID c \<longrightarrow> wc_TokenHash row = hashToken tok"
    by (auto simp: in_update_rows image_iff) metis
  have "crd_ID c' \<noteq> crd_ID c" if "hashToken old \<noteq> hashToken tok" "run (workercred_Verify old) v = (Inr c', v')" for old c' v'
    using workercred_Verify_Inr [OF that(2)] that(1) rows by (auto simp: workercred_fromRow_def)
  moreover from Bootstrap_Inr [OF assms] have "filter (\<lambda>r. wc_ID r \<noteq> crd_ID c) (worker_credentials (w_db v)) = filter (\<lambda>r. wc_ID r \<noteq> crd_ID c) (worker_credentials (w_db w))"
    by (auto simp: filter_update_rows_other image_iff filter_id_conv)
  moreover from Bootstrap_Inr [OF assms] have "\<forall>ex \<in> set (worker_credentials (w_db w)). wc_ID ex = crd_ID c \<longrightarrow> crd_Environments c = grants_of (wc_ID ex) (w_db w)"
    by (metis imageI)
  ultimately show ?thesis using rows by blast
qed

section \<open>At concrete tables\<close>

definition sample_token :: string where
  "sample_token = RawURLEncoding (replicate 32 0)"

lemma run_generateToken_sample: "tick w = n \<Longrightarrow> entropy w = (\<lambda>n k. Some (replicate k 0)) \<Longrightarrow> run generateToken w = (Inr sample_token, advance w)"
  by (simp add: generateToken_def tokenBytes_def sample_token_def run_bindE run_mapE)

definition no_workers :: world where
  "no_workers = sample_world ((sample_db [] [])\<lparr>worker_credentials := [], worker_credential_environments := []\<rparr>)"

lemma sample_worker_made:
  "\<exists>c v. run (workercred_Create 1 ''v'' [5]) no_workers = (Inr (c, sample_token), v) \<and> fault v = (\<lambda>_. None)"
  by (simp add: workercred_Create_def mint_def run_bindE run_mapE run_generateToken_sample no_workers_def sample_world_def
      CreateWorkerCredential_def GrantWorkerCredentialEnvironment_def Let_def insert_row_def violated_def sample_db_def)

theorem worker_token_roundtrip_witness:
  "\<exists>c v c' v'. run (workercred_Create 1 ''v'' [5]) no_workers = (Inr (c, sample_token), v) \<and>
     run (workercred_Verify sample_token) v = (Inr c', v') \<and> crd_ID c' = crd_ID c \<and> set (crd_Environments c') = {5}"
proof -
  obtain c v where made: "run (workercred_Create 1 ''v'' [5]) no_workers = (Inr (c, sample_token), v)" and f: "fault v = (\<lambda>_. None)"
    using sample_worker_made by blast
  have "grants_valid (w_db no_workers)" by (simp add: grants_valid_def no_workers_def sample_world_def)
  from worker_token_roundtrip [OF made this] f made show ?thesis by fastforce
qed

lemma sample_bootstrap:
  "\<exists>c v. run (Bootstrap 1 ''w'') (sample_world (sample_db [] [])) = (Inr (c, sample_token), v) \<and> crd_ID c = 8"
  by (simp add: Bootstrap_def GetWorkerCredentialByTenantAndName_def RotateWorkerCredentialToken_def ListWorkerCredentialEnvironments_def
      run_bindP run_bindE run_mapE run_generateToken_sample sample_world_def sample_db_def select_one_def update_one_def update_rows_def
      insert_row_def violated_def workercred_fromRow_def)

theorem Bootstrap_rotates_witness:
  "\<exists>c v. run (Bootstrap 1 ''w'') (sample_world (sample_db [] [])) = (Inr (c, sample_token), v) \<and>
     (\<forall>row \<in> set (worker_credentials (w_db v)). wc_ID row = 8 \<longrightarrow> wc_TokenHash row = hashToken sample_token)"
proof -
  obtain c v where run: "run (Bootstrap 1 ''w'') (sample_world (sample_db [] [])) = (Inr (c, sample_token), v)" and c: "crd_ID c = 8"
    using sample_bootstrap by blast
  from Bootstrap_rotates [OF run] c run show ?thesis by auto
qed
end
