(* ===== verification/Enrolment.thy ===== *)
theory Enrolment
  imports CredentialLife
begin

text \<open>
  Enrolling agents and logging in: no token leaves the control plane with more authority than its
  requester has.
\<close>

section \<open>The steps of an enrolment\<close>

lemma run_orResp: "run (orResp p k) w = (case run p w of (Inl r, v) \<Rightarrow> (r, v) | (Inr a, v) \<Rightarrow> run (k a) v)"
  by (auto simp: orResp_def run_bindP split: prod.splits sum.splits)

lemma environment_GetByName_Inr:
  "run (environment_GetByName t n) w = (Inr e, v) \<Longrightarrow>
     w_db v = w_db w \<and> (\<exists>r \<in> set (environments (w_db w)). en_ID r = e_ID e \<and> en_TenantID r = t)"
  by (auto simp: environment_GetByName_def GetEnvironmentByName_def environment_fromRow_def run_bindE run_mapE
      split: option.splits sum.splits prod.splits dest!: select_one_Inr)

definition in_scope :: "uuid_lib \<Rightarrow> Claims \<Rightarrow> uuid \<Rightarrow> bool" where
  "in_scope U claims e \<longleftrightarrow> (cl_Delegation claims \<noteq> None \<longrightarrow> PermitsEnvironment claims (uuid_String U e))"

lemma outside_scope_iff: "outside_scope U claims e \<longleftrightarrow> \<not> in_scope U claims e"
  by (auto simp: outside_scope_def in_scope_def)

lemma any_outside_iff: "any_outside U claims es \<longleftrightarrow> (\<exists>e \<in> set es. \<not> PermitsEnvironment claims (uuid_String U e))"
  by (induction es) auto

lemma resolveWorkerEnvironments_Inr:
  "run (resolveWorkerEnvironments U claims t ns) w = (Inr es :: 'b response + uuid list, v) \<Longrightarrow>
     w_db v = w_db w \<and> (\<forall>e \<in> set es. in_scope U claims e \<and>
       (\<exists>r \<in> set (environments (w_db w)). en_ID r = e \<and> en_TenantID r = t))"
proof (induction ns arbitrary: w es)
  case Nil
  then show ?case by simp
next
  case (Cons n ns)
  from Cons.prems obtain env u rest where get: "run (environment_GetByName t n) w = (Inr env, u)"
    and scope: "in_scope U claims (e_ID env)" and es: "es = e_ID env # rest"
    and rec: "run (resolveWorkerEnvironments U claims t ns) u = (Inr rest :: 'b response + uuid list, v)"
    by (auto simp: run_bindP outside_scope_iff split: prod.splits sum.splits if_splits)
  from environment_GetByName_Inr [OF get] Cons.IH [OF rec] scope show ?case by (auto simp: es)
qed

lemma resolveWorkerEnvironments_refuses:
  "run (resolveWorkerEnvironments U claims t ns) w = (Inl (Reply n b), v) \<Longrightarrow> False"
proof (induction ns arbitrary: w)
  case Nil
  then show ?case by simp
next
  case (Cons m ns)
  then show ?case by (auto simp: run_bindP split: prod.splits sum.splits if_splits)
qed

lemma actor_Create_Inr:
  assumes "run (actor_Create p) w = (Inr a, v)"
  shows "Tier_Valid (acp_TrustTier p) \<and> (\<exists>row. actors (w_db v) = actors (w_db w) @ [row] \<and>
     environments (w_db v) = environments (w_db w) \<and> a = actor_fromRow row \<and> ac_ID row \<notin> ac_ID ` set (actors (w_db w)) \<and>
     ac_TenantID row = acp_TenantID p \<and> ac_Type row = acp_Type p \<and> ac_TrustTier row = acp_TrustTier p \<and>
     ac_AuthorizedBy row = acp_AuthorizedBy p \<and> ac_ExpiresAt row = acp_ExpiresAt p \<and> ac_Status row = StatusActive)"
proof -
  from assms have v: "Tier_Valid (acp_TrustTier p)" by (auto simp: actor_Create_def split: if_splits)
  then have "int16_of (acp_TrustTier p) = acp_TrustTier p" by simp
  with assms v show ?thesis
    by (auto simp: actor_Create_def CreateActor_def Let_def insert_row_Inr run_bindE run_mapE
        split: if_splits option.splits sum.splits prod.splits)
qed

lemma GrantActorEnvironment_actors: "run (GrantActorEnvironment a e) w = (x, v) \<Longrightarrow> actors (w_db v) = actors (w_db w)"
  by (auto simp: GrantActorEnvironment_def split: option.splits sum.splits prod.splits)

lemma GrantEnvironment_actors: "run (GrantEnvironment a e) w = (x, v) \<Longrightarrow> actors (w_db v) = actors (w_db w)"
  by (auto simp: GrantEnvironment_def run_bindE run_mapE split: if_splits prod.splits sum.splits dest!: GrantActorEnvironment_actors)

lemma grant_environments_actors: "run (grant_environments a es) w = (x, v) \<Longrightarrow> actors (w_db v) = actors (w_db w)"
proof (induction es arbitrary: w)
  case Nil
  then show ?case by simp
next
  case (Cons e es)
  then show ?case
    by (auto simp: run_bindE split: prod.splits sum.splits dest!: GrantEnvironment_actors)
qed

lemma issuer_Issue_run:
  "run (issuer_Issue I req t) w =
     (Issue (is_jwt I) (is_key I) (clock w (tick w)) (uuid_String (is_uuid I) (rand w (Suc (tick w)))) req t, advance (advance w))"
  by (simp add: issuer_Issue_def run_bindP)

lemma team_GetByName_db: "run (team_GetByName t n) w = (x, v) \<Longrightarrow> w_db v = w_db w"
  by (auto simp: team_GetByName_def GetTeamByName_def run_bindE run_mapE
      split: option.splits sum.splits prod.splits)

section \<open>What an enrolment hands out\<close>

lemma replayAgent_Reply:
  assumes "run (replayAgent I claims t author existing) w = (Reply n resp, v)"
  shows "n = 200 \<and> act_TrustTier existing \<le> cl_Tier claims \<and> actors (w_db v) = actors (w_db w) \<and>
     (\<exists>es now jti ttl. (\<forall>e \<in> set es. in_scope (is_uuid I) claims e) \<and>
        Issue (is_jwt I) (is_key I) now jti (agent_request (is_uuid I) claims existing es ttl) (cl_Tier claims) = Inr (cap_Token resp))"
proof -
  from assms obtain es u tok u1 ev u2 where tier: "act_TrustTier existing \<le> cl_Tier claims" and n: "n = 200"
    and es: "run (actor_ListEnvironments (act_ID existing)) w = (Inr es, u)"
    and scope: "\<not> (cl_Delegation claims \<noteq> None \<and> any_outside (is_uuid I) claims es)"
    and re: "run (reissueAgentToken I claims existing es) u = (Inr tok, u1)"
    and log: "run (audit_Create (audit_of t author ''agent.token.reissued'')) u1 = (Inr ev, u2)"
    and resp: "cap_Token resp = tok" "v = u2"
    by (auto simp: replayAgent_def handler_simps split: if_splits prod.splits sum.splits)
  have "w_db u = w_db w" using es
    by (auto simp: actor_ListEnvironments_def ListActorEnvironments_def run_mapE split: option.splits sum.splits prod.splits)
  moreover have "w_db u1 = w_db u" "\<exists>now jti ttl. Issue (is_jwt I) (is_key I) now jti
      (agent_request (is_uuid I) claims existing es ttl) (cl_Tier claims) = Inr tok"
    using re by (auto simp: reissueAgentToken_def run_bindP run_mapE issuer_Issue_run split: option.splits sum.splits prod.splits)
  moreover have "actors (w_db u2) = actors (w_db u1)"
    using audit_Create_Inr [OF log] by (auto simp: logged_def)
  moreover have "\<forall>e \<in> set es. in_scope (is_uuid I) claims e" using scope by (auto simp: any_outside_iff in_scope_def)
  ultimately show ?thesis using n tier resp by auto
qed

lemma createAgent_Reply:
  assumes "run (createAgent I claims t author req tier ttl) w = (Reply n resp, v)"
  shows "n = 201 \<and> Tier_Valid tier \<and> (\<exists>row es now jti now' team. actors (w_db v) = actors (w_db w) @ [row] \<and>
     ac_TenantID row = t \<and> ac_Type row = ActorAgent \<and> ac_TrustTier row = tier \<and> ac_AuthorizedBy row = Some author \<and>
     ac_ExpiresAt row = Some (now' + sint ttl) \<and>
     (\<forall>e \<in> set es. in_scope (is_uuid I) claims e \<and> (\<exists>r \<in> set (environments (w_db w)). en_ID r = e \<and> en_TenantID r = t)) \<and>
     Issue (is_jwt I) (is_key I) now jti
       \<lparr>ir_TenantID = cl_TenantID claims, ir_ActorID = uuid_String (is_uuid I) (ac_ID row), ir_ActorType = ActorAgent,
        ir_Tier = tier, ir_Environments = map (uuid_String (is_uuid I)) es,
        ir_Delegation = Some \<lparr>AuthorizedBy = cl_ActorID claims, TeamID = team\<rparr>, ir_TTL = ttl\<rparr> (cl_Tier claims) = Inr (cap_Token resp))"
proof -
  let ?p = "\<lambda>now tm. \<lparr>acp_TenantID = t, acp_Type = ActorAgent, acp_Name = car_Name req, acp_TeamID = te_ID tm,
     acp_TrustTier = tier, acp_AuthorizedBy = Some author, acp_ExpiresAt = Some (now + sint ttl),
     acp_IdempotencyKey = (if car_IdempotencyKey req \<noteq> [] then Some (car_IdempotencyKey req) else None)\<rparr>"
  let ?r = "\<lambda>a es tm. \<lparr>ir_TenantID = cl_TenantID claims, ir_ActorID = uuid_String (is_uuid I) (act_ID a), ir_ActorType = ActorAgent,
     ir_Tier = tier, ir_Environments = map (uuid_String (is_uuid I)) es,
     ir_Delegation = Some \<lparr>AuthorizedBy = cl_ActorID claims, TeamID = uuid_String (is_uuid I) (te_ID tm)\<rparr>, ir_TTL = ttl\<rparr>"
  from assms obtain tm u1 es u2 a u3 x u4 tok u5 ev where n: "n = 201"
    and tm: "run (team_GetByName t (car_Team req)) w = (Inr tm, u1)"
    and es: "run (resolveWorkerEnvironments (is_uuid I) claims t (car_Environments req)) u1 = (Inr es :: createAgentResponse response + uuid list, u2)"
    and a: "run (actor_Create (?p (clock u2 (tick u2)) tm)) (advance u2) = (Inr a, u3)"
    and gr: "run (grant_environments (act_ID a) es) u3 = (Inr x, u4)"
    and tok: "run (issuer_Issue I (?r a es tm) (cl_Tier claims)) u4 = (Inr tok, u5)"
    and log: "run (audit_Create (audit_of t author ''agent.enrolled'')) u5 = (Inr ev, v)" and resp: "cap_Token resp = tok"
    by (auto simp: createAgent_def handler_simps run_orResp run_bindP split: prod.splits sum.splits
        dest: resolveWorkerEnvironments_refuses)
  from team_GetByName_db [OF tm] resolveWorkerEnvironments_Inr [OF es] have u2: "w_db u2 = w_db w"
    and scope: "\<forall>e \<in> set es. in_scope (is_uuid I) claims e \<and> (\<exists>r \<in> set (environments (w_db w)). en_ID r = e \<and> en_TenantID r = t)"
    by auto
  from tok have db5: "w_db u5 = w_db u4" by (auto simp: issuer_Issue_run)
  from tok obtain now jti where iss: "Issue (is_jwt I) (is_key I) now jti (?r a es tm) (cl_Tier claims) = Inr tok"
    by (auto simp: issuer_Issue_run)
  from audit_Create_Inr [OF log] grant_environments_actors [OF gr] db5 have acts: "actors (w_db v) = actors (w_db u3)"
    by (auto simp: logged_def)
  from actor_Create_Inr [OF a] u2 obtain row where "Tier_Valid tier" "actors (w_db u3) = actors (w_db w) @ [row]"
    "a = actor_fromRow row" "ac_TenantID row = t" "ac_Type row = ActorAgent" "ac_TrustTier row = tier"
    "ac_AuthorizedBy row = Some author" "ac_ExpiresAt row = Some (clock u2 (tick u2) + sint ttl)"
    by auto
  moreover from this iss have "Issue (is_jwt I) (is_key I) now jti
       \<lparr>ir_TenantID = cl_TenantID claims, ir_ActorID = uuid_String (is_uuid I) (ac_ID row), ir_ActorType = ActorAgent,
        ir_Tier = tier, ir_Environments = map (uuid_String (is_uuid I)) es,
        ir_Delegation = Some \<lparr>AuthorizedBy = cl_ActorID claims, TeamID = uuid_String (is_uuid I) (te_ID tm)\<rparr>,
        ir_TTL = ttl\<rparr> (cl_Tier claims) = Inr tok"
    by (simp add: actor_fromRow_def)
  ultimately show ?thesis using n acts scope resp by metis
qed

lemma handlePostAgents_Reply:
  assumes "run (handlePostAgents I body ctx) w = (Reply n resp, w')"
  shows "\<exists>claims tier t author u. ctx = Some claims \<and> cl_ActorType claims \<noteq> ActorAgent \<and>
     uuid_Parse (is_uuid I) (cl_TenantID claims) = Inr t \<and> uuid_Parse (is_uuid I) (cl_ActorID claims) = Inr author \<and>
     tier \<le> cl_Tier claims \<and> w_db u = w_db w \<and>
     ((\<exists>existing. run (replayAgent I claims t author existing) u = (Reply n resp, w')) \<or>
      (\<exists>req ttl. body = Some req \<and> map_of tierNames (car_Tier req) = Some tier \<and>
         ttl = car_TTLSeconds req * time_Second \<and> 0 < sint (car_TTLSeconds req) \<and> sint ttl \<le> sint maxAgentTTL \<and>
         run (createAgent I claims t author req tier ttl) u = (Reply n resp, w')))"
proof -
  from assms obtain claims tier t author req where c: "ctx = Some claims" "cl_ActorType claims \<noteq> ActorAgent"
    "uuid_Parse (is_uuid I) (cl_TenantID claims) = Inr t" "uuid_Parse (is_uuid I) (cl_ActorID claims) = Inr author"
    "tier \<le> cl_Tier claims" "body = Some req" "map_of tierNames (car_Tier req) = Some tier"
    "0 < sint (car_TTLSeconds req)" "sint (car_TTLSeconds req * time_Second) \<le> sint maxAgentTTL"
    and r: "run (if car_IdempotencyKey req = [] then createAgent I claims t author req tier (car_TTLSeconds req * time_Second)
       else bindP (GetByIdempotencyKey t author (car_IdempotencyKey req)) (\<lambda>r. case r of
         Inr existing \<Rightarrow> replayAgent I claims t author existing
       | Inl e \<Rightarrow> if \<not> errors_Is e actor_ErrNotFound then Done internalError
           else createAgent I claims t author req tier (car_TTLSeconds req * time_Second))) w = (Reply n resp, w')"
    by (auto simp: handlePostAgents_def Let_def handler_simps not_le not_less split: option.splits sum.splits if_splits)
  obtain x u where key: "run (GetByIdempotencyKey t author (car_IdempotencyKey req)) w = (x, u)" by force
  then have "w_db u = w_db w"
    by (auto simp: GetByIdempotencyKey_def GetActorByIdempotencyKey_def run_bindE run_mapE split: option.splits sum.splits prod.splits)
  with c r key show ?thesis
    by (intro exI [of _ claims] exI [of _ tier] exI [of _ t] exI [of _ author])
       (auto simp: run_bindP split: if_splits sum.splits)
qed

lemma Issue_signed:
  "Issue L key now jti req issuerTier = Inr tok \<Longrightarrow> ir_Tier req \<le> issuerTier \<and> Tier_Valid (ir_Tier req) \<and> 0 < sint (ir_TTL req) \<and>
     jwt_SignedString L key (issue_claims L now jti req) = Inr tok"
  using Issue_Inr [of L key now jti req issuerTier tok] by blast

lemma int16_le: "tier \<le> t \<Longrightarrow> x = tier \<Longrightarrow> x \<le> (t :: int)"
  by simp

lemma agent_token_issued:
  assumes h: "(\<exists>existing. run (replayAgent I claims t author existing) u = (Reply n resp, w')) \<or>
      (\<exists>req ttl. run (createAgent I claims t author req tier ttl) u = (Reply n resp, w'))"
  shows "\<exists>req now jti. Issue (is_jwt I) (is_key I) now jti req (cl_Tier claims) = Inr (cap_Token resp) \<and>
     ir_ActorType req = ActorAgent \<and> ir_TenantID req = cl_TenantID claims \<and>
     map_option AuthorizedBy (ir_Delegation req) = Some (cl_ActorID claims) \<and>
     (\<exists>es. ir_Environments req = map (uuid_String (is_uuid I)) es \<and> (\<forall>e \<in> set es. in_scope (is_uuid I) claims e))"
  using h
proof
  assume "\<exists>existing. run (replayAgent I claims t author existing) u = (Reply n resp, w')"
  then obtain existing where "run (replayAgent I claims t author existing) u = (Reply n resp, w')" ..
  from replayAgent_Reply [OF this] obtain es now jti ttl where "\<forall>e \<in> set es. in_scope (is_uuid I) claims e"
    "Issue (is_jwt I) (is_key I) now jti (agent_request (is_uuid I) claims existing es ttl) (cl_Tier claims) = Inr (cap_Token resp)"
    by blast
  then show ?thesis
    by (intro exI [of _ "agent_request (is_uuid I) claims existing es ttl"]) (auto simp: agent_request_def)
next
  assume "\<exists>req ttl. run (createAgent I claims t author req tier ttl) u = (Reply n resp, w')"
  then obtain req ttl where "run (createAgent I claims t author req tier ttl) u = (Reply n resp, w')" by blast
  from createAgent_Reply [OF this] obtain es now jti team and row :: actor_row where "\<forall>e \<in> set es. in_scope (is_uuid I) claims e"
    "Issue (is_jwt I) (is_key I) now jti
     \<lparr>ir_TenantID = cl_TenantID claims, ir_ActorID = uuid_String (is_uuid I) (ac_ID row), ir_ActorType = ActorAgent,
      ir_Tier = tier, ir_Environments = map (uuid_String (is_uuid I)) es,
      ir_Delegation = Some \<lparr>AuthorizedBy = cl_ActorID claims, TeamID = team\<rparr>, ir_TTL = ttl\<rparr> (cl_Tier claims) = Inr (cap_Token resp)"
    by blast
  then show ?thesis
    by (intro exI [of _ "\<lparr>ir_TenantID = cl_TenantID claims, ir_ActorID = uuid_String (is_uuid I) (ac_ID row), ir_ActorType = ActorAgent,
        ir_Tier = tier, ir_Environments = map (uuid_String (is_uuid I)) es,
        ir_Delegation = Some \<lparr>AuthorizedBy = cl_ActorID claims, TeamID = team\<rparr>, ir_TTL = ttl\<rparr>"]) auto
qed


text \<open>
  Whoever an agent answers to and how long it lives is stored.  A 201 stores one new active
  agent row of the caller's tenant, authorized by the caller, with the tier of the request, that
  expires after the lifetime computed from the request, a positive one of at most 30 days.
\<close>

theorem enrolled_agent_stored:
  assumes "run (handlePostAgents I (Some req) ctx) w = (Reply 201 resp, w')"
  shows "\<exists>claims t author row now. ctx = Some claims \<and> uuid_Parse (is_uuid I) (cl_TenantID claims) = Inr t \<and>
     uuid_Parse (is_uuid I) (cl_ActorID claims) = Inr author \<and> actors (w_db w') = actors (w_db w) @ [row] \<and>
     ac_TenantID row = t \<and> ac_Type row = ActorAgent \<and> ac_AuthorizedBy row = Some author \<and>
     map_of tierNames (car_Tier req) = Some (ac_TrustTier row) \<and> ac_TrustTier row \<le> cl_Tier claims \<and>
     ac_ExpiresAt row = Some (now + sint (car_TTLSeconds req * time_Second)) \<and>
     0 < sint (car_TTLSeconds req * time_Second) \<and> sint (car_TTLSeconds req * time_Second) \<le> 30 * 24 * 3600 * 10 ^ 9"
proof -
  from handlePostAgents_Reply [OF assms] obtain claims tier t author u where
    c: "ctx = Some claims" "uuid_Parse (is_uuid I) (cl_TenantID claims) = Inr t" "uuid_Parse (is_uuid I) (cl_ActorID claims) = Inr author"
      "tier \<le> cl_Tier claims" "w_db u = w_db w"
    and h: "(\<exists>existing. run (replayAgent I claims t author existing) u = (Reply 201 resp, w')) \<or>
      (map_of tierNames (car_Tier req) = Some tier \<and> sint (car_TTLSeconds req * time_Second) \<le> sint maxAgentTTL \<and>
         run (createAgent I claims t author req tier (car_TTLSeconds req * time_Second)) u = (Reply 201 resp, w'))" by blast
  have "\<not> (\<exists>existing. run (replayAgent I claims t author existing) u = (Reply 201 resp, w'))"
    using replayAgent_Reply by fastforce
  with h have tier: "map_of tierNames (car_Tier req) = Some tier"
    and max: "sint (car_TTLSeconds req * time_Second) \<le> sint maxAgentTTL"
    and cr: "run (createAgent I claims t author req tier (car_TTLSeconds req * time_Second)) u = (Reply 201 resp, w')" by blast+
  have "sint maxAgentTTL = 30 * 24 * 3600 * 10 ^ 9" by (simp add: maxAgentTTL_def)
  with max have max': "sint (car_TTLSeconds req * time_Second) \<le> 30 * 24 * 3600 * 10 ^ 9" by simp
  from createAgent_Reply [OF cr] obtain now and row :: actor_row where row: "actors (w_db w') = actors (w_db w) @ [row]" "ac_TenantID row = t"
      "ac_Type row = ActorAgent" "ac_TrustTier row = tier" "ac_AuthorizedBy row = Some author"
      "ac_ExpiresAt row = Some (now + sint (car_TTLSeconds req * time_Second))" and pos: "0 < sint (car_TTLSeconds req * time_Second)"
    unfolding c(5) by (metis Issue_signed IssueRequest.select_convs(7))
  show ?thesis
    by (intro exI [of _ claims] exI [of _ t] exI [of _ author] exI [of _ row] exI [of _ now] conjI)
       (use c row pos max' tier in simp_all)
qed

section \<open>Logging in\<close>

lemma credential_Verify_cases:
  assumes "run (credential_Verify B n p) w = (x, v)"
  shows "w_db v = w_db w \<and>
     (\<forall>a. x = Inr a \<longrightarrow> (\<exists>u \<in> set (local_users (w_db w)). lu_Username u = n \<and> lu_ActorID u = a \<and> bcrypt_Compare B (lu_PasswordHash u) p)) \<and>
     (\<forall>e. x = Inl e \<and> fault w (tick w) = None \<longrightarrow> errors_Is e credential_ErrNotFound \<or> errors_Is e credential_ErrIncorrectPassword)"
  using assms
  by (auto simp: credential_Verify_def GetLocalUserByUsername_def run_bindE run_mapE notFound_def select_one_Inl
      split: option.splits sum.splits prod.splits if_splits dest!: select_one_Inr)

lemma actor_Get_Inr:
  "run (actor_Get i) w = (Inr a, v) \<Longrightarrow> w_db v = w_db w \<and> (\<exists>r \<in> set (actors (w_db w)). ac_ID r = i \<and> a = actor_fromRow r)"
  by (auto simp: actor_Get_def GetActor_def run_bindE run_mapE split: option.splits sum.splits prod.splits dest!: select_one_Inr)

text \<open>
  C33.  A login needs the password of an active actor, and its refusal tells nothing.  A token is
  answered only when a stored user has the name and the hash of the password and its actor is
  active; it is signed for that actor's own tenant and tier, for eight hours.  When no stored user
  has both, the answer is the same 401 whether the name is unknown or the password is wrong, and the
  tables are as before.
\<close>

theorem login_correct:
  assumes "run (handlePostToken B I (Some req)) w = (resp, w')"
  shows "(\<forall>n tok. resp = Reply n tok \<longrightarrow> (\<exists>u \<in> set (local_users (w_db w)). \<exists>a \<in> set (actors (w_db w)). \<exists>now jti.
       lu_Username u = tkr_Username req \<and> bcrypt_Compare B (lu_PasswordHash u) (tkr_Password req) \<and>
       ac_ID a = lu_ActorID u \<and> ac_Status a = StatusActive \<and>
       jwt_SignedString (is_jwt I) (is_key I) (issue_claims (is_jwt I) now jti
         \<lparr>ir_TenantID = uuid_String (is_uuid I) (ac_TenantID a), ir_ActorID = uuid_String (is_uuid I) (ac_ID a),
          ir_ActorType = ac_Type a, ir_Tier = ac_TrustTier a, ir_Environments = [], ir_Delegation = None,
          ir_TTL = tokenTTL\<rparr>) = Inr tok)) \<and>
     (tkr_Username req \<noteq> [] \<and> tkr_Password req \<noteq> [] \<and> fault w (tick w) = None \<and>
        (\<forall>u \<in> set (local_users (w_db w)). lu_Username u = tkr_Username req \<longrightarrow> \<not> bcrypt_Compare B (lu_PasswordHash u) (tkr_Password req)) \<longrightarrow>
        resp = unauthorized \<and> w_db w' = w_db w)"
proof -
  obtain x v where ver: "run (credential_Verify B (tkr_Username req) (tkr_Password req)) w = (x, v)" by force
  note c = credential_Verify_cases [OF ver]
  have "resp = unauthorized \<and> w_db w' = w_db w"
    if "tkr_Username req \<noteq> []" "tkr_Password req \<noteq> []" "fault w (tick w) = None"
      "\<forall>u \<in> set (local_users (w_db w)). lu_Username u = tkr_Username req \<longrightarrow> \<not> bcrypt_Compare B (lu_PasswordHash u) (tkr_Password req)"
  proof -
    from c that obtain e where "x = Inl e" "errors_Is e credential_ErrNotFound \<or> errors_Is e credential_ErrIncorrectPassword"
      by (cases x) blast+
    with assms that(1,2) ver c show ?thesis by (auto simp: handlePostToken_def handler_simps)
  qed
  moreover have "\<exists>u \<in> set (local_users (w_db w)). \<exists>a \<in> set (actors (w_db w)). \<exists>now jti.
       lu_Username u = tkr_Username req \<and> bcrypt_Compare B (lu_PasswordHash u) (tkr_Password req) \<and>
       ac_ID a = lu_ActorID u \<and> ac_Status a = StatusActive \<and>
       jwt_SignedString (is_jwt I) (is_key I) (issue_claims (is_jwt I) now jti
         (root_request (is_uuid I) (ac_TenantID a) (ac_ID a) (ac_Type a) (ac_TrustTier a))) = Inr tok"
    if "resp = Reply n tok" for n tok
  proof -
    from assms that ver obtain i a u2 u3 where x: "x = Inr i" and a: "run (actor_Get i) v = (Inr a, u2)"
      and st: "act_Status a = StatusActive" and tok: "run (issuer_Issue I (root_request (is_uuid I) (act_TenantID a) (act_ID a) (act_Type a) (act_TrustTier a)) (act_TrustTier a)) u2 = (Inr tok, u3)"
      by (auto simp: handlePostToken_def handler_simps unauthorized_def internalError_def split: if_splits sum.splits prod.splits)
    from c x obtain u where u: "u \<in> set (local_users (w_db w))" "lu_Username u = tkr_Username req" "lu_ActorID u = i"
      "bcrypt_Compare B (lu_PasswordHash u) (tkr_Password req)" by blast
    from actor_Get_Inr [OF a] c obtain r where r: "r \<in> set (actors (w_db w))" "ac_ID r = i" "a = actor_fromRow r" by auto
    from tok have "\<exists>now jti. jwt_SignedString (is_jwt I) (is_key I) (issue_claims (is_jwt I) now jti
         (root_request (is_uuid I) (act_TenantID a) (act_ID a) (act_Type a) (act_TrustTier a))) = Inr tok"
      by (auto simp: issuer_Issue_run dest: Issue_signed)
    with u r st show ?thesis
      by (intro bexI [OF _ u(1)] bexI [OF _ r(1)]) (auto simp: actor_fromRow_def)
  qed
  ultimately show ?thesis unfolding root_request_def by blast
qed

section \<open>At concrete tables\<close>

definition sample_issuer :: issuer where
  "sample_issuer = \<lparr>is_jwt = sample_jwt, is_key = [], is_uuid = sample_uuid\<rparr>"

definition sample_enrolment :: "int64 \<Rightarrow> createAgentRequest" where
  "sample_enrolment ttl = \<lparr>car_Name = ''bot'', car_Team = ''default'', car_Tier = ''human_in_the_loop'',
     car_Environments = [''prod''], car_TTLSeconds = ttl, car_IdempotencyKey = []\<rparr>"

abbreviation sample_enrol :: "int64 \<Rightarrow> createAgentResponse response \<times> world" where
  "sample_enrol ttl \<equiv> run (handlePostAgents sample_issuer (Some (sample_enrolment ttl)) (Some (sample_claims ''3'' TierAutonomous)))
     (sample_world (sample_db [] []))"


lemma sample_enrolled: "reply_code (fst (sample_enrol 3600)) = 201"
  by code_simp

lemma sample_enrolled_run: "\<exists>resp w'. sample_enrol 3600 = (Reply 201 resp, w')"
  using reply_code_Reply [OF sample_enrolled] by (metis prod.collapse zero_neq_numeral)


theorem enrolled_agent_stored_witness:
  "\<exists>resp w' (row::actor_row). sample_enrol 3600 = (Reply 201 resp, w') \<and> row \<in> set (actors (w_db w')) \<and>
     ac_AuthorizedBy row = Some 3 \<and> ac_TrustTier row = TierHumanInTheLoop"
proof -
  obtain resp w' where run: "sample_enrol 3600 = (Reply 201 resp, w')" using sample_enrolled_run by blast
  from enrolled_agent_stored [OF run] obtain row where "actors (w_db w') = actors (w_db (sample_world (sample_db [] []))) @ [row]"
    "ac_AuthorizedBy row = Some 3" "ac_TrustTier row = TierHumanInTheLoop"
    by (auto simp: sample_claims_def sample_issuer_def sample_uuid_def sample_enrolment_def tierNames_def)
  with run show ?thesis by auto
qed

definition plain_bcrypt :: bcrypt_lib where
  "plain_bcrypt = \<lparr>bcrypt_Generate = (\<lambda>n pw. Inr pw), bcrypt_Compare = (\<lambda>h pw. h = pw)\<rparr>"

definition login_world :: world where
  "login_world = sample_world ((sample_db [] [])\<lparr>local_users := [\<lparr>lu_ActorID = 3, lu_Username = ''ann'', lu_PasswordHash = ''pw'', lu_CreatedAt = 0\<rparr>]\<rparr>)"

lemma sample_login: "reply_code (fst (run (handlePostToken plain_bcrypt sample_issuer (Some \<lparr>tkr_Username = ''ann'', tkr_Password = ''pw''\<rparr>)) login_world)) = 200"
  by code_simp

theorem login_correct_witness:
  "\<exists>tok w'. run (handlePostToken plain_bcrypt sample_issuer (Some \<lparr>tkr_Username = ''ann'', tkr_Password = ''pw''\<rparr>)) login_world = (Reply 200 tok, w') \<and>
     fst (run (handlePostToken plain_bcrypt sample_issuer (Some \<lparr>tkr_Username = ''ann'', tkr_Password = ''x''\<rparr>)) login_world) = unauthorized \<and>
     (\<exists>a \<in> set (actors (w_db login_world)). ac_Status a = StatusActive)"
proof -
  obtain tok w' where ok: "run (handlePostToken plain_bcrypt sample_issuer (Some \<lparr>tkr_Username = ''ann'', tkr_Password = ''pw''\<rparr>)) login_world = (Reply 200 tok, w')"
    using reply_code_Reply [OF sample_login] by (metis prod.collapse zero_neq_numeral)
  obtain resp v where bad: "run (handlePostToken plain_bcrypt sample_issuer (Some \<lparr>tkr_Username = ''ann'', tkr_Password = ''x''\<rparr>)) login_world = (resp, v)"
    by force
  from login_correct [OF bad] have "resp = unauthorized"
    by (auto simp: login_world_def sample_world_def plain_bcrypt_def)
  with login_correct [OF ok] ok bad show ?thesis by auto
qed
end
