(* ===== verification/StoreGuarantees.thy ===== *)
theory StoreGuarantees
  imports Enrolment Instance
begin

text \<open>
  What the smaller stores promise: replicas agree on the signing key, a run is charged once, the
  most specific rate applies, and only the claiming worker completes a verification.
\<close>

section \<open>The signing key\<close>

text \<open>
  However many instances start at once, they sign with one key.  In every interleaving of any
  number of \<open>LoadOrCreate\<close> calls over one database, with any generators and any lost statements, all
  calls that have returned returned the same key, the one that is stored; a key stored beforehand
  is the one they return.
\<close>

theorem keys_agree:
  assumes sched: "(sched (range signingkey_LoadOrCreate))\<^sup>*\<^sup>* ([], w) (ps, w')"
    and one: "i < length ps" "ps ! i = Done (Inr k)" and two: "j < length ps" "ps ! j = Done (Inr k')"
  shows "k = k' \<and> the_key k (w_db w') \<and> (\<forall>k0. the_key k0 (w_db w) \<longrightarrow> k = k0)"
proof -
  let ?Q = "\<lambda>(x :: string res) (v :: world). \<forall>k. x = Inr k \<longrightarrow> the_key k (w_db v)"
  have hist: "on_db key_history w w' \<and> (\<forall>p \<in> set ps. rg (on_db key_history) (on_db key_history) ?Q p w')"
    by (rule sched_sound [OF kh.on_R(2,1) _ sched]) (auto intro: rg_LoadOrCreate)
  have refl: "on_db key_history w' w'" by (simp add: on_db_def)
  have key: "the_key x (w_db w')" if "n < length ps" "ps ! n = Done (Inr x)" for n x
  proof -
    from that have "Done (Inr x) \<in> set ps" by (metis nth_mem)
    with hist have "rg (on_db key_history) (on_db key_history) ?Q (Done (Inr x)) w'" by blast
    with refl show ?thesis by simp
  qed
  from key [OF one] key [OF two] have "k = k'" by (rule the_key_unique)
  moreover have "k = k0" if "the_key k0 (w_db w)" for k0
    using the_key_stable [OF that] hist key [OF one] the_key_unique by (auto simp: on_db_def)
  ultimately show ?thesis using key [OF one] by blast
qed

lemma sample_keys:
  "run (signingkey_LoadOrCreate (\<lambda>b. ''k'')) (sample_world empty_db) =
     (Inr ''k'', (advance ^^ 3) (sample_world (empty_db\<lparr>signing_keys := [\<lparr>sk_PrivateKey = ''k'', sk_CreatedAt = 2\<rparr>]\<rparr>)))"
  "run (signingkey_LoadOrCreate (\<lambda>b. ''l'')) ((advance ^^ 3) (sample_world (empty_db\<lparr>signing_keys := [\<lparr>sk_PrivateKey = ''k'', sk_CreatedAt = 2\<rparr>]\<rparr>))) =
     (Inr ''k'', (advance ^^ 4) (sample_world (empty_db\<lparr>signing_keys := [\<lparr>sk_PrivateKey = ''k'', sk_CreatedAt = 2\<rparr>]\<rparr>)))"
  by (simp_all add: signingkey_LoadOrCreate_def GetSigningKey_def CreateSigningKey_def GenerateKeyPair_def select_one_def Let_def
      run_bindP run_bindE run_mapE sample_world_def empty_db_def insert_row_def violated_def eval_nat_numeral advance_def)

theorem keys_agree_witness:
  "\<exists>ps w'. (sched (range signingkey_LoadOrCreate))\<^sup>*\<^sup>* ([], sample_world empty_db) (ps, w') \<and>
     ps = [Done (Inr ''k''), Done (Inr ''k'')] \<and> the_key ''k'' (w_db w')"
proof -
  let ?S = "range signingkey_LoadOrCreate"
  let ?w = "(advance ^^ 3) (sample_world (empty_db\<lparr>signing_keys := [\<lparr>sk_PrivateKey = ''k'', sk_CreatedAt = 2\<rparr>]\<rparr>))"
  have 1: "(sched ?S)\<^sup>*\<^sup>* ([], sample_world empty_db) ([Done (Inr ''k'')], ?w)"
    using sched_run [of "signingkey_LoadOrCreate (\<lambda>b. ''k'')" ?S "[]" "sample_world empty_db"] sample_keys(1) by simp
  have 2: "(sched ?S)\<^sup>*\<^sup>* ([Done (Inr ''k'')], ?w) ([Done (Inr ''k''), Done (Inr ''k'')], snd (run (signingkey_LoadOrCreate (\<lambda>b. ''l'')) ?w))"
    using sched_run [of "signingkey_LoadOrCreate (\<lambda>b. ''l'')" ?S "[Done (Inr ''k'')]" ?w] sample_keys(2) by simp
  from 1 2 have all: "(sched ?S)\<^sup>*\<^sup>* ([], sample_world empty_db) ([Done (Inr ''k''), Done (Inr ''k'')], snd (run (signingkey_LoadOrCreate (\<lambda>b. ''l'')) ?w))"
    by (rule rtranclp_trans)
  have "the_key ''k'' (w_db (snd (run (signingkey_LoadOrCreate (\<lambda>b. ''l'')) ?w)))"
    using keys_agree [OF all, of 0 "''k''" 1 "''k''"] by simp
  with all show ?thesis by blast
qed

section \<open>Charging a run once\<close>

definition ci_cost :: "uuid \<Rightarrow> run_cost_row \<Rightarrow> bool" where
  "ci_cost i r \<longleftrightarrow> rc_RunID r = i \<and> rc_Source r = SourceCIDuration"

lemma findRate_db: "run (findRate t e p) w = (x, v) \<Longrightarrow> w_db v = w_db w"
  by (auto simp: findRate_def FindCostRate_def run_bindP split: option.splits sum.splits prod.splits if_splits)

lemma CreateRunCost_cases:
  assumes "run (CreateRunCost i SourceCIDuration dur amt cur) w = (x, v)"
  shows "(\<forall>row. x = Inr row \<longrightarrow> (\<forall>r \<in> set (run_costs (w_db w)). \<not> ci_cost i r) \<and> run_costs (w_db v) = run_costs (w_db w) @ [row] \<and>
            ci_cost i row \<and> rc_DurationMs row = dur \<and> rc_AmountMicros row = amt \<and> rc_Currency row = cur) \<and>
     (\<forall>e. x = Inl e \<longrightarrow> w_db v = w_db w)"
  using assms
  by (auto simp: CreateRunCost_def Let_def ci_cost_def insert_row_Inr split: option.splits sum.splits prod.splits if_splits)

lemma CaptureCIDuration_Inr:
  assumes "run (CaptureCIDuration t i e p s f) w = (Inr c, v)"
  shows "\<exists>row \<in> set (run_costs (w_db v)). ci_cost i row \<and> c = fromRunCostRow row \<and>
     (run_costs (w_db v) = run_costs (w_db w) \<or>
      (\<forall>r \<in> set (run_costs (w_db w)). \<not> ci_cost i r) \<and> run_costs (w_db v) = run_costs (w_db w) @ [row])"
proof -
  let ?d = "word_of_int (Milliseconds (time_Sub f s)) :: int64"
  from assms obtain rate u x u2 amt cur where rate: "run (findRate t e p) w = (Inr rate, u)"
    and cr: "run (CreateRunCost i SourceCIDuration (Some ?d) amt cur) u = (x, u2)"
    and rest: "case x of Inr row \<Rightarrow> v = u2 \<and> c = fromRunCostRow row
      | Inl e \<Rightarrow> \<exists>ex. run (GetRunCostByRunAndSource i SourceCIDuration) u2 = (Inr ex, v) \<and> c = fromRunCostRow ex"
    by (auto simp: CaptureCIDuration_def Let_def run_bindP run_bindE run_mapE split: if_splits sum.splits prod.splits)
  show ?thesis
  proof (cases x)
    case (Inr row)
    with CreateRunCost_cases [OF cr] findRate_db [OF rate] rest show ?thesis by auto
  next
    case (Inl e)
    with rest obtain ex where get: "run (GetRunCostByRunAndSource i SourceCIDuration) u2 = (Inr ex, v)" "c = fromRunCostRow ex" by auto
    then have "w_db v = w_db u2 \<and> ex \<in> set (run_costs (w_db u2)) \<and> ci_cost i ex"
      by (auto simp: GetRunCostByRunAndSource_def ci_cost_def split: option.splits dest: select_one_Inr)
    with CreateRunCost_cases [OF cr] Inl findRate_db [OF rate] get(2) show ?thesis by auto
  qed
qed

text \<open>
  C36.  A run is charged for its CI time once.  Capturing the duration of a run whose cost is
  already stored, by a retry, another worker report or with other times and rates, returns the
  stored cost and leaves the table as it is.
\<close>

theorem cost_captured_once:
  assumes one: "length (filter (ci_cost i) (run_costs (w_db w))) \<le> 1"
    and first: "run (CaptureCIDuration t i e p s f) w = (Inr c, v)"
    and again: "run (CaptureCIDuration t' i e' p' s' f') v = (Inr c', v')"
  shows "c' = c \<and> run_costs (w_db v') = run_costs (w_db v) \<and> length (filter (ci_cost i) (run_costs (w_db v))) = 1"
proof -
  from CaptureCIDuration_Inr [OF first] obtain row where row: "row \<in> set (run_costs (w_db v))" "ci_cost i row" "c = fromRunCostRow row"
    and costs: "run_costs (w_db v) = run_costs (w_db w) \<or>
      (\<forall>r \<in> set (run_costs (w_db w)). \<not> ci_cost i r) \<and> run_costs (w_db v) = run_costs (w_db w) @ [row]" by blast
  have "length (filter (ci_cost i) (run_costs (w_db v))) \<le> 1"
    using costs one row(2) by (auto simp: filter_empty_conv [THEN iffD2])
  moreover have mem: "row \<in> set (filter (ci_cost i) (run_costs (w_db v)))" using row by simp
  ultimately have single: "filter (ci_cost i) (run_costs (w_db v)) = [row]"
    by (cases "filter (ci_cost i) (run_costs (w_db v))") auto
  from CaptureCIDuration_Inr [OF again] row obtain row' where "row' \<in> set (run_costs (w_db v'))" "ci_cost i row'"
    "c' = fromRunCostRow row'" "run_costs (w_db v') = run_costs (w_db v)" by blast
  moreover from this have "row' \<in> set (filter (ci_cost i) (run_costs (w_db v)))" by simp
  then have "row' = row" unfolding single by simp
  ultimately show ?thesis using row single by simp
qed

definition sample_running :: world where
  "sample_running = sample_world ((sample_db [sample_run 9 TierAutonomous StatusExecuting (Some 8)] [])
     \<lparr>cost_rates := [\<lparr>cr_ID = 1, cr_TenantID = 1, cr_EnvironmentID = None, cr_CiProvider = None, cr_RateMicrosPerMs = 7,
                      cr_Currency = ''USD'', cr_CreatedAt = 0\<rparr>,
                     \<lparr>cr_ID = 2, cr_TenantID = 1, cr_EnvironmentID = Some 5, cr_CiProvider = None, cr_RateMicrosPerMs = 9,
                      cr_Currency = ''EUR'', cr_CreatedAt = 0\<rparr>]\<rparr>)"

lemma is_Inr_run: "(\<exists>b. fst (run p w) = Inr b) \<Longrightarrow> \<exists>b v. run p w = (Inr b, v)"
  by (metis prod.collapse)

lemma sample_captured:
  "map_option rcs_AmountMicros (case fst (run (CaptureCIDuration 1 9 5 ''github_actions'' 0 2500000000) sample_running) of Inl e \<Rightarrow> None | Inr c \<Rightarrow> Some c) = Some (Some 22500)"
  "(case snd (run (CaptureCIDuration 1 9 5 ''github_actions'' 0 2500000000) sample_running) of
      v \<Rightarrow> case fst (run (CaptureCIDuration 1 9 5 ''github_actions'' 0 9900000000) v) of Inl e \<Rightarrow> False | Inr c \<Rightarrow> True)"
  by code_simp+

theorem cost_captured_once_witness:
  "\<exists>c v c' v'. run (CaptureCIDuration 1 9 5 ''github_actions'' 0 2500000000) sample_running = (Inr c, v) \<and>
     run (CaptureCIDuration 1 9 5 ''github_actions'' 0 9900000000) v = (Inr c', v') \<and> c' = c"
proof -
  obtain c v where first: "run (CaptureCIDuration 1 9 5 ''github_actions'' 0 2500000000) sample_running = (Inr c, v)"
    using sample_captured(1) by (auto split: sum.splits) (metis prod.collapse)
  with sample_captured(2) obtain c' v' where again: "run (CaptureCIDuration 1 9 5 ''github_actions'' 0 9900000000) v = (Inr c', v')"
    by (auto split: sum.splits) (metis prod.collapse)
  have "length (filter (ci_cost 9) (run_costs (w_db sample_running))) \<le> 1"
    by (simp add: sample_running_def sample_world_def sample_db_def empty_db_def)
  from cost_captured_once [OF this first again] first again show ?thesis by blast
qed

text \<open>
  The rate of a run is the most specific one.  The rate found covers the run, and none that
  covers it is more specific (environment before provider before the tenant's default); no rate is
  found exactly when none covers it.
\<close>

theorem findRate_most_specific:
  assumes "run (findRate t e p) w = (Inr x, v)"
  shows "case x of
       None \<Rightarrow> \<forall>r \<in> set (cost_rates (w_db w)). \<not> rate_matches t e (if p \<noteq> [] then Some p else None) r
     | Some r \<Rightarrow> r \<in> set (cost_rates (w_db w)) \<and> rate_matches t e (if p \<noteq> [] then Some p else None) r \<and>
         (\<forall>r' \<in> set (cost_rates (w_db w)). rate_matches t e (if p \<noteq> [] then Some p else None) r' \<longrightarrow> rate_rank r \<le> rate_rank r')"
proof -
  let ?m = "rate_matches t e (if p \<noteq> [] then Some p else None)"
  let ?s = "sort_key rate_rank (filter ?m (cost_rates (w_db w)))"
  have set: "set ?s = {r \<in> set (cost_rates (w_db w)). ?m r}" by simp
  have sorted: "sorted (map rate_rank ?s)" by simp
  show ?thesis
  proof (cases ?s)
    case Nil
    with assms have "x = None"
      by (auto simp: findRate_def FindCostRate_def run_bindP split: option.splits if_splits)
    with Nil set show ?thesis by auto
  next
    case (Cons r rs)
    with assms have x: "x = Some r"
      by (auto simp: findRate_def FindCostRate_def run_bindP split: option.splits if_splits)
    from Cons set have mem: "r \<in> set (cost_rates (w_db w))" "?m r" by (metis (lifting) list.set_intros(1) mem_Collect_eq)+
    have "rate_rank r \<le> rate_rank r'" if "r' \<in> set (cost_rates (w_db w))" "?m r'" for r'
    proof -
      from that set have "r' \<in> set (r # rs)" unfolding Cons [symmetric] by blast
      with sorted show ?thesis unfolding Cons by auto
    qed
    with x mem show ?thesis by simp
  qed
qed

theorem findRate_most_specific_witness:
  "\<exists>r v. run (findRate 1 5 ''github_actions'') sample_running = (Inr (Some r), v) \<and> rate_rank r \<le> 1"
proof -
  have "case fst (run (findRate 1 5 ''github_actions'') sample_running) of Inr (Some r) \<Rightarrow> True | _ \<Rightarrow> False" by code_simp
  then obtain r v where run: "run (findRate 1 5 ''github_actions'') sample_running = (Inr (Some r), v)"
    by (auto split: sum.splits option.splits) (metis prod.collapse)
  from findRate_most_specific [OF run] have "rate_rank r \<le> 1"
    by (auto simp: sample_running_def sample_world_def rate_matches_def rate_rank_def)
  with run show ?thesis by blast
qed

section \<open>Completing a verification\<close>


lemma complete_status_iff:
  "complete_status rs = (if rs \<noteq> [] \<and> (\<forall>r \<in> set rs. tr_OK (snd r)) then Status_Succeeded else Status_Failed)"
  by (auto simp: complete_status_def all_ok_iff)

lemma complete_status_valid: "complete_status rs \<in> {StatusPending, Status_Succeeded, Status_Failed}"
  by (simp add: complete_status_def)

text \<open>
  A connectivity check is completed by the worker that claimed it and by nobody else.  When the
  write is not lost, \<open>Complete\<close> succeeds exactly when the verification is claimed by the caller; it then
  stores the results with the status succeeded, if there are results and all are fine, and failed
  otherwise, and no other row changes.  Otherwise it answers \<open>ErrNotFound\<close> and nothing changes.
\<close>

theorem Complete_claimer:
  assumes key: "distinct (map ve_ID (verifications (w_db w)))" and ok: "fault w (tick w) = None"
    and run: "run (Complete i c rs) w = (x, v)"
  shows "(case x of
       Inr ver \<Rightarrow> \<exists>row \<in> set (verifications (w_db w)). ve_ID row = i \<and> ve_ClaimedBy row = Some c \<and>
         ver = verification_fromRow (row\<lparr>ve_Status := if rs \<noteq> [] \<and> (\<forall>r \<in> set rs. tr_OK (snd r)) then Status_Succeeded else Status_Failed,
                 ve_TierResults := rs, ve_CompletedAt := Some (clock w (tick w))\<rparr>) \<and>
         filter (\<lambda>r. ve_ID r \<noteq> i) (verifications (w_db v)) = filter (\<lambda>r. ve_ID r \<noteq> i) (verifications (w_db w))
     | Inl e \<Rightarrow> errors_Is e verification_ErrNotFound \<and> w_db v = w_db w \<and>
         (\<forall>row \<in> set (verifications (w_db w)). \<not> (ve_ID row = i \<and> ve_ClaimedBy row = Some c)))"
proof -
  let ?p = "\<lambda>r. ve_ID r = i \<and> ve_ClaimedBy r = Some c"
  let ?f = "\<lambda>r. r\<lparr>ve_Status := complete_status rs, ve_TierResults := rs, ve_CompletedAt := Some (clock w (tick w))\<rparr>"
  show ?thesis
  proof (cases "update_one ?p ?f (verifications (w_db w))")
    case (Inl e)
    then have "e = Sentinel sql_ErrNoRows \<and> (\<forall>r \<in> set (verifications (w_db w)). \<not> ?p r)" by (simp add: update_one_Inl)
    with Inl run ok show ?thesis
      by (auto simp: Complete_def CompleteVerification_def run_bindE run_mapE notFound_def)
  next
    case (Inr y)
    then obtain r rows where y: "update_one ?p ?f (verifications (w_db w)) = Inr (r, rows)" by (cases y) auto
    from update_one_Inr [OF y] obtain r0 where r0: "r0 \<in> set (verifications (w_db w))" "?p r0" "r = ?f r0"
      and rows: "rows = update_rows ?p ?f (verifications (w_db w))" by auto
    from y run ok have x: "x = Inr (verification_fromRow r)" and v: "verifications (w_db v) = rows"
      by (auto simp: Complete_def CompleteVerification_def run_bindE run_mapE insert_row_def violated_def
          complete_status_def split: if_splits)
    have "filter (\<lambda>r. ve_ID r \<noteq> i) rows = filter (\<lambda>r. ve_ID r \<noteq> i) (verifications (w_db w))"
      unfolding rows by (rule filter_update_rows_other) auto
    with x v r0 show ?thesis by (auto simp: complete_status_iff intro!: bexI [OF _ r0(1)])
  qed
qed

definition claimed_check :: world where
  "claimed_check = sample_world ((sample_db [] [])\<lparr>verifications :=
     [\<lparr>ve_ID = 9, ve_TenantID = 1, ve_EnvironmentID = 5, ve_Status = StatusPending, ve_RequestedBy = 3, ve_ClaimedBy = Some 8,
       ve_TierResults = [], ve_RequestedAt = 0, ve_ClaimedAt = Some 0, ve_CompletedAt = None\<rparr>]\<rparr>)"

theorem Complete_claimer_witness:
  "\<exists>ver v. run (Complete 9 8 [(''read_only'', \<lparr>tr_OK = True, tr_Error = []\<rparr>)]) claimed_check = (Inr ver, v) \<and>
     v_Status ver = Status_Succeeded"
proof -
  have "case fst (run (Complete 9 8 [(''read_only'', \<lparr>tr_OK = True, tr_Error = []\<rparr>)]) claimed_check) of Inr ver \<Rightarrow> True | Inl e \<Rightarrow> False"
    by code_simp
  then obtain ver v where run: "run (Complete 9 8 [(''read_only'', \<lparr>tr_OK = True, tr_Error = []\<rparr>)]) claimed_check = (Inr ver, v)"
    by (auto split: sum.splits) (metis prod.collapse)
  have "distinct (map ve_ID (verifications (w_db claimed_check)))" "fault claimed_check (tick claimed_check) = None"
    by (simp_all add: claimed_check_def sample_world_def)
  from Complete_claimer [OF this run] have "v_Status ver = Status_Succeeded" by (auto simp: verification_fromRow_def)
  with run show ?thesis by blast
qed
end
