(* ===== verification/Net.thy ===== *)
theory Net
  imports CI "HOL-Library.AList"
begin

text \<open>
  The outside of a worker: JSON as \<open>encoding/json\<close> decodes it, HTTP requests and STS calls.  Each call
  is recorded in a log, and what the outside answers is a function of the number of actions so far
  and of the call, so that a theorem over all of them covers every behaviour of the other side.
\<close>

section \<open>JSON\<close>

text \<open>A number literal that is not an integer is \<open>JDec\<close>.\<close>

datatype json =
    JNull | JBool bool | JNum int | JDec string | JStr string | JArr "json list"
  | JObj "(string \<times> json) list"

text \<open>
  A struct field takes the last member whose name equals its own up to case; \<open>null\<close> leaves it as it
  is and a member of another type is an error.  Without a member it keeps its zero value.
\<close>

definition lower :: "char \<Rightarrow> char" where
  "lower c = (let n = of_char c :: nat in if 65 \<le> n \<and> n \<le> 90 then char_of (n + 32) else c)"

definition same_name :: "string \<Rightarrow> string \<Rightarrow> bool" where
  "same_name k field \<longleftrightarrow> map lower k = map lower field"

definition badType :: err where "badType = Errorf ''json: cannot unmarshal''"

fun json_string :: "string \<Rightarrow> (string \<times> json) list \<Rightarrow> string \<Rightarrow> string res" where
  "json_string field [] v = Inr v"
| "json_string field ((k, x) # kvs) v =
     (if \<not> same_name k field then json_string field kvs v
      else case x of
        JStr s \<Rightarrow> json_string field kvs s
      | JNull \<Rightarrow> json_string field kvs v
      | _ \<Rightarrow> Inl badType)"

text \<open>An integer field of \<open>w\<close> bits refuses a number out of its range.\<close>

fun json_int :: "nat \<Rightarrow> string \<Rightarrow> (string \<times> json) list \<Rightarrow> int \<Rightarrow> int res" where
  "json_int w field [] v = Inr v"
| "json_int w field ((k, x) # kvs) v =
     (if \<not> same_name k field then json_int w field kvs v
      else case x of
        JNum i \<Rightarrow> if - (2 ^ (w - 1)) \<le> i \<and> i < 2 ^ (w - 1) then json_int w field kvs i else Inl badType
      | JNull \<Rightarrow> json_int w field kvs v
      | _ \<Rightarrow> Inl badType)"

fun json_bool :: "string \<Rightarrow> (string \<times> json) list \<Rightarrow> bool \<Rightarrow> bool res" where
  "json_bool field [] v = Inr v"
| "json_bool field ((k, x) # kvs) v =
     (if \<not> same_name k field then json_bool field kvs v
      else case x of
        JBool b \<Rightarrow> json_bool field kvs b
      | JNull \<Rightarrow> json_bool field kvs v
      | _ \<Rightarrow> Inl badType)"

text \<open>A \<open>map[string]string\<close> collects the members of every object it is given; \<open>null\<close> is the empty string.\<close>

fun json_entries :: "(string \<times> json) list \<Rightarrow> settings \<Rightarrow> settings res" where
  "json_entries [] m = Inr m"
| "json_entries ((k, x) # kvs) m =
     (case x of
        JStr s \<Rightarrow> json_entries kvs (AList.update k s m)
      | JNull \<Rightarrow> json_entries kvs (AList.update k [] m)
      | _ \<Rightarrow> Inl badType)"

fun json_map :: "string \<Rightarrow> (string \<times> json) list \<Rightarrow> settings \<Rightarrow> settings res" where
  "json_map field [] m = Inr m"
| "json_map field ((k, x) # kvs) m =
     (if \<not> same_name k field then json_map field kvs m
      else case x of
        JObj es \<Rightarrow> (case json_entries es m of Inl e \<Rightarrow> Inl e | Inr m' \<Rightarrow> json_map field kvs m')
      | JNull \<Rightarrow> json_map field kvs []
      | _ \<Rightarrow> Inl badType)"

text \<open>Decoding a body into a struct: \<open>None\<close> is a body that is no JSON value.\<close>

definition json_struct :: "json option \<Rightarrow> (string \<times> json) list res" where
  "json_struct body =
     (case body of
        Some (JObj kvs) \<Rightarrow> Inr kvs
      | Some JNull \<Rightarrow> Inr []
      | Some _ \<Rightarrow> Inl badType
      | None \<Rightarrow> Inl (Errorf ''json: syntax''))"

text \<open>\<open>json.NewDecoder(body).Decode(&wire)\<close>, whose error the callers wrap; \<open>members\<close> reads the fields.\<close>

definition bindR :: "'a res \<Rightarrow> ('a \<Rightarrow> 'b res) \<Rightarrow> 'b res" where
  "bindR x f = (case x of Inl e \<Rightarrow> Inl e | Inr a \<Rightarrow> f a)"

definition json_decode :: "json option \<Rightarrow> ((string \<times> json) list \<Rightarrow> 'a res) \<Rightarrow> 'a res" where
  "json_decode body members = (case bindR (json_struct body) members of Inl e \<Rightarrow> Inl (Wrapf e) | Inr a \<Rightarrow> Inr a)"

lemma bindR_Inr [simp]: "bindR x f = Inr b \<longleftrightarrow> (\<exists>a. x = Inr a \<and> f a = Inr b)"
  by (auto simp: bindR_def split: sum.splits)

lemma json_decode_Inr [simp]: "json_decode body f = Inr b \<longleftrightarrow> (\<exists>kvs. json_struct body = Inr kvs \<and> f kvs = Inr b)"
  by (cases "json_struct body") (auto simp: json_decode_def bindR_def split: sum.splits)

lemma json_entries_distinct:
  "json_entries kvs m = Inr m' \<Longrightarrow> distinct (map fst m) \<Longrightarrow> distinct (map fst m')"
  by (induction kvs m rule: json_entries.induct) (auto simp: distinct_update split: json.splits)

lemma json_map_distinct:
  "json_map field kvs m = Inr m' \<Longrightarrow> distinct (map fst m) \<Longrightarrow> distinct (map fst m')"
  by (induction field kvs m rule: json_map.induct)
     (auto split: if_splits json.splits sum.splits dest: json_entries_distinct)

section \<open>Calls\<close>

record http_request =
  rq_Method :: string
  rq_URL :: string
  rq_Headers :: "(string \<times> string) list"
  rq_Body :: "json option"

record http_response =
  hr_StatusCode :: int
  hr_Status :: string
  hr_Body :: "json option"

text \<open>\<open>sts.AssumeRoleInput\<close>, and the credentials of its output behind their pointers.\<close>

record AssumeRoleInput =
  si_RoleArn :: string
  si_RoleSessionName :: string
  si_ExternalId :: string
  si_DurationSeconds :: "32 word"

record sts_Credentials =
  sc_AccessKeyId :: "string option"
  sc_SecretAccessKey :: "string option"
  sc_SessionToken :: "string option"
  sc_Expiration :: "time option"

text \<open>\<open>Spawn\<close> is the start of a goroutine, with its arguments.\<close>

datatype call =
    HTTP http_request
  | STS AssumeRoleInput
  | Spawn "string list"

text \<open>
  \<open>nt_done\<close> tells, for the \<open>n\<close>-th \<open>select\<close> of a loop, whether \<open>ctx.Done()\<close> was ready rather than the
  ticker; \<open>nt_url_ok\<close> whether \<open>http.NewRequest\<close> accepts an address.
\<close>

record net =
  nt_log :: "call list"
  nt_tick :: nat
  nt_clock :: "nat \<Rightarrow> time"
  nt_url_ok :: "string \<Rightarrow> bool"
  nt_http :: "nat \<Rightarrow> http_request \<Rightarrow> http_response res"
  nt_sts :: "nat \<Rightarrow> AssumeRoleInput \<Rightarrow> sts_Credentials option res"
  nt_selects :: nat
  nt_done :: "nat \<Rightarrow> bool"

type_synonym 'a io = "(net, 'a res) prog"

definition called :: "call \<Rightarrow> net \<Rightarrow> net" where
  "called c w = w\<lparr>nt_log := nt_log w @ [c], nt_tick := Suc (nt_tick w)\<rparr>"

definition http_Do :: "http_request \<Rightarrow> http_response io" where
  "http_Do req = act (\<lambda>w. (nt_http w (nt_tick w) req, called (HTTP req) w))"

definition sts_AssumeRole :: "AssumeRoleInput \<Rightarrow> sts_Credentials option io" where
  "sts_AssumeRole i = act (\<lambda>w. (nt_sts w (nt_tick w) i, called (STS i) w))"

definition go_routine :: "string list \<Rightarrow> (net, unit) prog" where
  "go_routine args = act (\<lambda>w. ((), called (Spawn args) w))"

definition net_Now :: "(net, time) prog" where
  "net_Now = act (\<lambda>w. (nt_clock w (nt_tick w), w\<lparr>nt_tick := Suc (nt_tick w)\<rparr>))"

definition ctx_Done :: "(net, bool) prog" where
  "ctx_Done = act (\<lambda>w. (nt_done w (nt_selects w), w\<lparr>nt_selects := Suc (nt_selects w)\<rparr>))"

definition NewRequest :: "http_request \<Rightarrow> http_request io" where
  "NewRequest req =
     act (\<lambda>w. (if nt_url_ok w (rq_URL req) then Inr req else Inl (Errorf ''parse url''), w))"

lemma run_http_Do [simp]: "run (http_Do req) w = (nt_http w (nt_tick w) req, called (HTTP req) w)"
  by (simp add: http_Do_def)

lemma run_sts_AssumeRole [simp]: "run (sts_AssumeRole i) w = (nt_sts w (nt_tick w) i, called (STS i) w)"
  by (simp add: sts_AssumeRole_def)

lemma run_go_routine [simp]: "run (go_routine args) w = ((), called (Spawn args) w)"
  by (simp add: go_routine_def)

lemma run_net_Now [simp]: "run net_Now w = (nt_clock w (nt_tick w), w\<lparr>nt_tick := Suc (nt_tick w)\<rparr>)"
  by (simp add: net_Now_def)

lemma run_ctx_Done [simp]: "run ctx_Done w = (nt_done w (nt_selects w), w\<lparr>nt_selects := Suc (nt_selects w)\<rparr>)"
  by (simp add: ctx_Done_def)

lemma run_NewRequest [simp]:
  "run (NewRequest req) w = (if nt_url_ok w (rq_URL req) then Inr req else Inl (Errorf ''parse url''), w)"
  by (simp add: NewRequest_def)

text \<open>What a call leaves alone.\<close>

lemma called_sel [simp]:
  "nt_log (called c w) = nt_log w @ [c]" "nt_tick (called c w) = Suc (nt_tick w)" "nt_clock (called c w) = nt_clock w"
  "nt_url_ok (called c w) = nt_url_ok w" "nt_http (called c w) = nt_http w" "nt_sts (called c w) = nt_sts w"
  "nt_selects (called c w) = nt_selects w" "nt_done (called c w) = nt_done w"
  by (simp_all add: called_def)

text \<open>
  The outside stays the same function: \<open>same_outside\<close> relates the world before and after any code of
  the worker.
\<close>

definition same_outside :: "net \<Rightarrow> net \<Rightarrow> bool" where
  "same_outside w v \<longleftrightarrow>
     nt_clock v = nt_clock w \<and> nt_url_ok v = nt_url_ok w \<and> nt_http v = nt_http w \<and> nt_sts v = nt_sts w \<and>
     nt_done v = nt_done w"

lemma same_outside_refl [simp]: "same_outside w w"
  by (simp add: same_outside_def)

lemma same_outside_called [simp]: "same_outside w (called c w)"
  by (simp add: same_outside_def)

lemma same_outside_trans: "same_outside w v \<Longrightarrow> same_outside v u \<Longrightarrow> same_outside w u"
  by (simp add: same_outside_def)


section \<open>What a whole program leaves alone\<close>

text \<open>\<open>steps P p\<close>: every action of \<open>p\<close>, from any world, keeps \<open>P\<close>.\<close>

primrec steps :: "('w \<Rightarrow> 'w \<Rightarrow> bool) \<Rightarrow> ('w, 'a) prog \<Rightarrow> bool" where
  "steps P (Done a) = True"
| "steps P (Step u k) = (\<forall>w. P w (u w) \<and> steps P (k w))"

lemma steps_bindP: "steps P p \<Longrightarrow> (\<And>a. steps P (h a)) \<Longrightarrow> steps P (bindP p h)"
  by (induction p) auto

lemma steps_bindE: "steps P p \<Longrightarrow> (\<And>a. steps P (h a)) \<Longrightarrow> steps P (bindE p h)"
  unfolding bindE_def by (rule steps_bindP) (auto split: sum.split)

lemma steps_mapE: "steps P p \<Longrightarrow> steps P (mapE g p)"
  unfolding mapE_def by (rule steps_bindP) auto

lemma steps_act: "(\<And>w. P w (snd (f w))) \<Longrightarrow> steps P (act f)"
  by (simp add: act_def)

lemma steps_run: "reflp P \<Longrightarrow> transp P \<Longrightarrow> steps P p \<Longrightarrow> P w (snd (run p w))"
proof (induction p arbitrary: w)
  case (Done a)
  then show ?case by (simp add: reflpD)
next
  case (Step u k)
  then have "P w (u w)" "P (u w) (snd (run (k w) (u w)))" by auto
  with Step.prems(2) show ?case by (auto dest: transpD)
qed

definition quiet :: "net \<Rightarrow> net \<Rightarrow> bool" where
  "quiet w v \<longleftrightarrow> same_outside w v \<and> nt_selects v = nt_selects w"

lemma quiet_laws: "reflp quiet" "transp quiet"
  by (auto simp: reflp_def transp_def quiet_def intro: same_outside_trans)

lemma quiet_called [simp]: "quiet w (called c w)"
  by (simp add: quiet_def)

lemma quiet_calls:
  "steps quiet (http_Do req)" "steps quiet (sts_AssumeRole i)" "steps quiet (go_routine args)" "steps quiet net_Now"
  "steps quiet (NewRequest req)"
  by (simp_all add: http_Do_def sts_AssumeRole_def go_routine_def net_Now_def NewRequest_def steps_act)
     (simp_all add: act_def quiet_def same_outside_def)

lemmas quiet_rules = steps_bindP steps_bindE steps_mapE quiet_calls steps.simps

lemma quiet_run: "steps quiet p \<Longrightarrow> run p w = (a, v) \<Longrightarrow> same_outside w v \<and> nt_selects v = nt_selects w"
  using steps_run [OF quiet_laws, of p w] by (simp add: quiet_def)

end
