(* ===== verification/Cloud.thy ===== *)
theory Cloud
  imports Net Identity
begin

text \<open>
  Package \<open>pkg/cloud\<close> and its AWS implementation \<open>worker/internal/broker/aws\<close>: the credentials of a
  tier, minted by assuming the role bound to it.
\<close>

section \<open>The vocabulary of pkg/cloud\<close>

definition ProviderAWS :: string where "ProviderAWS = ''aws''"
definition ProviderGCP :: string where "ProviderGCP = ''gcp''"
definition ProviderAzure :: string where "ProviderAzure = ''azure''"

record EnvironmentConfig =
  ec_Provider :: string
  ec_Settings :: settings

definition EnvironmentConfig_Get :: "EnvironmentConfig \<Rightarrow> string \<Rightarrow> string" where
  "EnvironmentConfig_Get c key = settings_get (ec_Settings c) key"

definition EnvironmentConfig_Require :: "EnvironmentConfig \<Rightarrow> string list \<Rightarrow> unit res" where
  "EnvironmentConfig_Require c keys = require_settings cloud_ErrInvalidConfig (ec_Settings c) keys"

datatype cloud_Secret = CloudSecret string

fun cloud_Secret_String :: "cloud_Secret \<Rightarrow> string" where
  "cloud_Secret_String (CloudSecret s) = ''[REDACTED]''"

fun cloud_Secret_MarshalJSON :: "cloud_Secret \<Rightarrow> string" where
  "cloud_Secret_MarshalJSON (CloudSecret s) = CHR 0x22 # ''[REDACTED]'' @ [CHR 0x22]"

fun cloud_Secret_Reveal :: "cloud_Secret \<Rightarrow> string" where
  "cloud_Secret_Reveal (CloudSecret s) = s"

text \<open>The map of values; reading an absent key gives the empty secret.\<close>

record Credentials =
  cc_Provider :: string
  cc_Values :: "(string \<times> cloud_Secret) list"
  cc_ExpiresAt :: time

definition Credentials_value :: "Credentials \<Rightarrow> string \<Rightarrow> string" where
  "Credentials_value c key = (case map_of (cc_Values c) key of None \<Rightarrow> [] | Some s \<Rightarrow> cloud_Secret_Reveal s)"

text \<open>The interface \<open>cloud.Broker\<close>.\<close>

record cloud_Broker =
  br_Provider :: string
  br_ValidateEnvironment :: "EnvironmentConfig \<Rightarrow> unit io"
  br_MintCredentials :: "EnvironmentConfig \<Rightarrow> tier \<Rightarrow> Credentials io"

section \<open>The AWS broker\<close>

definition SettingAccountRef :: string where "SettingAccountRef = ''account_ref''"
definition SettingExternalID :: string where "SettingExternalID = ''external_id''"
definition SettingTrustAnchor :: string where "SettingTrustAnchor = ''trust_anchor''"

definition tierRoleSettings :: "(tier \<times> string) list" where
  "tierRoleSettings =
     [(TierReadOnly, ''role_arn_read_only''), (TierHumanInTheLoop, ''role_arn_human_in_the_loop''),
      (TierAutonomous, ''role_arn_autonomous'')]"

text \<open>Indexing the Go map with an absent tier gives the empty string.\<close>

definition tier_setting :: "tier \<Rightarrow> string" where
  "tier_setting tier = (case map_of tierRoleSettings tier of None \<Rightarrow> [] | Some k \<Rightarrow> k)"

definition assumeRoleSessionName :: string where "assumeRoleSessionName = ''agentic-idp-worker''"
definition defaultCredentialTTL :: int64 where "defaultCredentialTTL = 15 * 60 * 1000000000"

text \<open>\<open>int32(ttl.Seconds())\<close>, for the whole numbers of seconds it is called with.\<close>

definition ttl_seconds :: "int64 \<Rightarrow> 32 word" where
  "ttl_seconds ttl = word_of_int (sint ttl div 1000000000)"

text \<open>The zero \<open>time.Time\<close>, January 1 of year 1, for an expiration that is nil.\<close>

definition time_Zero :: time where "time_Zero = - 62135596800 * 1000000000"

definition aws_ToString :: "string option \<Rightarrow> string" where
  "aws_ToString p = (case p of None \<Rightarrow> [] | Some s \<Rightarrow> s)"

definition aws_ToTime :: "time option \<Rightarrow> time" where
  "aws_ToTime p = (case p of None \<Rightarrow> time_Zero | Some t \<Rightarrow> t)"

fun add_tier_roles :: "(string \<times> string) list \<Rightarrow> settings \<Rightarrow> settings res" where
  "add_tier_roles [] m = Inr m"
| "add_tier_roles ((name, arn) # roles) m =
     (case ParseTier name of
        Inl e \<Rightarrow> Inl (Wrapf e)
      | Inr tier \<Rightarrow> add_tier_roles roles (AList.update (tier_setting tier) arn m))"

definition NewEnvironmentConfig :: "string \<Rightarrow> string \<Rightarrow> string \<Rightarrow> (string \<times> string) list \<Rightarrow> EnvironmentConfig res" where
  "NewEnvironmentConfig accountRef externalID trustAnchor roleARNsByTierName =
     (case add_tier_roles roleARNsByTierName
             [(SettingAccountRef, accountRef), (SettingExternalID, externalID), (SettingTrustAnchor, trustAnchor)] of
        Inl e \<Rightarrow> Inl e
      | Inr settings \<Rightarrow> Inr \<lparr>ec_Provider = ProviderAWS, ec_Settings = settings\<rparr>)"

definition assume_input :: "EnvironmentConfig \<Rightarrow> tier \<Rightarrow> int64 \<Rightarrow> AssumeRoleInput" where
  "assume_input cfg tier ttl =
     \<lparr>si_RoleArn = EnvironmentConfig_Get cfg (tier_setting tier), si_RoleSessionName = assumeRoleSessionName,
      si_ExternalId = EnvironmentConfig_Get cfg SettingExternalID, si_DurationSeconds = ttl_seconds ttl\<rparr>"

definition assumeRole :: "EnvironmentConfig \<Rightarrow> tier \<Rightarrow> int64 \<Rightarrow> sts_Credentials option io" where
  "assumeRole cfg tier ttl = mapE Wrapf (sts_AssumeRole (assume_input cfg tier ttl))"

text \<open>The two loops of \<open>ValidateEnvironment\<close> over the map, in the order of its list here.\<close>

fun require_tier_settings :: "EnvironmentConfig \<Rightarrow> (tier \<times> string) list \<Rightarrow> unit res" where
  "require_tier_settings cfg [] = Inr ()"
| "require_tier_settings cfg ((tier, key) # rest) =
     (case EnvironmentConfig_Require cfg [key] of
        Inl e \<Rightarrow> Inl (Wrapf e)
      | Inr _ \<Rightarrow> require_tier_settings cfg rest)"

fun assume_tiers :: "EnvironmentConfig \<Rightarrow> (tier \<times> string) list \<Rightarrow> unit io" where
  "assume_tiers cfg [] = returnE ()"
| "assume_tiers cfg ((tier, key) # rest) =
     bindE (mapE Wrapf (assumeRole cfg tier defaultCredentialTTL)) (\<lambda>_. assume_tiers cfg rest)"

definition ValidateEnvironment :: "EnvironmentConfig \<Rightarrow> unit io" where
  "ValidateEnvironment cfg =
     (if ec_Provider cfg \<noteq> ProviderAWS then failE (Wrapf (Sentinel cloud_ErrInvalidConfig))
      else case EnvironmentConfig_Require cfg [SettingAccountRef, SettingExternalID, SettingTrustAnchor] of
        Inl e \<Rightarrow> failE (Wrapf e)
      | Inr _ \<Rightarrow>
          (case require_tier_settings cfg tierRoleSettings of
             Inl e \<Rightarrow> failE e
           | Inr _ \<Rightarrow> assume_tiers cfg tierRoleSettings))"

text \<open>The output of STS read through its pointers; a nil \<open>Credentials\<close> panics.\<close>

definition aws_credentials :: "sts_Credentials option \<Rightarrow> Credentials res" where
  "aws_credentials out =
     (case out of
        None \<Rightarrow> Inl Panic
      | Some creds \<Rightarrow>
          Inr \<lparr>cc_Provider = ProviderAWS,
               cc_Values = [(''access_key_id'', CloudSecret (aws_ToString (sc_AccessKeyId creds))),
                            (''secret_access_key'', CloudSecret (aws_ToString (sc_SecretAccessKey creds))),
                            (''session_token'', CloudSecret (aws_ToString (sc_SessionToken creds)))],
               cc_ExpiresAt = aws_ToTime (sc_Expiration creds)\<rparr>)"

definition MintCredentials :: "EnvironmentConfig \<Rightarrow> tier \<Rightarrow> Credentials io" where
  "MintCredentials cfg tier =
     (if \<not> Tier_Valid tier then failE (Wrapf (Sentinel cloud_ErrInvalidConfig))
      else case map_of tierRoleSettings tier of
        None \<Rightarrow> failE (Wrapf (Sentinel cloud_ErrUnknownTier))
      | Some _ \<Rightarrow>
          bindE (mapE Wrapf (assumeRole cfg tier defaultCredentialTTL)) (\<lambda>out.
          Done (aws_credentials out)))"

definition aws_New :: cloud_Broker where
  "aws_New = \<lparr>br_Provider = ProviderAWS, br_ValidateEnvironment = ValidateEnvironment,
              br_MintCredentials = MintCredentials\<rparr>"

section \<open>Building a configuration\<close>

lemma tier_setting_simps [simp]:
  "tier_setting TierReadOnly = ''role_arn_read_only''"
  "tier_setting TierHumanInTheLoop = ''role_arn_human_in_the_loop''"
  "tier_setting TierAutonomous = ''role_arn_autonomous''"
  by (simp_all add: tier_setting_def tierRoleSettings_def tier_defs)

lemma tier_setting_inj: "Tier_Valid t \<Longrightarrow> Tier_Valid u \<Longrightarrow> tier_setting t = tier_setting u \<Longrightarrow> t = u"
  by (auto simp: Tier_Valid_cases)

lemma tier_setting_account:
  "Tier_Valid t \<Longrightarrow> tier_setting t \<noteq> SettingAccountRef \<and> tier_setting t \<noteq> SettingExternalID \<and> tier_setting t \<noteq> SettingTrustAnchor"
  by (auto simp: Tier_Valid_cases SettingAccountRef_def SettingExternalID_def SettingTrustAnchor_def)

lemma settings_get_update: "settings_get (AList.update k v m) k' = (if k' = k then v else settings_get m k')"
  by (simp add: settings_get_def update_conv')

lemma add_tier_roles_Inl: "(\<exists>e. add_tier_roles roles m = Inl e) \<longleftrightarrow> (\<exists>name \<in> fst ` set roles. \<forall>t. ParseTier name \<noteq> Inr t)"
proof (induction roles m rule: add_tier_roles.induct)
  case (1 m)
  then show ?case by simp
next
  case (2 name arn roles m)
  show ?case
  proof (cases "ParseTier name")
    case (Inl e)
    then show ?thesis by simp
  next
    case (Inr t)
    then show ?thesis using "2.IH" [OF Inr] by simp
  qed
qed

lemma add_tier_roles_other:
  "add_tier_roles roles m = Inr m' \<Longrightarrow> (\<And>t. Tier_Valid t \<Longrightarrow> Tier_String t \<in> fst ` set roles \<Longrightarrow> k \<noteq> tier_setting t) \<Longrightarrow>
     settings_get m' k = settings_get m k"
proof (induction roles m rule: add_tier_roles.induct)
  case (1 m)
  then show ?case by simp
next
  case (2 name arn roles m)
  from "2.prems"(1) obtain t where t: "ParseTier name = Inr t" and rec: "add_tier_roles roles (AList.update (tier_setting t) arn m) = Inr m'"
    by (auto split: sum.splits)
  from t have "Tier_Valid t" "name = Tier_String t" by (simp_all add: ParseTier_Inr)
  with "2.prems"(2) have "k \<noteq> tier_setting t" by simp
  moreover have "settings_get m' k = settings_get (AList.update (tier_setting t) arn m) k"
    by (rule "2.IH" [OF t rec]) (use "2.prems"(2) in auto)
  ultimately show ?case by (simp add: settings_get_update)
qed

lemma add_tier_roles_tier:
  "add_tier_roles roles m = Inr m' \<Longrightarrow> distinct (map fst roles) \<Longrightarrow> (Tier_String t, arn) \<in> set roles \<Longrightarrow> Tier_Valid t \<Longrightarrow>
     settings_get m' (tier_setting t) = arn"
proof (induction roles m rule: add_tier_roles.induct)
  case (1 m)
  then show ?case by simp
next
  case (2 name a roles m)
  from "2.prems"(1) obtain u where u: "ParseTier name = Inr u" and rec: "add_tier_roles roles (AList.update (tier_setting u) a m) = Inr m'"
    by (auto split: sum.splits)
  then have valid: "Tier_Valid u" "name = Tier_String u" by (simp_all add: ParseTier_Inr)
  show ?case
  proof (cases "(Tier_String t, arn) \<in> set roles")
    case True
    with "2.IH" [OF u rec] "2.prems" show ?thesis by simp
  next
    case False
    with "2.prems" valid have eq: "Tier_String t = Tier_String u" "arn = a" by auto
    from eq valid "2.prems"(4) have "t = u" by (metis ParseTier_Inr sum.inject(2))
    have "settings_get m' (tier_setting u) = settings_get (AList.update (tier_setting u) a m) (tier_setting u)"
    proof (rule add_tier_roles_other [OF rec])
      fix v assume v: "Tier_Valid v" "Tier_String v \<in> fst ` set roles"
      from "2.prems"(2) valid have "Tier_String u \<notin> fst ` set roles" by simp
      with v(2) have "Tier_String v \<noteq> Tier_String u" by metis
      then show "tier_setting u \<noteq> tier_setting v" using valid(1) v(1) by (metis tier_setting_inj)
    qed
    with eq \<open>t = u\<close> show ?thesis by (simp add: settings_get_update)
  qed
qed

lemma NewEnvironmentConfig_Inr:
  assumes "distinct (map fst roles)" and "NewEnvironmentConfig acc ext anchor roles = Inr cfg"
  shows "ec_Provider cfg = ProviderAWS \<and> EnvironmentConfig_Get cfg SettingAccountRef = acc \<and>
     EnvironmentConfig_Get cfg SettingExternalID = ext \<and> EnvironmentConfig_Get cfg SettingTrustAnchor = anchor \<and>
     (\<forall>t. Tier_Valid t \<longrightarrow> EnvironmentConfig_Get cfg (tier_setting t) = settings_get roles (Tier_String t))"
proof -
  let ?m = "[(SettingAccountRef, acc), (SettingExternalID, ext), (SettingTrustAnchor, anchor)]"
  from assms(2) obtain m' where m': "add_tier_roles roles ?m = Inr m'" and cfg: "cfg = \<lparr>ec_Provider = ProviderAWS, ec_Settings = m'\<rparr>"
    by (auto simp: NewEnvironmentConfig_def split: sum.splits)
  have fixed: "settings_get m' k = settings_get ?m k" if "k \<in> {SettingAccountRef, SettingExternalID, SettingTrustAnchor}" for k
    by (rule add_tier_roles_other [OF m']) (use that tier_setting_account in auto)
  have tiers: "settings_get m' (tier_setting t) = settings_get roles (Tier_String t)" if t: "Tier_Valid t" for t
  proof (cases "map_of roles (Tier_String t)")
    case (Some arn)
    then have "(Tier_String t, arn) \<in> set roles" by (rule map_of_SomeD)
    with add_tier_roles_tier [OF m' assms(1)] t Some show ?thesis by (simp add: settings_get_def)
  next
    case None
    then have "Tier_String t \<notin> fst ` set roles" by (simp add: map_of_eq_None_iff)
    then have "settings_get m' (tier_setting t) = settings_get ?m (tier_setting t)"
      by (intro add_tier_roles_other [OF m']) (metis t tier_setting_inj)
    moreover have "settings_get ?m (tier_setting t) = []"
      using tier_setting_account [OF t] by (simp add: settings_get_def)
    ultimately show ?thesis using None by (simp add: settings_get_def)
  qed
  show ?thesis using cfg fixed tiers
    by (simp add: EnvironmentConfig_Get_def settings_get_def SettingAccountRef_def SettingExternalID_def SettingTrustAnchor_def)
qed

lemma NewEnvironmentConfig_Inl:
  "(\<exists>e. NewEnvironmentConfig acc ext anchor roles = Inl e) \<longleftrightarrow> (\<exists>name \<in> fst ` set roles. \<forall>t. ParseTier name \<noteq> Inr t)"
proof -
  have "(\<exists>e. NewEnvironmentConfig acc ext anchor roles = Inl e) \<longleftrightarrow>
      (\<exists>e. add_tier_roles roles [(SettingAccountRef, acc), (SettingExternalID, ext), (SettingTrustAnchor, anchor)] = Inl e)"
    by (auto simp: NewEnvironmentConfig_def split: sum.splits)
  then show ?thesis by (simp only: add_tier_roles_Inl)
qed

text \<open>
  The worker's configuration is the control plane's.  Building it from the role ARNs of a job
  fails exactly when some name is not a tier's, and otherwise holds, for every tier the job names,
  exactly that tier's ARN, beside the account fields; a tier the job does not name has no role.
\<close>

theorem NewEnvironmentConfig_roundtrip:
  assumes "distinct (map fst roles)"
  shows "case NewEnvironmentConfig acc ext anchor roles of
       Inl e \<Rightarrow> \<exists>name \<in> fst ` set roles. \<forall>t. ParseTier name \<noteq> Inr t
     | Inr cfg \<Rightarrow> (\<forall>name \<in> fst ` set roles. \<exists>t. ParseTier name = Inr t) \<and> ec_Provider cfg = ProviderAWS \<and>
         EnvironmentConfig_Get cfg SettingAccountRef = acc \<and> EnvironmentConfig_Get cfg SettingExternalID = ext \<and>
         EnvironmentConfig_Get cfg SettingTrustAnchor = anchor \<and>
         (\<forall>t. Tier_Valid t \<longrightarrow> EnvironmentConfig_Get cfg (tier_setting t) = settings_get roles (Tier_String t))"
proof (cases "NewEnvironmentConfig acc ext anchor roles")
  case (Inl e)
  then show ?thesis using NewEnvironmentConfig_Inl [of acc ext anchor roles] by auto
next
  case (Inr cfg)
  then have "\<not> (\<exists>name \<in> fst ` set roles. \<forall>t. ParseTier name \<noteq> Inr t)"
    using NewEnvironmentConfig_Inl [of acc ext anchor roles] by simp
  then have "\<forall>name \<in> fst ` set roles. \<exists>t. ParseTier name = Inr t" by blast
  with NewEnvironmentConfig_Inr [OF assms Inr] Inr show ?thesis by simp
qed

section \<open>The contract of a broker\<close>

text \<open>
  What the worker relies on: minting for a tier makes the one call \<open>role cfg tier\<close> and returns what
  comes of it, and an invalid tier is refused without a call.
\<close>

locale tier_broker =
  fixes mint :: "EnvironmentConfig \<Rightarrow> tier \<Rightarrow> Credentials io"
    and role :: "EnvironmentConfig \<Rightarrow> tier \<Rightarrow> call"
  assumes mint_invalid: "\<not> Tier_Valid t \<Longrightarrow> \<exists>e. run (mint cfg t) w = (Inl e, w)"
    and mint_valid: "Tier_Valid t \<Longrightarrow> \<exists>x. run (mint cfg t) w = (x, called (role cfg t) w)"
begin

lemma mint_log: "run (mint cfg t) w = (x, v) \<Longrightarrow> v = w \<or> v = called (role cfg t) w"
  using mint_invalid [of t cfg w] mint_valid [of t cfg w] by (cases "Tier_Valid t") auto

lemma mint_Inr: "run (mint cfg t) w = (Inr c, v) \<Longrightarrow> Tier_Valid t \<and> v = called (role cfg t) w"
  using mint_invalid [of t cfg w] mint_valid [of t cfg w] by (cases "Tier_Valid t") auto

lemma mint_outside: "run (mint cfg t) w = (x, v) \<Longrightarrow> same_outside w v"
  using mint_log [of cfg t w x v] by auto

end

lemma MintCredentials_run:
  "run (MintCredentials cfg t) w =
     (if \<not> Tier_Valid t then (Inl (Wrapf (Sentinel cloud_ErrInvalidConfig)), w)
      else (case nt_sts w (nt_tick w) (assume_input cfg t defaultCredentialTTL) of
              Inl e \<Rightarrow> Inl (Wrapf (Wrapf e)) | Inr out \<Rightarrow> aws_credentials out,
            called (STS (assume_input cfg t defaultCredentialTTL)) w))"
proof -
  have "Tier_Valid t \<Longrightarrow> \<exists>k. map_of tierRoleSettings t = Some k"
    by (auto simp: Tier_Valid_cases tierRoleSettings_def tier_defs)
  then show ?thesis
    by (auto simp: MintCredentials_def assumeRole_def run_bindE run_mapE split: sum.splits)
qed

interpretation aws: tier_broker MintCredentials "\<lambda>cfg t. STS (assume_input cfg t defaultCredentialTTL)"
  by unfold_locales (simp_all add: MintCredentials_run)

text \<open>
  C11.  Minting fails closed and never reaches for a broader role.  An invalid tier is refused
  without any call.  For a valid tier the broker makes exactly one call: it assumes the role bound to
  that very tier, with the environment's external ID, for 900 seconds; credentials come back exactly
  when that call was answered with some, and are those; on an error there are none.
\<close>

theorem MintCredentials_fails_closed:
  "case run (MintCredentials cfg t) w of (x, v) \<Rightarrow>
     (if \<not> Tier_Valid t then v = w \<and> (\<exists>e. x = Inl e \<and> errors_Is e cloud_ErrInvalidConfig)
      else let i = \<lparr>si_RoleArn = EnvironmentConfig_Get cfg (tier_setting t), si_RoleSessionName = ''agentic-idp-worker'',
                    si_ExternalId = EnvironmentConfig_Get cfg ''external_id'', si_DurationSeconds = 900\<rparr> in
        v = called (STS i) w \<and>
        (\<forall>c. x = Inr c \<longleftrightarrow> (\<exists>out. nt_sts w (nt_tick w) i = Inr (Some out) \<and>
            c = \<lparr>cc_Provider = ''aws'',
                 cc_Values = [(''access_key_id'', CloudSecret (aws_ToString (sc_AccessKeyId out))),
                              (''secret_access_key'', CloudSecret (aws_ToString (sc_SecretAccessKey out))),
                              (''session_token'', CloudSecret (aws_ToString (sc_SessionToken out)))],
                 cc_ExpiresAt = aws_ToTime (sc_Expiration out)\<rparr>)))"
proof -
  have i: "assume_input cfg t defaultCredentialTTL =
      \<lparr>si_RoleArn = EnvironmentConfig_Get cfg (tier_setting t), si_RoleSessionName = ''agentic-idp-worker'',
       si_ExternalId = EnvironmentConfig_Get cfg ''external_id'', si_DurationSeconds = 900\<rparr>"
    by (simp add: assume_input_def assumeRoleSessionName_def SettingExternalID_def ttl_seconds_def defaultCredentialTTL_def)
  show ?thesis unfolding MintCredentials_run i
    by (auto simp: aws_credentials_def ProviderAWS_def Let_def split: sum.splits option.splits)
qed

text \<open>At a concrete account.\<close>

definition sample_roles :: "(string \<times> string) list" where
  "sample_roles = [(''read_only'', ''r1''), (''autonomous'', ''r3'')]"

theorem NewEnvironmentConfig_roundtrip_witness:
  "\<exists>cfg. NewEnvironmentConfig ''a'' ''x'' ''t'' sample_roles = Inr cfg \<and> EnvironmentConfig_Get cfg (tier_setting TierAutonomous) = ''r3''"
proof -
  have "distinct (map fst sample_roles)" by (simp add: sample_roles_def)
  from NewEnvironmentConfig_roundtrip [OF this, of "''a''" "''x''" "''t''"]
  show ?thesis
    by (auto simp: sample_roles_def ParseTier_def settings_get_def Tier_Valid_cases split: sum.splits if_splits)
qed
end
