(* ===== verification/WorkerClient.thy ===== *)
theory WorkerClient
  imports Net
begin

text \<open>
  \<open>worker/internal/controlplane\<close>: the worker's HTTP client for the control plane.  \<open>json.Marshal\<close> of
  these structs cannot fail; every other error of the source is a branch here.
\<close>

section \<open>The client\<close>

record client_Job =
  job_VerificationID :: string
  job_Environment :: string
  job_Provider :: string
  job_AccountRef :: string
  job_ExternalID :: string
  job_TrustAnchor :: string
  job_RoleARNs :: settings

record client_TierResult =
  ctr_OK :: bool
  ctr_Error :: string

record Client =
  cl_baseURL :: string
  cl_token :: string

definition client_New :: "string \<Rightarrow> string \<Rightarrow> Client" where
  "client_New baseURL token = \<lparr>cl_baseURL = baseURL, cl_token = token\<rparr>"

text \<open>The requests: a \<open>GET\<close> without a body, and a \<open>POST\<close> or \<open>PUT\<close> of JSON, both with the bearer token.\<close>

definition get_request :: "string \<Rightarrow> string \<Rightarrow> http_request" where
  "get_request url token =
     \<lparr>rq_Method = ''GET'', rq_URL = url, rq_Headers = [(''Authorization'', ''Bearer '' @ token)], rq_Body = None\<rparr>"

definition send_request :: "string \<Rightarrow> string \<Rightarrow> string \<Rightarrow> (string \<times> json) list \<Rightarrow> http_request" where
  "send_request verb url token body =
     \<lparr>rq_Method = verb, rq_URL = url,
      rq_Headers = [(''Content-Type'', ''application/json''), (''Authorization'', ''Bearer '' @ token)],
      rq_Body = Some (JObj body)\<rparr>"

text \<open>Building the request and sending it; \<open>unexpected\<close> is the error of any other status.\<close>

definition exchange :: "http_request \<Rightarrow> http_response io" where
  "exchange req = bindE (mapE Wrapf (NewRequest req)) (\<lambda>r. mapE Wrapf (http_Do r))"

definition unexpected :: err where "unexpected = Errorf ''unexpected status''"

definition Bootstrap_request :: "string \<Rightarrow> string \<Rightarrow> string \<Rightarrow> http_request" where
  "Bootstrap_request baseURL bootstrapToken name =
     send_request ''POST'' (baseURL @ ''/v1/workers/bootstrap'') bootstrapToken [(''name'', JStr name)]"

definition client_Bootstrap :: "string \<Rightarrow> string \<Rightarrow> string \<Rightarrow> (string \<times> string) io" where
  "client_Bootstrap baseURL bootstrapToken name =
     bindE (exchange (Bootstrap_request baseURL bootstrapToken name)) (\<lambda>resp.
       if hr_StatusCode resp \<noteq> 200 then failE unexpected
       else Done (json_decode (hr_Body resp) (\<lambda>kvs.
         bindR (json_string ''worker_credential_id'' kvs []) (\<lambda>i.
         bindR (json_string ''token'' kvs []) (\<lambda>t. Inr (i, t))))))"

text \<open>A nil job or run, with a nil error, is \<open>None\<close>.\<close>

definition NextJob_request :: "Client \<Rightarrow> http_request" where
  "NextJob_request c = get_request (cl_baseURL c @ ''/v1/worker/verifications/next'') (cl_token c)"

definition client_NextJob :: "Client \<Rightarrow> client_Job option io" where
  "client_NextJob c =
     bindE (exchange (NextJob_request c)) (\<lambda>resp.
       if hr_StatusCode resp = 204 then returnE None
       else if hr_StatusCode resp \<noteq> 200 then failE unexpected
       else Done (json_decode (hr_Body resp) (\<lambda>kvs.
         bindR (json_string ''verification_id'' kvs []) (\<lambda>i.
         bindR (json_string ''environment'' kvs []) (\<lambda>env.
         bindR (json_string ''provider'' kvs []) (\<lambda>prov.
         bindR (json_string ''account_ref'' kvs []) (\<lambda>acc.
         bindR (json_string ''external_id'' kvs []) (\<lambda>ext.
         bindR (json_string ''trust_anchor'' kvs []) (\<lambda>anchor.
         bindR (json_map ''role_arns'' kvs []) (\<lambda>roles.
         Inr (Some \<lparr>job_VerificationID = i, job_Environment = env, job_Provider = prov, job_AccountRef = acc,
                    job_ExternalID = ext, job_TrustAnchor = anchor, job_RoleARNs = roles\<rparr>))))))))))) "

record client_Run =
  crun_RunID :: string
  crun_Provider :: string
  crun_WorkflowRef :: string
  crun_Settings :: settings

definition NextRun_request :: "Client \<Rightarrow> http_request" where
  "NextRun_request c = get_request (cl_baseURL c @ ''/v1/worker/runs/next'') (cl_token c)"

definition client_NextRun :: "Client \<Rightarrow> client_Run option io" where
  "client_NextRun c =
     bindE (exchange (NextRun_request c)) (\<lambda>resp.
       if hr_StatusCode resp = 204 then returnE None
       else if hr_StatusCode resp \<noteq> 200 then failE unexpected
       else Done (json_decode (hr_Body resp) (\<lambda>kvs.
         bindR (json_string ''run_id'' kvs []) (\<lambda>i.
         bindR (json_string ''provider'' kvs []) (\<lambda>prov.
         bindR (json_string ''workflow_ref'' kvs []) (\<lambda>wfl.
         bindR (json_map ''settings'' kvs []) (\<lambda>settings.
         Inr (Some \<lparr>crun_RunID = i, crun_Provider = prov, crun_WorkflowRef = wfl, crun_Settings = settings\<rparr>))))))))"

record client_RunResult =
  crr_Status :: string
  crr_CIExternalRef :: string
  crr_CIURL :: string
  crr_CIRawStatus :: string

definition ReportRunResult_request :: "Client \<Rightarrow> string \<Rightarrow> client_RunResult \<Rightarrow> http_request" where
  "ReportRunResult_request c runID result =
     send_request ''POST'' (cl_baseURL c @ ''/v1/worker/runs/'' @ runID @ ''/result'') (cl_token c)
       [(''status'', JStr (crr_Status result)), (''ci_external_ref'', JStr (crr_CIExternalRef result)),
        (''ci_url'', JStr (crr_CIURL result)), (''ci_raw_status'', JStr (crr_CIRawStatus result))]"

text \<open>A call of which only the status matters.\<close>

definition expect_OK :: "http_request \<Rightarrow> unit io" where
  "expect_OK req =
     bindE (exchange req) (\<lambda>resp. if hr_StatusCode resp \<noteq> 200 then failE unexpected else returnE ())"

definition client_ReportRunResult :: "Client \<Rightarrow> string \<Rightarrow> client_RunResult \<Rightarrow> unit io" where
  "client_ReportRunResult c runID result = expect_OK (ReportRunResult_request c runID result)"

record ResolvedRun =
  rsv_RunID :: string
  rsv_Tier :: int
  rsv_AccountRef :: string
  rsv_ExternalID :: string
  rsv_TrustAnchor :: string
  rsv_RoleARN :: string

definition ResolveRun_request :: "Client \<Rightarrow> string \<Rightarrow> string \<Rightarrow> string \<Rightarrow> string \<Rightarrow> string \<Rightarrow> string \<Rightarrow> http_request" where
  "ResolveRun_request c prov repo wfl ref ciExternalRef ciURL =
     send_request ''POST'' (cl_baseURL c @ ''/v1/worker/runs/resolve'') (cl_token c)
       [(''provider'', JStr prov), (''repo'', JStr repo), (''workflow_ref'', JStr wfl), (''ref'', JStr ref),
        (''ci_external_ref'', JStr ciExternalRef), (''ci_url'', JStr ciURL)]"

definition client_ResolveRun :: "Client \<Rightarrow> string \<Rightarrow> string \<Rightarrow> string \<Rightarrow> string \<Rightarrow> string \<Rightarrow> string \<Rightarrow> ResolvedRun io" where
  "client_ResolveRun c prov repo wfl ref ciExternalRef ciURL =
     bindE (exchange (ResolveRun_request c prov repo wfl ref ciExternalRef ciURL)) (\<lambda>resp.
       if hr_StatusCode resp \<noteq> 200 then failE unexpected
       else Done (json_decode (hr_Body resp) (\<lambda>kvs.
         bindR (json_string ''run_id'' kvs []) (\<lambda>i.
         bindR (json_int 16 ''tier'' kvs 0) (\<lambda>tier.
         bindR (json_string ''account_ref'' kvs []) (\<lambda>acc.
         bindR (json_string ''external_id'' kvs []) (\<lambda>ext.
         bindR (json_string ''trust_anchor'' kvs []) (\<lambda>anchor.
         bindR (json_string ''role_arn'' kvs []) (\<lambda>arn.
         Inr \<lparr>rsv_RunID = i, rsv_Tier = tier, rsv_AccountRef = acc, rsv_ExternalID = ext,
              rsv_TrustAnchor = anchor, rsv_RoleARN = arn\<rparr>)))))))))"

definition RegisterCICallback :: "Client \<Rightarrow> string \<Rightarrow> unit io" where
  "RegisterCICallback c url =
     expect_OK (send_request ''PUT'' (cl_baseURL c @ ''/v1/worker/ci-callback-url'') (cl_token c) [(''url'', JStr url)])"

text \<open>A tier result's empty error is omitted.\<close>

definition tier_result_json :: "client_TierResult \<Rightarrow> json" where
  "tier_result_json r =
     JObj ((''ok'', JBool (ctr_OK r)) # (if ctr_Error r = [] then [] else [(''error'', JStr (ctr_Error r))]))"

definition ReportResult_request :: "Client \<Rightarrow> string \<Rightarrow> (string \<times> client_TierResult) list \<Rightarrow> http_request" where
  "ReportResult_request c verificationID results =
     send_request ''POST'' (cl_baseURL c @ ''/v1/worker/verifications/'' @ verificationID @ ''/result'') (cl_token c)
       [(''tier_results'', JObj (map (\<lambda>(k, r). (k, tier_result_json r)) results))]"

definition client_ReportResult :: "Client \<Rightarrow> string \<Rightarrow> (string \<times> client_TierResult) list \<Rightarrow> unit io" where
  "client_ReportResult c verificationID results = expect_OK (ReportResult_request c verificationID results)"

section \<open>One call, one request\<close>

text \<open>
  Every operation sends its request at most once, and at all unless its address is refused;
  its result is a function of the answer.
\<close>

definition sent :: "http_request \<Rightarrow> net \<Rightarrow> net" where
  "sent req w = (if nt_url_ok w (rq_URL req) then called (HTTP req) w else w)"

lemma run_exchange:
  "run (exchange req) w =
     (if nt_url_ok w (rq_URL req)
      then (case nt_http w (nt_tick w) req of Inl e \<Rightarrow> Inl (Wrapf e) | Inr r \<Rightarrow> Inr r, called (HTTP req) w)
      else (Inl (Wrapf (Errorf ''parse url'')), w))"
  by (auto simp: exchange_def run_bindE run_mapE split: sum.splits)

lemma exchange_sent: "snd (run (exchange req) w) = sent req w"
  by (simp add: run_exchange sent_def)

lemma exchange_then:
  "run (bindE (exchange req) (\<lambda>resp. Done (f resp))) w =
     (case fst (run (exchange req) w) of Inl e \<Rightarrow> Inl e | Inr resp \<Rightarrow> f resp, sent req w)"
  by (auto simp: run_bindE exchange_sent [symmetric] split: prod.splits sum.splits)

lemma run_expect_OK:
  "run (expect_OK req) w =
     (if nt_url_ok w (rq_URL req)
      then (case nt_http w (nt_tick w) req of
              Inl e \<Rightarrow> Inl (Wrapf e)
            | Inr resp \<Rightarrow> if hr_StatusCode resp = 200 then Inr () else Inl unexpected, called (HTTP req) w)
      else (Inl (Wrapf (Errorf ''parse url'')), w))"
  by (auto simp: expect_OK_def run_bindE run_exchange split: sum.splits)

lemma expect_OK_sent: "snd (run (expect_OK req) w) = sent req w"
  by (simp add: run_expect_OK sent_def)

lemma client_calls_once:
  "snd (run (client_NextJob c) w) = sent (NextJob_request c) w"
  "snd (run (client_NextRun c) w) = sent (NextRun_request c) w"
  "snd (run (client_ReportRunResult c i res) w) = sent (ReportRunResult_request c i res) w"
  "snd (run (client_ReportResult c i rs) w) = sent (ReportResult_request c i rs) w"
  "snd (run (client_ResolveRun c p r f g x u) w) = sent (ResolveRun_request c p r f g x u) w"
  "snd (run (client_Bootstrap b t n) w) = sent (Bootstrap_request b t n) w"
proof -
  have step: "snd (run (bindE (exchange req) k) w) = sent req w"
    if "\<And>resp v. snd (run (k resp) v) = v" for req and k :: "http_response \<Rightarrow> 'x io"
    using that by (auto simp: run_bindE exchange_sent [symmetric] split: prod.splits sum.splits)
  show "snd (run (client_NextJob c) w) = sent (NextJob_request c) w"
    unfolding client_NextJob_def by (rule step) simp
  show "snd (run (client_NextRun c) w) = sent (NextRun_request c) w"
    unfolding client_NextRun_def by (rule step) simp
  show "snd (run (client_ResolveRun c p r f g x u) w) = sent (ResolveRun_request c p r f g x u) w"
    unfolding client_ResolveRun_def by (rule step) simp
  show "snd (run (client_Bootstrap b t n) w) = sent (Bootstrap_request b t n) w"
    unfolding client_Bootstrap_def by (rule step) simp
qed (simp_all add: client_ReportRunResult_def client_ReportResult_def expect_OK_sent)

lemma same_outside_sent [simp]: "same_outside w (sent req w)"
  by (simp add: sent_def)

text \<open>A delivered job's map has one entry per key.\<close>

lemma client_NextJob_distinct:
  assumes "run (client_NextJob c) w = (Inr (Some job), v)"
  shows "distinct (map fst (job_RoleARNs job))"
  using assms by (auto simp: client_NextJob_def run_bindE split: prod.splits sum.splits if_splits dest!: json_map_distinct)

lemma client_NextRun_204:
  assumes "run (client_NextRun c) w = (Inr None, v)"
  shows "\<exists>resp. nt_http w (nt_tick w) (NextRun_request c) = Inr resp \<and> hr_StatusCode resp = 204"
  using assms by (auto simp: client_NextRun_def run_bindE run_exchange split: prod.splits sum.splits if_splits)

lemma quiet_exchange: "steps quiet (exchange req)"
  unfolding exchange_def by (intro quiet_rules)

lemma quiet_client:
  "steps quiet (client_NextJob c)" "steps quiet (client_NextRun c)" "steps quiet (client_ReportRunResult c i res)"
  "steps quiet (client_ReportResult c i rs)" "steps quiet (client_ResolveRun c p r f g x u)"
  by (auto simp: client_NextJob_def client_NextRun_def client_ReportRunResult_def client_ReportResult_def
      client_ResolveRun_def expect_OK_def intro!: steps_bindE quiet_exchange)

end
