(* ===== verification/GithubActions.thy ===== *)
theory GithubActions
  imports WorkerClient Identity
begin

text \<open>
  \<open>pkg/ci/githubactions\<close>, the adapter that drives GitHub Actions, and \<open>worker/internal/githubapp\<close>,
  which mints the tokens it uses.  The RSA signature of the App token and the parsing of RFC 3339
  times are parameters.
\<close>

section \<open>The vocabulary of an adapter\<close>

record Capabilities =
  cap_TriggerReturnsID :: bool
  cap_Cancel :: bool
  cap_Logs :: bool
  cap_OIDCCallback :: bool

record Handle =
  hd_Provider :: provider
  hd_ExternalID :: string
  hd_URL :: string
  hd_Resolved :: bool
  hd_Correlation :: string

record TriggerRequest =
  tg_Ref :: string
  tg_Workflow :: string
  tg_Inputs :: settings
  tg_Correlation :: string
  tg_ActorRef :: string

record RunStatus =
  rst_Status :: ci_status
  rst_Raw :: string
  rst_StartedAt :: "time option"
  rst_FinishedAt :: "time option"
  rst_URL :: string

record LogChunk =
  lc_Data :: string
  lc_NextOffset :: string
  lc_EOF :: bool

definition empty_Handle :: Handle where
  "empty_Handle = \<lparr>hd_Provider = [], hd_ExternalID = [], hd_URL = [], hd_Resolved = False, hd_Correlation = []\<rparr>"

section \<open>The REST client\<close>

definition defaultBaseURL :: string where "defaultBaseURL = ''https://api.github.com''"
definition SettingRepo :: string where "SettingRepo = ''repo''"

definition github_headers :: "string \<Rightarrow> (string \<times> string) list" where
  "github_headers bearer =
     [(''Authorization'', ''Bearer '' @ bearer), (''Accept'', ''application/vnd.github+json''),
      (''X-GitHub-Api-Version'', ''2022-11-28'')]"

definition github_request :: "string \<Rightarrow> string \<Rightarrow> string \<Rightarrow> json option \<Rightarrow> http_request" where
  "github_request bearer verb path body =
     \<lparr>rq_Method = verb, rq_URL = defaultBaseURL @ path,
      rq_Headers = github_headers bearer @ (if body = None then [] else [(''Content-Type'', ''application/json'')]),
      rq_Body = body\<rparr>"

text \<open>
  \<open>do\<close>: a status of 400 or more is an error (its text is GitHub's message); otherwise the response,
  whose body the caller decodes when it asked for one.
\<close>

definition github_do :: "string \<Rightarrow> string \<Rightarrow> string \<Rightarrow> json option \<Rightarrow> http_response io" where
  "github_do bearer verb path body =
     bindE (mapE Wrapf (NewRequest (github_request bearer verb path body))) (\<lambda>req.
     bindE (mapE Wrapf (http_Do req)) (\<lambda>resp.
       if hr_StatusCode resp \<ge> 400 then failE (Errorf ''github api'') else returnE resp))"

section \<open>The adapter\<close>

definition github_Capabilities :: Capabilities where
  "github_Capabilities = \<lparr>cap_TriggerReturnsID = False, cap_Cancel = True, cap_Logs = False, cap_OIDCCallback = True\<rparr>"

definition ValidateConfig :: "Config \<Rightarrow> unit res" where
  "ValidateConfig cfg =
     (if cfg_Provider cfg \<noteq> ProviderGitHubActions then Inl (Wrapf (Sentinel ci_ErrInvalidConfig))
      else case Config_Require cfg [SettingRepo] of Inl e \<Rightarrow> Inl (Wrapf e) | Inr _ \<Rightarrow> Inr ())"

text \<open>\<open>inputs\<close> is omitted when empty.\<close>

definition dispatchRequest :: "TriggerRequest \<Rightarrow> json" where
  "dispatchRequest req =
     JObj ((''ref'', JStr (tg_Ref req)) #
           (if tg_Inputs req = [] then [] else [(''inputs'', JObj (map (\<lambda>(k, v). (k, JStr v)) (tg_Inputs req)))]))"

definition dispatch_path :: "Config \<Rightarrow> string \<Rightarrow> string" where
  "dispatch_path cfg workflow =
     ''/repos/'' @ Config_Get cfg SettingRepo @ ''/actions/workflows/'' @ workflow @ ''/dispatches''"

definition Trigger :: "Config \<Rightarrow> TriggerRequest \<Rightarrow> Handle io" where
  "Trigger cfg req =
     (case ValidateConfig cfg of
        Inl e \<Rightarrow> failE e
      | Inr _ \<Rightarrow>
          bindE (mapE Wrapf (github_do (Secret_Reveal (cfg_Credential cfg)) ''POST''
                   (dispatch_path cfg (tg_Workflow req)) (Some (dispatchRequest req)))) (\<lambda>_.
          returnE (empty_Handle\<lparr>hd_Provider := ProviderGitHubActions, hd_Resolved := False,
                                hd_Correlation := tg_Correlation req\<rparr>)))"

definition github_Resolve :: "Config \<Rightarrow> Handle \<Rightarrow> Handle \<times> err option" where
  "github_Resolve cfg h = (h, Some (Sentinel ci_ErrUnsupported))"

definition github_Logs :: "Config \<Rightarrow> Handle \<Rightarrow> string \<Rightarrow> LogChunk res" where
  "github_Logs cfg h offset = Inl (Sentinel ci_ErrUnsupported)"

definition mapStatus :: "string \<Rightarrow> string \<Rightarrow> ci_status" where
  "mapStatus status conclusion =
     (if status \<noteq> ''completed'' then
        if status \<in> {''queued'', ''waiting'', ''requested'', ''pending''} then CIPending
        else if status = ''in_progress'' then CIRunning
        else CIUnknown
      else if conclusion = ''success'' then CISucceeded
      else if conclusion = ''cancelled'' then CICancelled
      else if conclusion = ''timed_out'' then CITimedOut
      else CIFailed)"

definition parsed_time :: "(string \<Rightarrow> time res) \<Rightarrow> string \<Rightarrow> time option" where
  "parsed_time time_Parse s = (case time_Parse s of Inl e \<Rightarrow> None | Inr t \<Rightarrow> Some t)"

definition run_path :: "Config \<Rightarrow> string \<Rightarrow> string" where
  "run_path cfg externalID = ''/repos/'' @ Config_Get cfg SettingRepo @ ''/actions/runs/'' @ externalID"

text \<open>\<open>github_runResponse\<close>: status, conclusion, address, start and last update.\<close>

definition github_runResponse :: "(string \<times> json) list \<Rightarrow> (string \<times> string \<times> string \<times> string \<times> string) res" where
  "github_runResponse kvs =
     bindR (json_string ''status'' kvs []) (\<lambda>s.
     bindR (json_string ''conclusion'' kvs []) (\<lambda>c.
     bindR (json_string ''html_url'' kvs []) (\<lambda>u.
     bindR (json_string ''run_started_at'' kvs []) (\<lambda>st.
     bindR (json_string ''updated_at'' kvs []) (\<lambda>up. Inr (s, c, u, st, up))))))"

definition github_run_status :: "(string \<Rightarrow> time res) \<Rightarrow> (string \<times> string \<times> string \<times> string \<times> string) \<Rightarrow> RunStatus" where
  "github_run_status time_Parse r =
     (case r of (status, conclusion, url, started, updated) \<Rightarrow>
       let s = mapStatus status conclusion in
       \<lparr>rst_Status = s, rst_Raw = (if conclusion = [] then status else conclusion),
        rst_StartedAt = parsed_time time_Parse started,
        rst_FinishedAt = (if Status_Terminal s then parsed_time time_Parse updated else None),
        rst_URL = url\<rparr>)"

definition github_Status :: "(string \<Rightarrow> time res) \<Rightarrow> Config \<Rightarrow> Handle \<Rightarrow> RunStatus io" where
  "github_Status time_Parse cfg h =
     (if \<not> hd_Resolved h \<or> hd_ExternalID h = [] then failE (Sentinel ci_ErrNotResolved)
      else bindE (mapE Wrapf (github_do (Secret_Reveal (cfg_Credential cfg)) ''GET'' (run_path cfg (hd_ExternalID h)) None))
        (\<lambda>resp. Done (case json_decode (hr_Body resp) github_runResponse of
            Inl e \<Rightarrow> Inl (Wrapf e)
          | Inr r \<Rightarrow> Inr (github_run_status time_Parse r))))"

definition github_Cancel :: "Config \<Rightarrow> Handle \<Rightarrow> unit io" where
  "github_Cancel cfg h =
     (if \<not> hd_Resolved h \<or> hd_ExternalID h = [] then failE (Sentinel ci_ErrNotResolved)
      else bindE (mapE Wrapf (github_do (Secret_Reveal (cfg_Credential cfg)) ''POST''
                   (run_path cfg (hd_ExternalID h) @ ''/cancel'') None)) (\<lambda>_. returnE ()))"

section \<open>The GitHub App\<close>

definition appJWTTTL :: int where "appJWTTTL = 9 * 60 * 1000000000"

text \<open>
  \<open>app_Sign\<close> is \<open>NewWithClaims(RS256, claims).SignedString\<close> of the issuer and the two dates, with
  the App's key; \<open>app_NumericDate\<close> truncates a time.
\<close>

record Resolver =
  app_ID :: string
  app_NumericDate :: "time \<Rightarrow> time"
  app_Sign :: "string \<Rightarrow> time \<Rightarrow> time \<Rightarrow> string res"

definition appToken :: "Resolver \<Rightarrow> string io" where
  "appToken r =
     bindP net_Now (\<lambda>now.
       Done (case app_Sign r (app_ID r) (app_NumericDate r (now - 30 * 1000000000)) (app_NumericDate r (now + appJWTTTL)) of
               Inl e \<Rightarrow> Inl (Wrapf e) | Inr token \<Rightarrow> Inr token))"

definition installation_path :: "string \<Rightarrow> string" where
  "installation_path repo = ''/repos/'' @ repo @ ''/installation''"

definition access_path :: "int \<Rightarrow> string" where
  "access_path i = ''/app/installations/'' @ decimal i @ ''/access_tokens''"

text \<open>The resolver's own \<open>do\<close>: the request of the adapter without a body, and always an answer to decode.\<close>

definition resolver_do :: "string \<Rightarrow> string \<Rightarrow> string \<Rightarrow> ((string \<times> json) list \<Rightarrow> 'a res) \<Rightarrow> 'a io" where
  "resolver_do verb path bearer out =
     bindE (github_do bearer verb path None) (\<lambda>resp.
       Done (case json_decode (hr_Body resp) out of Inl e \<Rightarrow> Inl (Wrapf e) | Inr a \<Rightarrow> Inr a))"

definition InstallationToken :: "Resolver \<Rightarrow> string \<Rightarrow> Secret io" where
  "InstallationToken r repo =
     bindE (appToken r) (\<lambda>appJWT.
     bindE (mapE Wrapf (resolver_do ''GET'' (installation_path repo) appJWT (\<lambda>kvs. json_int 64 ''id'' kvs 0))) (\<lambda>i.
     bindE (mapE Wrapf (resolver_do ''POST'' (access_path i) appJWT (\<lambda>kvs. json_string ''token'' kvs []))) (\<lambda>t.
     returnE (Secret t))))"

section \<open>What the adapter promises\<close>

lemma mapStatus_terminal: "Status_Terminal (mapStatus s c) \<longleftrightarrow> s = ''completed''"
  by (simp add: mapStatus_def)

lemma mapStatus_succeeded: "mapStatus s c = CISucceeded \<longleftrightarrow> s = ''completed'' \<and> c = ''success''"
  by (simp add: mapStatus_def)

lemma run_github_do:
  "run (github_do bearer verb path body) w =
     (if nt_url_ok w (defaultBaseURL @ path)
      then (case nt_http w (nt_tick w) (github_request bearer verb path body) of
              Inl e \<Rightarrow> Inl (Wrapf e)
            | Inr resp \<Rightarrow> if hr_StatusCode resp \<ge> 400 then Inl (Errorf ''github api'') else Inr resp,
            called (HTTP (github_request bearer verb path body)) w)
      else (Inl (Wrapf (Errorf ''parse url'')), w))"
  by (auto simp: github_do_def github_request_def run_bindE run_mapE split: sum.splits)

definition dispatch_request :: "Config \<Rightarrow> TriggerRequest \<Rightarrow> http_request" where
  "dispatch_request cfg req =
     github_request (Secret_Reveal (cfg_Credential cfg)) ''POST'' (dispatch_path cfg (tg_Workflow req)) (Some (dispatchRequest req))"

definition accepted :: "net \<Rightarrow> http_request \<Rightarrow> bool" where
  "accepted w req \<longleftrightarrow> (\<exists>resp. nt_http w (nt_tick w) req = Inr resp \<and> hr_StatusCode resp < 400)"

text \<open>
  Triggering sends the workflow dispatch, once, with the credential it was given, and succeeds
  exactly when GitHub accepts it; an invalid configuration sends nothing.
\<close>

lemma Trigger_run:
  "\<exists>x. run (Trigger cfg req) w =
     (x, if ValidateConfig cfg = Inr () then sent (dispatch_request cfg req) w else w) \<and>
     ((\<exists>h. x = Inr h) \<longleftrightarrow> ValidateConfig cfg = Inr () \<and> nt_url_ok w (rq_URL (dispatch_request cfg req)) \<and>
        accepted w (dispatch_request cfg req))"
  by (cases "ValidateConfig cfg")
     (auto simp: Trigger_def run_bindE run_mapE run_github_do sent_def dispatch_request_def accepted_def
        github_request_def split: sum.splits)

lemma quiet_github:
  "steps quiet (github_do b m p body)" "steps quiet (Trigger cfg req)" "steps quiet (github_Status tp cfg h)"
  "steps quiet (InstallationToken app repo)"
proof -
  show dox: "steps quiet (github_do b m p body)" for b m p body
    unfolding github_do_def by (intro quiet_rules) (simp split: if_splits)
  show "steps quiet (Trigger cfg req)"
    unfolding Trigger_def by (auto split: sum.split intro!: steps_bindE steps_mapE dox)
  show "steps quiet (github_Status tp cfg h)"
    unfolding github_Status_def by (auto intro!: steps_bindE steps_mapE dox)
  show "steps quiet (InstallationToken app repo)"
    unfolding InstallationToken_def resolver_do_def appToken_def by (auto intro!: steps_bindP steps_bindE steps_mapE dox quiet_calls)
qed

end
