(* ===== verification/Poller.thy ===== *)
theory Poller
  imports Cloud GithubActions
begin

text \<open>
  \<open>worker/internal/poller\<close>: the worker's main loop.  The interfaces it takes are records of
  operations, as in the source; the text of an error and the quoted form \<open>%q\<close> are parameters.
\<close>

record fmt_lib =
  fmt_Error :: "err \<Rightarrow> string"
  fmt_q :: "string \<Rightarrow> string"

record controlPlaneClient =
  pc_NextJob :: "client_Job option io"
  pc_ReportResult :: "string \<Rightarrow> (string \<times> client_TierResult) list \<Rightarrow> unit io"
  pc_NextRun :: "client_Run option io"
  pc_ReportRunResult :: "string \<Rightarrow> client_RunResult \<Rightarrow> unit io"

definition poller_client :: "Client \<Rightarrow> controlPlaneClient" where
  "poller_client c =
     \<lparr>pc_NextJob = client_NextJob c, pc_ReportResult = client_ReportResult c,
      pc_NextRun = client_NextRun c, pc_ReportRunResult = client_ReportRunResult c\<rparr>"

section \<open>Connectivity checks\<close>

text \<open>
  The loop over the tiers of a job, in the order of the map's list.  A panic inside the broker ends
  the loop and the worker; any other failure is a result.
\<close>

fun check_tiers :: "fmt_lib \<Rightarrow> cloud_Broker \<Rightarrow> EnvironmentConfig \<Rightarrow> string list \<Rightarrow> (string \<times> client_TierResult) list io" where
  "check_tiers F B cfg [] = returnE []"
| "check_tiers F B cfg (tierName # names) =
     (case ParseTier tierName of
        Inl e \<Rightarrow> bindE (check_tiers F B cfg names) (\<lambda>rs. returnE ((tierName, \<lparr>ctr_OK = False, ctr_Error = fmt_Error F e\<rparr>) # rs))
      | Inr tier \<Rightarrow>
          bindP (br_MintCredentials B cfg tier) (\<lambda>x.
            case x of
              Inl e \<Rightarrow>
                if e = Panic then failE Panic
                else bindE (check_tiers F B cfg names) (\<lambda>rs. returnE ((tierName, \<lparr>ctr_OK = False, ctr_Error = fmt_Error F e\<rparr>) # rs))
            | Inr _ \<Rightarrow> bindE (check_tiers F B cfg names) (\<lambda>rs. returnE ((tierName, \<lparr>ctr_OK = True, ctr_Error = []\<rparr>) # rs))))"

definition runChecks :: "fmt_lib \<Rightarrow> cloud_Broker \<Rightarrow> client_Job \<Rightarrow> (string \<times> client_TierResult) list io" where
  "runChecks F B job =
     (if job_Provider job \<noteq> ProviderAWS then failE (Errorf ''no support for provider'')
      else case NewEnvironmentConfig (job_AccountRef job) (job_ExternalID job) (job_TrustAnchor job) (job_RoleARNs job) of
        Inl e \<Rightarrow> failE (Wrapf e)
      | Inr cfg \<Rightarrow> check_tiers F B cfg (map fst (job_RoleARNs job)))"

text \<open>\<open>Inl Panic\<close> ends the worker; every other error has been logged.\<close>

definition pollVerifications :: "fmt_lib \<Rightarrow> controlPlaneClient \<Rightarrow> cloud_Broker \<Rightarrow> unit io" where
  "pollVerifications F cp B =
     bindP (pc_NextJob cp) (\<lambda>next.
       case next of
         Inl e \<Rightarrow> returnE ()
       | Inr None \<Rightarrow> returnE ()
       | Inr (Some job) \<Rightarrow>
           bindP (runChecks F B job) (\<lambda>checked.
             case checked of
               Inl e \<Rightarrow> if e = Panic then failE Panic else returnE ()
             | Inr results \<Rightarrow> bindP (pc_ReportResult cp (job_VerificationID job) results) (\<lambda>_. returnE ())))"

section \<open>Runs\<close>

definition failed_result :: "string \<Rightarrow> client_RunResult" where
  "failed_result reason = \<lparr>crr_Status = ''failed'', crr_CIExternalRef = [], crr_CIURL = [], crr_CIRawStatus = reason\<rparr>"

definition failRunDispatch :: "controlPlaneClient \<Rightarrow> string \<Rightarrow> string \<Rightarrow> (net, unit) prog" where
  "failRunDispatch cp runID reason = bindP (pc_ReportRunResult cp runID (failed_result reason)) (\<lambda>_. Done ())"

definition run_config :: "client_Run \<Rightarrow> Secret \<Rightarrow> Config" where
  "run_config r token = \<lparr>cfg_Provider = ProviderGitHubActions, cfg_Settings = crun_Settings r, cfg_Credential = token\<rparr>"

definition run_ref :: "client_Run \<Rightarrow> string" where
  "run_ref r = (if settings_get (crun_Settings r) ''ref'' = [] then ''main'' else settings_get (crun_Settings r) ''ref'')"

definition run_trigger :: "client_Run \<Rightarrow> TriggerRequest" where
  "run_trigger r =
     \<lparr>tg_Ref = run_ref r, tg_Workflow = crun_WorkflowRef r, tg_Inputs = [], tg_Correlation = crun_RunID r, tg_ActorRef = []\<rparr>"

definition dispatch_run :: "fmt_lib \<Rightarrow> controlPlaneClient \<Rightarrow> (Config \<Rightarrow> TriggerRequest \<Rightarrow> Handle io)
    \<Rightarrow> (string \<Rightarrow> Secret io) option \<Rightarrow> client_Run \<Rightarrow> (net, unit) prog" where
  "dispatch_run F cp trigger githubCreds r =
     (if crun_Provider r \<noteq> ProviderGitHubActions then
        failRunDispatch cp (crun_RunID r) (''no support for provider '' @ fmt_q F (crun_Provider r))
      else case githubCreds of
        None \<Rightarrow> failRunDispatch cp (crun_RunID r) ''this worker has no GitHub App credentials configured''
      | Some mintToken \<Rightarrow>
          bindP (mintToken (settings_get (crun_Settings r) ''repo'')) (\<lambda>t.
            case t of
              Inl e \<Rightarrow> failRunDispatch cp (crun_RunID r) (''resolving github credential: '' @ fmt_Error F e)
            | Inr token \<Rightarrow>
                bindP (trigger (run_config r token) (run_trigger r)) (\<lambda>x.
                  case x of
                    Inl e \<Rightarrow> failRunDispatch cp (crun_RunID r) (''triggering pipeline: '' @ fmt_Error F e)
                  | Inr _ \<Rightarrow> Done ())))"

definition pollRuns :: "fmt_lib \<Rightarrow> controlPlaneClient \<Rightarrow> (Config \<Rightarrow> TriggerRequest \<Rightarrow> Handle io)
    \<Rightarrow> (string \<Rightarrow> Secret io) option \<Rightarrow> (net, unit) prog" where
  "pollRuns F cp trigger githubCreds =
     bindP (pc_NextRun cp) (\<lambda>next.
       case next of
         Inl e \<Rightarrow> Done ()
       | Inr None \<Rightarrow> Done ()
       | Inr (Some r) \<Rightarrow> dispatch_run F cp trigger githubCreds r)"

text \<open>
  The loop, with fuel: \<open>None\<close> is a loop still going, \<open>Some (Inl Panic)\<close> a crash, and
  \<open>Some (Inr ())\<close> the return after the context is done.
\<close>

fun poll_loop :: "nat \<Rightarrow> fmt_lib \<Rightarrow> controlPlaneClient \<Rightarrow> cloud_Broker \<Rightarrow> (Config \<Rightarrow> TriggerRequest \<Rightarrow> Handle io)
    \<Rightarrow> (string \<Rightarrow> Secret io) option \<Rightarrow> (net, unit res option) prog" where
  "poll_loop 0 F cp B trigger githubCreds = Done None"
| "poll_loop (Suc fuel) F cp B trigger githubCreds =
     bindP (pollVerifications F cp B) (\<lambda>x.
       case x of
         Inl e \<Rightarrow> Done (Some (Inl e))
       | Inr _ \<Rightarrow>
           bindP (pollRuns F cp trigger githubCreds) (\<lambda>_.
           bindP ctx_Done (\<lambda>stop.
             if stop then Done (Some (Inr ())) else poll_loop fuel F cp B trigger githubCreds)))"

text \<open>\<open>Run\<close> makes its ticker first, and \<open>time.NewTicker\<close> panics on an interval that is not positive.\<close>

definition poller_Run :: "nat \<Rightarrow> fmt_lib \<Rightarrow> controlPlaneClient \<Rightarrow> cloud_Broker \<Rightarrow> (Config \<Rightarrow> TriggerRequest \<Rightarrow> Handle io)
    \<Rightarrow> (string \<Rightarrow> Secret io) option \<Rightarrow> int64 \<Rightarrow> (net, unit res option) prog" where
  "poller_Run fuel F cp B trigger githubCreds interval =
     (if sint interval \<le> 0 then Done (Some (Inl Panic)) else poll_loop fuel F cp B trigger githubCreds)"


section \<open>A claimed run is dispatched or reported failed\<close>

text \<open>
  The two ends of a delivered run: it was dispatched with a token minted for its own repository and
  GitHub accepted that request, or no dispatch was accepted.
\<close>

definition dispatched :: "(string \<Rightarrow> Secret io) \<Rightarrow> (Config \<Rightarrow> TriggerRequest \<Rightarrow> http_request) \<Rightarrow> client_Run \<Rightarrow> net \<Rightarrow> net \<Rightarrow> bool" where
  "dispatched token dispatch r u v \<longleftrightarrow>
     (\<exists>tok u1. crun_Provider r = ProviderGitHubActions \<and> run (token (settings_get (crun_Settings r) ''repo'')) u = (Inr tok, u1) \<and>
        accepted u1 (dispatch (run_config r tok) (run_trigger r)) \<and>
        v = called (HTTP (dispatch (run_config r tok) (run_trigger r))) u1)"

definition refused :: "(string \<Rightarrow> Secret io) \<Rightarrow> (Config \<Rightarrow> TriggerRequest \<Rightarrow> http_request) \<Rightarrow> client_Run \<Rightarrow> net \<Rightarrow> net \<Rightarrow> bool" where
  "refused token dispatch r u v \<longleftrightarrow>
     v = u \<or> (\<exists>e. run (token (settings_get (crun_Settings r) ''repo'')) u = (Inl e, v)) \<or>
     (\<exists>tok u1. run (token (settings_get (crun_Settings r) ''repo'')) u = (Inr tok, u1) \<and>
        (v = u1 \<or> v = called (HTTP (dispatch (run_config r tok) (run_trigger r))) u1 \<and>
                   \<not> accepted u1 (dispatch (run_config r tok) (run_trigger r))))"

text \<open>
  The interfaces the dispatch relies on: triggering makes the one request \<open>dispatch cfg req\<close>, or none,
  and returns a handle exactly when it is accepted; minting a token makes other requests only; and
  reporting makes the one request \<open>report_call\<close>.
\<close>

locale run_dispatcher =
  fixes cp :: controlPlaneClient
    and trigger :: "Config \<Rightarrow> TriggerRequest \<Rightarrow> Handle io"
    and dispatch :: "Config \<Rightarrow> TriggerRequest \<Rightarrow> http_request"
    and token :: "string \<Rightarrow> Secret io"
    and report_call :: "string \<Rightarrow> client_RunResult \<Rightarrow> http_request"
  assumes trigger_once: "\<exists>x. (run (trigger cfg req) w = (x, w) \<and> (\<exists>e. x = Inl e)) \<or>
      (run (trigger cfg req) w = (x, called (HTTP (dispatch cfg req)) w) \<and> ((\<exists>h. x = Inr h) \<longleftrightarrow> accepted w (dispatch cfg req)))"
    and token_other: "run (token repo) w = (t, v) \<Longrightarrow> \<exists>cs. nt_log v = nt_log w @ cs \<and>
      (\<forall>c \<in> set cs. \<forall>cfg req. c \<noteq> HTTP (dispatch cfg req)) \<and> (\<forall>c \<in> set cs. \<forall>i res. c \<noteq> HTTP (report_call i res))"
    and report_once: "snd (run (pc_ReportRunResult cp i res) w) = sent (report_call i res) w"
begin

lemma failRunDispatch_run: "run (failRunDispatch cp i reason) w = ((), sent (report_call i (failed_result reason)) w)"
  using report_once [of i "failed_result reason" w] by (auto simp: failRunDispatch_def run_bindP split: prod.splits)

lemma dispatch_run_outcome:
  assumes "creds = None \<or> creds = Some token" and "run (dispatch_run F cp trigger creds r) u = (x, v)"
  shows "dispatched token dispatch r u v \<or>
     (\<exists>u1 reason. refused token dispatch r u u1 \<and> v = sent (report_call (crun_RunID r) (failed_result reason)) u1)"
proof (cases "crun_Provider r = ProviderGitHubActions \<and> creds = Some token")
  case False
  with assms show ?thesis
    by (auto simp: dispatch_run_def failRunDispatch_run refused_def split: if_splits)
next
  case True
  let ?repo = "settings_get (crun_Settings r) ''repo''"
  obtain t u1 where tok: "run (token ?repo) u = (t, u1)" by force
  show ?thesis
  proof (cases t)
    case (Inl e)
    with assms True tok show ?thesis
      by (auto simp: dispatch_run_def failRunDispatch_run run_bindP refused_def)
  next
    case (Inr s)
    from trigger_once [of "run_config r s" "run_trigger r" u1] obtain y where
      y: "(run (trigger (run_config r s) (run_trigger r)) u1 = (y, u1) \<and> (\<exists>e. y = Inl e)) \<or>
        (run (trigger (run_config r s) (run_trigger r)) u1 = (y, called (HTTP (dispatch (run_config r s) (run_trigger r))) u1) \<and>
          ((\<exists>h. y = Inr h) \<longleftrightarrow> accepted u1 (dispatch (run_config r s) (run_trigger r))))" by blast
    from assms(2) True tok Inr have v: "run (case y of Inl e \<Rightarrow> failRunDispatch cp (crun_RunID r) (''triggering pipeline: '' @ fmt_Error F e)
        | Inr _ \<Rightarrow> Done ()) (snd (run (trigger (run_config r s) (run_trigger r)) u1)) = (x, v)"
      using y by (auto simp: dispatch_run_def run_bindP simp del: append_Cons)
    show ?thesis
    proof (cases y)
      case (Inl e)
      with y v tok Inr show ?thesis
        by (intro disjI2 exI [of _ "snd (run (trigger (run_config r s) (run_trigger r)) u1)"]) (auto simp: failRunDispatch_run refused_def)
    next
      case (Inr h)
      with y v tok \<open>t = Inr s\<close> True show ?thesis by (auto simp: dispatched_def)
    qed
  qed
qed

end

definition bodyless :: "call \<Rightarrow> bool" where
  "bodyless c \<longleftrightarrow> (case c of HTTP req \<Rightarrow> rq_Body req = None | _ \<Rightarrow> False)"

lemma bodyless_github [simp]: "bodyless (HTTP (github_request t verb path None))"
  by (simp add: bodyless_def github_request_def)

lemma InstallationToken_log:
  assumes "run (InstallationToken r repo) w = (t, v)"
  shows "\<exists>cs. nt_log v = nt_log w @ cs \<and> (\<forall>c \<in> set cs. bodyless c)"
  using assms
  by (auto simp: InstallationToken_def resolver_do_def appToken_def run_bindE run_bindP run_mapE run_github_do
      split: prod.splits sum.splits if_splits)

interpretation github: run_dispatcher "poller_client c" Trigger dispatch_request "InstallationToken app" "ReportRunResult_request c"
  for c :: Client and app :: Resolver
proof unfold_locales
  fix cfg req w
  show "\<exists>x. (run (Trigger cfg req) w = (x, w) \<and> (\<exists>e. x = Inl e)) \<or>
      (run (Trigger cfg req) w = (x, called (HTTP (dispatch_request cfg req)) w) \<and> ((\<exists>h. x = Inr h) \<longleftrightarrow> accepted w (dispatch_request cfg req)))"
  proof -
    obtain x where x: "run (Trigger cfg req) w = (x, if ValidateConfig cfg = Inr () then sent (dispatch_request cfg req) w else w)"
      and ok: "(\<exists>h. x = Inr h) \<longleftrightarrow> ValidateConfig cfg = Inr () \<and> nt_url_ok w (rq_URL (dispatch_request cfg req)) \<and>
        accepted w (dispatch_request cfg req)" using Trigger_run [of cfg req w] by blast
    then show ?thesis by (cases x) (auto simp: sent_def)
  qed
next
  fix repo w t v
  assume "run (InstallationToken app repo) w = (t, v)"
  from InstallationToken_log [OF this] obtain cs where cs: "nt_log v = nt_log w @ cs" "\<forall>a \<in> set cs. bodyless a" by blast
  have "\<not> bodyless (HTTP (dispatch_request cfg req))" "\<not> bodyless (HTTP (ReportRunResult_request c i res))" for cfg req i res
    by (simp_all add: bodyless_def dispatch_request_def github_request_def ReportRunResult_request_def send_request_def)
  with cs show "\<exists>cs. nt_log v = nt_log w @ cs \<and> (\<forall>a \<in> set cs. \<forall>cfg req. a \<noteq> HTTP (dispatch_request cfg req)) \<and>
      (\<forall>a \<in> set cs. \<forall>i res. a \<noteq> HTTP (ReportRunResult_request c i res))"
    by metis
next
  fix i res w
  show "snd (run (pc_ReportRunResult (poller_client c) i res) w) = sent (ReportRunResult_request c i res) w"
    by (simp add: poller_client_def client_calls_once)
qed

text \<open>
  No claimed run is lost by the worker.  When the control plane delivers a run, one poll either
  dispatches its workflow, with a token minted for the run's own repository, in a request GitHub
  accepts, and reports nothing; or no dispatch is accepted and the run is reported failed, in one
  request for that run.
\<close>

theorem pollRuns_dispatches_or_fails:
  assumes "run (client_NextRun c) w = (Inr (Some r), u)"
    and "creds = None \<or> creds = Some (InstallationToken app)"
    and "run (pollRuns F (poller_client c) Trigger creds) w = (x, v)"
  shows "dispatched (InstallationToken app) dispatch_request r u v \<or>
     (\<exists>u1 reason. refused (InstallationToken app) dispatch_request r u u1 \<and>
        v = sent (ReportRunResult_request c (crun_RunID r)
              \<lparr>crr_Status = ''failed'', crr_CIExternalRef = [], crr_CIURL = [], crr_CIRawStatus = reason\<rparr>) u1)"
proof -
  from assms(1,3) have "run (dispatch_run F (poller_client c) Trigger creds r) u = (x, v)"
    by (simp add: pollRuns_def poller_client_def run_bindP)
  from github.dispatch_run_outcome [OF assms(2) this] show ?thesis by (simp add: failed_result_def)
qed

section \<open>The checks assume the roles of the job\<close>

text \<open>The role of one name, as the control plane sent it.\<close>

definition job_input :: "client_Job \<Rightarrow> string \<Rightarrow> AssumeRoleInput" where
  "job_input job name =
     \<lparr>si_RoleArn = settings_get (job_RoleARNs job) name, si_RoleSessionName = ''agentic-idp-worker'',
      si_ExternalId = job_ExternalID job, si_DurationSeconds = 900\<rparr>"

lemma assume_input_job:
  assumes "distinct (map fst (job_RoleARNs job))"
    and "NewEnvironmentConfig (job_AccountRef job) (job_ExternalID job) (job_TrustAnchor job) (job_RoleARNs job) = Inr cfg"
    and "ParseTier name = Inr t"
  shows "assume_input cfg t defaultCredentialTTL = job_input job name"
proof -
  from assms(3) have t: "Tier_Valid t" "name = Tier_String t" by (simp_all add: ParseTier_Inr)
  with NewEnvironmentConfig_Inr [OF assms(1,2)] show ?thesis
    by (simp add: assume_input_def job_input_def assumeRoleSessionName_def ttl_seconds_def defaultCredentialTTL_def)
qed

lemma check_tiers_aws:
  assumes "\<forall>n \<in> set names. \<exists>t. ParseTier n = Inr t \<and> assume_input cfg t defaultCredentialTTL = input n"
    and "\<forall>n i. nt_sts w n i \<noteq> Inr None"
  shows "\<exists>rs. run (check_tiers F aws_New cfg names) w = (Inr rs, foldl (\<lambda>u n. called (STS (input n)) u) w names) \<and>
     map fst rs = names \<and>
     (\<forall>k < length names. ctr_OK (snd (rs ! k)) \<longleftrightarrow> (\<exists>out. nt_sts w (nt_tick w + k) (input (names ! k)) = Inr out))"
  using assms
proof (induction names arbitrary: w)
  case Nil
  then show ?case by simp
next
  case (Cons n names)
  from Cons.prems(1) obtain t where t: "ParseTier n = Inr t" "assume_input cfg t defaultCredentialTTL = input n" by auto
  then have valid: "Tier_Valid t" by (simp add: ParseTier_Inr)
  let ?u = "called (STS (input n)) w"
  from Cons.prems have "\<exists>rs. run (check_tiers F aws_New cfg names) ?u = (Inr rs, foldl (\<lambda>u n. called (STS (input n)) u) ?u names) \<and>
     map fst rs = names \<and> (\<forall>k < length names. ctr_OK (snd (rs ! k)) \<longleftrightarrow> (\<exists>out. nt_sts w (Suc (nt_tick w) + k) (input (names ! k)) = Inr out))"
    using Cons.IH [of ?u] by simp
  then obtain rs where rs: "run (check_tiers F aws_New cfg names) ?u = (Inr rs, foldl (\<lambda>u n. called (STS (input n)) u) ?u names)"
    "map fst rs = names" "\<forall>k < length names. ctr_OK (snd (rs ! k)) \<longleftrightarrow> (\<exists>out. nt_sts w (Suc (nt_tick w) + k) (input (names ! k)) = Inr out)"
    by blast
  have step: "\<exists>r. run (check_tiers F aws_New cfg (n # names)) w = (Inr ((n, r) # rs), foldl (\<lambda>u n. called (STS (input n)) u) ?u names) \<and>
      (ctr_OK r \<longleftrightarrow> (\<exists>out. nt_sts w (nt_tick w) (input n) = Inr out))"
    using t valid rs(1) Cons.prems(2)
    by (auto simp: aws_New_def MintCredentials_run run_bindP run_bindE aws_credentials_def split: sum.splits option.splits)
  then obtain r where r: "run (check_tiers F aws_New cfg (n # names)) w = (Inr ((n, r) # rs), foldl (\<lambda>u n. called (STS (input n)) u) ?u names)"
    "ctr_OK r \<longleftrightarrow> (\<exists>out. nt_sts w (nt_tick w) (input n) = Inr out)" by blast
  show ?case
    by (intro exI [of _ "(n, r) # rs"]) (use r rs(2,3) in \<open>auto simp: nth_Cons' less_Suc_eq_0_disj\<close>)
qed

lemma log_foldl_called: "nt_log (foldl (\<lambda>u n. called (STS (f n)) u) w ns) = nt_log w @ map (\<lambda>n. STS (f n)) ns"
  by (induction ns arbitrary: w) simp_all

text \<open>
  A connectivity check tests what the control plane sent and nothing else.  For an AWS job whose
  names are tiers, the worker makes one call per tier: it assumes that tier's own ARN with the job's
  external ID; the result of a tier is fine exactly when that call succeeded.  (STS answers a successful
  call with credentials.)
\<close>

theorem runChecks_per_tier:
  assumes "job_Provider job = ''aws''" and "distinct (map fst (job_RoleARNs job))"
    and "\<forall>name \<in> fst ` set (job_RoleARNs job). \<exists>t. ParseTier name = Inr t"
    and "\<forall>n i. nt_sts w n i \<noteq> Inr None"
  shows "\<exists>rs v. run (runChecks F aws_New job) w = (Inr rs, v) \<and> map fst rs = map fst (job_RoleARNs job) \<and>
     nt_log v = nt_log w @ map (\<lambda>(name, arn). STS \<lparr>si_RoleArn = arn, si_RoleSessionName = ''agentic-idp-worker'',
       si_ExternalId = job_ExternalID job, si_DurationSeconds = 900\<rparr>) (job_RoleARNs job) \<and>
     (\<forall>k < length (job_RoleARNs job). ctr_OK (snd (rs ! k)) \<longleftrightarrow>
        (\<exists>out. nt_sts w (nt_tick w + k) \<lparr>si_RoleArn = snd (job_RoleARNs job ! k), si_RoleSessionName = ''agentic-idp-worker'',
           si_ExternalId = job_ExternalID job, si_DurationSeconds = 900\<rparr> = Inr out))"
proof -
  let ?names = "map fst (job_RoleARNs job)"
  obtain cfg where cfg: "NewEnvironmentConfig (job_AccountRef job) (job_ExternalID job) (job_TrustAnchor job) (job_RoleARNs job) = Inr cfg"
    using NewEnvironmentConfig_Inl [of "job_AccountRef job" "job_ExternalID job" "job_TrustAnchor job" "job_RoleARNs job"] assms(3)
    by (cases "NewEnvironmentConfig (job_AccountRef job) (job_ExternalID job) (job_TrustAnchor job) (job_RoleARNs job)") auto
  have arn: "settings_get (job_RoleARNs job) name = a" if "(name, a) \<in> set (job_RoleARNs job)" for name a
    using that assms(2) by (simp add: settings_get_def)
  have inputs: "\<forall>n \<in> set ?names. \<exists>t. ParseTier n = Inr t \<and> assume_input cfg t defaultCredentialTTL = job_input job n"
    using assms(3) assume_input_job [OF assms(2) cfg] by (metis list.set_map)
  from check_tiers_aws [OF inputs assms(4), of F] obtain rs where
    rs: "run (check_tiers F aws_New cfg ?names) w = (Inr rs, foldl (\<lambda>u n. called (STS (job_input job n)) u) w ?names)"
    "map fst rs = ?names"
    "\<forall>k < length ?names. ctr_OK (snd (rs ! k)) \<longleftrightarrow> (\<exists>out. nt_sts w (nt_tick w + k) (job_input job (?names ! k)) = Inr out)"
    by blast
  have at: "job_input job (?names ! k) = \<lparr>si_RoleArn = snd (job_RoleARNs job ! k), si_RoleSessionName = ''agentic-idp-worker'',
     si_ExternalId = job_ExternalID job, si_DurationSeconds = 900\<rparr>" if "k < length (job_RoleARNs job)" for k
    using that arn [of "fst (job_RoleARNs job ! k)" "snd (job_RoleARNs job ! k)"] by (simp add: job_input_def)
  have log: "map (\<lambda>n. STS (job_input job n)) ?names = map (\<lambda>(name, arn). STS \<lparr>si_RoleArn = arn, si_RoleSessionName = ''agentic-idp-worker'',
       si_ExternalId = job_ExternalID job, si_DurationSeconds = 900\<rparr>) (job_RoleARNs job)"
    using arn by (auto simp: job_input_def)
  show ?thesis
    by (rule exI [of _ rs], rule exI [of _ "foldl (\<lambda>u n. called (STS (job_input job n)) u) w ?names"])
       (use assms(1) cfg rs at log in \<open>simp add: runChecks_def ProviderAWS_def log_foldl_called\<close>)
qed

section \<open>The loop ends with its context\<close>

lemma check_tiers_returns:
  assumes "\<forall>n i. nt_sts w n i \<noteq> Inr None"
  shows "\<exists>rs v. run (check_tiers F aws_New cfg names) w = (Inr rs, v) \<and> quiet w v"
  using assms
proof (induction names arbitrary: w)
  case Nil
  then show ?case by (simp add: quiet_def)
next
  case (Cons n names)
  show ?case
  proof (cases "ParseTier n")
    case (Inl e)
    with Cons.IH [OF Cons.prems] show ?thesis by (auto simp: run_bindE)
  next
    case (Inr t)
    then have "Tier_Valid t" by (simp add: ParseTier_Inr)
    let ?i = "assume_input cfg t defaultCredentialTTL"
    from Cons.IH [of "called (STS ?i) w"] Cons.prems obtain rs v where
      "run (check_tiers F aws_New cfg names) (called (STS ?i) w) = (Inr rs, v)" "quiet (called (STS ?i) w) v" by auto
    moreover from this(2) have "quiet w v" by (auto simp: quiet_def intro: same_outside_trans [OF same_outside_called])
    ultimately show ?thesis using Inr \<open>Tier_Valid t\<close> Cons.prems
      by (auto simp: aws_New_def MintCredentials_run run_bindP run_bindE aws_credentials_def split: sum.splits option.splits)
  qed
qed

lemma pollVerifications_returns:
  assumes "\<forall>n i. nt_sts w n i \<noteq> Inr None"
  shows "\<exists>v. run (pollVerifications F (poller_client c) aws_New) w = (Inr (), v) \<and> quiet w v"
proof -
  obtain x u where nj: "run (client_NextJob c) w = (x, u)" by force
  from quiet_run [OF quiet_client(1) nj] have u: "quiet w u" "\<forall>n i. nt_sts u n i \<noteq> Inr None"
    using assms by (auto simp: quiet_def same_outside_def)
  have trans: "quiet a d" if "quiet a b" "quiet b d" for a b d using that quiet_laws(2) by (auto dest: transpD)
  show ?thesis
  proof (cases "\<exists>job. x = Inr (Some job)")
    case False
    with nj u show ?thesis
      by (auto simp: pollVerifications_def poller_client_def run_bindP split: sum.splits option.splits)
  next
    case True
    then obtain job where x: "x = Inr (Some job)" by blast
    have "\<exists>y v. run (runChecks F aws_New job) u = (y, v) \<and> y \<noteq> Inl Panic \<and> quiet u v"
    proof (cases "\<exists>cfg. runChecks F aws_New job = check_tiers F aws_New cfg (map fst (job_RoleARNs job))")
      case True
      then obtain cfg where "runChecks F aws_New job = check_tiers F aws_New cfg (map fst (job_RoleARNs job))" ..
      with check_tiers_returns [OF u(2), of F cfg "map fst (job_RoleARNs job)"] show ?thesis by auto
    next
      case False
      then show ?thesis by (auto simp: runChecks_def quiet_def split: sum.splits if_splits)
    qed
    then obtain y v where y: "run (runChecks F aws_New job) u = (y, v)" "y \<noteq> Inl Panic" "quiet u v" by blast
    show ?thesis
    proof (cases y)
      case (Inl e)
      with nj x y trans [OF u(1) y(3)] show ?thesis
        by (auto simp: pollVerifications_def poller_client_def run_bindP)
    next
      case (Inr rs)
      obtain z v' where rep: "run (client_ReportResult c (job_VerificationID job) rs) v = (z, v')" by force
      from quiet_run [OF quiet_client(4) rep] have "quiet v v'" by (simp add: quiet_def)
      with nj x y(1) Inr rep trans [OF trans [OF u(1) y(3)]] show ?thesis
        by (auto simp: pollVerifications_def poller_client_def run_bindP)
    qed
  qed
qed

lemma quiet_failRunDispatch: "steps quiet (failRunDispatch (poller_client c) i reason)"
  unfolding failRunDispatch_def poller_client_def by (auto intro!: steps_bindP quiet_client)

lemma quiet_dispatch_run:
  assumes "creds = None \<or> creds = Some (InstallationToken app)"
  shows "steps quiet (dispatch_run F (poller_client c) Trigger creds r)"
proof (cases "crun_Provider r = ProviderGitHubActions \<and> creds = Some (InstallationToken app)")
  case True
  then show ?thesis unfolding dispatch_run_def
    by (simp, intro steps_bindP quiet_github)
       (auto split: sum.split intro!: steps_bindP quiet_github quiet_failRunDispatch simp del: append_Cons)
next
  case False
  with assms show ?thesis unfolding dispatch_run_def by (auto intro: quiet_failRunDispatch simp del: append_Cons)
qed

lemma quiet_pollRuns:
  assumes "creds = None \<or> creds = Some (InstallationToken app)"
  shows "steps quiet (pollRuns F (poller_client c) Trigger creds)"
  unfolding pollRuns_def
  by (rule steps_bindP) (auto simp: poller_client_def quiet_client split: sum.split option.split
      intro: quiet_dispatch_run [OF assms, unfolded poller_client_def])

lemma poller_round:
  assumes "\<forall>n i. nt_sts w n i \<noteq> Inr None" and "creds = None \<or> creds = Some (InstallationToken app)"
  shows "\<exists>v. same_outside w v \<and> nt_selects v = Suc (nt_selects w) \<and>
     run (poll_loop (Suc fuel) F (poller_client c) aws_New Trigger creds) w =
       (if nt_done w (nt_selects w) then (Some (Inr ()), v) else run (poll_loop fuel F (poller_client c) aws_New Trigger creds) v)"
proof -
  from pollVerifications_returns [OF assms(1)] obtain u where u: "run (pollVerifications F (poller_client c) aws_New) w = (Inr (), u)" "quiet w u"
    by blast
  obtain v where v: "run (pollRuns F (poller_client c) Trigger creds) u = ((), v)"
    by (cases "run (pollRuns F (poller_client c) Trigger creds) u") auto
  from quiet_run [OF quiet_pollRuns [OF assms(2)] v] u(2) have q: "same_outside w v" "nt_selects v = nt_selects w"
    by (auto simp: quiet_def intro: same_outside_trans)
  then have "nt_done v = nt_done w" by (simp add: same_outside_def)
  with u(1) v q show ?thesis
    by (intro exI [of _ "v\<lparr>nt_selects := Suc (nt_selects v)\<rparr>"]) (auto simp: run_bindP same_outside_def)
qed

lemma poll_loop_stops:
  assumes "nt_done w (nt_selects w + k)" and "\<forall>n i. nt_sts w n i \<noteq> Inr None"
    and "creds = None \<or> creds = Some (InstallationToken app)"
  shows "fst (run (poll_loop (Suc k) F (poller_client c) aws_New Trigger creds) w) = Some (Inr ())"
  using assms(1,2)
proof (induction k arbitrary: w)
  case (0 w)
  from poller_round [OF "0.prems"(2) assms(3), of 0 F c] "0.prems"(1) show ?case by (auto simp del: poll_loop.simps)
next
  case (Suc k)
  from poller_round [OF Suc.prems(2) assms(3), of "Suc k" F c] obtain v where
    v: "same_outside w v" "nt_selects v = Suc (nt_selects w)"
      "run (poll_loop (Suc (Suc k)) F (poller_client c) aws_New Trigger creds) w =
       (if nt_done w (nt_selects w) then (Some (Inr ()), v) else run (poll_loop (Suc k) F (poller_client c) aws_New Trigger creds) v)"
    by blast
  show ?case
  proof (cases "nt_done w (nt_selects w)")
    case True
    with v(3) show ?thesis by (simp del: poll_loop.simps)
  next
    case False
    have "nt_done v (nt_selects v + k)" "\<forall>n i. nt_sts v n i \<noteq> Inr None"
      using Suc.prems v(1,2) by (simp_all add: same_outside_def)
    from Suc.IH [OF this] False v(3) show ?thesis by (simp del: poll_loop.simps)
  qed
qed

text \<open>
  The poll loop returns when its context is done, and on no other account.  With a positive
  interval, and \<open>ctx.Done()\<close> ready at the \<open>k\<close>-th check at the latest, fuel for \<open>k\<close> rounds is enough and
  the loop returns without a crash, whatever the control plane, GitHub and STS answer in between.
\<close>

theorem poller_stops:
  assumes "0 < sint interval" and "nt_done w (nt_selects w + k)" and "\<forall>n i. nt_sts w n i \<noteq> Inr None"
    and "creds = None \<or> creds = Some (InstallationToken app)"
  shows "fst (run (poller_Run (Suc k) F (poller_client c) aws_New Trigger creds interval) w) = Some (Inr ())"
  unfolding poller_Run_def using assms poll_loop_stops [OF assms(2-4)] by (simp del: poll_loop.simps)

section \<open>At a concrete outside\<close>

definition reply_with :: "int \<Rightarrow> (string \<times> json) list \<Rightarrow> http_response res" where
  "reply_with code kvs = Inr \<lparr>hr_StatusCode = code, hr_Status = [], hr_Body = Some (JObj kvs)\<rparr>"

definition demo_answer :: "http_request \<Rightarrow> http_response res" where
  "demo_answer req =
     (if rq_URL req = ''cp/v1/worker/runs/next'' then
        reply_with 200 [(''run_id'', JStr ''9''), (''provider'', JStr ''github_actions''), (''workflow_ref'', JStr ''deploy.yml''),
          (''settings'', JObj [(''repo'', JStr ''acme/app'')])]
      else if rq_URL req = ''cp/v1/worker/verifications/next'' then
        reply_with 200 [(''verification_id'', JStr ''v''), (''provider'', JStr ''aws''), (''external_id'', JStr ''x''),
          (''role_arns'', JObj [(''read_only'', JStr ''r1''), (''autonomous'', JStr ''r3'')])]
      else if rq_URL req = ''https://api.github.com/repos/acme/app/installation'' then reply_with 200 [(''id'', JNum 7)]
      else if rq_URL req = ''https://api.github.com/app/installations/7/access_tokens'' then reply_with 201 [(''token'', JStr ''tok'')]
      else reply_with 200 [])"

definition demo_net :: net where
  "demo_net = \<lparr>nt_log = [], nt_tick = 0, nt_clock = int, nt_url_ok = (\<lambda>u. True), nt_http = (\<lambda>n. demo_answer),
     nt_sts = (\<lambda>n i. if si_RoleArn i = ''r3'' then Inl (Errorf ''denied'')
                    else Inr (Some \<lparr>sc_AccessKeyId = Some ''k'', sc_SecretAccessKey = Some ''s'', sc_SessionToken = None, sc_Expiration = None\<rparr>)),
     nt_selects = 0, nt_done = (\<lambda>n. n = 2)\<rparr>"

definition demo_client :: Client where
  "demo_client = client_New ''cp'' ''wt''"

definition demo_app :: Resolver where
  "demo_app = \<lparr>app_ID = ''1'', app_NumericDate = id, app_Sign = (\<lambda>iss iat ex. Inr ''jwt'')\<rparr>"

definition demo_fmt :: fmt_lib where
  "demo_fmt = \<lparr>fmt_Error = (\<lambda>e. ''error''), fmt_q = id\<rparr>"

definition demo_run :: client_Run where
  "demo_run = \<lparr>crun_RunID = ''9'', crun_Provider = ''github_actions'', crun_WorkflowRef = ''deploy.yml'',
     crun_Settings = [(''repo'', ''acme/app'')]\<rparr>"

lemma demo_NextRun: "fst (run (client_NextRun demo_client) demo_net) = Inr (Some demo_run)"
  by code_simp

theorem pollRuns_dispatches_or_fails_witness:
  "\<exists>u v. run (client_NextRun demo_client) demo_net = (Inr (Some demo_run), u) \<and>
     run (pollRuns demo_fmt (poller_client demo_client) Trigger (Some (InstallationToken demo_app))) demo_net = ((), v) \<and>
     (dispatched (InstallationToken demo_app) dispatch_request demo_run u v \<or> (\<exists>req u1. v = sent req u1))"
proof -
  let ?poll = "run (pollRuns demo_fmt (poller_client demo_client) Trigger (Some (InstallationToken demo_app))) demo_net"
  obtain u where nj: "run (client_NextRun demo_client) demo_net = (Inr (Some demo_run), u)"
    using demo_NextRun by (metis prod.collapse)
  obtain v where poll: "?poll = ((), v)" by (cases ?poll) auto
  from pollRuns_dispatches_or_fails [OF nj disjI2 [OF refl] poll] show ?thesis using nj poll by blast
qed

definition demo_job :: client_Job where
  "demo_job = \<lparr>job_VerificationID = ''v'', job_Environment = [], job_Provider = ''aws'', job_AccountRef = [], job_ExternalID = ''x'',
     job_TrustAnchor = [], job_RoleARNs = [(''read_only'', ''r1''), (''autonomous'', ''r3'')]\<rparr>"

theorem runChecks_per_tier_witness:
  "\<exists>rs v. run (runChecks demo_fmt aws_New demo_job) demo_net = (Inr rs, v) \<and>
     ctr_OK (snd (rs ! 0)) \<and> \<not> ctr_OK (snd (rs ! 1)) \<and> length (nt_log v) = 2"
proof -
  have names: "\<forall>name \<in> fst ` set (job_RoleARNs demo_job). \<exists>t. ParseTier name = Inr t"
    by (simp add: demo_job_def ParseTier_def)
  have job: "job_Provider demo_job = ''aws''" "distinct (map fst (job_RoleARNs demo_job))" by (simp_all add: demo_job_def)
  have sts: "\<forall>n i. nt_sts demo_net n i \<noteq> Inr None" by (simp add: demo_net_def)
  from runChecks_per_tier [OF job names sts, of demo_fmt] obtain rs v where
    run: "run (runChecks demo_fmt aws_New demo_job) demo_net = (Inr rs, v)" "map fst rs = map fst (job_RoleARNs demo_job)"
    and log: "nt_log v = nt_log demo_net @ map (\<lambda>(name, arn). STS \<lparr>si_RoleArn = arn, si_RoleSessionName = ''agentic-idp-worker'',
       si_ExternalId = job_ExternalID demo_job, si_DurationSeconds = 900\<rparr>) (job_RoleARNs demo_job)"
    and ok: "\<forall>k < length (job_RoleARNs demo_job). ctr_OK (snd (rs ! k)) \<longleftrightarrow>
        (\<exists>out. nt_sts demo_net (nt_tick demo_net + k) \<lparr>si_RoleArn = snd (job_RoleARNs demo_job ! k), si_RoleSessionName = ''agentic-idp-worker'',
           si_ExternalId = job_ExternalID demo_job, si_DurationSeconds = 900\<rparr> = Inr out)"
    by blast
  from ok have "ctr_OK (snd (rs ! 0))" "\<not> ctr_OK (snd (rs ! 1))" by (simp_all add: demo_job_def demo_net_def)
  with run(1) log show ?thesis by (simp add: demo_job_def demo_net_def)
qed

theorem poller_stops_witness:
  "fst (run (poller_Run 3 demo_fmt (poller_client demo_client) aws_New Trigger None 5000000000) demo_net) = Some (Inr ())"
proof -
  have "0 < sint (5000000000 :: int64)" by simp
  moreover have "nt_done demo_net (nt_selects demo_net + 2)" "\<forall>n i. nt_sts demo_net n i \<noteq> Inr None" by (simp_all add: demo_net_def)
  ultimately show ?thesis using poller_stops [of "5000000000" demo_net 2 None] by (simp only: eval_nat_numeral) simp
qed
end
