(* ===== verification/CiAuth.thy ===== *)
theory CiAuth
  imports Poller ApiRuns
begin

text \<open>
  \<open>worker/internal/ciauth\<close>: a CI job presents its OIDC token, the worker resolves it to the run that
  authorised it, mints that run's credentials, answers, and then polls the job until it ends.  The
  verification of an ID token (\<open>go-oidc\<close>) is a parameter.
\<close>

section \<open>Verifiers\<close>

record ciauth_Claims =
  ca_Repo :: string
  ca_WorkflowRef :: string
  ca_Ref :: string
  ca_RunID :: string
  ca_Actor :: string
  ca_URL :: string

record Verifier =
  vf_Provider :: provider
  vf_Verify :: "string \<Rightarrow> ciauth_Claims io"

definition ciauth_NewRegistry :: "Verifier list \<Rightarrow> Verifier registry option" where
  "ciauth_NewRegistry verifiers = register vf_Provider verifiers []"

definition ciauth_Get :: "Verifier registry \<Rightarrow> provider \<Rightarrow> Verifier res" where
  "ciauth_Get r p =
     (case map_of r p of None \<Rightarrow> Inl (Wrapf (Sentinel ciauth_ErrUnknownProvider)) | Some v \<Rightarrow> Inr v)"

text \<open>Up to the first \<open>@\<close>, without the repository in front.\<close>

definition parseWorkflowRef :: "string \<Rightarrow> string \<Rightarrow> string" where
  "parseWorkflowRef repo workflowRef = TrimPrefix (takeWhile (\<lambda>c. c \<noteq> CHR ''@'') workflowRef) (repo @ ''/'')"

text \<open>\<open>oidc_Verify\<close> checks issuer, audience, expiry and signature of an ID token and gives its payload.\<close>

type_synonym oidc_lib = "nat \<Rightarrow> string \<Rightarrow> json option res"

definition github_claims :: "(string \<times> json) list \<Rightarrow> ciauth_Claims res" where
  "github_claims kvs =
     bindR (json_string ''repository'' kvs []) (\<lambda>repo.
     bindR (json_string ''workflow_ref'' kvs []) (\<lambda>wfl.
     bindR (json_string ''ref'' kvs []) (\<lambda>ref.
     bindR (json_string ''run_id'' kvs []) (\<lambda>runID.
     bindR (json_string ''actor'' kvs []) (\<lambda>actor.
     Inr \<lparr>ca_Repo = repo, ca_WorkflowRef = parseWorkflowRef repo wfl, ca_Ref = ref, ca_RunID = runID,
          ca_Actor = actor,
          ca_URL = ''https://github.com/'' @ repo @ ''/actions/runs/'' @ runID\<rparr>)))))"

definition github_Verify :: "oidc_lib \<Rightarrow> string \<Rightarrow> ciauth_Claims io" where
  "github_Verify oidc_Verify rawToken =
     bindE (mapE Wrapf (act (\<lambda>w. (oidc_Verify (nt_tick w) rawToken, w\<lparr>nt_tick := Suc (nt_tick w)\<rparr>)))) (\<lambda>payload.
       Done (json_decode payload github_claims))"

definition github_Verifier :: "oidc_lib \<Rightarrow> Verifier" where
  "github_Verifier oidc_Verify = \<lparr>vf_Provider = ProviderGitHubActions, vf_Verify = github_Verify oidc_Verify\<rparr>"

section \<open>The handler\<close>

record ciauth_Handler =
  hn_registry :: "Verifier registry"
  hn_ResolveRun :: "string \<Rightarrow> string \<Rightarrow> string \<Rightarrow> string \<Rightarrow> string \<Rightarrow> string \<Rightarrow> ResolvedRun io"
  hn_ReportRunResult :: "string \<Rightarrow> client_RunResult \<Rightarrow> unit io"
  hn_broker :: cloud_Broker
  hn_Status :: "Config \<Rightarrow> Handle \<Rightarrow> RunStatus io"
  hn_InstallationToken :: "string \<Rightarrow> Secret io"

definition ciauth_NewHandler :: "Verifier registry \<Rightarrow> Client \<Rightarrow> cloud_Broker \<Rightarrow> (string \<Rightarrow> time res) \<Rightarrow> Resolver \<Rightarrow> ciauth_Handler" where
  "ciauth_NewHandler registry c B time_Parse app =
     \<lparr>hn_registry = registry, hn_ResolveRun = client_ResolveRun c, hn_ReportRunResult = client_ReportRunResult c,
      hn_broker = B, hn_Status = github_Status time_Parse, hn_InstallationToken = InstallationToken app\<rparr>"

definition callbackRequest :: "json option \<Rightarrow> (string \<times> string) res" where
  "callbackRequest body =
     json_decode body (\<lambda>kvs.
       bindR (json_string ''provider'' kvs []) (\<lambda>p. bindR (json_string ''token'' kvs []) (\<lambda>t. Inr (p, t))))"

record credentialResponse =
  crs_AccessKeyID :: string
  crs_SecretAccessKey :: string
  crs_SessionToken :: string
  crs_Expiration :: time

definition credential_response :: "Credentials \<Rightarrow> credentialResponse" where
  "credential_response creds =
     \<lparr>crs_AccessKeyID = Credentials_value creds ''access_key_id'',
      crs_SecretAccessKey = Credentials_value creds ''secret_access_key'',
      crs_SessionToken = Credentials_value creds ''session_token'', crs_Expiration = cc_ExpiresAt creds\<rparr>"

definition ServeHTTP :: "ciauth_Handler \<Rightarrow> json option \<Rightarrow> (net, credentialResponse response) prog" where
  "ServeHTTP h body =
     (case callbackRequest body of
        Inl e \<Rightarrow> Done (Error 400 ''malformed request body'')
      | Inr (prov, token) \<Rightarrow>
     (case ciauth_Get (hn_registry h) prov of
        Inl e \<Rightarrow> Done (Error 400 ''unknown provider'')
      | Inr verifier \<Rightarrow>
     bindP (vf_Verify verifier token) (\<lambda>x.
     case x of
       Inl e \<Rightarrow> Done (Error 401 ''invalid token'')
     | Inr claims \<Rightarrow>
     bindP (hn_ResolveRun h prov (ca_Repo claims) (ca_WorkflowRef claims) (ca_Ref claims) (ca_RunID claims) (ca_URL claims)) (\<lambda>x.
     case x of
       Inl e \<Rightarrow> Done (Error 403 ''unable to resolve a matching run'')
     | Inr resolved \<Rightarrow>
     (case NewEnvironmentConfig (rsv_AccountRef resolved) (rsv_ExternalID resolved) (rsv_TrustAnchor resolved)
             [(Tier_String (rsv_Tier resolved), rsv_RoleARN resolved)] of
        Inl e \<Rightarrow> Done (Error 500 ''internal error'')
      | Inr cfg \<Rightarrow>
     bindP (br_MintCredentials (hn_broker h) cfg (rsv_Tier resolved)) (\<lambda>x.
     case x of
       Inl e \<Rightarrow> Done (if e = Panic then Aborted else Error 500 ''minting credentials failed'')
     | Inr creds \<Rightarrow>
     bindP (go_routine [ca_Repo claims, prov, rsv_RunID resolved, ca_RunID claims]) (\<lambda>_.
     Done (Reply 200 (credential_response creds)))))))))"

section \<open>Polling until the job ends\<close>

definition ci_status_text :: "ci_status \<Rightarrow> string" where
  "ci_status_text s =
     (case s of CIPending \<Rightarrow> ''pending'' | CIRunning \<Rightarrow> ''running'' | CISucceeded \<Rightarrow> ''succeeded'' | CIFailed \<Rightarrow> ''failed''
      | CICancelled \<Rightarrow> ''cancelled'' | CITimedOut \<Rightarrow> ''timed_out'' | CIUnknown \<Rightarrow> ''unknown'')"

definition status_config :: "string \<Rightarrow> string \<Rightarrow> Secret \<Rightarrow> Config" where
  "status_config repo prov token = \<lparr>cfg_Provider = prov, cfg_Settings = [(''repo'', repo)], cfg_Credential = token\<rparr>"

definition checkStatus :: "ciauth_Handler \<Rightarrow> string \<Rightarrow> string \<Rightarrow> string \<Rightarrow> RunStatus io" where
  "checkStatus h repo prov externalRunID =
     bindE (mapE Wrapf (hn_InstallationToken h repo)) (\<lambda>token.
     mapE Wrapf (hn_Status h (status_config repo prov token) (empty_Handle\<lparr>hd_Resolved := True, hd_ExternalID := externalRunID\<rparr>)))"

definition reportResult :: "ciauth_Handler \<Rightarrow> string \<Rightarrow> client_RunResult \<Rightarrow> (net, unit) prog" where
  "reportResult h runID result = bindP (hn_ReportRunResult h runID result) (\<lambda>_. Done ())"

text \<open>The pace of the poll and its limit: 720 ticks.\<close>

definition pollInterval :: int64 where "pollInterval = 30 * 1000000000"
definition pollTimeout :: int64 where "pollTimeout = 6 * 3600 * 1000000000"

definition timed_out_result :: client_RunResult where
  "timed_out_result =
     \<lparr>crr_Status = ci_status_text CITimedOut, crr_CIExternalRef = [], crr_CIURL = [],
      crr_CIRawStatus = ''polling timed out before a terminal status was observed''\<rparr>"

definition terminal_result :: "string \<Rightarrow> RunStatus \<Rightarrow> client_RunResult" where
  "terminal_result externalRunID status =
     \<lparr>crr_Status = ci_status_text (rst_Status status), crr_CIExternalRef = externalRunID, crr_CIURL = rst_URL status,
      crr_CIRawStatus = rst_Raw status\<rparr>"

text \<open>
  The loop, with fuel for its rounds; \<open>False\<close> is a loop still going.  Each round waits until the
  timeout (\<open>ctx.Done()\<close>) or the next tick.
\<close>

fun pollUntilTerminal :: "nat \<Rightarrow> ciauth_Handler \<Rightarrow> string \<Rightarrow> string \<Rightarrow> string \<Rightarrow> string \<Rightarrow> (net, bool) prog" where
  "pollUntilTerminal 0 h repo prov ourRunID externalRunID = Done False"
| "pollUntilTerminal (Suc fuel) h repo prov ourRunID externalRunID =
     bindP ctx_Done (\<lambda>timeout.
       if timeout then bindP (reportResult h ourRunID timed_out_result) (\<lambda>_. Done True)
       else bindP (checkStatus h repo prov externalRunID) (\<lambda>x.
         case x of
           Inl e \<Rightarrow> pollUntilTerminal fuel h repo prov ourRunID externalRunID
         | Inr status \<Rightarrow>
             if \<not> Status_Terminal (rst_Status status) then pollUntilTerminal fuel h repo prov ourRunID externalRunID
             else bindP (reportResult h ourRunID (terminal_result externalRunID status)) (\<lambda>_. Done True)))"

section \<open>The workflow of a token\<close>

text \<open>
  The workflow a run is matched by is the one the token names.  GitHub writes the claim as
  repository, path and ref, and parsing it gives back the path the pipeline is stored with, whatever
  the ref is (it may contain further at signs).
\<close>

theorem parseWorkflowRef_roundtrip:
  assumes "CHR ''@'' \<notin> set repo" and "CHR ''@'' \<notin> set path"
  shows "parseWorkflowRef repo (repo @ ''/'' @ path @ ''@'' @ ref) = path"
proof -
  have "\<forall>c \<in> set (repo @ ''/'' @ path). c \<noteq> CHR ''@''" using assms by auto
  then have "takeWhile (\<lambda>c. c \<noteq> CHR ''@'') ((repo @ ''/'' @ path) @ ''@'' @ ref) = (repo @ ''/'' @ path) @ takeWhile (\<lambda>c. c \<noteq> CHR ''@'') (''@'' @ ref)"
    by (intro takeWhile_append2) auto
  then have "takeWhile (\<lambda>c. c \<noteq> CHR ''@'') (repo @ ''/'' @ path @ ''@'' @ ref) = (repo @ ''/'') @ path" by simp
  then show ?thesis unfolding parseWorkflowRef_def by (simp only: TrimPrefix_append)
qed

theorem parseWorkflowRef_roundtrip_witness:
  "parseWorkflowRef ''acme/app'' (''acme/app'' @ ''/'' @ ''.github/workflows/deploy.yml'' @ ''@'' @ ''refs/heads/main'') = ''.github/workflows/deploy.yml''"
  by (rule parseWorkflowRef_roundtrip) simp_all

section \<open>Who gets credentials\<close>

text \<open>
  The contract of a verifier: it makes no call the worker's log records, whatever it decides.
\<close>

locale ci_verifier =
  fixes verify :: "string \<Rightarrow> ciauth_Claims io"
  assumes verify_silent: "run (verify token) w = (x, v) \<Longrightarrow> nt_log v = nt_log w \<and> same_outside w v"

lemma github_Verify_silent:
  "run (github_Verify oidc token) w = (x, v) \<Longrightarrow> nt_log v = nt_log w \<and> same_outside w v"
  by (auto simp: github_Verify_def run_bindE run_mapE same_outside_def split: sum.splits)

interpretation github_verifier: ci_verifier "github_Verify oidc" for oidc
  by unfold_locales (rule github_Verify_silent)

lemma ServeHTTP_Reply:
  assumes "run (ServeHTTP h body) w = (Reply n cred, v)"
  shows "\<exists>prov token verifier claims u1 resolved u2 cfg creds u3.
     n = 200 \<and> callbackRequest body = Inr (prov, token) \<and> ciauth_Get (hn_registry h) prov = Inr verifier \<and>
     run (vf_Verify verifier token) w = (Inr claims, u1) \<and>
     run (hn_ResolveRun h prov (ca_Repo claims) (ca_WorkflowRef claims) (ca_Ref claims) (ca_RunID claims) (ca_URL claims)) u1 = (Inr resolved, u2) \<and>
     NewEnvironmentConfig (rsv_AccountRef resolved) (rsv_ExternalID resolved) (rsv_TrustAnchor resolved)
       [(Tier_String (rsv_Tier resolved), rsv_RoleARN resolved)] = Inr cfg \<and>
     run (br_MintCredentials (hn_broker h) cfg (rsv_Tier resolved)) u2 = (Inr creds, u3) \<and>
     cred = credential_response creds \<and> v = called (Spawn [ca_Repo claims, prov, rsv_RunID resolved, ca_RunID claims]) u3"
  using assms unfolding ServeHTTP_def
  by (auto simp: run_bindP split: sum.splits prod.splits if_splits)

lemma credential_response_aws:
  "aws_credentials (Some out) = Inr creds \<Longrightarrow> credential_response creds =
     \<lparr>crs_AccessKeyID = aws_ToString (sc_AccessKeyId out), crs_SecretAccessKey = aws_ToString (sc_SecretAccessKey out),
      crs_SessionToken = aws_ToString (sc_SessionToken out), crs_Expiration = aws_ToTime (sc_Expiration out)\<rparr>"
  by (auto simp: aws_credentials_def credential_response_def Credentials_value_def)

lemma ServeHTTP_aws:
  assumes "run (ServeHTTP (ciauth_NewHandler registry c aws_New tp app) body) w = (Reply n cred, v)"
  shows "\<exists>prov token verifier claims u1 resolved u2 out. callbackRequest body = Inr (prov, token) \<and>
     map_of registry prov = Some verifier \<and> run (vf_Verify verifier token) w = (Inr claims, u1) \<and>
     run (client_ResolveRun c prov (ca_Repo claims) (ca_WorkflowRef claims) (ca_Ref claims) (ca_RunID claims) (ca_URL claims)) u1 = (Inr resolved, u2) \<and>
     nt_sts u2 (nt_tick u2) \<lparr>si_RoleArn = rsv_RoleARN resolved, si_RoleSessionName = ''agentic-idp-worker'',
       si_ExternalId = rsv_ExternalID resolved, si_DurationSeconds = 900\<rparr> = Inr (Some out) \<and>
     cred = \<lparr>crs_AccessKeyID = aws_ToString (sc_AccessKeyId out), crs_SecretAccessKey = aws_ToString (sc_SecretAccessKey out),
             crs_SessionToken = aws_ToString (sc_SessionToken out), crs_Expiration = aws_ToTime (sc_Expiration out)\<rparr> \<and>
     nt_log v = nt_log u2 @ [STS \<lparr>si_RoleArn = rsv_RoleARN resolved, si_RoleSessionName = ''agentic-idp-worker'',
       si_ExternalId = rsv_ExternalID resolved, si_DurationSeconds = 900\<rparr>,
       Spawn [ca_Repo claims, prov, rsv_RunID resolved, ca_RunID claims]]"
proof -
  from ServeHTTP_Reply [OF assms] obtain prov token verifier claims u1 resolved u2 cfg creds u3 where
    req: "callbackRequest body = Inr (prov, token)" "ciauth_Get registry prov = Inr verifier"
    and ver: "run (vf_Verify verifier token) w = (Inr claims, u1)"
    and rsv: "run (client_ResolveRun c prov (ca_Repo claims) (ca_WorkflowRef claims) (ca_Ref claims) (ca_RunID claims) (ca_URL claims)) u1 = (Inr resolved, u2)"
    and cfg: "NewEnvironmentConfig (rsv_AccountRef resolved) (rsv_ExternalID resolved) (rsv_TrustAnchor resolved)
       [(Tier_String (rsv_Tier resolved), rsv_RoleARN resolved)] = Inr cfg"
    and mint: "run (MintCredentials cfg (rsv_Tier resolved)) u2 = (Inr creds, u3)"
    and out: "cred = credential_response creds" "v = called (Spawn [ca_Repo claims, prov, rsv_RunID resolved, ca_RunID claims]) u3"
    by (auto simp: ciauth_NewHandler_def aws_New_def)
  let ?t = "rsv_Tier resolved"
  let ?i = "\<lparr>si_RoleArn = rsv_RoleARN resolved, si_RoleSessionName = ''agentic-idp-worker'',
       si_ExternalId = rsv_ExternalID resolved, si_DurationSeconds = 900\<rparr>"
  from aws.mint_Inr [OF mint] have t: "Tier_Valid ?t" by simp
  have "distinct (map fst [(Tier_String ?t, rsv_RoleARN resolved)])" by simp
  from NewEnvironmentConfig_Inr [OF this cfg] t have i: "assume_input cfg ?t defaultCredentialTTL = ?i"
    by (simp add: assume_input_def assumeRoleSessionName_def ttl_seconds_def defaultCredentialTTL_def settings_get_def)
  from mint t obtain o' where o': "nt_sts u2 (nt_tick u2) ?i = Inr (Some o')" "aws_credentials (Some o') = Inr creds" "u3 = called (STS ?i) u2"
    by (auto simp: MintCredentials_run i aws_credentials_def split: sum.splits option.splits)
  from req(2) have reg: "map_of registry prov = Some verifier" by (auto simp: ciauth_Get_def split: option.splits)
  show ?thesis
    by (intro exI conjI, rule req(1), rule reg, rule ver, rule rsv, rule o'(1))
       (simp_all add: out(1) credential_response_aws [OF o'(2)] out(2) o'(3))
qed

text \<open>
  Credentials go only to the job of a run.  The callback answers with credentials only when a
  registered verifier accepted the token; the control plane, asked with that token's own repository,
  workflow, ref and run, answered with a run; and STS, asked for the role and external ID of that
  answer for 900 seconds, issued exactly the credentials returned.  The run is then polled in the
  background, once, under the identifiers of that same answer and token.
\<close>

theorem ServeHTTP_credentials:
  assumes "run (ServeHTTP (ciauth_NewHandler registry c aws_New tp app) body) w = (Reply n cred, v)"
  shows "\<exists>prov token verifier claims u1 resolved u2 out. callbackRequest body = Inr (prov, token) \<and>
     map_of registry prov = Some verifier \<and> run (vf_Verify verifier token) w = (Inr claims, u1) \<and>
     run (client_ResolveRun c prov (ca_Repo claims) (ca_WorkflowRef claims) (ca_Ref claims) (ca_RunID claims) (ca_URL claims)) u1 = (Inr resolved, u2) \<and>
     nt_sts u2 (nt_tick u2) \<lparr>si_RoleArn = rsv_RoleARN resolved, si_RoleSessionName = ''agentic-idp-worker'',
       si_ExternalId = rsv_ExternalID resolved, si_DurationSeconds = 900\<rparr> = Inr (Some out) \<and>
     cred = \<lparr>crs_AccessKeyID = aws_ToString (sc_AccessKeyId out), crs_SecretAccessKey = aws_ToString (sc_SecretAccessKey out),
             crs_SessionToken = aws_ToString (sc_SessionToken out), crs_Expiration = aws_ToTime (sc_Expiration out)\<rparr> \<and>
     nt_log v = nt_log u2 @ [STS \<lparr>si_RoleArn = rsv_RoleARN resolved, si_RoleSessionName = ''agentic-idp-worker'',
       si_ExternalId = rsv_ExternalID resolved, si_DurationSeconds = 900\<rparr>,
       Spawn [ca_Repo claims, prov, rsv_RunID resolved, ca_RunID claims]]"
  using assms by (rule ServeHTTP_aws)

section \<open>The poll reports once\<close>

text \<open>What the poll relies on: checking a status sends requests without a body only.\<close>

locale status_checker =
  fixes check :: "RunStatus io"
  assumes check_bodyless: "run check w = (x, v) \<Longrightarrow> \<exists>cs. nt_log v = nt_log w @ cs \<and> (\<forall>a \<in> set cs. bodyless a)"
    and check_quiet: "run check w = (x, v) \<Longrightarrow> same_outside w v \<and> nt_selects v = nt_selects w"

lemma github_Status_log:
  assumes "run (github_Status tp cfg h) w = (x, v)"
  shows "\<exists>cs. nt_log v = nt_log w @ cs \<and> (\<forall>a \<in> set cs. bodyless a)"
  using assms by (auto simp: github_Status_def run_bindE run_mapE run_github_do split: prod.splits sum.splits if_splits)

abbreviation worker_handler :: "Verifier registry \<Rightarrow> Client \<Rightarrow> (string \<Rightarrow> time res) \<Rightarrow> Resolver \<Rightarrow> ciauth_Handler" where
  "worker_handler registry c tp app \<equiv> ciauth_NewHandler registry c aws_New tp app"

interpretation github_status: status_checker "checkStatus (worker_handler registry c tp app) repo prov ext"
  for registry c tp app repo prov ext
proof unfold_locales
  fix w x v
  assume run: "run (checkStatus (worker_handler registry c tp app) repo prov ext) w = (x, v)"
  have "steps quiet (checkStatus (worker_handler registry c tp app) repo prov ext)"
    unfolding checkStatus_def ciauth_NewHandler_def by (auto intro!: steps_bindE steps_mapE quiet_github)
  from quiet_run [OF this run] show "same_outside w v \<and> nt_selects v = nt_selects w" .
  obtain t u where tok: "run (InstallationToken app repo) w = (t, u)" by force
  from InstallationToken_log [OF tok] obtain cs where cs: "nt_log u = nt_log w @ cs" "\<forall>a \<in> set cs. bodyless a" by blast
  show "\<exists>cs. nt_log v = nt_log w @ cs \<and> (\<forall>a \<in> set cs. bodyless a)"
  proof (cases t)
    case (Inl e)
    with run tok cs show ?thesis by (auto simp: checkStatus_def ciauth_NewHandler_def run_bindE run_mapE)
  next
    case (Inr token)
    with run tok obtain y where st: "run (github_Status tp (status_config repo prov token) (empty_Handle\<lparr>hd_Resolved := True, hd_ExternalID := ext\<rparr>)) u = (y, v)"
      by (auto simp: checkStatus_def ciauth_NewHandler_def run_bindE run_mapE split: prod.splits sum.splits)
    from github_Status_log [OF st] cs show ?thesis by auto
  qed
qed

text \<open>A status the worker reports is one the control plane takes.\<close>

lemma terminal_text_accepted: "Status_Terminal s \<Longrightarrow> map_of validTerminalRunStatuses (ci_status_text s) \<noteq> None"
  by (cases s) (simp_all add: ci_status_text_def validTerminalRunStatuses_def status_text_def)

lemma reported_accepted:
  "map_of validTerminalRunStatuses (crr_Status timed_out_result) \<noteq> None"
  "Status_Terminal (rst_Status st) \<Longrightarrow> map_of validTerminalRunStatuses (crr_Status (terminal_result ext st)) \<noteq> None"
  "map_of validTerminalRunStatuses (crr_Status (failed_result reason)) \<noteq> None"
  using terminal_text_accepted [of CITimedOut] terminal_text_accepted [of "rst_Status st"] terminal_text_accepted [of CIFailed]
  by (simp_all add: timed_out_result_def terminal_result_def failed_result_def ci_status_text_def)

lemma reportResult_run:
  "run (reportResult (worker_handler registry c tp app) i res) w = ((), sent (ReportRunResult_request c i res) w)"
  using client_calls_once(3) [of c i res w]
  by (auto simp: reportResult_def ciauth_NewHandler_def run_bindP split: prod.splits)

definition reported_once :: "Client \<Rightarrow> string \<Rightarrow> net \<Rightarrow> net \<Rightarrow> bool" where
  "reported_once c ourRunID w v \<longleftrightarrow>
     (\<exists>u cs res. same_outside w u \<and> nt_log u = nt_log w @ cs \<and> (\<forall>a \<in> set cs. bodyless a) \<and>
        map_of validTerminalRunStatuses (crr_Status res) \<noteq> None \<and> v = sent (ReportRunResult_request c ourRunID res) u)"

lemma reported_once_later:
  "same_outside w u \<Longrightarrow> nt_log u = nt_log w @ cs \<Longrightarrow> \<forall>a \<in> set cs. bodyless a \<Longrightarrow> reported_once c i u v \<Longrightarrow> reported_once c i w v"
  unfolding reported_once_def by (elim exE conjE) (intro exI conjI, erule (1) same_outside_trans, simp, auto)

lemma reported_timeout:
  "reported_once c i w (sent (ReportRunResult_request c i timed_out_result) (w\<lparr>nt_selects := n\<rparr>))"
  unfolding reported_once_def
  by (rule exI [of _ "w\<lparr>nt_selects := n\<rparr>"], rule exI [of _ "[]"], rule exI [of _ timed_out_result])
     (intro conjI, simp add: same_outside_def, simp, simp, rule reported_accepted(1), rule refl)

lemma poll_ends:
  assumes "nt_done w (nt_selects w + k)"
  shows "\<exists>v. run (pollUntilTerminal (Suc k) (worker_handler registry c tp app) repo prov ourRunID ext) w = (True, v) \<and>
     reported_once c ourRunID w v"
  using assms
proof (induction k arbitrary: w)
  case 0
  then show ?case
    by (simp add: run_bindP reportResult_run reported_timeout)
next
  case (Suc k)
  let ?h = "worker_handler registry c tp app"
  let ?w = "w\<lparr>nt_selects := Suc (nt_selects w)\<rparr>"
  show ?case
  proof (cases "nt_done w (nt_selects w)")
    case True
    then show ?thesis
      by (simp add: run_bindP reportResult_run reported_timeout)
  next
    case False
    obtain x u where chk: "run (checkStatus ?h repo prov ext) ?w = (x, u)" by force
    from github_status.check_quiet [OF chk] have u: "same_outside w u" "nt_done u = nt_done w" "nt_selects u = Suc (nt_selects w)"
      by (simp_all add: same_outside_def)
    from github_status.check_bodyless [OF chk] obtain cs where cs: "nt_log u = nt_log w @ cs" "\<forall>a \<in> set cs. bodyless a" by auto
    from Suc.prems u have "nt_done u (nt_selects u + k)" by simp
    from Suc.IH [OF this] obtain v where v: "run (pollUntilTerminal (Suc k) ?h repo prov ourRunID ext) u = (True, v)" "reported_once c ourRunID u v"
      by blast
    show ?thesis
    proof (cases "\<exists>st. x = Inr st \<and> Status_Terminal (rst_Status st)")
      case True
      then obtain st where st: "x = Inr st" "Status_Terminal (rst_Status st)" by blast
      have "reported_once c ourRunID w (sent (ReportRunResult_request c ourRunID (terminal_result ext st)) u)"
        unfolding reported_once_def using cs u(1) reported_accepted(2) [OF st(2), of ext] by blast
      with False chk st show ?thesis by (simp add: run_bindP reportResult_run)
    next
      case more: False
      with False chk have "run (pollUntilTerminal (Suc (Suc k)) ?h repo prov ourRunID ext) w = run (pollUntilTerminal (Suc k) ?h repo prov ourRunID ext) u"
        by (auto simp: run_bindP split: sum.splits)
      with v reported_once_later [OF u(1) cs v(2)] show ?thesis by auto
    qed
  qed
qed

text \<open>
  C22.  The background poll ends and reports its run once.  When the timeout is chosen at the \<open>k\<close>-th
  wait at the latest, fuel for \<open>k\<close> rounds is enough: the poll returns after sending exactly one result
  for its run, and before it only requests without a body; the status of that result is one the
  control plane accepts.
\<close>

theorem pollUntilTerminal_reports_once:
  assumes "nt_done w (nt_selects w + k)"
  shows "\<exists>v. run (pollUntilTerminal (Suc k) (worker_handler registry c tp app) repo prov ourRunID ext) w = (True, v) \<and>
     reported_once c ourRunID w v"
  using assms by (rule poll_ends)

section \<open>At a concrete outside\<close>

definition job_payload :: "json option" where
  "job_payload = Some (JObj [(''repository'', JStr ''acme/app''), (''workflow_ref'', JStr ''acme/app/ci.yml@refs/heads/main''),
     (''ref'', JStr ''refs/heads/main''), (''run_id'', JStr ''77'')])"

definition job_registry :: "Verifier registry" where
  "job_registry = [(''github_actions'', github_Verifier (\<lambda>n raw. if raw = ''good'' then Inr job_payload else Inl (Errorf ''bad'')))]"

definition resolve_net :: net where
  "resolve_net = demo_net\<lparr>nt_http := (\<lambda>n req.
     if rq_URL req = ''cp/v1/worker/runs/resolve'' then
       reply_with 200 [(''run_id'', JStr ''9''), (''tier'', JNum 1), (''external_id'', JStr ''x''), (''role_arn'', JStr ''r1'')]
     else demo_answer req)\<rparr>"

definition job_request :: "json option" where
  "job_request = Some (JObj [(''provider'', JStr ''github_actions''), (''token'', JStr ''good'')])"

lemma job_served:
  "case fst (run (ServeHTTP (worker_handler job_registry demo_client (\<lambda>s. Inr 0) demo_app) job_request) resolve_net) of
     Reply n cred \<Rightarrow> n = 200 \<and> crs_AccessKeyID cred = ''k'' | _ \<Rightarrow> False"
  by code_simp

theorem ServeHTTP_credentials_witness:
  "\<exists>cred v. run (ServeHTTP (worker_handler job_registry demo_client (\<lambda>s. Inr 0) demo_app) job_request) resolve_net = (Reply 200 cred, v) \<and>
     (\<exists>log i args. nt_log v = log @ [STS i, Spawn args])"
proof -
  let ?run = "run (ServeHTTP (worker_handler job_registry demo_client (\<lambda>s. Inr 0) demo_app) job_request) resolve_net"
  obtain cred v where run: "?run = (Reply 200 cred, v)"
    using job_served by (cases ?run) (auto split: response.splits)
  from ServeHTTP_credentials [OF run] obtain u2 :: net and i args where "nt_log v = nt_log u2 @ [STS i, Spawn args]" by blast
  with run show ?thesis by blast
qed

theorem pollUntilTerminal_reports_once_witness:
  "\<exists>v. run (pollUntilTerminal 3 (worker_handler job_registry demo_client (\<lambda>s. Inr 0) demo_app) ''acme/app'' ''github_actions'' ''9'' ''77'') demo_net = (True, v) \<and>
     reported_once demo_client ''9'' demo_net v"
proof -
  have "nt_done demo_net (nt_selects demo_net + 2)" by (simp add: demo_net_def)
  from pollUntilTerminal_reports_once [OF this, of job_registry demo_client "\<lambda>s. Inr 0" demo_app]
  show ?thesis by (simp only: eval_nat_numeral)
qed

text \<open>The ref that is dispatched is the one the control plane expects of the job's token.\<close>

lemma dispatched_ref_resolves:
  "normalizeRef (settings_get (crun_Settings r) ''ref'') = (if HasPrefix (run_ref r) ''refs/'' then run_ref r else ''refs/heads/'' @ run_ref r)"
  by (simp add: normalizeRef_def run_ref_def HasPrefix_def)
end
