(* ===== verification/WorkerService.thy ===== *)
theory WorkerService
  imports CiAuth
begin

text \<open>
  \<open>worker/internal/config\<close> and \<open>worker/internal/service\<close>: the worker's settings from its environment
  and files, its registration with the control plane, and the start of its two loops.
\<close>

section \<open>Settings\<close>

text \<open>
  The environment, the files, \<open>time.ParseDuration\<close>, and the start-up calls of the libraries: the AWS
  configuration, the App's private key, and the discovery of GitHub's OIDC issuer for an audience.
\<close>

record start_lib =
  sl_getenv :: "string \<Rightarrow> string"
  sl_ReadFile :: "string \<Rightarrow> string res"
  sl_ParseDuration :: "string \<Rightarrow> int64 res"
  sl_aws :: "unit res"
  sl_app :: "string \<Rightarrow> string \<Rightarrow> Resolver res"
  sl_oidc :: "string \<Rightarrow> oidc_lib res"

definition defaultPollInterval :: int64 where "defaultPollInterval = 5 * 1000000000"
definition defaultCIListenAddr :: string where "defaultCIListenAddr = '':8443''"

record worker_Config =
  wcf_ControlPlaneURL :: string
  wcf_Token :: string
  wcf_BootstrapToken :: string
  wcf_WorkerName :: string
  wcf_PollInterval :: int64
  wcf_GitHubAppID :: string
  wcf_GitHubAppKey :: string
  wcf_CIListenAddr :: string
  wcf_CICallbackURL :: string

definition cfg_Bootstrap :: "worker_Config \<Rightarrow> bool" where
  "cfg_Bootstrap cfg \<longleftrightarrow> wcf_BootstrapToken cfg \<noteq> []"

text \<open>\<open>strings.TrimRight\<close> of one character.\<close>

definition TrimRight :: "string \<Rightarrow> char \<Rightarrow> string" where
  "TrimRight s c = rev (dropWhile (\<lambda>x. x = c) (rev s))"

definition requireEnv :: "start_lib \<Rightarrow> string \<Rightarrow> string res" where
  "requireEnv S name = (let v = sl_getenv S name in if v = [] then Inl (Errorf ''is required'') else Inr v)"

definition loadSecret :: "start_lib \<Rightarrow> string \<Rightarrow> string \<Rightarrow> string res" where
  "loadSecret S envName fileName =
     (let fromEnv = sl_getenv S envName; fromFile = sl_getenv S fileName in
      if fromEnv \<noteq> [] \<and> fromFile \<noteq> [] then Inl (Errorf ''set only one'')
      else if fromEnv \<noteq> [] then Inr fromEnv
      else if fromFile \<noteq> [] then
        (case sl_ReadFile S fromFile of Inl e \<Rightarrow> Inl (Wrapf e) | Inr b \<Rightarrow> Inr (TrimSpace b))
      else Inl (Errorf ''is required''))"

definition loadOptionalSecret :: "start_lib \<Rightarrow> string \<Rightarrow> string \<Rightarrow> string res" where
  "loadOptionalSecret S envName fileName =
     (if sl_getenv S envName = [] \<and> sl_getenv S fileName = [] then Inr [] else loadSecret S envName fileName)"

definition loadCredentials :: "start_lib \<Rightarrow> (string \<times> string \<times> string) res" where
  "loadCredentials S =
     (let tokenSet = sl_getenv S ''IDP_WORKER_TOKEN'' \<noteq> [] \<or> sl_getenv S ''IDP_WORKER_TOKEN_FILE'' \<noteq> [];
          bootstrapSet = sl_getenv S ''IDP_WORKER_BOOTSTRAP_TOKEN'' \<noteq> [] \<or> sl_getenv S ''IDP_WORKER_BOOTSTRAP_TOKEN_FILE'' \<noteq> [] in
      if tokenSet \<and> bootstrapSet then Inl (Errorf ''not both'')
      else if tokenSet then
        bindR (loadSecret S ''IDP_WORKER_TOKEN'' ''IDP_WORKER_TOKEN_FILE'') (\<lambda>token. Inr (token, [], []))
      else if bootstrapSet then
        bindR (loadSecret S ''IDP_WORKER_BOOTSTRAP_TOKEN'' ''IDP_WORKER_BOOTSTRAP_TOKEN_FILE'') (\<lambda>bootstrapToken.
        bindR (requireEnv S ''IDP_WORKER_NAME'') (\<lambda>workerName. Inr ([], bootstrapToken, workerName)))
      else Inl (Errorf ''one of them is required''))"

definition Load :: "start_lib \<Rightarrow> worker_Config res" where
  "Load S =
     bindR (requireEnv S ''IDP_CONTROL_PLANE_URL'') (\<lambda>url.
     bindR (loadCredentials S) (\<lambda>(token, bootstrapToken, workerName).
     let raw = sl_getenv S ''IDP_POLL_INTERVAL'' in
     bindR (if raw \<noteq> [] then (case sl_ParseDuration S raw of Inl e \<Rightarrow> Inl (Wrapf e) | Inr d \<Rightarrow> Inr d)
            else Inr defaultPollInterval) (\<lambda>interval.
     bindR (loadOptionalSecret S ''IDP_GITHUB_APP_PRIVATE_KEY'' ''IDP_GITHUB_APP_PRIVATE_KEY_FILE'') (\<lambda>appKey.
     let githubAppID = sl_getenv S ''IDP_GITHUB_APP_ID''; callbackURL = sl_getenv S ''IDP_CI_CALLBACK_URL'' in
     if githubAppID \<noteq> [] \<and> callbackURL = [] then Inl (Errorf ''IDP_CI_CALLBACK_URL is required'')
     else let addr = sl_getenv S ''IDP_CI_LISTEN_ADDR'' in
       Inr \<lparr>wcf_ControlPlaneURL = TrimRight url (CHR ''/''), wcf_Token = token, wcf_BootstrapToken = bootstrapToken,
            wcf_WorkerName = workerName, wcf_PollInterval = interval, wcf_GitHubAppID = githubAppID,
            wcf_GitHubAppKey = appKey, wcf_CIListenAddr = (if addr \<noteq> [] then addr else defaultCIListenAddr),
            wcf_CICallbackURL = callbackURL\<rparr>))))"

section \<open>Registration and service\<close>

definition bootstrapRetryInterval :: int64 where "bootstrapRetryInterval = 5 * 1000000000"

text \<open>With fuel for the attempts: \<open>None\<close> is a loop still trying.\<close>

fun bootstrapRetry :: "nat \<Rightarrow> 'a io \<Rightarrow> (net, 'a res option) prog" where
  "bootstrapRetry 0 fn = Done None"
| "bootstrapRetry (Suc fuel) fn =
     bindP fn (\<lambda>x.
       case x of
         Inr a \<Rightarrow> Done (Some (Inr a))
       | Inl e \<Rightarrow> bindP ctx_Done (\<lambda>stop.
           if stop then Done (Some (Inl (Wrapf (Errorf ''context canceled'')))) else bootstrapRetry fuel fn))"

text \<open>
  \<open>Run\<close>, in its order; the callback server runs beside the poll loop (\<open>Spawn\<close>).  \<open>fuel\<close> bounds the
  attempts to register and the rounds of the poll loop.
\<close>

definition with_token :: "nat \<Rightarrow> worker_Config \<Rightarrow> (string \<Rightarrow> (net, unit res option) prog) \<Rightarrow> (net, unit res option) prog" where
  "with_token fuel cfg k =
     (if cfg_Bootstrap cfg then
        bindP (bootstrapRetry fuel (mapE Wrapf (client_Bootstrap (wcf_ControlPlaneURL cfg) (wcf_BootstrapToken cfg) (wcf_WorkerName cfg)))) (\<lambda>x.
          case x of
            None \<Rightarrow> Done None
          | Some (Inl e) \<Rightarrow> Done (Some (Inl (Wrapf e)))
          | Some (Inr (credentialID, token)) \<Rightarrow> k token)
      else k (wcf_Token cfg))"

definition start_callback :: "start_lib \<Rightarrow> worker_Config \<Rightarrow> Client \<Rightarrow> Resolver option io" where
  "start_callback S cfg cp =
     (if wcf_GitHubAppID cfg = [] then returnE None
      else case sl_app S (wcf_GitHubAppID cfg) (wcf_GitHubAppKey cfg) of
        Inl e \<Rightarrow> failE (Wrapf (Wrapf e))
      | Inr resolver \<Rightarrow>
          (case sl_oidc S (wcf_CICallbackURL cfg) of
             Inl e \<Rightarrow> failE (Wrapf (Wrapf e))
           | Inr verifier \<Rightarrow>
               bindP (go_routine [''ListenAndServe'', wcf_CIListenAddr cfg]) (\<lambda>_.
               bindE (mapE Wrapf (RegisterCICallback cp (wcf_CICallbackURL cfg))) (\<lambda>_.
               returnE (Some resolver)))))"

definition service_Run :: "nat \<Rightarrow> fmt_lib \<Rightarrow> start_lib \<Rightarrow> (net, unit res option) prog" where
  "service_Run fuel F S =
     (case Load S of
        Inl e \<Rightarrow> Done (Some (Inl (Wrapf e)))
      | Inr cfg \<Rightarrow>
          (case sl_aws S of
             Inl e \<Rightarrow> Done (Some (Inl (Wrapf (Wrapf e))))
           | Inr _ \<Rightarrow>
               with_token fuel cfg (\<lambda>token.
                 let cp = client_New (wcf_ControlPlaneURL cfg) token in
                 bindP (start_callback S cfg cp) (\<lambda>x.
                   case x of
                     Inl e \<Rightarrow> Done (Some (Inl e))
                   | Inr resolver \<Rightarrow>
                       poller_Run fuel F (poller_client cp) aws_New Trigger (map_option InstallationToken resolver)
                         (wcf_PollInterval cfg)))))"

text \<open>\<open>cmd/worker\<close>, up to the status it exits with.\<close>

definition worker_main :: "nat \<Rightarrow> fmt_lib \<Rightarrow> start_lib \<Rightarrow> (net, nat option) prog" where
  "worker_main fuel F S = bindP (service_Run fuel F S) (\<lambda>x. Done (map_option exit_status x))"

section \<open>One credential\<close>

lemma loadSecret_nonempty:
  assumes "loadSecret S e f = Inr s" and "\<And>b. sl_ReadFile S (sl_getenv S f) = Inr b \<Longrightarrow> TrimSpace b \<noteq> []"
  shows "s \<noteq> []"
  using assms by (auto simp: loadSecret_def Let_def split: if_splits sum.splits)

lemma Load_Inr:
  assumes "Load S = Inr cfg"
  shows "loadCredentials S = Inr (wcf_Token cfg, wcf_BootstrapToken cfg, wcf_WorkerName cfg) \<and>
     (wcf_GitHubAppID cfg \<noteq> [] \<longrightarrow> wcf_CICallbackURL cfg \<noteq> []) \<and> wcf_CIListenAddr cfg \<noteq> []"
  using assms by (auto simp: Load_def Let_def defaultCIListenAddr_def split: if_splits)

text \<open>
  A worker starts with one credential.  When \<open>Load\<close> succeeds and no secret file is blank, the
  worker has either a token and nothing to register with, or a bootstrap token together with a name
  and no token; and with a GitHub App configured it knows the address its callback is reached at.
\<close>

theorem Load_one_credential:
  assumes "Load S = Inr cfg" and "\<And>f b. sl_ReadFile S f = Inr b \<Longrightarrow> TrimSpace b \<noteq> []"
  shows "(if cfg_Bootstrap cfg then wcf_Token cfg = [] \<and> wcf_WorkerName cfg \<noteq> []
          else wcf_Token cfg \<noteq> [] \<and> wcf_WorkerName cfg = []) \<and>
     (wcf_GitHubAppID cfg \<noteq> [] \<longrightarrow> wcf_CICallbackURL cfg \<noteq> [])"
proof -
  from Load_Inr [OF assms(1)] have cr: "loadCredentials S = Inr (wcf_Token cfg, wcf_BootstrapToken cfg, wcf_WorkerName cfg)"
    and url: "wcf_GitHubAppID cfg \<noteq> [] \<longrightarrow> wcf_CICallbackURL cfg \<noteq> []" by auto
  from cr have "(\<exists>t. loadSecret S ''IDP_WORKER_TOKEN'' ''IDP_WORKER_TOKEN_FILE'' = Inr t \<and> wcf_Token cfg = t \<and>
        wcf_BootstrapToken cfg = [] \<and> wcf_WorkerName cfg = []) \<or>
      (\<exists>t. loadSecret S ''IDP_WORKER_BOOTSTRAP_TOKEN'' ''IDP_WORKER_BOOTSTRAP_TOKEN_FILE'' = Inr t \<and> wcf_Token cfg = [] \<and>
        wcf_BootstrapToken cfg = t \<and> wcf_WorkerName cfg \<noteq> [])"
    by (auto simp: loadCredentials_def requireEnv_def Let_def split: if_splits)
  moreover have "loadSecret S e f \<noteq> Inr []" for e f using loadSecret_nonempty [of S e f] assms(2) by blast
  ultimately show ?thesis using url by (auto simp: cfg_Bootstrap_def)
qed

definition sample_start :: "(string \<times> string) list \<Rightarrow> string \<Rightarrow> start_lib" where
  "sample_start env file =
     \<lparr>sl_getenv = settings_get env, sl_ReadFile = (\<lambda>f. Inr file), sl_ParseDuration = (\<lambda>s. Inl (Errorf ''duration'')),
      sl_aws = Inr (), sl_app = (\<lambda>i k. Inr demo_app), sl_oidc = (\<lambda>a. Inr (\<lambda>n raw. Inl (Errorf ''bad'')))\<rparr>"

abbreviation file_env :: "(string \<times> string) list" where
  "file_env \<equiv> [(''IDP_CONTROL_PLANE_URL'', ''http://cp/''), (''IDP_WORKER_BOOTSTRAP_TOKEN_FILE'', ''/run/secret''), (''IDP_WORKER_NAME'', ''w'')]"

lemma sample_Load: "Load (sample_start file_env ''secret'') =
    Inr \<lparr>wcf_ControlPlaneURL = ''http://cp'', wcf_Token = [], wcf_BootstrapToken = ''secret'', wcf_WorkerName = ''w'',
         wcf_PollInterval = defaultPollInterval, wcf_GitHubAppID = [], wcf_GitHubAppKey = [], wcf_CIListenAddr = '':8443'', wcf_CICallbackURL = []\<rparr>"
  by code_simp

theorem Load_one_credential_witness:
  "\<exists>cfg. Load (sample_start file_env ''secret'') = Inr cfg \<and> wcf_Token cfg = [] \<and> wcf_WorkerName cfg \<noteq> []"
proof -
  have blank: "TrimSpace b \<noteq> []" if "sl_ReadFile (sample_start file_env ''secret'') f = Inr b" for f b
  proof -
    from that have "b = ''secret''" by (simp add: sample_start_def)
    moreover have "TrimSpace ''secret'' \<noteq> []" by code_simp
    ultimately show ?thesis by simp
  qed
  from Load_one_credential [OF sample_Load blank] sample_Load show ?thesis by (simp add: cfg_Bootstrap_def)
qed

text \<open>
  A blank secret file leaves the worker without any credential.  Nothing rejects an empty secret
  after trimming: with a bootstrap token file that holds only a newline, \<open>Load\<close> succeeds with neither
  a token nor a bootstrap token, the worker does not register, and the first request it polls with
  carries an empty bearer token.
\<close>

theorem Load_blank_secret:
  "case Load (sample_start file_env [CHR 0x0A]) of
     Inl e \<Rightarrow> False
   | Inr cfg \<Rightarrow> wcf_Token cfg = [] \<and> \<not> cfg_Bootstrap cfg \<and>
       (case nt_log (snd (run (service_Run 1 demo_fmt (sample_start file_env [CHR 0x0A])) demo_net)) of
          HTTP req # _ \<Rightarrow> rq_Headers req = [(''Authorization'', ''Bearer '')] | _ \<Rightarrow> False)"
  by code_simp

text \<open>
  A poll interval of zero stops the worker before its first poll.  \<open>Load\<close> takes whatever
  \<open>time.ParseDuration\<close> accepts, and the ticker of the poll loop panics on an interval that is not
  positive: with \<open>IDP_POLL_INTERVAL=0\<close> the configuration loads and the worker crashes without a request.
\<close>

theorem Load_zero_interval:
  "let S = (sample_start ((''IDP_POLL_INTERVAL'', ''0'') # (''IDP_WORKER_TOKEN'', ''t'') # take 1 file_env) [])
             \<lparr>sl_ParseDuration := (\<lambda>s. if s = ''0'' then Inr 0 else Inl (Errorf ''duration''))\<rparr> in
   (\<exists>cfg. Load S = Inr cfg \<and> wcf_PollInterval cfg = 0) \<and>
   run (service_Run fuel F S) w = (Some (Inl Panic), w)"
proof -
  let ?S = "(sample_start ((''IDP_POLL_INTERVAL'', ''0'') # (''IDP_WORKER_TOKEN'', ''t'') # take 1 file_env) [])
             \<lparr>sl_ParseDuration := (\<lambda>s. if s = ''0'' then Inr 0 else Inl (Errorf ''duration''))\<rparr>"
  have L: "Load ?S = Inr \<lparr>wcf_ControlPlaneURL = ''http://cp'', wcf_Token = ''t'', wcf_BootstrapToken = [], wcf_WorkerName = [],
         wcf_PollInterval = 0, wcf_GitHubAppID = [], wcf_GitHubAppKey = [], wcf_CIListenAddr = '':8443'', wcf_CICallbackURL = []\<rparr>"
    by code_simp
  have aws: "sl_aws ?S = Inr ()" by (simp add: sample_start_def)
  have "run (service_Run fuel F ?S) w = (Some (Inl Panic), w)"
    unfolding service_Run_def L aws by (simp add: with_token_def cfg_Bootstrap_def start_callback_def poller_Run_def run_bindP)
  with L show ?thesis unfolding Let_def by simp
qed

section \<open>Registration ends\<close>

lemma quiet_Bootstrap: "steps quiet (client_Bootstrap b t n)"
  unfolding client_Bootstrap_def by (auto intro!: steps_bindE quiet_exchange)

lemma bootstrapRetry_ends:
  assumes "steps quiet fn" and "nt_done w (nt_selects w + k)"
  shows "fst (run (bootstrapRetry (Suc k) fn) w) \<noteq> None"
  using assms(2)
proof (induction k arbitrary: w)
  case (0 w)
  obtain x u where fn: "run fn w = (x, u)" by force
  from quiet_run [OF assms(1) fn] 0 show ?case using fn
    by (auto simp: run_bindP same_outside_def split: sum.splits)
next
  case (Suc k)
  obtain x u where fn: "run fn w = (x, u)" by force
  from quiet_run [OF assms(1) fn] have u: "nt_done u = nt_done w" "nt_selects u = nt_selects w" by (simp_all add: same_outside_def)
  let ?u = "u\<lparr>nt_selects := Suc (nt_selects u)\<rparr>"
  from Suc.prems u have "nt_done ?u (nt_selects ?u + k)" by simp
  from Suc.IH [OF this] fn show ?case
    by (cases x) (auto simp: run_bindP simp del: bootstrapRetry.simps(2), auto simp: run_bindP)
qed
end
