(* ===== verification/Idpctl.thy ===== *)
theory Idpctl
  imports WorkerClient Stdlib
begin

text \<open>
  \<open>cli/internal/client\<close>: the HTTP client of \<open>idpctl\<close> for the control plane.  Every operation is one
  request through \<open>do\<close>; \<open>json.Marshal\<close> of these structs cannot fail, and every other error of the
  source is a branch here.
\<close>

section \<open>Escaping a query\<close>

text \<open>\<open>url.QueryEscape\<close>, on the bytes of a string, and \<open>url.ParseQuery\<close> with \<open>Get\<close>, which undo it.\<close>

definition unreserved :: "char \<Rightarrow> bool" where
  "unreserved c \<longleftrightarrow>
     (let n = of_char c :: nat in
      48 \<le> n \<and> n \<le> 57 \<or> 65 \<le> n \<and> n \<le> 90 \<or> 97 \<le> n \<and> n \<le> 122 \<or> n = 45 \<or> n = 46 \<or> n = 95 \<or> n = 126)"

definition upper_hex :: string where "upper_hex = ''0123456789ABCDEF''"

fun QueryEscape :: "string \<Rightarrow> string" where
  "QueryEscape [] = []"
| "QueryEscape (c # cs) =
     (if c = CHR '' '' then CHR ''+'' # QueryEscape cs
      else if unreserved c then c # QueryEscape cs
      else CHR ''%'' # upper_hex ! (of_char c div 16) # upper_hex ! (of_char c mod 16) # QueryEscape cs)"

definition hex_value :: "char \<Rightarrow> nat option" where
  "hex_value c =
     (let n = of_char c :: nat in
      if 48 \<le> n \<and> n \<le> 57 then Some (n - 48)
      else if 65 \<le> n \<and> n \<le> 70 then Some (n - 55)
      else if 97 \<le> n \<and> n \<le> 102 then Some (n - 87)
      else None)"

fun QueryUnescape :: "string \<Rightarrow> string option" where
  "QueryUnescape [] = Some []"
| "QueryUnescape (c # cs) =
     (if c = CHR ''%'' then
        (case cs of
           a # b # r \<Rightarrow>
             (case (hex_value a, hex_value b) of
                (Some i, Some j) \<Rightarrow> map_option ((#) (char_of (16 * i + j))) (QueryUnescape r)
              | _ \<Rightarrow> None)
         | _ \<Rightarrow> None)
      else map_option ((#) (if c = CHR ''+'' then CHR '' '' else c)) (QueryUnescape cs))"

text \<open>\<open>strings.Cut\<close> and \<open>strings.Split\<close> with a separator of one character.\<close>

fun Cut :: "string \<Rightarrow> char \<Rightarrow> string \<times> string \<times> bool" where
  "Cut [] x = ([], [], False)"
| "Cut (c # cs) x = (if c = x then ([], cs, True) else case Cut cs x of (a, b, ok) \<Rightarrow> (c # a, b, ok))"

fun Split :: "string \<Rightarrow> char \<Rightarrow> string list" where
  "Split [] x = [[]]"
| "Split (c # cs) x =
     (if c = x then [] # Split cs x else case Split cs x of [] \<Rightarrow> [[c]] | s # ss \<Rightarrow> (c # s) # ss)"

text \<open>One \<open>key=value\<close> of a query; a semicolon or a bad escape drops it.\<close>

definition query_pair :: "string \<Rightarrow> (string \<times> string) list" where
  "query_pair s =
     (if s = [] \<or> CHR '';'' \<in> set s then []
      else case Cut s (CHR ''='') of (k, v, _) \<Rightarrow>
        (case (QueryUnescape k, QueryUnescape v) of (Some k', Some v') \<Rightarrow> [(k', v')] | _ \<Rightarrow> []))"

definition ParseQuery :: "string \<Rightarrow> (string \<times> string) list" where
  "ParseQuery q = concat (map query_pair (Split q (CHR ''&'')))"

definition query_get :: "string \<Rightarrow> string \<Rightarrow> string" where
  "query_get q k = (case map_of (ParseQuery q) k of None \<Rightarrow> [] | Some v \<Rightarrow> v)"

text \<open>\<open>url.Values.Encode\<close> of keys that are in order.\<close>

definition Values_Encode :: "(string \<times> string) list \<Rightarrow> string" where
  "Values_Encode kvs =
     (case kvs of [] \<Rightarrow> []
      | kv # r \<Rightarrow> (QueryEscape (fst kv) @ ''='' @ QueryEscape (snd kv)) @
          concat (map (\<lambda>(k, v). ''&'' @ QueryEscape k @ ''='' @ QueryEscape v) r))"

section \<open>One request\<close>

record cli_Client =
  cli_baseURL :: string

definition cli_New :: "string \<Rightarrow> cli_Client" where
  "cli_New baseURL = \<lparr>cli_baseURL = baseURL\<rparr>"

definition cli_request :: "cli_Client \<Rightarrow> string \<Rightarrow> string \<Rightarrow> string \<Rightarrow> json option \<Rightarrow> http_request" where
  "cli_request c verb path token body =
     \<lparr>rq_Method = verb, rq_URL = cli_baseURL c @ path,
      rq_Headers = (''Content-Type'', ''application/json'') # (if token \<noteq> [] then [(''Authorization'', ''Bearer '' @ token)] else []),
      rq_Body = body\<rparr>"

text \<open>The error body of the control plane.\<close>

definition api_error :: "(string \<times> json) list \<Rightarrow> (string \<times> string) res" where
  "api_error kvs = bindR (json_string ''code'' kvs []) (\<lambda>c. bindR (json_string ''message'' kvs []) (\<lambda>m. Inr (c, m)))"

text \<open>\<open>do\<close>, with the decoding of the answer; a call without an \<open>out\<close> ignores the body.\<close>

definition cli_do :: "cli_Client \<Rightarrow> string \<Rightarrow> string \<Rightarrow> string \<Rightarrow> json option \<Rightarrow> (json option \<Rightarrow> 'a res) \<Rightarrow> 'a io" where
  "cli_do c verb path token body out =
     bindE (exchange (cli_request c verb path token body)) (\<lambda>resp.
       Done (if 300 \<le> hr_StatusCode resp then
               (case json_decode (hr_Body resp) api_error of
                  Inl e \<Rightarrow> Inl unexpected
                | Inr (code, msg) \<Rightarrow> Inl (APIError (hr_StatusCode resp) code msg))
             else out (hr_Body resp)))"

definition no_out :: "json option \<Rightarrow> unit res" where
  "no_out body = Inr ()"

text \<open>Optional members of a request, and a list of structs in an answer.\<close>

definition omitempty :: "string \<Rightarrow> string \<Rightarrow> (string \<times> json) list" where
  "omitempty field s = (if s = [] then [] else [(field, JStr s)])"

text \<open>\<open>json.Marshal\<close> writes a map in the order of its keys.\<close>

definition map_json :: "settings \<Rightarrow> json" where
  "map_json m = JObj (map (\<lambda>(k, v). (k, JStr v)) (sort_key fst m))"

fun struct_list :: "((string \<times> json) list \<Rightarrow> 'a res) \<Rightarrow> json list \<Rightarrow> 'a list res" where
  "struct_list f [] = Inr []"
| "struct_list f (x # xs) =
     bindR (bindR (json_struct (Some x)) f) (\<lambda>a. bindR (struct_list f xs) (\<lambda>r. Inr (a # r)))"

definition decode_list :: "((string \<times> json) list \<Rightarrow> 'a res) \<Rightarrow> json option \<Rightarrow> 'a list res" where
  "decode_list f body =
     (case (case body of
              Some (JArr xs) \<Rightarrow> struct_list f xs
            | Some JNull \<Rightarrow> Inr []
            | Some _ \<Rightarrow> Inl badType
            | None \<Rightarrow> Inl (Errorf ''json: syntax'')) of
        Inl e \<Rightarrow> Inl (Wrapf e) | Inr xs \<Rightarrow> Inr xs)"

text \<open>\<open>*int64\<close>, \<open>*string\<close> and \<open>[]string\<close> members; an element \<open>null\<close> keeps what the slice holds there.\<close>

fun json_opt_int64 :: "string \<Rightarrow> (string \<times> json) list \<Rightarrow> int option \<Rightarrow> int option res" where
  "json_opt_int64 field [] v = Inr v"
| "json_opt_int64 field ((k, x) # kvs) v =
     (if \<not> same_name k field then json_opt_int64 field kvs v
      else case x of
        JNum i \<Rightarrow> if - (2 ^ 63) \<le> i \<and> i < 2 ^ 63 then json_opt_int64 field kvs (Some i) else Inl badType
      | JNull \<Rightarrow> json_opt_int64 field kvs None
      | _ \<Rightarrow> Inl badType)"

fun json_opt_string :: "string \<Rightarrow> (string \<times> json) list \<Rightarrow> string option \<Rightarrow> string option res" where
  "json_opt_string field [] v = Inr v"
| "json_opt_string field ((k, x) # kvs) v =
     (if \<not> same_name k field then json_opt_string field kvs v
      else case x of
        JStr s \<Rightarrow> json_opt_string field kvs (Some s)
      | JNull \<Rightarrow> json_opt_string field kvs None
      | _ \<Rightarrow> Inl badType)"

fun string_elems :: "json list \<Rightarrow> string list \<Rightarrow> string list res" where
  "string_elems [] old = Inr []"
| "string_elems (x # xs) old =
     (case x of
        JStr s \<Rightarrow> bindR (string_elems xs (tl old)) (\<lambda>r. Inr (s # r))
      | JNull \<Rightarrow> bindR (string_elems xs (tl old)) (\<lambda>r. Inr ((if old = [] then [] else hd old) # r))
      | _ \<Rightarrow> Inl badType)"

fun json_strings :: "string \<Rightarrow> (string \<times> json) list \<Rightarrow> string list \<Rightarrow> string list res" where
  "json_strings field [] v = Inr v"
| "json_strings field ((k, x) # kvs) v =
     (if \<not> same_name k field then json_strings field kvs v
      else case x of
        JArr xs \<Rightarrow> bindR (string_elems xs v) (json_strings field kvs)
      | JNull \<Rightarrow> json_strings field kvs []
      | _ \<Rightarrow> Inl badType)"

section \<open>Setup and login\<close>

definition cli_NeedsSetup :: "cli_Client \<Rightarrow> bool io" where
  "cli_NeedsSetup c =
     cli_do c ''GET'' ''/v1/setup'' [] None (\<lambda>b. json_decode b (\<lambda>kvs. json_bool ''needs_setup'' kvs False))"

definition callback_path :: "string \<Rightarrow> string \<Rightarrow> string" where
  "callback_path prov repo = ''/v1/ci/callback-url?provider='' @ QueryEscape prov @ ''&repo='' @ QueryEscape repo"

definition cli_GetCICallbackURL :: "cli_Client \<Rightarrow> string \<Rightarrow> string \<Rightarrow> string io" where
  "cli_GetCICallbackURL c prov repo =
     cli_do c ''GET'' (callback_path prov repo) [] None (\<lambda>b. json_decode b (\<lambda>kvs. json_string ''url'' kvs []))"

record SetupRequest =
  csur_TenantName :: string
  csur_AdminUsername :: string
  csur_AdminPassword :: string
  csur_TelemetryEnabled :: bool

definition SetupRequest_json :: "SetupRequest \<Rightarrow> json" where
  "SetupRequest_json r =
     JObj [(''tenant_name'', JStr (csur_TenantName r)), (''admin_username'', JStr (csur_AdminUsername r)),
           (''admin_password'', JStr (csur_AdminPassword r)), (''telemetry_enabled'', JBool (csur_TelemetryEnabled r))]"

record SetupResponse =
  sus_TenantID :: string
  sus_ActorID :: string
  sus_Token :: string

definition SetupResponse_members :: "(string \<times> json) list \<Rightarrow> SetupResponse res" where
  "SetupResponse_members kvs =
     bindR (json_string ''tenant_id'' kvs []) (\<lambda>t.
     bindR (json_string ''actor_id'' kvs []) (\<lambda>a.
     bindR (json_string ''token'' kvs []) (\<lambda>tok.
     Inr \<lparr>sus_TenantID = t, sus_ActorID = a, sus_Token = tok\<rparr>)))"

definition cli_Setup :: "cli_Client \<Rightarrow> SetupRequest \<Rightarrow> SetupResponse io" where
  "cli_Setup c r =
     cli_do c ''POST'' ''/v1/setup'' [] (Some (SetupRequest_json r)) (\<lambda>b. json_decode b SetupResponse_members)"

record TokenRequest =
  tkq_Username :: string
  tkq_Password :: string

definition cli_Token :: "cli_Client \<Rightarrow> TokenRequest \<Rightarrow> string io" where
  "cli_Token c r =
     cli_do c ''POST'' ''/v1/token'' []
       (Some (JObj [(''username'', JStr (tkq_Username r)), (''password'', JStr (tkq_Password r))]))
       (\<lambda>b. json_decode b (\<lambda>kvs. json_string ''token'' kvs []))"

section \<open>Agents, environments, workers\<close>

record CreateAgentRequest =
  cag_Name :: string
  cag_Team :: string
  cag_Tier :: string
  cag_Environments :: "string list"
  cag_TTLSeconds :: int64
  cag_IdempotencyKey :: string

definition strings_array :: "string list \<Rightarrow> json" where
  "strings_array ss = JArr (map JStr ss)"

definition CreateAgentRequest_json :: "CreateAgentRequest \<Rightarrow> json" where
  "CreateAgentRequest_json r =
     JObj ([(''name'', JStr (cag_Name r)), (''team'', JStr (cag_Team r)), (''tier'', JStr (cag_Tier r))] @
       (if cag_Environments r = [] then [] else [(''environments'', strings_array (cag_Environments r))]) @
       [(''ttl_seconds'', JNum (sint (cag_TTLSeconds r)))] @ omitempty ''idempotency_key'' (cag_IdempotencyKey r))"

record CreateAgentResponse =
  cas_ActorID :: string
  cas_Token :: string

definition cli_CreateAgent :: "cli_Client \<Rightarrow> string \<Rightarrow> CreateAgentRequest \<Rightarrow> CreateAgentResponse io" where
  "cli_CreateAgent c token r =
     cli_do c ''POST'' ''/v1/agents'' token (Some (CreateAgentRequest_json r))
       (\<lambda>b. json_decode b (\<lambda>kvs.
          bindR (json_string ''actor_id'' kvs []) (\<lambda>a. bindR (json_string ''token'' kvs []) (\<lambda>t.
          Inr \<lparr>cas_ActorID = a, cas_Token = t\<rparr>))))"

record CreateEnvironmentRequest =
  cev_Name :: string
  cev_Provider :: string
  cev_Region :: string
  cev_AccountRef :: string
  cev_ExternalID :: string
  cev_TrustAnchor :: string
  cev_RoleARNs :: settings

definition CreateEnvironmentRequest_json :: "CreateEnvironmentRequest \<Rightarrow> json" where
  "CreateEnvironmentRequest_json r =
     JObj [(''name'', JStr (cev_Name r)), (''provider'', JStr (cev_Provider r)), (''region'', JStr (cev_Region r)),
           (''account_ref'', JStr (cev_AccountRef r)), (''external_id'', JStr (cev_ExternalID r)),
           (''trust_anchor'', JStr (cev_TrustAnchor r)), (''role_arns'', map_json (cev_RoleARNs r))]"

record CreateEnvironmentResponse =
  ces_EnvironmentID :: string
  ces_Name :: string
  ces_Provider :: string
  ces_Region :: string

definition cli_CreateEnvironment :: "cli_Client \<Rightarrow> string \<Rightarrow> CreateEnvironmentRequest \<Rightarrow> CreateEnvironmentResponse io" where
  "cli_CreateEnvironment c token r =
     cli_do c ''POST'' ''/v1/environments'' token (Some (CreateEnvironmentRequest_json r))
       (\<lambda>b. json_decode b (\<lambda>kvs.
          bindR (json_string ''environment_id'' kvs []) (\<lambda>i. bindR (json_string ''name'' kvs []) (\<lambda>n.
          bindR (json_string ''provider'' kvs []) (\<lambda>p. bindR (json_string ''region'' kvs []) (\<lambda>g.
          Inr \<lparr>ces_EnvironmentID = i, ces_Name = n, ces_Provider = p, ces_Region = g\<rparr>))))))"

record CreateWorkerRequest =
  cwq_Name :: string
  cwq_Environments :: "string list"

record CreateWorkerResponse =
  cws_WorkerCredentialID :: string
  cws_Token :: string

definition cli_CreateWorker :: "cli_Client \<Rightarrow> string \<Rightarrow> CreateWorkerRequest \<Rightarrow> CreateWorkerResponse io" where
  "cli_CreateWorker c token r =
     cli_do c ''POST'' ''/v1/workers'' token
       (Some (JObj [(''name'', JStr (cwq_Name r)), (''environments'', strings_array (cwq_Environments r))]))
       (\<lambda>b. json_decode b (\<lambda>kvs.
          bindR (json_string ''worker_credential_id'' kvs []) (\<lambda>i. bindR (json_string ''token'' kvs []) (\<lambda>t.
          Inr \<lparr>cws_WorkerCredentialID = i, cws_Token = t\<rparr>))))"

record WorkerCredential =
  cwcr_WorkerCredentialID :: string
  cwcr_Name :: string
  cwcr_Environments :: "string list"
  cwcr_RevokedAt :: "string option"

definition WorkerCredential_members :: "(string \<times> json) list \<Rightarrow> WorkerCredential res" where
  "WorkerCredential_members kvs =
     bindR (json_string ''worker_credential_id'' kvs []) (\<lambda>i.
     bindR (json_string ''name'' kvs []) (\<lambda>n.
     bindR (json_strings ''environments'' kvs []) (\<lambda>es.
     bindR (json_opt_string ''revoked_at'' kvs None) (\<lambda>t.
     Inr \<lparr>cwcr_WorkerCredentialID = i, cwcr_Name = n, cwcr_Environments = es, cwcr_RevokedAt = t\<rparr>))))"

definition cli_ListWorkers :: "cli_Client \<Rightarrow> string \<Rightarrow> WorkerCredential list io" where
  "cli_ListWorkers c token = cli_do c ''GET'' ''/v1/workers'' token None (decode_list WorkerCredential_members)"

definition cli_GrantWorkerEnvironments :: "cli_Client \<Rightarrow> string \<Rightarrow> string \<Rightarrow> string list \<Rightarrow> unit io" where
  "cli_GrantWorkerEnvironments c token workerCredentialID environments =
     cli_do c ''POST'' (''/v1/workers/'' @ workerCredentialID @ ''/environments'') token
       (Some (JObj [(''environments'', strings_array environments)])) no_out"

section \<open>Connectivity checks\<close>

record TriggerVerificationResponse =
  tvr_VerificationID :: string
  tvr_Status :: string

definition cli_TriggerVerification :: "cli_Client \<Rightarrow> string \<Rightarrow> string \<Rightarrow> TriggerVerificationResponse io" where
  "cli_TriggerVerification c token environmentName =
     cli_do c ''POST'' (''/v1/environments/'' @ environmentName @ ''/verify'') token None
       (\<lambda>b. json_decode b (\<lambda>kvs.
          bindR (json_string ''verification_id'' kvs []) (\<lambda>i. bindR (json_string ''status'' kvs []) (\<lambda>s.
          Inr \<lparr>tvr_VerificationID = i, tvr_Status = s\<rparr>))))"

record cli_TierResult =
  ctl_OK :: bool
  ctl_Error :: string

definition cli_TierResult_of :: "json \<Rightarrow> cli_TierResult res" where
  "cli_TierResult_of x =
     bindR (json_struct (Some x)) (\<lambda>kvs.
     bindR (json_bool ''ok'' kvs False) (\<lambda>b.
     bindR (json_string ''error'' kvs []) (\<lambda>e. Inr \<lparr>ctl_OK = b, ctl_Error = e\<rparr>)))"

fun cli_tier_entries :: "(string \<times> json) list \<Rightarrow> (string \<times> cli_TierResult) list \<Rightarrow> (string \<times> cli_TierResult) list res" where
  "cli_tier_entries [] m = Inr m"
| "cli_tier_entries ((k, x) # kvs) m = bindR (cli_TierResult_of x) (\<lambda>r. cli_tier_entries kvs (AList.update k r m))"

fun cli_tiers :: "string \<Rightarrow> (string \<times> json) list \<Rightarrow> (string \<times> cli_TierResult) list \<Rightarrow> (string \<times> cli_TierResult) list res" where
  "cli_tiers field [] m = Inr m"
| "cli_tiers field ((k, x) # kvs) m =
     (if \<not> same_name k field then cli_tiers field kvs m
      else case x of
        JObj es \<Rightarrow> bindR (cli_tier_entries es m) (cli_tiers field kvs)
      | JNull \<Rightarrow> cli_tiers field kvs []
      | _ \<Rightarrow> Inl badType)"

record GetVerificationResponse =
  cgvr_VerificationID :: string
  cgvr_Status :: string
  cgvr_TierResults :: "(string \<times> cli_TierResult) list"

definition GetVerificationResponse_members :: "(string \<times> json) list \<Rightarrow> GetVerificationResponse res" where
  "GetVerificationResponse_members kvs =
     bindR (json_string ''verification_id'' kvs []) (\<lambda>i.
     bindR (json_string ''status'' kvs []) (\<lambda>s.
     bindR (cli_tiers ''tier_results'' kvs []) (\<lambda>m.
     Inr \<lparr>cgvr_VerificationID = i, cgvr_Status = s, cgvr_TierResults = m\<rparr>)))"

definition GetVerification_request :: "cli_Client \<Rightarrow> string \<Rightarrow> string \<Rightarrow> string \<Rightarrow> http_request" where
  "GetVerification_request c token environmentName verificationID =
     cli_request c ''GET'' (''/v1/environments/'' @ environmentName @ ''/verifications/'' @ verificationID) token None"

definition cli_GetVerification :: "cli_Client \<Rightarrow> string \<Rightarrow> string \<Rightarrow> string \<Rightarrow> GetVerificationResponse io" where
  "cli_GetVerification c token environmentName verificationID =
     cli_do c ''GET'' (''/v1/environments/'' @ environmentName @ ''/verifications/'' @ verificationID) token None
       (\<lambda>b. json_decode b GetVerificationResponse_members)"

section \<open>Telemetry and costs\<close>

definition cli_SetTelemetry :: "cli_Client \<Rightarrow> string \<Rightarrow> bool \<Rightarrow> unit io" where
  "cli_SetTelemetry c token enabled =
     cli_do c ''PATCH'' ''/v1/tenants/telemetry'' token (Some (JObj [(''enabled'', JBool enabled)])) no_out"

record cli_RunCost =
  crc_Source :: string
  crc_DurationMS :: "int option"
  crc_AmountMicros :: "int option"
  crc_Currency :: string
  crc_CapturedAt :: string

definition cli_RunCost_members :: "(string \<times> json) list \<Rightarrow> cli_RunCost res" where
  "cli_RunCost_members kvs =
     bindR (json_string ''source'' kvs []) (\<lambda>s.
     bindR (json_opt_int64 ''duration_ms'' kvs None) (\<lambda>d.
     bindR (json_opt_int64 ''amount_micros'' kvs None) (\<lambda>a.
     bindR (json_string ''currency'' kvs []) (\<lambda>cur.
     bindR (json_string ''captured_at'' kvs []) (\<lambda>t.
     Inr \<lparr>crc_Source = s, crc_DurationMS = d, crc_AmountMicros = a, crc_Currency = cur, crc_CapturedAt = t\<rparr>)))))"

definition cli_GetRunCost :: "cli_Client \<Rightarrow> string \<Rightarrow> string \<Rightarrow> cli_RunCost list io" where
  "cli_GetRunCost c token runID =
     cli_do c ''GET'' (''/v1/runs/'' @ runID @ ''/cost'') token None (decode_list cli_RunCost_members)"

record cli_ActorCostSummary =
  cacs_ActorID :: string
  cacs_TotalAmountMicros :: "int option"
  cacs_TotalDurationMS :: int
  cacs_RunCount :: int

definition cli_ActorCostSummary_members :: "(string \<times> json) list \<Rightarrow> cli_ActorCostSummary res" where
  "cli_ActorCostSummary_members kvs =
     bindR (json_string ''actor_id'' kvs []) (\<lambda>i.
     bindR (json_opt_int64 ''total_amount_micros'' kvs None) (\<lambda>a.
     bindR (json_int 64 ''total_duration_ms'' kvs 0) (\<lambda>d.
     bindR (json_int 64 ''run_count'' kvs 0) (\<lambda>n.
     Inr \<lparr>cacs_ActorID = i, cacs_TotalAmountMicros = a, cacs_TotalDurationMS = d, cacs_RunCount = n\<rparr>))))"

text \<open>The filters that are set, in the order of their keys.\<close>

record GetCostsByActorParams =
  gcp_ActorID :: string
  gcp_From :: string
  gcp_To :: string

definition cost_filters :: "GetCostsByActorParams \<Rightarrow> (string \<times> string) list" where
  "cost_filters p = filter (\<lambda>kv. snd kv \<noteq> []) [(''actor_id'', gcp_ActorID p), (''from'', gcp_From p), (''to'', gcp_To p)]"

definition costs_path :: "GetCostsByActorParams \<Rightarrow> string" where
  "costs_path p =
     (let encoded = Values_Encode (cost_filters p) in
      ''/v1/costs/by-actor'' @ (if encoded \<noteq> [] then ''?'' @ encoded else []))"

definition cli_GetCostsByActor :: "cli_Client \<Rightarrow> string \<Rightarrow> GetCostsByActorParams \<Rightarrow> cli_ActorCostSummary list io" where
  "cli_GetCostsByActor c token p =
     cli_do c ''GET'' (costs_path p) token None (decode_list cli_ActorCostSummary_members)"

record SetCostRateRequest =
  cscr_EnvironmentID :: string
  cscr_CIProvider :: string
  cscr_RateMicrosPerMS :: int64
  cscr_Currency :: string

definition cli_SetCostRate :: "cli_Client \<Rightarrow> string \<Rightarrow> SetCostRateRequest \<Rightarrow> unit io" where
  "cli_SetCostRate c token r =
     cli_do c ''PUT'' ''/v1/cost-rates'' token
       (Some (JObj (omitempty ''environment_id'' (cscr_EnvironmentID r) @ omitempty ''ci_provider'' (cscr_CIProvider r) @
          [(''rate_micros_per_ms'', JNum (sint (cscr_RateMicrosPerMS r)))] @ omitempty ''currency'' (cscr_Currency r)))) no_out"

section \<open>Pipelines and runs\<close>

record CreatePipelineRequest =
  cpq_EnvironmentID :: string
  cpq_Provider :: string
  cpq_WorkflowRef :: string
  cpq_Settings :: settings
  cpq_Mutating :: "bool option"

definition CreatePipelineRequest_json :: "CreatePipelineRequest \<Rightarrow> json" where
  "CreatePipelineRequest_json r =
     JObj ([(''environment_id'', JStr (cpq_EnvironmentID r)), (''provider'', JStr (cpq_Provider r)),
            (''workflow_ref'', JStr (cpq_WorkflowRef r))] @
       (if cpq_Settings r = [] then [] else [(''settings'', map_json (cpq_Settings r))]) @
       (case cpq_Mutating r of None \<Rightarrow> [] | Some b \<Rightarrow> [(''mutating'', JBool b)]))"

record cli_PipelineResponse =
  ccpr_PipelineID :: string
  ccpr_EnvironmentID :: string
  ccpr_Provider :: string
  ccpr_WorkflowRef :: string
  ccpr_Settings :: settings
  ccpr_Mutating :: bool

definition PipelineResponse_members :: "(string \<times> json) list \<Rightarrow> cli_PipelineResponse res" where
  "PipelineResponse_members kvs =
     bindR (json_string ''pipeline_id'' kvs []) (\<lambda>i.
     bindR (json_string ''environment_id'' kvs []) (\<lambda>e.
     bindR (json_string ''provider'' kvs []) (\<lambda>p.
     bindR (json_string ''workflow_ref'' kvs []) (\<lambda>wfl.
     bindR (json_map ''settings'' kvs []) (\<lambda>ss.
     bindR (json_bool ''mutating'' kvs False) (\<lambda>b.
     Inr \<lparr>ccpr_PipelineID = i, ccpr_EnvironmentID = e, ccpr_Provider = p, ccpr_WorkflowRef = wfl, ccpr_Settings = ss,
          ccpr_Mutating = b\<rparr>))))))"

definition cli_CreatePipeline :: "cli_Client \<Rightarrow> string \<Rightarrow> CreatePipelineRequest \<Rightarrow> cli_PipelineResponse io" where
  "cli_CreatePipeline c token r =
     cli_do c ''POST'' ''/v1/pipelines'' token (Some (CreatePipelineRequest_json r)) (\<lambda>b. json_decode b PipelineResponse_members)"

definition cli_GetPipeline :: "cli_Client \<Rightarrow> string \<Rightarrow> string \<Rightarrow> cli_PipelineResponse io" where
  "cli_GetPipeline c token pipelineID =
     cli_do c ''GET'' (''/v1/pipelines/'' @ pipelineID) token None (\<lambda>b. json_decode b PipelineResponse_members)"

record cli_CreateRunRequest =
  cnr_EnvironmentID :: string
  cnr_PipelineID :: string
  cnr_IdempotencyKey :: string
  cnr_DiffRef :: string

definition CreateRunRequest_json :: "cli_CreateRunRequest \<Rightarrow> json" where
  "CreateRunRequest_json r =
     JObj ([(''environment_id'', JStr (cnr_EnvironmentID r)), (''pipeline_id'', JStr (cnr_PipelineID r))] @
       omitempty ''idempotency_key'' (cnr_IdempotencyKey r) @ omitempty ''diff_ref'' (cnr_DiffRef r))"

record cli_RunResponse =
  crp_RunID :: string
  crp_EnvironmentID :: string
  crp_PipelineID :: string
  crp_Tier :: string
  crp_Status :: string

definition RunResponse_members :: "(string \<times> json) list \<Rightarrow> cli_RunResponse res" where
  "RunResponse_members kvs =
     bindR (json_string ''run_id'' kvs []) (\<lambda>i.
     bindR (json_string ''environment_id'' kvs []) (\<lambda>e.
     bindR (json_string ''pipeline_id'' kvs []) (\<lambda>p.
     bindR (json_string ''tier'' kvs []) (\<lambda>t.
     bindR (json_string ''status'' kvs []) (\<lambda>s.
     Inr \<lparr>crp_RunID = i, crp_EnvironmentID = e, crp_PipelineID = p, crp_Tier = t, crp_Status = s\<rparr>)))))"

definition cli_RequestRun :: "cli_Client \<Rightarrow> string \<Rightarrow> cli_CreateRunRequest \<Rightarrow> cli_RunResponse io" where
  "cli_RequestRun c token r =
     cli_do c ''POST'' ''/v1/runs'' token (Some (CreateRunRequest_json r)) (\<lambda>b. json_decode b RunResponse_members)"

definition cli_GetRun :: "cli_Client \<Rightarrow> string \<Rightarrow> string \<Rightarrow> cli_RunResponse io" where
  "cli_GetRun c token runID =
     cli_do c ''GET'' (''/v1/runs/'' @ runID) token None (\<lambda>b. json_decode b RunResponse_members)"

definition decision_json :: "bool \<Rightarrow> json" where
  "decision_json approved = JObj [(''decision'', JStr (if approved then ''approved'' else ''denied''))]"

definition cli_DecideRun :: "cli_Client \<Rightarrow> string \<Rightarrow> string \<Rightarrow> bool \<Rightarrow> cli_RunResponse io" where
  "cli_DecideRun c token runID approved =
     cli_do c ''POST'' (''/v1/runs/'' @ runID @ ''/decision'') token (Some (decision_json approved))
       (\<lambda>b. json_decode b RunResponse_members)"

section \<open>A query arrives as it was sent\<close>

lemma upper_hex_value: "i < 16 \<Longrightarrow> hex_value (upper_hex ! i) = Some i"
proof -
  have "list_all (\<lambda>i. hex_value (upper_hex ! i) = Some i) [0..<16]" by code_simp
  then show "i < 16 \<Longrightarrow> hex_value (upper_hex ! i) = Some i" by (simp add: list_all_iff)
qed

lemma upper_hex_unreserved: "i < 16 \<Longrightarrow> unreserved (upper_hex ! i)"
proof -
  have "list_all (\<lambda>i. unreserved (upper_hex ! i)) [0..<16]" by code_simp
  then show "i < 16 \<Longrightarrow> unreserved (upper_hex ! i)" by (simp add: list_all_iff)
qed

lemma reserved: "\<not> unreserved (CHR ''%'')" "\<not> unreserved (CHR ''+'')" "\<not> unreserved (CHR ''&'')" "\<not> unreserved (CHR ''='')"
    "\<not> unreserved (CHR '';'')"
  by code_simp+

lemma of_char_less: "(of_char c :: nat) < 256"
  using nat_of_char_less_256 by simp

lemma QueryUnescape_Escape: "QueryUnescape (QueryEscape s) = Some s"
proof (induction s)
  case (Cons c cs)
  consider "c = CHR '' ''" | "c \<noteq> CHR '' ''" "unreserved c" | "c \<noteq> CHR '' ''" "\<not> unreserved c" by blast
  then show ?case
  proof cases
    case 2
    then have "c \<noteq> CHR ''%''" "c \<noteq> CHR ''+''" using reserved by auto
    with 2 Cons show ?thesis by simp
  next
    case 3
    have "(of_char c :: nat) div 16 < 16" using of_char_less [of c] by (simp add: less_mult_imp_div_less)
    with 3 Cons show ?thesis by (simp add: upper_hex_value)
  qed (use Cons in simp)
qed simp

lemma QueryEscape_set: "c \<in> set (QueryEscape s) \<Longrightarrow> c = CHR ''+'' \<or> c = CHR ''%'' \<or> unreserved c"
  using of_char_less upper_hex_unreserved
  by (induction s) (auto split: if_splits simp: less_mult_imp_div_less)

lemma QueryEscape_plain: "CHR ''&'' \<notin> set (QueryEscape s)" "CHR ''='' \<notin> set (QueryEscape s)" "CHR '';'' \<notin> set (QueryEscape s)"
  using QueryEscape_set [of _ s] reserved by blast+

lemma Split_none: "x \<notin> set s \<Longrightarrow> Split s x = [s]"
  by (induction s) auto

lemma Split_append: "x \<notin> set s \<Longrightarrow> Split (s @ x # r) x = s # Split r x"
  by (induction s) auto

lemma Cut_append: "x \<notin> set s \<Longrightarrow> Cut (s @ x # r) x = (s, r, True)"
  by (induction s) auto

definition query_text :: "string \<times> string \<Rightarrow> string" where
  "query_text kv = QueryEscape (fst kv) @ ''='' @ QueryEscape (snd kv)"

lemma query_pair_text: "query_pair (query_text kv) = [kv]"
  using QueryEscape_plain [of "fst kv"] QueryEscape_plain [of "snd kv"] Cut_append [of "CHR ''=''" "QueryEscape (fst kv)" "QueryEscape (snd kv)"]
  by (simp add: query_pair_def query_text_def QueryUnescape_Escape)

lemma query_text_plain: "CHR ''&'' \<notin> set (query_text kv)"
  using QueryEscape_plain by (simp add: query_text_def)

lemma ParseQuery_text: "ParseQuery (query_text kv @ concat (map (\<lambda>kv. ''&'' @ query_text kv) kvs)) = kv # kvs"
proof (induction kvs arbitrary: kv)
  case Nil
  show ?case by (simp add: ParseQuery_def Split_none query_text_plain query_pair_text)
next
  case (Cons a kvs)
  have "ParseQuery (query_text kv @ CHR ''&'' # r) = query_pair (query_text kv) @ ParseQuery r" for r
    by (simp add: ParseQuery_def Split_append query_text_plain)
  with Cons [of a] show ?case by (simp add: query_pair_text)
qed

lemma ParseQuery_Encode: "ParseQuery (Values_Encode kvs) = kvs"
proof (cases kvs)
  case Nil
  then show ?thesis by (simp add: Values_Encode_def ParseQuery_def query_pair_def)
next
  case (Cons kv r)
  have "Values_Encode kvs = query_text kv @ concat (map (\<lambda>kv. ''&'' @ query_text kv) r)"
    by (simp add: Cons Values_Encode_def query_text_def case_prod_beta')
  then show ?thesis using ParseQuery_text [of kv r] by (simp add: Cons)
qed

text \<open>
  A filter or a repository name reaches the control plane unchanged, whatever characters it has:
  parsing the encoded query gives back exactly the pairs that were encoded.
\<close>

theorem query_roundtrip: "ParseQuery (Values_Encode kvs) = kvs"
  by (rule ParseQuery_Encode)

lemma callback_path_query:
  "callback_path prov repo = ''/v1/ci/callback-url?'' @ Values_Encode [(''provider'', prov), (''repo'', repo)]"
proof -
  have "QueryEscape ''provider'' = ''provider''" "QueryEscape ''repo'' = ''repo''" by code_simp+
  then show ?thesis by (simp add: callback_path_def Values_Encode_def)
qed

section \<open>What a call does\<close>

lemma run_cli_do:
  "run (cli_do c verb path token body out) w =
     (case fst (run (exchange (cli_request c verb path token body)) w) of
        Inl e \<Rightarrow> Inl e
      | Inr resp \<Rightarrow>
          if 300 \<le> hr_StatusCode resp then
            (case json_decode (hr_Body resp) api_error of
               Inl e \<Rightarrow> Inl unexpected
             | Inr (code, msg) \<Rightarrow> Inl (APIError (hr_StatusCode resp) code msg))
          else out (hr_Body resp),
      sent (cli_request c verb path token body) w)"
  by (simp add: cli_do_def exchange_then)

text \<open>Success means an answer below 300 that \<open>out\<close> decodes.\<close>

lemma cli_do_Inr:
  assumes "run (cli_do c verb path token body out) w = (Inr a, v)"
  shows "\<exists>resp. nt_http w (nt_tick w) (cli_request c verb path token body) = Inr resp \<and> hr_StatusCode resp < 300 \<and>
     out (hr_Body resp) = Inr a \<and> v = called (HTTP (cli_request c verb path token body)) w"
  using assms by (auto simp: run_cli_do run_exchange sent_def split: sum.splits if_splits prod.splits)

lemma quiet_cli_do: "steps quiet (cli_do c verb path token body out)"
  unfolding cli_do_def by (rule steps_bindE [OF quiet_exchange]) simp

text \<open>The request of each operation of a logged-in user carries exactly the session token.\<close>

lemma cli_request_token:
  "token \<noteq> [] \<Longrightarrow> map_of (rq_Headers (cli_request c verb path token body)) ''Authorization'' = Some (''Bearer '' @ token)"
  "map_of (rq_Headers (cli_request c verb path [] body)) ''Authorization'' = None"
  by (simp_all add: cli_request_def)

end
