(* ===== verification/Mux.thy ===== *)
theory Mux
  imports Server Idpctl
begin

text \<open>
  The control plane on the wire: the mux of \<open>server.go\<close> as a function of HTTP requests.  The bodies of
  the requests are decoded into the structs of the handlers, what these answer is written as JSON, and
  the patterns are matched as \<open>net/http\<close> documents it.
\<close>

section \<open>Bodies of requests\<close>

text \<open>A handler gets \<open>None\<close> when decoding fails.\<close>

definition decode_body :: "((string \<times> json) list \<Rightarrow> 'a res) \<Rightarrow> json option \<Rightarrow> 'a option" where
  "decode_body members body = (case json_decode body members of Inl e \<Rightarrow> None | Inr r \<Rightarrow> Some r)"

text \<open>\<open>*bool\<close> members.\<close>

fun json_opt_bool :: "string \<Rightarrow> (string \<times> json) list \<Rightarrow> bool option \<Rightarrow> bool option res" where
  "json_opt_bool field [] v = Inr v"
| "json_opt_bool field ((k, x) # kvs) v =
     (if \<not> same_name k field then json_opt_bool field kvs v
      else case x of
        JBool b \<Rightarrow> json_opt_bool field kvs (Some b)
      | JNull \<Rightarrow> json_opt_bool field kvs None
      | _ \<Rightarrow> Inl badType)"

definition setupRequest_members :: "(string \<times> json) list \<Rightarrow> setupRequest res" where
  "setupRequest_members kvs =
     bindR (json_string ''tenant_name'' kvs []) (\<lambda>t.
     bindR (json_string ''admin_username'' kvs []) (\<lambda>u.
     bindR (json_string ''admin_password'' kvs []) (\<lambda>p.
     bindR (json_bool ''telemetry_enabled'' kvs False) (\<lambda>b.
     Inr \<lparr>sur_TenantName = t, sur_AdminUsername = u, sur_AdminPassword = p, sur_TelemetryEnabled = b\<rparr>))))"

definition tokenRequest_members :: "(string \<times> json) list \<Rightarrow> tokenRequest res" where
  "tokenRequest_members kvs =
     bindR (json_string ''username'' kvs []) (\<lambda>u.
     bindR (json_string ''password'' kvs []) (\<lambda>p. Inr \<lparr>tkr_Username = u, tkr_Password = p\<rparr>))"

definition createAgentRequest_members :: "(string \<times> json) list \<Rightarrow> createAgentRequest res" where
  "createAgentRequest_members kvs =
     bindR (json_string ''name'' kvs []) (\<lambda>n.
     bindR (json_string ''team'' kvs []) (\<lambda>t.
     bindR (json_string ''tier'' kvs []) (\<lambda>tier.
     bindR (json_strings ''environments'' kvs []) (\<lambda>es.
     bindR (json_int 64 ''ttl_seconds'' kvs 0) (\<lambda>ttl.
     bindR (json_string ''idempotency_key'' kvs []) (\<lambda>k.
     Inr \<lparr>car_Name = n, car_Team = t, car_Tier = tier, car_Environments = es, car_TTLSeconds = word_of_int ttl,
          car_IdempotencyKey = k\<rparr>))))))"

definition createEnvironmentRequest_members :: "(string \<times> json) list \<Rightarrow> createEnvironmentRequest res" where
  "createEnvironmentRequest_members kvs =
     bindR (json_string ''name'' kvs []) (\<lambda>n.
     bindR (json_string ''provider'' kvs []) (\<lambda>p.
     bindR (json_string ''region'' kvs []) (\<lambda>g.
     bindR (json_string ''account_ref'' kvs []) (\<lambda>a.
     bindR (json_string ''external_id'' kvs []) (\<lambda>x.
     bindR (json_string ''trust_anchor'' kvs []) (\<lambda>t.
     bindR (json_map ''role_arns'' kvs []) (\<lambda>m.
     Inr \<lparr>cer_Name = n, cer_Provider = p, cer_Region = g, cer_AccountRef = a, cer_ExternalID = x, cer_TrustAnchor = t,
          cer_RoleARNs = m\<rparr>)))))))"

definition createWorkerRequest_members :: "(string \<times> json) list \<Rightarrow> createWorkerRequest res" where
  "createWorkerRequest_members kvs =
     bindR (json_string ''name'' kvs []) (\<lambda>n.
     bindR (json_strings ''environments'' kvs []) (\<lambda>es. Inr \<lparr>cwr_Name = n, cwr_Environments = es\<rparr>))"

definition createPipelineRequest_members :: "(string \<times> json) list \<Rightarrow> createPipelineRequest res" where
  "createPipelineRequest_members kvs =
     bindR (json_string ''environment_id'' kvs []) (\<lambda>e.
     bindR (json_string ''provider'' kvs []) (\<lambda>p.
     bindR (json_string ''workflow_ref'' kvs []) (\<lambda>wfl.
     bindR (json_map ''settings'' kvs []) (\<lambda>m.
     bindR (json_opt_bool ''mutating'' kvs None) (\<lambda>b.
     Inr \<lparr>cpr_EnvironmentID = e, cpr_Provider = p, cpr_WorkflowRef = wfl, cpr_Settings = m, cpr_Mutating = b\<rparr>)))))"

definition createRunRequest_members :: "(string \<times> json) list \<Rightarrow> createRunRequest res" where
  "createRunRequest_members kvs =
     bindR (json_string ''environment_id'' kvs []) (\<lambda>e.
     bindR (json_string ''pipeline_id'' kvs []) (\<lambda>p.
     bindR (json_string ''idempotency_key'' kvs []) (\<lambda>k.
     bindR (json_string ''diff_ref'' kvs []) (\<lambda>d.
     Inr \<lparr>crq_EnvironmentID = e, crq_PipelineID = p, crq_IdempotencyKey = k, crq_DiffRef = d\<rparr>))))"

definition reportRunResultRequest_members :: "(string \<times> json) list \<Rightarrow> reportRunResultRequest res" where
  "reportRunResultRequest_members kvs =
     bindR (json_string ''status'' kvs []) (\<lambda>s.
     bindR (json_string ''ci_external_ref'' kvs []) (\<lambda>x.
     bindR (json_string ''ci_url'' kvs []) (\<lambda>url.
     bindR (json_string ''ci_raw_status'' kvs []) (\<lambda>raw.
     Inr \<lparr>rpr_Status = s, rpr_CIExternalRef = x, rpr_CIURL = url, rpr_CIRawStatus = raw\<rparr>))))"

definition resolveRunRequest_members :: "(string \<times> json) list \<Rightarrow> resolveRunRequest res" where
  "resolveRunRequest_members kvs =
     bindR (json_string ''provider'' kvs []) (\<lambda>p.
     bindR (json_string ''repo'' kvs []) (\<lambda>repo.
     bindR (json_string ''workflow_ref'' kvs []) (\<lambda>wfl.
     bindR (json_string ''ref'' kvs []) (\<lambda>ref.
     bindR (json_string ''ci_external_ref'' kvs []) (\<lambda>x.
     bindR (json_string ''ci_url'' kvs []) (\<lambda>url.
     Inr \<lparr>rsq_Provider = p, rsq_Repo = repo, rsq_WorkflowRef = wfl, rsq_Ref = ref, rsq_CIExternalRef = x, rsq_CIURL = url\<rparr>))))))"

definition setCostRateRequest_members :: "(string \<times> json) list \<Rightarrow> setCostRateRequest res" where
  "setCostRateRequest_members kvs =
     bindR (json_string ''environment_id'' kvs []) (\<lambda>e.
     bindR (json_string ''ci_provider'' kvs []) (\<lambda>p.
     bindR (json_int 64 ''rate_micros_per_ms'' kvs 0) (\<lambda>r.
     bindR (json_string ''currency'' kvs []) (\<lambda>c.
     Inr \<lparr>scr_EnvironmentID = e, scr_CIProvider = p, scr_RateMicrosPerMS = word_of_int r, scr_Currency = c\<rparr>))))"

text \<open>The map of tier results: every member is a struct of its own, \<open>null\<close> the zero one.\<close>

definition tier_result_of :: "json \<Rightarrow> TierResult res" where
  "tier_result_of x =
     bindR (json_struct (Some x)) (\<lambda>kvs.
     bindR (json_bool ''ok'' kvs False) (\<lambda>b.
     bindR (json_string ''error'' kvs []) (\<lambda>e. Inr \<lparr>tr_OK = b, tr_Error = e\<rparr>)))"

fun tier_entries :: "(string \<times> json) list \<Rightarrow> (string \<times> TierResult) list \<Rightarrow> (string \<times> TierResult) list res" where
  "tier_entries [] m = Inr m"
| "tier_entries ((k, x) # kvs) m = bindR (tier_result_of x) (\<lambda>r. tier_entries kvs (AList.update k r m))"

fun json_tiers :: "string \<Rightarrow> (string \<times> json) list \<Rightarrow> (string \<times> TierResult) list \<Rightarrow> (string \<times> TierResult) list res" where
  "json_tiers field [] m = Inr m"
| "json_tiers field ((k, x) # kvs) m =
     (if \<not> same_name k field then json_tiers field kvs m
      else case x of
        JObj es \<Rightarrow> bindR (tier_entries es m) (json_tiers field kvs)
      | JNull \<Rightarrow> json_tiers field kvs []
      | _ \<Rightarrow> Inl badType)"

section \<open>Bodies of responses\<close>

text \<open>The formats of a time, and the status \<open>net/http\<close> redirects an unclean path with.\<close>

record http_lib =
  hl_RFC3339 :: "time \<Rightarrow> string"
  hl_JSON :: "time \<Rightarrow> string"
  hl_redirect :: int

definition strings_json :: "settings \<Rightarrow> json" where
  "strings_json m = JObj (map (\<lambda>(k, v). (k, JStr v)) m)"

definition setupResponse_json :: "setupResponse \<Rightarrow> json" where
  "setupResponse_json r =
     JObj [(''tenant_id'', JStr (sup_TenantID r)), (''actor_id'', JStr (sup_ActorID r)), (''token'', JStr (sup_Token r))]"

definition createAgentResponse_json :: "createAgentResponse \<Rightarrow> json" where
  "createAgentResponse_json r = JObj [(''actor_id'', JStr (cap_ActorID r)), (''token'', JStr (cap_Token r))]"

definition createEnvironmentResponse_json :: "createEnvironmentResponse \<Rightarrow> json" where
  "createEnvironmentResponse_json r =
     JObj [(''environment_id'', JStr (cep_EnvironmentID r)), (''name'', JStr (cep_Name r)),
           (''provider'', JStr (cep_Provider r)), (''region'', JStr (cep_Region r))]"

definition createWorkerResponse_json :: "createWorkerResponse \<Rightarrow> json" where
  "createWorkerResponse_json r =
     JObj [(''worker_credential_id'', JStr (cwp_WorkerCredentialID r)), (''token'', JStr (cwp_Token r))]"

definition workerCredentialResponse_json :: "http_lib \<Rightarrow> workerCredentialResponse \<Rightarrow> json" where
  "workerCredentialResponse_json H r =
     JObj ([(''worker_credential_id'', JStr (wcr_WorkerCredentialID r)), (''name'', JStr (wcr_Name r)),
            (''environments'', strings_array (wcr_Environments r))] @
       (case wcr_RevokedAt r of None \<Rightarrow> [] | Some t \<Rightarrow> [(''revoked_at'', JStr (hl_RFC3339 H t))]))"

definition createVerificationResponse_json :: "createVerificationResponse \<Rightarrow> json" where
  "createVerificationResponse_json r =
     JObj [(''verification_id'', JStr (cvr_VerificationID r)), (''status'', JStr (cvr_Status r))]"

definition TierResult_json :: "TierResult \<Rightarrow> json" where
  "TierResult_json r = JObj ((''ok'', JBool (tr_OK r)) # omitempty ''error'' (tr_Error r))"

definition getVerificationResponse_json :: "http_lib \<Rightarrow> getVerificationResponse \<Rightarrow> json" where
  "getVerificationResponse_json H r =
     JObj ([(''verification_id'', JStr (gvr_VerificationID r)), (''status'', JStr (gvr_Status r))] @
       (if gvr_TierResults r = [] then []
        else [(''tier_results'', JObj (map (\<lambda>(k, x). (k, TierResult_json x)) (gvr_TierResults r)))]) @
       [(''requested_at'', JStr (hl_JSON H (gvr_RequestedAt r)))] @
       (case gvr_CompletedAt r of None \<Rightarrow> [] | Some t \<Rightarrow> [(''completed_at'', JStr (hl_JSON H t))]))"

definition nextVerificationResponse_json :: "nextVerificationResponse \<Rightarrow> json" where
  "nextVerificationResponse_json r =
     JObj [(''verification_id'', JStr (nvr_VerificationID r)), (''environment'', JStr (nvr_Environment r)),
           (''provider'', JStr (nvr_Provider r)), (''account_ref'', JStr (nvr_AccountRef r)),
           (''external_id'', JStr (nvr_ExternalID r)), (''trust_anchor'', JStr (nvr_TrustAnchor r)),
           (''role_arns'', strings_json (nvr_RoleARNs r))]"

definition pipelineResponse_json :: "pipelineResponse \<Rightarrow> json" where
  "pipelineResponse_json r =
     JObj [(''pipeline_id'', JStr (ppr_PipelineID r)), (''environment_id'', JStr (ppr_EnvironmentID r)),
           (''provider'', JStr (ppr_Provider r)), (''workflow_ref'', JStr (ppr_WorkflowRef r)),
           (''settings'', strings_json (ppr_Settings r)), (''mutating'', JBool (ppr_Mutating r))]"

definition runResponse_json :: "runResponse \<Rightarrow> json" where
  "runResponse_json r =
     JObj [(''run_id'', JStr (rrp_RunID r)), (''environment_id'', JStr (rrp_EnvironmentID r)),
           (''pipeline_id'', JStr (rrp_PipelineID r)), (''tier'', JStr (rrp_Tier r)), (''status'', JStr (rrp_Status r))]"

definition nextRunResponse_json :: "nextRunResponse \<Rightarrow> json" where
  "nextRunResponse_json r =
     JObj [(''run_id'', JStr (nrr_RunID r)), (''provider'', JStr (nrr_Provider r)),
           (''workflow_ref'', JStr (nrr_WorkflowRef r)), (''settings'', strings_json (nrr_Settings r))]"

definition resolveRunResponse_json :: "resolveRunResponse \<Rightarrow> json" where
  "resolveRunResponse_json r =
     JObj [(''run_id'', JStr (rsp_RunID r)), (''tier'', JNum (rsp_Tier r)), (''account_ref'', JStr (rsp_AccountRef r)),
           (''external_id'', JStr (rsp_ExternalID r)), (''trust_anchor'', JStr (rsp_TrustAnchor r)),
           (''role_arn'', JStr (rsp_RoleARN r))]"

definition omitempty_int :: "string \<Rightarrow> int option \<Rightarrow> (string \<times> json) list" where
  "omitempty_int field x = (case x of None \<Rightarrow> [] | Some i \<Rightarrow> [(field, JNum i)])"

definition runCostResponse_json :: "http_lib \<Rightarrow> runCostResponse \<Rightarrow> json" where
  "runCostResponse_json H r =
     JObj ([(''source'', JStr (rco_Source r))] @ omitempty_int ''duration_ms'' (map_option sint (rco_DurationMS r)) @
       omitempty_int ''amount_micros'' (map_option sint (rco_AmountMicros r)) @
       [(''currency'', JStr (rco_Currency r)), (''captured_at'', JStr (hl_RFC3339 H (rco_CapturedAt r)))])"

definition actorCostSummaryResponse_json :: "actorCostSummaryResponse \<Rightarrow> json" where
  "actorCostSummaryResponse_json r =
     JObj ([(''actor_id'', JStr (aco_ActorID r))] @ omitempty_int ''total_amount_micros'' (aco_TotalAmountMicros r) @
       [(''total_duration_ms'', JNum (aco_TotalDurationMS r)), (''run_count'', JNum (int (aco_RunCount r)))])"

text \<open>A handler that never answers with a body.\<close>

definition no_body :: "unit \<Rightarrow> json" where
  "no_body x = JNull"

section \<open>Answering\<close>

text \<open>\<open>writeJSON\<close> and \<open>writeError\<close>, whose message is not modelled; a dropped connection is an error of the transport.\<close>

definition bare :: "int \<Rightarrow> http_response" where
  "bare n = \<lparr>hr_StatusCode = n, hr_Status = [], hr_Body = None\<rparr>"

definition written :: "('b \<Rightarrow> json) \<Rightarrow> 'b response \<Rightarrow> http_response res" where
  "written enc r =
     (case r of
        Reply n b \<Rightarrow> Inr \<lparr>hr_StatusCode = int n, hr_Status = [], hr_Body = Some (enc b)\<rparr>
      | Error n code \<Rightarrow> Inr \<lparr>hr_StatusCode = int n, hr_Status = [], hr_Body = Some (JObj [(''code'', JStr code), (''message'', JStr [])])\<rparr>
      | Status n \<Rightarrow> Inr (bare (int n))
      | Aborted \<Rightarrow> Inl (Errorf ''EOF''))"

definition answered_by :: "('b \<Rightarrow> json) \<Rightarrow> 'b handler \<Rightarrow> (world, http_response res) prog" where
  "answered_by enc h = bindP h (\<lambda>r. Done (written enc r))"

abbreviation user_auth :: "server \<Rightarrow> string \<Rightarrow> (Claims option \<Rightarrow> 'b handler) \<Rightarrow> 'b handler" where
  "user_auth s header next \<equiv> requireAuth (is_jwt (sv_issuer s)) (sv_publicKey s) (is_uuid (sv_issuer s)) header next"

definition with_runs_on :: "server \<Rightarrow> (Store \<Rightarrow> (world, http_response res) prog) \<Rightarrow> (world, http_response res) prog" where
  "with_runs_on s k = (case sv_runs s of None \<Rightarrow> Done (Inr (bare 404)) | Some st \<Rightarrow> k st)"

text \<open>What is written for a request whose route is registered.\<close>

fun answer :: "http_lib \<Rightarrow> server \<Rightarrow> request \<Rightarrow> (world, http_response res) prog" where
  "answer H s GetSetup = answered_by (\<lambda>b. JObj [(''needs_setup'', JBool b)]) handleGetSetup"
| "answer H s (PostSetup b) = answered_by setupResponse_json (handlePostSetup (sv_bcrypt s) (sv_issuer s) b)"
| "answer H s (PostToken b) = answered_by (\<lambda>t. JObj [(''token'', JStr t)]) (handlePostToken (sv_bcrypt s) (sv_issuer s) b)"
| "answer H s (PostAgents h b) = answered_by createAgentResponse_json (user_auth s h (handlePostAgents (sv_issuer s) b))"
| "answer H s (PostEnvironments h b) =
     answered_by createEnvironmentResponse_json (user_auth s h (handlePostEnvironments (is_uuid (sv_issuer s)) b))"
| "answer H s (PostWorkers h b) =
     answered_by createWorkerResponse_json (user_auth s h (handlePostWorkers (is_uuid (sv_issuer s)) b))"
| "answer H s (GetWorkers h) =
     answered_by (\<lambda>xs. JArr (map (workerCredentialResponse_json H) xs)) (user_auth s h (handleGetWorkers (is_uuid (sv_issuer s))))"
| "answer H s (PostWorkerGrantEnvironments h i b) =
     answered_by no_body (user_auth s h (handlePostWorkerGrantEnvironments (is_uuid (sv_issuer s)) i b))"
| "answer H s (PostWorkerBootstrap h b) =
     (if length (sv_workerBootstrapToken s) > 0
      then answered_by createWorkerResponse_json (handlePostWorkerBootstrap (is_uuid (sv_issuer s)) (sv_workerBootstrapToken s) h b)
      else Done (Inr (bare 404)))"
| "answer H s (PostEnvironmentVerify h n) =
     answered_by createVerificationResponse_json (user_auth s h (handlePostEnvironmentVerify (is_uuid (sv_issuer s)) n))"
| "answer H s (GetVerificationStatus h n i) =
     answered_by (getVerificationResponse_json H) (user_auth s h (handleGetVerification (is_uuid (sv_issuer s)) n i))"
| "answer H s (GetNextWorkerVerification h) =
     answered_by nextVerificationResponse_json (requireWorkerAuth h (handleGetNextWorkerVerification (is_uuid (sv_issuer s))))"
| "answer H s (PostWorkerVerificationResult h i b) =
     answered_by createVerificationResponse_json (requireWorkerAuth h (handlePostWorkerVerificationResult (is_uuid (sv_issuer s)) i b))"
| "answer H s (PutWorkerCICallbackURL h b) =
     answered_by no_body (requireWorkerAuth h (handlePutWorkerCICallbackURL (sv_url_Parse s) b))"
| "answer H s (GetCICallbackURL p r) = answered_by (\<lambda>u. JObj [(''url'', JStr u)]) (handleGetCICallbackURL p r)"
| "answer H s (PostPipelines h b) =
     answered_by pipelineResponse_json (user_auth s h (handlePostPipelines (is_uuid (sv_issuer s)) b))"
| "answer H s (GetPipelineByID h i) =
     answered_by pipelineResponse_json (user_auth s h (handleGetPipeline (is_uuid (sv_issuer s)) i))"
| "answer H s (PatchTenantTelemetry h b) =
     answered_by (\<lambda>x. JObj [(''telemetry_enabled'', JBool x)]) (user_auth s h (handlePatchTenantTelemetry (is_uuid (sv_issuer s)) b))"
| "answer H s (PostRuns h b) = with_runs_on s (\<lambda>st.
     answered_by runResponse_json (user_auth s h (handlePostRuns (is_uuid (sv_issuer s)) st b)))"
| "answer H s (GetRunByID h i) = with_runs_on s (\<lambda>st.
     answered_by runResponse_json (user_auth s h (handleGetRun (is_uuid (sv_issuer s)) i)))"
| "answer H s (PostRunDecision h i b) = with_runs_on s (\<lambda>st.
     answered_by runResponse_json (user_auth s h (handlePostRunDecision (is_uuid (sv_issuer s)) st i b)))"
| "answer H s (GetNextWorkerRun h) = with_runs_on s (\<lambda>st.
     answered_by nextRunResponse_json (requireWorkerAuth h (handleGetNextWorkerRun (is_uuid (sv_issuer s)))))"
| "answer H s (PostWorkerRunResult h i b) = with_runs_on s (\<lambda>st.
     answered_by runResponse_json (requireWorkerAuth h (handlePostWorkerRunResult (is_uuid (sv_issuer s)) i b)))"
| "answer H s (PostWorkerRunResolve h b) = with_runs_on s (\<lambda>st.
     answered_by resolveRunResponse_json (requireWorkerAuth h (handlePostWorkerRunResolve (is_uuid (sv_issuer s)) b)))"
| "answer H s (GetRunCost h i) = with_runs_on s (\<lambda>st.
     answered_by (\<lambda>rs. JArr (map (runCostResponse_json H) rs)) (user_auth s h (handleGetRunCost (is_uuid (sv_issuer s)) i)))"
| "answer H s (GetCostsByActor h a f t) = with_runs_on s (\<lambda>st.
     answered_by (\<lambda>rs. JArr (map actorCostSummaryResponse_json rs))
       (user_auth s h (handleGetCostsByActor (is_uuid (sv_issuer s)) (sv_time_Parse s) a f t)))"
| "answer H s (PutCostRate h b) = with_runs_on s (\<lambda>st.
     answered_by no_body (user_auth s h (handlePutCostRate (is_uuid (sv_issuer s)) b)))"

text \<open>The same status as \<open>Routes\<close>.\<close>

definition status_of :: "http_response res \<Rightarrow> nat option" where
  "status_of r = (case r of Inl e \<Rightarrow> None | Inr resp \<Rightarrow> Some (nat (hr_StatusCode resp)))"

lemma status_written: "status_of (written enc r) = status_code r"
  by (cases r) (simp_all add: written_def status_of_def bare_def)

lemma status_bare [simp]: "status_of (Inr (bare n)) = Some (nat n)"
  by (simp add: status_of_def bare_def)

lemma coded_answered: "bindP (answered_by enc h) (\<lambda>r. Done (status_of r)) = coded h"
  by (simp add: answered_by_def coded_def bindP_assoc status_written)

lemma answer_Routes: "bindP (answer H s q) (\<lambda>r. Done (status_of r)) = Routes s q"
  by (cases q)
     (simp_all add: coded_answered auth_def worker_auth_def with_runs_on_def with_runs_def split: option.split)

section \<open>Patterns\<close>

text \<open>The segments of a pattern; a wildcard stands for one segment that is not empty.\<close>

datatype seg = Lit string | Wild

fun match_segs :: "seg list \<Rightarrow> string list \<Rightarrow> string list option" where
  "match_segs [] [] = Some []"
| "match_segs (Lit l # ps) (x # xs) = (if x = l then match_segs ps xs else None)"
| "match_segs (Wild # ps) (x # xs) = (if x = [] then None else map_option ((#) x) (match_segs ps xs))"
| "match_segs _ _ = None"

text \<open>What a handler can read of a request: path values, the query, the \<open>Authorization\<close> header and the body.\<close>

record incoming =
  ic_PathValues :: "string list"
  ic_Query :: string
  ic_Header :: string
  ic_Body :: "json option"

type_synonym route = "string \<times> seg list \<times> (incoming \<Rightarrow> request)"

abbreviation path_value :: "incoming \<Rightarrow> nat \<Rightarrow> string" where
  "path_value r n \<equiv> ic_PathValues r ! n"

definition catalog_routes :: "route list" where
  "catalog_routes =
    [(''GET'', [Lit ''v1'', Lit ''setup''], \<lambda>r. GetSetup),
     (''POST'', [Lit ''v1'', Lit ''setup''], \<lambda>r. PostSetup (decode_body setupRequest_members (ic_Body r))),
     (''POST'', [Lit ''v1'', Lit ''token''], \<lambda>r. PostToken (decode_body tokenRequest_members (ic_Body r))),
     (''POST'', [Lit ''v1'', Lit ''agents''], \<lambda>r. PostAgents (ic_Header r) (decode_body createAgentRequest_members (ic_Body r))),
     (''POST'', [Lit ''v1'', Lit ''environments''],
        \<lambda>r. PostEnvironments (ic_Header r) (decode_body createEnvironmentRequest_members (ic_Body r))),
     (''POST'', [Lit ''v1'', Lit ''workers''], \<lambda>r. PostWorkers (ic_Header r) (decode_body createWorkerRequest_members (ic_Body r))),
     (''GET'', [Lit ''v1'', Lit ''workers''], \<lambda>r. GetWorkers (ic_Header r)),
     (''POST'', [Lit ''v1'', Lit ''workers'', Wild, Lit ''environments''],
        \<lambda>r. PostWorkerGrantEnvironments (ic_Header r) (path_value r 0)
          (decode_body (\<lambda>kvs. json_strings ''environments'' kvs []) (ic_Body r))),
     (''POST'', [Lit ''v1'', Lit ''environments'', Wild, Lit ''verify''], \<lambda>r. PostEnvironmentVerify (ic_Header r) (path_value r 0)),
     (''GET'', [Lit ''v1'', Lit ''environments'', Wild, Lit ''verifications'', Wild],
        \<lambda>r. GetVerificationStatus (ic_Header r) (path_value r 0) (path_value r 1)),
     (''GET'', [Lit ''v1'', Lit ''worker'', Lit ''verifications'', Lit ''next''], \<lambda>r. GetNextWorkerVerification (ic_Header r)),
     (''POST'', [Lit ''v1'', Lit ''worker'', Lit ''verifications'', Wild, Lit ''result''],
        \<lambda>r. PostWorkerVerificationResult (ic_Header r) (path_value r 0)
          (decode_body (\<lambda>kvs. json_tiers ''tier_results'' kvs []) (ic_Body r))),
     (''PUT'', [Lit ''v1'', Lit ''worker'', Lit ''ci-callback-url''],
        \<lambda>r. PutWorkerCICallbackURL (ic_Header r) (decode_body (\<lambda>kvs. json_string ''url'' kvs []) (ic_Body r))),
     (''GET'', [Lit ''v1'', Lit ''ci'', Lit ''callback-url''],
        \<lambda>r. GetCICallbackURL (query_get (ic_Query r) ''provider'') (query_get (ic_Query r) ''repo'')),
     (''POST'', [Lit ''v1'', Lit ''pipelines''], \<lambda>r. PostPipelines (ic_Header r) (decode_body createPipelineRequest_members (ic_Body r))),
     (''GET'', [Lit ''v1'', Lit ''pipelines'', Wild], \<lambda>r. GetPipelineByID (ic_Header r) (path_value r 0)),
     (''PATCH'', [Lit ''v1'', Lit ''tenants'', Lit ''telemetry''],
        \<lambda>r. PatchTenantTelemetry (ic_Header r) (decode_body (\<lambda>kvs. json_bool ''enabled'' kvs False) (ic_Body r)))]"

definition bootstrap_routes :: "route list" where
  "bootstrap_routes =
    [(''POST'', [Lit ''v1'', Lit ''workers'', Lit ''bootstrap''],
        \<lambda>r. PostWorkerBootstrap (ic_Header r) (decode_body (\<lambda>kvs. json_string ''name'' kvs []) (ic_Body r)))]"

definition execution_routes :: "route list" where
  "execution_routes =
    [(''POST'', [Lit ''v1'', Lit ''runs''], \<lambda>r. PostRuns (ic_Header r) (decode_body createRunRequest_members (ic_Body r))),
     (''GET'', [Lit ''v1'', Lit ''runs'', Wild], \<lambda>r. GetRunByID (ic_Header r) (path_value r 0)),
     (''POST'', [Lit ''v1'', Lit ''runs'', Wild, Lit ''decision''],
        \<lambda>r. PostRunDecision (ic_Header r) (path_value r 0) (decode_body (\<lambda>kvs. json_string ''decision'' kvs []) (ic_Body r))),
     (''GET'', [Lit ''v1'', Lit ''worker'', Lit ''runs'', Lit ''next''], \<lambda>r. GetNextWorkerRun (ic_Header r)),
     (''POST'', [Lit ''v1'', Lit ''worker'', Lit ''runs'', Wild, Lit ''result''],
        \<lambda>r. PostWorkerRunResult (ic_Header r) (path_value r 0) (decode_body reportRunResultRequest_members (ic_Body r))),
     (''POST'', [Lit ''v1'', Lit ''worker'', Lit ''runs'', Lit ''resolve''],
        \<lambda>r. PostWorkerRunResolve (ic_Header r) (decode_body resolveRunRequest_members (ic_Body r))),
     (''GET'', [Lit ''v1'', Lit ''runs'', Wild, Lit ''cost''], \<lambda>r. GetRunCost (ic_Header r) (path_value r 0)),
     (''GET'', [Lit ''v1'', Lit ''costs'', Lit ''by-actor''],
        \<lambda>r. GetCostsByActor (ic_Header r) (query_get (ic_Query r) ''actor_id'') (query_get (ic_Query r) ''from'')
          (query_get (ic_Query r) ''to'')),
     (''PUT'', [Lit ''v1'', Lit ''cost-rates''], \<lambda>r. PutCostRate (ic_Header r) (decode_body setCostRateRequest_members (ic_Body r)))]"

definition registered :: "server \<Rightarrow> route list" where
  "registered s = catalog_routes @ (if length (sv_workerBootstrapToken s) > 0 then bootstrap_routes else []) @
     (if sv_runs s = None then [] else execution_routes)"

section \<open>The mux\<close>

text \<open>The segments of a path are unescaped one by one; \<open>None\<close> is a malformed escape.\<close>

fun PathUnescape :: "string \<Rightarrow> string option" where
  "PathUnescape [] = Some []"
| "PathUnescape (c # cs) =
     (if c = CHR ''%'' then
        (case cs of
           a # b # r \<Rightarrow>
             (case (hex_value a, hex_value b) of
                (Some i, Some j) \<Rightarrow> map_option ((#) (char_of (16 * i + j))) (PathUnescape r)
              | _ \<Rightarrow> None)
         | _ \<Rightarrow> None)
      else map_option ((#) c) (PathUnescape cs))"

fun unescape_all :: "string list \<Rightarrow> string list option" where
  "unescape_all [] = Some []"
| "unescape_all (x # xs) =
     (case (PathUnescape x, unescape_all xs) of (Some y, Some ys) \<Rightarrow> Some (y # ys) | _ \<Rightarrow> None)"

text \<open>The path and the query of an address below \<open>base\<close>; a fragment is not sent.\<close>

definition url_path :: "string \<Rightarrow> string" where
  "url_path u = fst (Cut (fst (Cut u (CHR ''#''))) (CHR ''?''))"

definition url_query :: "string \<Rightarrow> string" where
  "url_query u = fst (snd (Cut (fst (Cut u (CHR ''#''))) (CHR ''?'')))"

definition raw_segments :: "string \<Rightarrow> string list" where
  "raw_segments path = Split (drop 1 path) (CHR ''/'')"

text \<open>A path that \<open>cleanPath\<close> would change: it has an empty segment before its end, or a dot segment.\<close>

definition unclean :: "string \<Rightarrow> bool" where
  "unclean path \<longleftrightarrow> take 1 path \<noteq> ''/'' \<or> [] \<in> set (butlast (raw_segments path)) \<or> ''.'' \<in> set (raw_segments path) \<or>
     ''..'' \<in> set (raw_segments path)"

definition bearer_header :: "http_request \<Rightarrow> string" where
  "bearer_header req = (case map_of (rq_Headers req) ''Authorization'' of None \<Rightarrow> [] | Some v \<Rightarrow> v)"

text \<open>The routes whose pattern matches a path, each with the request its handler reads.\<close>

definition matching :: "server \<Rightarrow> string list \<Rightarrow> string \<Rightarrow> http_request \<Rightarrow> (string \<times> request) list" where
  "matching s segs q req =
     concat (map (\<lambda>(m, pat, f).
        case match_segs pat segs of
          None \<Rightarrow> []
        | Some ids \<Rightarrow> [(m, f \<lparr>ic_PathValues = ids, ic_Query = q, ic_Header = bearer_header req, ic_Body = rq_Body req\<rparr>)]) (registered s))"

text \<open>A pattern for \<open>GET\<close> matches \<open>HEAD\<close> too, and then no body is sent.\<close>

definition method_matches :: "string \<Rightarrow> string \<Rightarrow> bool" where
  "method_matches m verb \<longleftrightarrow> m = verb \<or> m = ''GET'' \<and> verb = ''HEAD''"

definition without_body :: "http_response res \<Rightarrow> http_response res" where
  "without_body r = (case r of Inl e \<Rightarrow> Inl e | Inr resp \<Rightarrow> Inr (resp\<lparr>hr_Body := None\<rparr>))"

definition mux :: "http_lib \<Rightarrow> server \<Rightarrow> string \<Rightarrow> http_request \<Rightarrow> (world, http_response res) prog" where
  "mux H s base req =
     (let u = TrimPrefix (rq_URL req) base; path = url_path u in
      if unclean path then Done (Inr (bare (hl_redirect H)))
      else case unescape_all (raw_segments path) of
        None \<Rightarrow> Done (Inr (bare 400))
      | Some segs \<Rightarrow>
          (let found = matching s segs (url_query u) req in
           case filter (\<lambda>(m, q). method_matches m (rq_Method req)) found of
             (m, q) # _ \<Rightarrow>
               if rq_Method req = ''HEAD'' then bindP (answer H s q) (\<lambda>r. Done (without_body r)) else answer H s q
           | [] \<Rightarrow> Done (Inr (bare (if found = [] then 404 else 405)))))"

text \<open>
  Every request over HTTP is one of \<open>Routes\<close>, or is turned away without an effect.  What holds of
  every schedule of \<open>Routes\<close> therefore holds of every schedule of HTTP requests.
\<close>

lemma status_without_body: "status_of (without_body r) = status_of r"
  by (simp add: status_of_def without_body_def split: sum.split)

theorem mux_is_Routes:
  "(\<exists>q. bindP (mux H s base req) (\<lambda>r. Done (status_of r)) = Routes s q) \<or>
   (\<exists>n \<in> {hl_redirect H, 400, 404, 405}. mux H s base req = Done (Inr (bare n)))"
proof -
  have head: "bindP (bindP (answer H s q) (\<lambda>r. Done (without_body r))) (\<lambda>r. Done (status_of r)) = Routes s q" for q
    by (simp add: bindP_assoc status_without_body answer_Routes)
  show ?thesis
    unfolding mux_def Let_def using answer_Routes [of H s] head by (auto split: list.splits option.splits prod.splits) 
qed

text \<open>
  No two patterns of one method match the same path, so that the mux, which refuses patterns that
  conflict, takes them all and the order in which they are registered does not matter.
\<close>

fun overlap :: "seg list \<Rightarrow> seg list \<Rightarrow> bool" where
  "overlap [] [] = True"
| "overlap (Lit l # ps) (Lit k # qs) = (l = k \<and> overlap ps qs)"
| "overlap (p # ps) (q # qs) = overlap ps qs"
| "overlap _ _ = False"

lemma overlap_complete: "match_segs p xs = Some i \<Longrightarrow> match_segs q xs = Some j \<Longrightarrow> overlap p q"
proof (induction xs arbitrary: p q i j)
  case Nil
  then have "p = []" "q = []" by (cases p; cases q; simp; case_tac a; simp)+
  then show ?case by simp
next
  case (Cons x xs)
  from Cons.prems obtain a ps b qs where pq: "p = a # ps" "q = b # qs" by (cases p; cases q) auto
  with Cons.prems have "overlap ps qs"
    by (cases a; cases b) (auto split: if_splits intro: Cons.IH)
  with Cons.prems pq show ?case by (cases a; cases b) (auto split: if_splits)
qed

definition apart :: "route \<Rightarrow> route \<Rightarrow> bool" where
  "apart x y \<longleftrightarrow> (case (x, y) of ((m, p, _), (m', p', _)) \<Rightarrow> m = m' \<longrightarrow> \<not> overlap p p')"

theorem patterns_apart: "sorted_wrt apart (registered s)"
  by (auto simp: registered_def catalog_routes_def bootstrap_routes_def execution_routes_def apart_def)

lemma apart_once:
  assumes "sorted_wrt apart rs" and "(m, pat, f) \<in> set rs" and "match_segs pat segs = Some ids"
  shows "concat (map (\<lambda>(m', p, g). if m' = m then (case match_segs p segs of None \<Rightarrow> [] | Some i \<Rightarrow> [(m', h g i)]) else []) rs) =
     [(m, h f ids)]"
  using assms
proof (induction rs)
  case (Cons x rs)
  obtain m' p g where x: "x = (m', p, g)" by (cases x) auto
  show ?case
  proof (cases "x = (m, pat, f)")
    case True
    have "match_segs p' segs = None" if "(m, p', g') \<in> set rs" for p' g'
      using Cons.prems(1,3) True that overlap_complete [of pat segs] by (cases "match_segs p' segs") (auto simp: apart_def)
    then have "concat (map (\<lambda>(m', p, g). if m' = m then (case match_segs p segs of None \<Rightarrow> [] | Some i \<Rightarrow> [(m', h g i)]) else []) rs) = []"
      by (auto split: option.splits)
    with True Cons.prems(3) show ?thesis by simp
  next
    case False
    with Cons.prems(2) have mem: "(m, pat, f) \<in> set rs" by auto
    have "match_segs p segs = None" if "m' = m"
    proof -
      from Cons.prems(1) mem x that have "\<not> overlap p pat" by (auto simp: apart_def)
      with Cons.prems(3) overlap_complete show ?thesis by (metis not_Some_eq)
    qed
    with Cons.IH [OF _ mem Cons.prems(3)] Cons.prems(1) x show ?thesis by simp
  qed
qed simp

lemma matching_once:
  assumes "(m, pat, f) \<in> set (registered s)" and "match_segs pat segs = Some ids"
  shows "filter (\<lambda>(m', q). m' = m) (matching s segs qs req) =
     [(m, f \<lparr>ic_PathValues = ids, ic_Query = qs, ic_Header = bearer_header req, ic_Body = rq_Body req\<rparr>)]"
proof -
  have "filter (\<lambda>(m', q). m' = m) (matching s segs qs req) =
    concat (map (\<lambda>(m', p, g). if m' = m then (case match_segs p segs of None \<Rightarrow> [] | Some i \<Rightarrow>
      [(m', g \<lparr>ic_PathValues = i, ic_Query = qs, ic_Header = bearer_header req, ic_Body = rq_Body req\<rparr>)]) else []) (registered s))"
    unfolding matching_def by (auto simp: filter_concat o_def intro!: arg_cong [where f = concat] split: option.split)
  then show ?thesis
    using apart_once [OF patterns_apart assms, of "\<lambda>g i. g \<lparr>ic_PathValues = i, ic_Query = qs, ic_Header = bearer_header req, ic_Body = rq_Body req\<rparr>"]
    by simp
qed

theorem mux_serves:
  assumes "(m, pat, f) \<in> set (registered s)" and "rq_Method req = m" and "m \<noteq> ''HEAD''" and "rq_URL req = base @ u"
    and "\<not> unclean (url_path u)" and "unescape_all (raw_segments (url_path u)) = Some segs" and "match_segs pat segs = Some ids"
  shows "mux H s base req =
     answer H s (f \<lparr>ic_PathValues = ids, ic_Query = url_query u, ic_Header = bearer_header req, ic_Body = rq_Body req\<rparr>)"
proof -
  have "method_matches m' (rq_Method req) \<longleftrightarrow> m' = m" for m'
    using assms(2,3) by (auto simp: method_matches_def)
  with matching_once [OF assms(1,7)] assms(2-6) show ?thesis by (simp add: mux_def)
qed

section \<open>Plain paths\<close>

text \<open>A segment that is sent as it is, and the path of a list of them.\<close>

definition segment :: "string \<Rightarrow> bool" where
  "segment i \<longleftrightarrow> i \<noteq> [] \<and> i \<noteq> ''.'' \<and> i \<noteq> ''..'' \<and> CHR ''/'' \<notin> set i \<and> CHR ''?'' \<notin> set i \<and> CHR ''#'' \<notin> set i \<and> CHR ''%'' \<notin> set i"

lemma segment_nonempty: "segment i \<Longrightarrow> i \<noteq> []"
  by (simp add: segment_def)

definition path_of :: "string list \<Rightarrow> string" where
  "path_of segs = concat (map (\<lambda>i. CHR ''/'' # i) segs)"

lemma segment_literals [simp]:
  "segment ''v1''" "segment ''setup''" "segment ''token''" "segment ''agents''" "segment ''environments''" "segment ''workers''"
  "segment ''verify''" "segment ''verifications''" "segment ''worker''" "segment ''next''" "segment ''result''" "segment ''ci-callback-url''"
  "segment ''ci''" "segment ''callback-url''" "segment ''pipelines''" "segment ''tenants''" "segment ''telemetry''" "segment ''bootstrap''"
  "segment ''runs''" "segment ''decision''" "segment ''resolve''" "segment ''cost''" "segment ''costs''" "segment ''by-actor''"
  "segment ''cost-rates''"
  by (simp_all add: segment_def)

lemma registered_rules:
  "r \<in> set catalog_routes \<Longrightarrow> r \<in> set (registered s)"
  "sv_runs s \<noteq> None \<Longrightarrow> r \<in> set execution_routes \<Longrightarrow> r \<in> set (registered s)"
  "sv_workerBootstrapToken s \<noteq> [] \<Longrightarrow> r \<in> set bootstrap_routes \<Longrightarrow> r \<in> set (registered s)"
  by (auto simp: registered_def)

lemma PathUnescape_plain: "CHR ''%'' \<notin> set i \<Longrightarrow> PathUnescape i = Some i"
  by (induction i) auto

lemma unescape_plain: "list_all segment segs \<Longrightarrow> unescape_all segs = Some segs"
  by (induction segs) (auto simp: segment_def PathUnescape_plain)

lemma raw_segments_path: "list_all segment segs \<Longrightarrow> segs \<noteq> [] \<Longrightarrow> raw_segments (path_of segs) = segs"
proof (induction segs)
  case (Cons i segs)
  then have i: "CHR ''/'' \<notin> set i" by (simp add: segment_def)
  show ?case
  proof (cases segs)
    case Nil
    with i show ?thesis by (simp add: raw_segments_def path_of_def Split_none)
  next
    case (Cons j more)
    with Cons.IH Cons.prems i show ?thesis by (simp add: raw_segments_def path_of_def Split_append)
  qed
qed simp

lemma path_plain: "list_all segment segs \<Longrightarrow> c \<in> {CHR ''?'', CHR ''#'', CHR ''%''} \<Longrightarrow> c \<notin> set (path_of segs)"
  by (induction segs) (auto simp: path_of_def segment_def)

lemma clean_path:
  assumes "list_all segment segs" and "segs \<noteq> []"
  shows "\<not> unclean (path_of segs)"
proof -
  have "take 1 (path_of segs) = ''/''" using assms(2) by (cases segs) (simp_all add: path_of_def)
  moreover have "x \<noteq> [] \<and> x \<noteq> ''.'' \<and> x \<noteq> ''..''" if "x \<in> set segs" for x
    using assms(1) that by (auto simp: list_all_iff segment_def)
  ultimately show ?thesis
    using raw_segments_path [OF assms] in_set_butlastD [of "[]" segs] by (auto simp: unclean_def)
qed

lemma Cut_none: "x \<notin> set s \<Longrightarrow> Cut s x = (s, [], False)"
  by (induction s) auto

text \<open>\<open>tail\<close> is empty or a query.\<close>

definition query_tail :: "string \<Rightarrow> bool" where
  "query_tail tail \<longleftrightarrow> CHR ''#'' \<notin> set tail \<and> (tail \<noteq> [] \<longrightarrow> hd tail = CHR ''?'')"

lemma url_parts:
  assumes "list_all segment segs" and "query_tail tail"
  shows "url_path (path_of segs @ tail) = path_of segs" and "url_query (path_of segs @ tail) = drop 1 tail"
proof -
  from path_plain [OF assms(1)] assms(2) have "CHR ''#'' \<notin> set (path_of segs @ tail)" "CHR ''?'' \<notin> set (path_of segs)"
    by (simp_all add: query_tail_def)
  then show "url_path (path_of segs @ tail) = path_of segs" "url_query (path_of segs @ tail) = drop 1 tail"
    using assms(2) by (cases tail; simp add: url_path_def url_query_def query_tail_def Cut_none Cut_append)+
qed

theorem mux_serves_path:
  assumes "(m, pat, f) \<in> set (registered s)" and "rq_Method req = m" and "m \<noteq> ''HEAD''" and "rq_URL req = base @ path_of segs @ tail"
    and "list_all segment segs" and "segs \<noteq> []" and "query_tail tail" and "match_segs pat segs = Some ids"
  shows "mux H s base req =
     answer H s (f \<lparr>ic_PathValues = ids, ic_Query = drop 1 tail, ic_Header = bearer_header req, ic_Body = rq_Body req\<rparr>)"
  using mux_serves [OF assms(1-4) _ _ assms(8), of H] url_parts [OF assms(5,7)] clean_path [OF assms(5,6)]
    raw_segments_path [OF assms(5,6)] unescape_plain [OF assms(5)]
  by simp

text \<open>A handler that needs no run store is there when one is.\<close>

lemma with_runs_on_some [simp]: "sv_runs s \<noteq> None \<Longrightarrow> with_runs_on s (\<lambda>st. p) = p"
  by (auto simp: with_runs_on_def)

abbreviation uuids :: "server \<Rightarrow> uuid_lib" where
  "uuids s \<equiv> is_uuid (sv_issuer s)"

lemma decode_body_eq: "decode_body members body = Some r \<longleftrightarrow> json_decode body members = Inr r"
  by (simp add: decode_body_def split: sum.split del: json_decode_Inr)

end
