(* ===== verification/Wire.thy ===== *)
theory Wire
  imports Mux CiAuth RunHandlers AccessGuarantees Deployment
begin

text \<open>
  The wire between a worker and the control plane: what the client of the worker sends is what the
  mux decodes, and what the handlers answer is what the client reads.  On it the two halves of the
  system are put together.
\<close>

section \<open>The two ends agree\<close>

lemma decode_resolve_request:
  "decode_body resolveRunRequest_members (rq_Body (ResolveRun_request c p repo wfl ref x u)) =
     Some \<lparr>rsq_Provider = p, rsq_Repo = repo, rsq_WorkflowRef = wfl, rsq_Ref = ref, rsq_CIExternalRef = x, rsq_CIURL = u\<rparr>"
  by (simp add: decode_body_def resolveRunRequest_members_def ResolveRun_request_def send_request_def json_decode_def json_struct_def
      bindR_def same_name_def lower_def)

lemma decode_report_request:
  "decode_body reportRunResultRequest_members (rq_Body (ReportRunResult_request c i res)) =
     Some \<lparr>rpr_Status = crr_Status res, rpr_CIExternalRef = crr_CIExternalRef res, rpr_CIURL = crr_CIURL res,
           rpr_CIRawStatus = crr_CIRawStatus res\<rparr>"
  by (simp add: decode_body_def reportRunResultRequest_members_def ReportRunResult_request_def send_request_def json_decode_def
      json_struct_def bindR_def same_name_def lower_def)

definition stored_result :: "client_TierResult \<Rightarrow> TierResult" where
  "stored_result r = \<lparr>tr_OK = ctr_OK r, tr_Error = ctr_Error r\<rparr>"

lemma tier_result_json [simp]: "tier_result_of (tier_result_json r) = Inr (stored_result r)"
  by (simp add: tier_result_of_def tier_result_json_def json_struct_def bindR_def same_name_def lower_def stored_result_def)

lemma update_new: "k \<notin> fst ` set m \<Longrightarrow> AList.update k v m = m @ [(k, v)]"
  by (induction m) auto

lemma tier_entries_json:
  "distinct (map fst rs) \<Longrightarrow> fst ` set rs \<inter> fst ` set m = {} \<Longrightarrow>
     tier_entries (map (\<lambda>(k, r). (k, tier_result_json r)) rs) m = Inr (m @ map (\<lambda>(k, r). (k, stored_result r)) rs)"
  by (induction rs arbitrary: m) (auto simp: bindR_def update_new)

lemma decode_verification_request:
  "distinct (map fst rs) \<Longrightarrow>
     decode_body (\<lambda>kvs. json_tiers ''tier_results'' kvs []) (rq_Body (ReportResult_request c i rs)) = Some (map (\<lambda>(k, r). (k, stored_result r)) rs)"
  using tier_entries_json [of rs "[]"]
  by (simp add: decode_body_def ReportResult_request_def send_request_def json_decode_def json_struct_def
      bindR_def same_name_def lower_def)

lemma json_entries_strings:
  "distinct (map fst ss) \<Longrightarrow> fst ` set ss \<inter> fst ` set m = {} \<Longrightarrow>
     json_entries (map (\<lambda>(k, v). (k, JStr v)) ss) m = Inr (m @ ss)"
  by (induction ss arbitrary: m) (auto simp: update_new)

lemma bearer_client [simp]:
  "bearer_header (ResolveRun_request c p repo wfl ref x u) = ''Bearer '' @ cl_token c"
  "bearer_header (ReportRunResult_request c i res) = ''Bearer '' @ cl_token c"
  "bearer_header (ReportResult_request c i rs) = ''Bearer '' @ cl_token c"
  "bearer_header (NextRun_request c) = ''Bearer '' @ cl_token c"
  "bearer_header (NextJob_request c) = ''Bearer '' @ cl_token c"
  by (simp_all add: bearer_header_def ResolveRun_request_def ReportRunResult_request_def ReportResult_request_def
      NextRun_request_def NextJob_request_def send_request_def get_request_def)

lemma route_resolve:
  assumes "sv_runs srv \<noteq> None"
  shows "mux H srv (cl_baseURL c) (ResolveRun_request c p repo wfl ref x u) =
     answered_by resolveRunResponse_json (requireWorkerAuth (''Bearer '' @ cl_token c) (handlePostWorkerRunResolve (uuids srv)
       (Some \<lparr>rsq_Provider = p, rsq_Repo = repo, rsq_WorkflowRef = wfl, rsq_Ref = ref, rsq_CIExternalRef = x, rsq_CIURL = u\<rparr>)))"
proof -
  let ?req = "ResolveRun_request c p repo wfl ref x u"
  have "mux H srv (cl_baseURL c) ?req = answer H srv ((\<lambda>r. PostWorkerRunResolve (ic_Header r) (decode_body resolveRunRequest_members (ic_Body r)))
      \<lparr>ic_PathValues = [], ic_Query = drop 1 [], ic_Header = bearer_header ?req, ic_Body = rq_Body ?req\<rparr>)"
    by (intro mux_serves_path [where m = "''POST''" and pat = "[Lit ''v1'', Lit ''worker'', Lit ''runs'', Lit ''resolve'']"
          and segs = "[''v1'', ''worker'', ''runs'', ''resolve'']"]
          registered_rules(2) assms) (simp_all add: execution_routes_def ResolveRun_request_def send_request_def path_of_def query_tail_def)
  with assms show ?thesis by (simp add: decode_resolve_request)
qed

lemma route_next_run:
  assumes "sv_runs srv \<noteq> None"
  shows "mux H srv (cl_baseURL c) (NextRun_request c) =
     answered_by nextRunResponse_json (requireWorkerAuth (''Bearer '' @ cl_token c) (handleGetNextWorkerRun (uuids srv)))"
proof -
  let ?req = "NextRun_request c"
  have "mux H srv (cl_baseURL c) ?req = answer H srv ((\<lambda>r. GetNextWorkerRun (ic_Header r))
      \<lparr>ic_PathValues = [], ic_Query = drop 1 [], ic_Header = bearer_header ?req, ic_Body = rq_Body ?req\<rparr>)"
    by (intro mux_serves_path [where m = "''GET''" and pat = "[Lit ''v1'', Lit ''worker'', Lit ''runs'', Lit ''next'']"
          and segs = "[''v1'', ''worker'', ''runs'', ''next'']"]
          registered_rules(2) assms) (simp_all add: execution_routes_def NextRun_request_def get_request_def path_of_def query_tail_def)
  with assms show ?thesis by simp
qed

lemma route_next_job:
  "mux H srv (cl_baseURL c) (NextJob_request c) =
     answered_by nextVerificationResponse_json (requireWorkerAuth (''Bearer '' @ cl_token c) (handleGetNextWorkerVerification (uuids srv)))"
proof -
  let ?req = "NextJob_request c"
  have "mux H srv (cl_baseURL c) ?req = answer H srv ((\<lambda>r. GetNextWorkerVerification (ic_Header r))
      \<lparr>ic_PathValues = [], ic_Query = drop 1 [], ic_Header = bearer_header ?req, ic_Body = rq_Body ?req\<rparr>)"
    by (intro mux_serves_path [where m = "''GET''" and pat = "[Lit ''v1'', Lit ''worker'', Lit ''verifications'', Lit ''next'']"
          and segs = "[''v1'', ''worker'', ''verifications'', ''next'']"]
          registered_rules(1)) (simp_all add: catalog_routes_def NextJob_request_def get_request_def path_of_def query_tail_def)
  then show ?thesis by simp
qed

lemma route_report_run:
  assumes "sv_runs srv \<noteq> None" and "segment i"
  shows "mux H srv (cl_baseURL c) (ReportRunResult_request c i res) =
     answered_by runResponse_json (requireWorkerAuth (''Bearer '' @ cl_token c) (handlePostWorkerRunResult (uuids srv) i
       (Some \<lparr>rpr_Status = crr_Status res, rpr_CIExternalRef = crr_CIExternalRef res, rpr_CIURL = crr_CIURL res,
              rpr_CIRawStatus = crr_CIRawStatus res\<rparr>)))"
proof -
  let ?req = "ReportRunResult_request c i res"
  have "i \<noteq> []" using assms(2) by (simp add: segment_def)
  then have "mux H srv (cl_baseURL c) ?req = answer H srv ((\<lambda>r. PostWorkerRunResult (ic_Header r) (path_value r 0)
      (decode_body reportRunResultRequest_members (ic_Body r)))
      \<lparr>ic_PathValues = [i], ic_Query = drop 1 [], ic_Header = bearer_header ?req, ic_Body = rq_Body ?req\<rparr>)"
    by (intro mux_serves_path [where m = "''POST''" and pat = "[Lit ''v1'', Lit ''worker'', Lit ''runs'', Wild, Lit ''result'']"
          and segs = "[''v1'', ''worker'', ''runs'', i, ''result'']"]
          registered_rules(2) assms(1)) (use assms(2) in \<open>simp_all add: execution_routes_def ReportRunResult_request_def send_request_def path_of_def query_tail_def\<close>)
  with assms(1) show ?thesis by (simp add: decode_report_request)
qed

lemma route_report_job:
  assumes "segment i" and "distinct (map fst rs)"
  shows "mux H srv (cl_baseURL c) (ReportResult_request c i rs) =
     answered_by createVerificationResponse_json (requireWorkerAuth (''Bearer '' @ cl_token c)
       (handlePostWorkerVerificationResult (uuids srv) i (Some (map (\<lambda>(k, r). (k, stored_result r)) rs))))"
proof -
  let ?req = "ReportResult_request c i rs"
  have "i \<noteq> []" using assms(1) by (simp add: segment_def)
  then have "mux H srv (cl_baseURL c) ?req = answer H srv ((\<lambda>r. PostWorkerVerificationResult (ic_Header r) (path_value r 0)
      (decode_body (\<lambda>kvs. json_tiers ''tier_results'' kvs []) (ic_Body r)))
      \<lparr>ic_PathValues = [i], ic_Query = drop 1 [], ic_Header = bearer_header ?req, ic_Body = rq_Body ?req\<rparr>)"
    by (intro mux_serves_path [where m = "''POST''" and pat = "[Lit ''v1'', Lit ''worker'', Lit ''verifications'', Wild, Lit ''result'']"
          and segs = "[''v1'', ''worker'', ''verifications'', i, ''result'']"]
          registered_rules(1)) (use assms(1) in \<open>simp_all add: catalog_routes_def ReportResult_request_def send_request_def path_of_def query_tail_def\<close>)
  then show ?thesis by (simp add: decode_verification_request [OF assms(2)])
qed

section \<open>Calling through the wire\<close>

text \<open>
  \<open>served H srv c w W\<close>: the requests of the client that concern runs, apart from those that would be
  redirected to a clean path, are answered by the control plane, the \<open>n\<close>-th action of the worker
  meeting it in the state \<open>W n\<close>.
\<close>

definition concerns_runs :: "Client \<Rightarrow> http_request \<Rightarrow> bool" where
  "concerns_runs c req \<longleftrightarrow>
     HasPrefix (rq_URL req) (cl_baseURL c @ ''/v1/worker/runs/'') \<and> \<not> unclean (url_path (TrimPrefix (rq_URL req) (cl_baseURL c)))"

definition served :: "http_lib \<Rightarrow> server \<Rightarrow> Client \<Rightarrow> net \<Rightarrow> (nat \<Rightarrow> world) \<Rightarrow> bool" where
  "served H srv c w W \<longleftrightarrow>
     sv_runs srv \<noteq> None \<and>
     (\<forall>n req. concerns_runs c req \<longrightarrow> nt_http w n req = fst (run (mux H srv (cl_baseURL c) req) (W n)))"

lemma served_outside: "served H srv c w W \<Longrightarrow> same_outside w v \<Longrightarrow> served H srv c v W"
  by (simp add: served_def same_outside_def)

lemma served_store: "served H srv c w W \<Longrightarrow> sv_runs srv \<noteq> None"
  by (simp add: served_def)

lemma run_answered_by: "fst (run (answered_by enc h) W) = written enc (fst (run h W))"
  by (simp add: answered_by_def run_bindP split: prod.splits)

lemma served_run:
  assumes "served H srv c w W" and "concerns_runs c req"
    and "mux H srv (cl_baseURL c) req = answered_by enc h" and "nt_url_ok w (rq_URL req)"
  shows "fst (run (exchange req) w) = (case written enc (fst (run h (W (nt_tick w)))) of Inl e \<Rightarrow> Inl (Wrapf e) | Inr r \<Rightarrow> Inr r)"
  using assms by (simp add: run_exchange served_def run_answered_by)

lemma concerns_runs_path:
  assumes "rq_URL req = cl_baseURL c @ path_of ([''v1'', ''worker'', ''runs''] @ rest)" and "list_all segment rest" and "rest \<noteq> []"
  shows "concerns_runs c req"
proof -
  let ?p = "path_of ([''v1'', ''worker'', ''runs''] @ rest)"
  have p: "list_all segment ([''v1'', ''worker'', ''runs''] @ rest)" using assms(2) by simp
  have "\<not> unclean ?p" by (rule clean_path [OF p]) simp
  moreover have "url_path ?p = ?p" using url_parts(1) [OF p, of "[]"] by (simp add: query_tail_def)
  moreover have "HasPrefix ?p ''/v1/worker/runs/''" using assms(3) by (cases rest) (simp_all add: path_of_def HasPrefix_def)
  ultimately show ?thesis using assms(1) by (auto simp: concerns_runs_def HasPrefix_iff)
qed

lemma run_requests:
  "concerns_runs c (ResolveRun_request c p repo wfl ref x u)"
  "concerns_runs c (NextRun_request c)"
  "segment i \<Longrightarrow> concerns_runs c (ReportRunResult_request c i res)"
proof -
  show "concerns_runs c (ResolveRun_request c p repo wfl ref x u)"
    by (rule concerns_runs_path [where rest = "[''resolve'']"]) (simp_all add: ResolveRun_request_def send_request_def path_of_def)
  show "concerns_runs c (NextRun_request c)"
    by (rule concerns_runs_path [where rest = "[''next'']"]) (simp_all add: NextRun_request_def get_request_def path_of_def)
  show "concerns_runs c (ReportRunResult_request c i res)" if "segment i"
    using that by (intro concerns_runs_path [where rest = "[i, ''result'']"]) (simp_all add: ReportRunResult_request_def send_request_def path_of_def)
qed

definition resolved_run :: "resolveRunResponse \<Rightarrow> ResolvedRun" where
  "resolved_run r =
     \<lparr>rsv_RunID = rsp_RunID r, rsv_Tier = rsp_Tier r, rsv_AccountRef = rsp_AccountRef r, rsv_ExternalID = rsp_ExternalID r,
      rsv_TrustAnchor = rsp_TrustAnchor r, rsv_RoleARN = rsp_RoleARN r\<rparr>"

definition delivered_run :: "nextRunResponse \<Rightarrow> client_Run" where
  "delivered_run r =
     \<lparr>crun_RunID = nrr_RunID r, crun_Provider = nrr_Provider r, crun_WorkflowRef = nrr_WorkflowRef r,
      crun_Settings = nrr_Settings r\<rparr>"

lemma int16_range: "- (2 ^ 15) \<le> int16_of t \<and> int16_of t < 2 ^ 15"
  unfolding int16_of_def using sint_range_size [of "word_of_int t :: 16 word"] by (simp add: word_size)

text \<open>A handler that answers 200 answers with a body.\<close>

lemma resolve_not_200:
  "run (handlePostWorkerRunResolve U body ctx) w = (resp, w') \<Longrightarrow> (\<forall>c. resp \<noteq> Error 200 c) \<and> (\<forall>n. resp \<noteq> Status n)"
  unfolding handlePostWorkerRunResolve_def
  by (auto simp: handler_simps resp_defs internalError_def errIs_def anyErr_def split: if_splits option.splits sum.splits prod.splits)

lemma resolve_tier:
  "run (handlePostWorkerRunResolve U body ctx) w = (Reply n b, w') \<Longrightarrow> n = 200 \<and> (\<exists>t. rsp_Tier b = int16_of t)"
  unfolding handlePostWorkerRunResolve_def
  by (auto simp: handler_simps resp_defs internalError_def errIs_def anyErr_def split: if_splits option.splits sum.splits prod.splits)

lemma decode_resolved:
  assumes "rsp_Tier r = int16_of t"
  shows "json_decode (Some (resolveRunResponse_json r)) (\<lambda>kvs.
         bindR (json_string ''run_id'' kvs []) (\<lambda>i.
         bindR (json_int 16 ''tier'' kvs 0) (\<lambda>tier.
         bindR (json_string ''account_ref'' kvs []) (\<lambda>acc.
         bindR (json_string ''external_id'' kvs []) (\<lambda>ext.
         bindR (json_string ''trust_anchor'' kvs []) (\<lambda>anchor.
         bindR (json_string ''role_arn'' kvs []) (\<lambda>arn.
         Inr \<lparr>rsv_RunID = i, rsv_Tier = tier, rsv_AccountRef = acc, rsv_ExternalID = ext,
              rsv_TrustAnchor = anchor, rsv_RoleARN = arn\<rparr>))))))) = Inr (resolved_run r)"
  using int16_range [of t] assms
  by (simp add: json_decode_def json_struct_def resolveRunResponse_json_def bindR_def same_name_def lower_def resolved_run_def)

lemma gated_resolve:
  assumes "run (requireWorkerAuth header (handlePostWorkerRunResolve U body)) w = (resp, w')"
  shows "(\<forall>c. resp \<noteq> Error 200 c) \<and> (\<forall>n. resp \<noteq> Status n) \<and> (\<forall>n b. resp = Reply n b \<longrightarrow> n = 200 \<and> (\<exists>t. rsp_Tier b = int16_of t))"
  using worker_gate [OF assms] resolve_not_200 [of U body _ _ resp w'] resolve_tier [of U body _ _ _ _ w']
  by (auto simp: resp_defs internalError_def)

text \<open>The handler that answers a resolve, behind its authentication.\<close>

abbreviation resolve_handler :: "uuid_lib \<Rightarrow> Client \<Rightarrow> string \<Rightarrow> string \<Rightarrow> string \<Rightarrow> string \<Rightarrow> string \<Rightarrow> string \<Rightarrow> resolveRunResponse handler" where
  "resolve_handler U c p repo wfl ref x u \<equiv>
     requireWorkerAuth (''Bearer '' @ cl_token c) (handlePostWorkerRunResolve U
       (Some \<lparr>rsq_Provider = p, rsq_Repo = repo, rsq_WorkflowRef = wfl, rsq_Ref = ref, rsq_CIExternalRef = x, rsq_CIURL = u\<rparr>))"

lemma client_ResolveRun_served:
  assumes "served H srv c w W" and "nt_url_ok w (rq_URL (ResolveRun_request c p repo wfl ref x u))"
  shows "fst (run (client_ResolveRun c p repo wfl ref x u) w) =
     (case fst (run (resolve_handler (uuids srv) c p repo wfl ref x u) (W (nt_tick w))) of
        Reply n b \<Rightarrow> Inr (resolved_run b)
      | Aborted \<Rightarrow> Inl (Wrapf (Errorf ''EOF''))
      | _ \<Rightarrow> Inl unexpected)"
proof -
  obtain resp W' where h: "run (resolve_handler (uuids srv) c p repo wfl ref x u) (W (nt_tick w)) = (resp, W')" by force
  from served_run [OF assms(1) run_requests(1) route_resolve [OF served_store [OF assms(1)]] assms(2)] h
  have ex: "fst (run (exchange (ResolveRun_request c p repo wfl ref x u)) w) =
      (case written resolveRunResponse_json resp of Inl e \<Rightarrow> Inl (Wrapf e) | Inr r \<Rightarrow> Inr r)" by simp
  then obtain v where ex: "run (exchange (ResolveRun_request c p repo wfl ref x u)) w =
      (case written resolveRunResponse_json resp of Inl e \<Rightarrow> Inl (Wrapf e) | Inr r \<Rightarrow> Inr r, v)"
    by (metis prod.collapse)
  note g = gated_resolve [OF h]
  show ?thesis
  proof (cases resp)
    case (Reply n b)
    with g obtain t where b: "n = 200" "rsp_Tier b = int16_of t" by blast
    from decode_resolved [OF b(2)] ex h Reply b(1) show ?thesis
      unfolding client_ResolveRun_def by (simp add: run_bindE written_def)
  next
    case (Error n code)
    with g have "n \<noteq> 200" by blast
    with ex h Error show ?thesis
      unfolding client_ResolveRun_def by (simp add: run_bindE written_def)
  next
    case (Status n)
    with g show ?thesis by blast
  next
    case Aborted
    with ex h show ?thesis
      unfolding client_ResolveRun_def by (simp add: run_bindE written_def)
  qed
qed

lemma client_ResolveRun_Inr_served:
  assumes "served H srv c w W" and "run (client_ResolveRun c p repo wfl ref x u) w = (Inr resolved, v)"
  shows "\<exists>b W'. run (resolve_handler (uuids srv) c p repo wfl ref x u) (W (nt_tick w)) = (Reply 200 b, W') \<and> resolved = resolved_run b"
proof -
  have url: "nt_url_ok w (rq_URL (ResolveRun_request c p repo wfl ref x u))"
    using assms(2) by (auto simp: client_ResolveRun_def run_bindE run_exchange split: if_splits)
  obtain resp W' where h: "run (resolve_handler (uuids srv) c p repo wfl ref x u) (W (nt_tick w)) = (resp, W')" by force
  from client_ResolveRun_served [OF assms(1) url] assms(2) h gated_resolve [OF h] show ?thesis
    by (cases resp) auto
qed

section \<open>Who gets credentials, from end to end\<close>

text \<open>What a resolved run means in the state that answered.\<close>

lemma client_ResolveRun_allowed:
  assumes "served H srv c w W" and inv: "\<And>n. run_inv (w_db (W n))"
    and "run (client_ResolveRun c prov repo wfl ref x url) w = (Inr resolved, v)"
  shows "\<exists>n worker r p role. worker \<in> set (worker_credentials (w_db (W n))) \<and> wc_TokenHash worker = hashToken (cl_token c) \<and>
     wc_RevokedAt worker = None \<and> r \<in> set (runs (w_db (W n))) \<and> rn_Status r = StatusExecuting \<and> rn_CiExternalRef r = None \<and>
     (\<exists>g \<in> set (worker_credential_environments (w_db (W n))).
        we_WorkerCredentialID g = wc_ID worker \<and> we_EnvironmentID g = rn_EnvironmentID r) \<and>
     p \<in> set (pipelines (w_db (W n))) \<and> pl_ID p = rn_PipelineID r \<and> pl_WorkflowRef p = wfl \<and>
     map_of (pl_Settings p) ''repo'' = Some repo \<and> Check (rn_Tier r) (pl_Mutating p) = Allow \<and>
     role \<in> set (aws_tier_roles (w_db (W n))) \<and> ar_EnvironmentID role = rn_EnvironmentID r \<and> ar_Tier role = rn_Tier r \<and>
     rsv_RoleARN resolved = ar_RoleArn role"
proof -
  let ?W = "W (nt_tick w)"
  from client_ResolveRun_Inr_served [OF assms(1,3)] obtain b W' where
    h: "run (resolve_handler (uuids srv) c prov repo wfl ref x url) ?W = (Reply 200 b, W')" and b: "resolved = resolved_run b" by blast
  from answered(2) [OF worker_gate [OF h]] obtain tok worker V where
    tok: "''Bearer '' @ cl_token c = ''Bearer '' @ tok"
    and worker: "worker \<in> set (worker_credentials (w_db ?W))" "wc_TokenHash worker = hashToken tok" "wc_RevokedAt worker = None"
    and V: "w_db V = w_db ?W" and hV: "run (handlePostWorkerRunResolve (uuids srv)
       (Some \<lparr>rsq_Provider = prov, rsq_Repo = repo, rsq_WorkflowRef = wfl, rsq_Ref = ref, rsq_CIExternalRef = x, rsq_CIURL = url\<rparr>)
       (Some (workercred_fromRow worker (map we_EnvironmentID (filter (\<lambda>r. we_WorkerCredentialID r = wc_ID worker)
              (worker_credential_environments (w_db ?W))))))) V = (Reply 200 b, W')" by blast
  from inv V have "run_inv (w_db V)" by simp
  from resolve_allowed [OF this hV] obtain r p role where run: "r \<in> set (runs (w_db V))" "rn_Status r = StatusExecuting" "rn_CiExternalRef r = None"
      "rn_EnvironmentID r \<in> we_EnvironmentID ` {g \<in> set (worker_credential_environments (w_db V)). we_WorkerCredentialID g = wc_ID worker}"
    and p: "p \<in> set (pipelines (w_db V))" "pl_ID p = rn_PipelineID r" "pl_WorkflowRef p = wfl"
      "map_of (pl_Settings p) ''repo'' = Some repo" "Check (rn_Tier r) (pl_Mutating p) = Allow"
    and role: "role \<in> set (aws_tier_roles (w_db V))" "ar_EnvironmentID role = rn_EnvironmentID r" "ar_Tier role = rn_Tier r"
      "rsp_RoleARN b = ar_RoleArn role"
    unfolding V by (auto simp: workercred_fromRow_def)
  from run(4) have "\<exists>g \<in> set (worker_credential_environments (w_db ?W)). we_WorkerCredentialID g = wc_ID worker \<and> we_EnvironmentID g = rn_EnvironmentID r"
    unfolding V by auto
  moreover have "tok = cl_token c" "rsv_RoleARN resolved = ar_RoleArn role" using tok b role(4) by (simp_all add: resolved_run_def)
  moreover note worker run(1-3) [unfolded V] p [unfolded V] role(1-3) [unfolded V]
  ultimately show ?thesis by metis
qed

lemma job_credentials:
  assumes reg: "ciauth_NewRegistry [github_Verifier oidc] = Some registry"
    and cp: "served H srv c w W" and inv: "\<And>n. run_inv (w_db (W n))"
    and job: "run (ServeHTTP (ciauth_NewHandler registry c aws_New tp app) body) w = (Reply k cred, v)"
  shows "\<exists>n token claims u1 worker r p role ext out.
     callbackRequest body = Inr (''github_actions'', token) \<and> run (github_Verify oidc token) w = (Inr claims, u1) \<and>
     worker \<in> set (worker_credentials (w_db (W n))) \<and> wc_TokenHash worker = hashToken (cl_token c) \<and> wc_RevokedAt worker = None \<and>
     r \<in> set (runs (w_db (W n))) \<and> rn_Status r = StatusExecuting \<and> rn_CiExternalRef r = None \<and>
     (\<exists>g \<in> set (worker_credential_environments (w_db (W n))).
        we_WorkerCredentialID g = wc_ID worker \<and> we_EnvironmentID g = rn_EnvironmentID r) \<and>
     p \<in> set (pipelines (w_db (W n))) \<and> pl_ID p = rn_PipelineID r \<and> pl_WorkflowRef p = ca_WorkflowRef claims \<and>
     map_of (pl_Settings p) ''repo'' = Some (ca_Repo claims) \<and> Check (rn_Tier r) (pl_Mutating p) = Allow \<and>
     role \<in> set (aws_tier_roles (w_db (W n))) \<and> ar_EnvironmentID role = rn_EnvironmentID r \<and> ar_Tier role = rn_Tier r \<and>
     (\<exists>u. nt_sts w u \<lparr>si_RoleArn = ar_RoleArn role, si_RoleSessionName = ''agentic-idp-worker'', si_ExternalId = ext,
        si_DurationSeconds = 900\<rparr> = Inr (Some out)) \<and>
     cred = \<lparr>crs_AccessKeyID = aws_ToString (sc_AccessKeyId out), crs_SecretAccessKey = aws_ToString (sc_SecretAccessKey out),
             crs_SessionToken = aws_ToString (sc_SessionToken out), crs_Expiration = aws_ToTime (sc_Expiration out)\<rparr>"
proof -
  from ServeHTTP_aws [OF job] obtain prov token verifier claims u1 resolved u2 out where
    req: "callbackRequest body = Inr (prov, token)" "map_of registry prov = Some verifier"
      "run (vf_Verify verifier token) w = (Inr claims, u1)"
    and rsv: "run (client_ResolveRun c prov (ca_Repo claims) (ca_WorkflowRef claims) (ca_Ref claims) (ca_RunID claims) (ca_URL claims)) u1 = (Inr resolved, u2)"
    and sts: "nt_sts u2 (nt_tick u2) \<lparr>si_RoleArn = rsv_RoleARN resolved, si_RoleSessionName = ''agentic-idp-worker'',
       si_ExternalId = rsv_ExternalID resolved, si_DurationSeconds = 900\<rparr> = Inr (Some out)"
    and cred: "cred = \<lparr>crs_AccessKeyID = aws_ToString (sc_AccessKeyId out), crs_SecretAccessKey = aws_ToString (sc_SecretAccessKey out),
             crs_SessionToken = aws_ToString (sc_SessionToken out), crs_Expiration = aws_ToTime (sc_Expiration out)\<rparr>"
    by blast
  from reg have "registry = [(''github_actions'', github_Verifier oidc)]"
    by (auto simp: ciauth_NewRegistry_def github_Verifier_def ProviderGitHubActions_def)
  with req(2,3) have prov: "prov = ''github_actions''" and ver: "run (github_Verify oidc token) w = (Inr claims, u1)"
    by (auto simp: github_Verifier_def split: if_splits)
  have o1: "same_outside w u1" using github_verifier.verify_silent [OF ver] by blast
  have o2: "same_outside u1 u2" using quiet_run [OF quiet_client(5) rsv] by blast
  with o1 have "nt_sts u2 = nt_sts w" by (simp add: same_outside_def)
  with sts client_ResolveRun_allowed [OF served_outside [OF cp o1] inv rsv] req(1) [unfolded prov] ver cred
  show ?thesis by metis
qed

text \<open>
  A CI job gets cloud credentials only for a run that authorises it.  With the worker's requests
  answered by the control plane, in states its operations keep, the worker answers a job with
  credentials only when GitHub vouches for the job's token; the worker's own token is that of a stored,
  unrevoked credential; a run in an environment granted to that credential is executing and not yet
  resolved, on a pipeline with the repository and workflow of the job's token; the policy allows the
  run's tier on that pipeline; and the credentials are those STS issued, for 900 seconds, for the role
  of exactly that environment and tier.
\<close>

theorem job_credentials_end_to_end:
  assumes reg: "ciauth_NewRegistry [github_Verifier oidc] = Some registry"
    and cp: "served H srv c w W" and inv: "\<And>n. run_inv (w_db (W n))"
    and job: "run (ServeHTTP (ciauth_NewHandler registry c aws_New tp app) body) w = (Reply k cred, v)"
  shows "\<exists>n token claims u1 worker r p role ext out.
     callbackRequest body = Inr (''github_actions'', token) \<and> run (github_Verify oidc token) w = (Inr claims, u1) \<and>
     worker \<in> set (worker_credentials (w_db (W n))) \<and> wc_TokenHash worker = hashToken (cl_token c) \<and> wc_RevokedAt worker = None \<and>
     r \<in> set (runs (w_db (W n))) \<and> rn_Status r = StatusExecuting \<and> rn_CiExternalRef r = None \<and>
     (\<exists>g \<in> set (worker_credential_environments (w_db (W n))).
        we_WorkerCredentialID g = wc_ID worker \<and> we_EnvironmentID g = rn_EnvironmentID r) \<and>
     p \<in> set (pipelines (w_db (W n))) \<and> pl_ID p = rn_PipelineID r \<and> pl_WorkflowRef p = ca_WorkflowRef claims \<and>
     map_of (pl_Settings p) ''repo'' = Some (ca_Repo claims) \<and> Check (rn_Tier r) (pl_Mutating p) = Allow \<and>
     role \<in> set (aws_tier_roles (w_db (W n))) \<and> ar_EnvironmentID role = rn_EnvironmentID r \<and> ar_Tier role = rn_Tier r \<and>
     (\<exists>u. nt_sts w u \<lparr>si_RoleArn = ar_RoleArn role, si_RoleSessionName = ''agentic-idp-worker'', si_ExternalId = ext,
        si_DurationSeconds = 900\<rparr> = Inr (Some out)) \<and>
     cred = \<lparr>crs_AccessKeyID = aws_ToString (sc_AccessKeyId out), crs_SecretAccessKey = aws_ToString (sc_SecretAccessKey out),
             crs_SessionToken = aws_ToString (sc_SessionToken out), crs_Expiration = aws_ToTime (sc_Expiration out)\<rparr>"
  using assms by (rule job_credentials)

section \<open>At a concrete deployment\<close>

text \<open>An autonomous run is executing, and the worker's token hashes to \<open>h\<close>.\<close>

definition wire_db :: "string \<Rightarrow> db" where
  "wire_db h = (sample_db [sample_run 9 TierAutonomous StatusExecuting (Some 8)] [])
     \<lparr>worker_credentials := [\<lparr>wc_ID = 8, wc_TenantID = 1, wc_Name = ''w'', wc_TokenHash = h, wc_CreatedAt = 0,
                              wc_RevokedAt = None, wc_CiCallbackUrl = None\<rparr>]\<rparr>"

abbreviation wire_world :: world where
  "wire_world \<equiv> sample_world (wire_db (hashToken ''wt''))"

lemma wire_inv: "run_inv (wire_db h)"
  by (simp add: wire_db_def sample_db_def run_inv_def timeline_ok_def pipeline_ok_def
      oversight_ok_def sample_run_def sample_pipeline_def before_executing_def terminal_def Tier_Valid_def tier_defs
      empty_db_def)

lemma wire_verify: "run (workercred_Verify ''wt'') wire_world = (Inr sample_credential, (advance ^^ 2) wire_world)"
  by (simp add: workercred_Verify_def GetWorkerCredentialByTokenHash_def ListWorkerCredentialEnvironments_def
      run_bindE run_mapE sample_world_def wire_db_def sample_db_def select_one_def workercred_fromRow_def eval_nat_numeral
      advance_def sample_credential_def)

definition wire_resolve :: resolveRunRequest where
  "wire_resolve = \<lparr>rsq_Provider = ''github_actions'', rsq_Repo = ''acme/app'', rsq_WorkflowRef = ''deploy.yml'',
     rsq_Ref = ''refs/heads/main'', rsq_CIExternalRef = ''77'', rsq_CIURL = ''https://github.com/acme/app/actions/runs/77''\<rparr>"

lemma wire_resolved:
  "case fst (run (handlePostWorkerRunResolve sample_uuid (Some wire_resolve) (Some sample_credential)) ((advance ^^ 2) (sample_world (wire_db h)))) of
     Reply n b \<Rightarrow> n = 200 \<and> b = \<lparr>rsp_RunID = ''9'', rsp_Tier = 3, rsp_AccountRef = ''a'', rsp_ExternalID = ''x'',
        rsp_TrustAnchor = ''t'', rsp_RoleARN = ''r3''\<rparr>
   | _ \<Rightarrow> False"
  by code_simp

definition wire_server :: server where
  "wire_server = demo_server
     \<lparr>sv_issuer := \<lparr>is_jwt = demo_jwt, is_key = [], is_uuid = sample_uuid\<rparr>, sv_runs := Some sample_store\<rparr>"

definition wire_http :: http_lib where
  "wire_http = \<lparr>hl_RFC3339 = (\<lambda>t. []), hl_JSON = (\<lambda>t. []), hl_redirect = 307\<rparr>"

lemma wire_server_sel [simp]: "sv_issuer wire_server = \<lparr>is_jwt = demo_jwt, is_key = [], is_uuid = sample_uuid\<rparr>"
    "sv_runs wire_server = Some sample_store"
  by (simp_all add: wire_server_def)

definition wire_net :: net where
  "wire_net = demo_net
     \<lparr>nt_http := (\<lambda>n req. if HasPrefix (rq_URL req) ''cp/v1/worker/runs/'' then fst (run (mux wire_http wire_server ''cp'' req) wire_world)
                         else demo_answer req),
      nt_sts := (\<lambda>n i. if si_RoleArn i = ''r3'' then Inr (Some \<lparr>sc_AccessKeyId = Some ''k'', sc_SecretAccessKey = Some ''s'',
                        sc_SessionToken = None, sc_Expiration = None\<rparr>) else Inl (Errorf ''denied''))\<rparr>"

definition wire_oidc :: oidc_lib where
  "wire_oidc n raw =
     (if raw = ''good'' then Inr (Some (JObj [(''repository'', JStr ''acme/app''),
        (''workflow_ref'', JStr ''acme/app/deploy.yml@refs/heads/main''), (''ref'', JStr ''refs/heads/main''), (''run_id'', JStr ''77'')]))
      else Inl (Errorf ''bad''))"

abbreviation wire_registry :: "Verifier registry" where
  "wire_registry \<equiv> [(''github_actions'', github_Verifier wire_oidc)]"

lemma wire_served: "served wire_http wire_server demo_client wire_net (\<lambda>n. wire_world)"
  by (simp add: served_def concerns_runs_def wire_net_def demo_client_def client_New_def)

lemma wire_claims: "run (github_Verify wire_oidc ''good'') wire_net =
    (Inr \<lparr>ca_Repo = ''acme/app'', ca_WorkflowRef = ''deploy.yml'', ca_Ref = ''refs/heads/main'', ca_RunID = ''77'', ca_Actor = [],
          ca_URL = ''https://github.com/acme/app/actions/runs/77''\<rparr>, wire_net\<lparr>nt_tick := 1\<rparr>)"
proof -
  have "parseWorkflowRef ''acme/app'' ''acme/app/deploy.yml@refs/heads/main'' = ''deploy.yml''" by code_simp
  then show ?thesis
    by (simp add: github_Verify_def run_bindE run_mapE wire_oidc_def json_decode_def json_struct_def bindR_def github_claims_def
        same_name_def lower_def wire_net_def demo_net_def)
qed

lemma wire_client:
  "fst (run (client_ResolveRun demo_client ''github_actions'' ''acme/app'' ''deploy.yml'' ''refs/heads/main'' ''77''
      ''https://github.com/acme/app/actions/runs/77'') (wire_net\<lparr>nt_tick := 1\<rparr>)) =
   Inr \<lparr>rsv_RunID = ''9'', rsv_Tier = 3, rsv_AccountRef = ''a'', rsv_ExternalID = ''x'', rsv_TrustAnchor = ''t'', rsv_RoleARN = ''r3''\<rparr>"
proof -
  have s: "served wire_http wire_server demo_client (wire_net\<lparr>nt_tick := 1\<rparr>) (\<lambda>n. wire_world)"
    using wire_served by (simp add: served_def)
  have u: "nt_url_ok (wire_net\<lparr>nt_tick := 1\<rparr>) x" for x by (simp add: wire_net_def demo_net_def)
  have "fst (run (handlePostWorkerRunResolve sample_uuid (Some wire_resolve) (Some sample_credential)) ((advance ^^ 2) wire_world)) =
    Reply 200 \<lparr>rsp_RunID = ''9'', rsp_Tier = 3, rsp_AccountRef = ''a'', rsp_ExternalID = ''x'', rsp_TrustAnchor = ''t'', rsp_RoleARN = ''r3''\<rparr>"
    using wire_resolved [of "hashToken ''wt''"] by (auto split: response.splits)
  then have "fst (run (requireWorkerAuth (''Bearer '' @ cl_token demo_client) (handlePostWorkerRunResolve sample_uuid (Some wire_resolve))) wire_world) =
    Reply 200 \<lparr>rsp_RunID = ''9'', rsp_Tier = 3, rsp_AccountRef = ''a'', rsp_ExternalID = ''x'', rsp_TrustAnchor = ''t'', rsp_RoleARN = ''r3''\<rparr>"
    by (simp add: requireWorkerAuth_def handler_simps HasPrefix_def TrimPrefix_def wire_verify demo_client_def client_New_def)
  then show ?thesis unfolding client_ResolveRun_served [OF s u] by (simp add: wire_resolve_def resolved_run_def)
qed

lemma wire_job:
  "\<exists>cred v. run (ServeHTTP (worker_handler wire_registry demo_client (\<lambda>s. Inr 0) demo_app) job_request) wire_net = (Reply 200 cred, v)"
proof -
  have body: "callbackRequest job_request = Inr (''github_actions'', ''good'')" by code_simp
  obtain u where rsv: "run (client_ResolveRun demo_client ''github_actions'' ''acme/app'' ''deploy.yml'' ''refs/heads/main'' ''77''
      ''https://github.com/acme/app/actions/runs/77'') (wire_net\<lparr>nt_tick := 1\<rparr>) =
   (Inr \<lparr>rsv_RunID = ''9'', rsv_Tier = 3, rsv_AccountRef = ''a'', rsv_ExternalID = ''x'', rsv_TrustAnchor = ''t'', rsv_RoleARN = ''r3''\<rparr>, u)"
    using wire_client by (metis prod.collapse)
  from quiet_run [OF quiet_client(5) rsv] have u: "nt_sts u = nt_sts wire_net" by (simp add: same_outside_def)
  have cfg: "NewEnvironmentConfig ''a'' ''x'' ''t'' [(Tier_String 3, ''r3'')] =
      Inr \<lparr>ec_Provider = ''aws'', ec_Settings = [(''account_ref'', ''a''), (''external_id'', ''x''), (''trust_anchor'', ''t''), (''role_arn_autonomous'', ''r3'')]\<rparr>"
    by code_simp
  have sts: "nt_sts wire_net n i = (if si_RoleArn i = ''r3'' then Inr (Some \<lparr>sc_AccessKeyId = Some ''k'', sc_SecretAccessKey = Some ''s'',
      sc_SessionToken = None, sc_Expiration = None\<rparr>) else Inl (Errorf ''denied''))" for n i by (simp add: wire_net_def)
  show ?thesis
    unfolding ServeHTTP_def body ciauth_NewHandler_def
    by (simp add: ciauth_Get_def run_bindP github_Verifier_def wire_claims rsv cfg aws_New_def MintCredentials_run u
        assume_input_def EnvironmentConfig_Get_def settings_get_def tier_setting_def sts aws_credentials_def
        Tier_Valid_def tier_defs tierRoleSettings_def del: One_nat_def)
qed

theorem job_credentials_end_to_end_witness:
  "\<exists>cred v. run (ServeHTTP (worker_handler wire_registry demo_client (\<lambda>s. Inr 0) demo_app) job_request) wire_net = (Reply 200 cred, v) \<and>
     (\<exists>r \<in> set (runs (wire_db (hashToken ''wt''))). rn_Status r = StatusExecuting \<and> crs_AccessKeyID cred = ''k'')"
proof -
  obtain cred v where job: "run (ServeHTTP (worker_handler wire_registry demo_client (\<lambda>s. Inr 0) demo_app) job_request) wire_net = (Reply 200 cred, v)"
    using wire_job by blast
  have reg: "ciauth_NewRegistry [github_Verifier wire_oidc] = Some wire_registry"
    by (simp add: ciauth_NewRegistry_def github_Verifier_def ProviderGitHubActions_def)
  have inv: "run_inv (w_db wire_world)" by (simp add: sample_world_def wire_inv)
  from job_credentials_end_to_end [OF reg wire_served inv job] obtain r i u out where
    "r \<in> set (runs (wire_db (hashToken ''wt'')))" "rn_Status r = StatusExecuting" "nt_sts wire_net u i = Inr (Some out)"
    "crs_AccessKeyID cred = aws_ToString (sc_AccessKeyId out)"
    by (auto simp: sample_world_def)
  with job show ?thesis by (auto simp: wire_net_def aws_ToString_def split: if_splits)
qed

text \<open>
  Across the wire nothing is lost.  When the control plane answers the worker's requests, resolving
  through the client gives exactly what the handler of the route gives for the same repository,
  workflow, ref and run: its reply field by field, and an error for every refusal.
\<close>

theorem resolve_across_wire:
  assumes "served H srv c w W" and "nt_url_ok w (rq_URL (ResolveRun_request c p repo wfl ref x u))"
  shows "fst (run (client_ResolveRun c p repo wfl ref x u) w) =
     (case fst (run (requireWorkerAuth (''Bearer '' @ cl_token c) (handlePostWorkerRunResolve (uuids srv)
         (Some \<lparr>rsq_Provider = p, rsq_Repo = repo, rsq_WorkflowRef = wfl, rsq_Ref = ref, rsq_CIExternalRef = x, rsq_CIURL = u\<rparr>)))
         (W (nt_tick w))) of
        Reply n b \<Rightarrow> Inr \<lparr>rsv_RunID = rsp_RunID b, rsv_Tier = rsp_Tier b, rsv_AccountRef = rsp_AccountRef b,
                          rsv_ExternalID = rsp_ExternalID b, rsv_TrustAnchor = rsp_TrustAnchor b, rsv_RoleARN = rsp_RoleARN b\<rparr>
      | Aborted \<Rightarrow> Inl (Wrapf (Errorf ''EOF''))
      | _ \<Rightarrow> Inl unexpected)"
  unfolding client_ResolveRun_served [OF assms] resolved_run_def by (rule refl)

theorem resolve_across_wire_witness:
  "fst (run (client_ResolveRun demo_client ''p'' ''r'' ''f'' ''g'' ''x'' ''u'') (wire_net\<lparr>nt_tick := 1\<rparr>)) =
     (case fst (run (requireWorkerAuth ''Bearer wt'' (handlePostWorkerRunResolve sample_uuid
         (Some \<lparr>rsq_Provider = ''p'', rsq_Repo = ''r'', rsq_WorkflowRef = ''f'', rsq_Ref = ''g'', rsq_CIExternalRef = ''x'', rsq_CIURL = ''u''\<rparr>))) wire_world) of
        Reply n b \<Rightarrow> Inr \<lparr>rsv_RunID = rsp_RunID b, rsv_Tier = rsp_Tier b, rsv_AccountRef = rsp_AccountRef b,
                          rsv_ExternalID = rsp_ExternalID b, rsv_TrustAnchor = rsp_TrustAnchor b, rsv_RoleARN = rsp_RoleARN b\<rparr>
      | Aborted \<Rightarrow> Inl (Wrapf (Errorf ''EOF''))
      | _ \<Rightarrow> Inl unexpected)"
proof -
  have s: "served wire_http wire_server demo_client (wire_net\<lparr>nt_tick := 1\<rparr>) (\<lambda>n. wire_world)"
    using wire_served by (simp add: served_def)
  have u: "nt_url_ok (wire_net\<lparr>nt_tick := 1\<rparr>) x" for x by (simp add: wire_net_def demo_net_def)
  have t: "''Bearer '' @ cl_token demo_client = ''Bearer wt''" by (simp add: demo_client_def client_New_def)
  have U: "uuids wire_server = sample_uuid" by simp
  show ?thesis using resolve_across_wire [OF s u] unfolding t U .
qed

end
