(* ===== verification/Decimal.thy ===== *)
theory Decimal
  imports Prelude Complex_Main
begin

text \<open>
  Numbers as Go prints them and \<open>float64\<close> as it computes: \<open>strconv.Itoa\<close>, IEEE rounding to 53 bits,
  truncation to an integer, and the format \<open>%.6f\<close>.
\<close>

section \<open>Decimal digits\<close>

definition digit :: "int \<Rightarrow> char" where
  "digit n = char_of (48 + n)"

function digits :: "int \<Rightarrow> string" where
  "digits n = (if n < 10 then [digit n] else digits (n div 10) @ [digit (n mod 10)])"
  by auto
termination by (relation "measure nat") auto

declare digits.simps [simp del]

definition itoa :: "int \<Rightarrow> string" where
  "itoa i = (if i < 0 then CHR ''-'' # digits (- i) else digits i)"

text \<open>Exactly \<open>k\<close> digits, with zeros in front.\<close>

fun padded :: "nat \<Rightarrow> int \<Rightarrow> string" where
  "padded 0 n = []"
| "padded (Suc k) n = padded k (n div 10) @ [digit (n mod 10)]"

text \<open>Reading digits back.\<close>

definition digit_value :: "char \<Rightarrow> int" where
  "digit_value c = of_char c - 48"

definition of_digits :: "string \<Rightarrow> int" where
  "of_digits s = foldl (\<lambda>n c. 10 * n + digit_value c) 0 s"

lemma digit_value [simp]: "0 \<le> n \<Longrightarrow> n < 10 \<Longrightarrow> digit_value (digit n) = n"
  by (simp add: digit_value_def digit_def)

lemma of_digits_snoc [simp]: "of_digits (s @ [c]) = 10 * of_digits s + digit_value c"
  by (simp add: of_digits_def)

lemma of_digits_digits: "0 \<le> n \<Longrightarrow> of_digits (digits n) = n"
proof (induction n rule: digits.induct)
  case (1 n)
  show ?case
  proof (cases "n < 10")
    case True
    with 1 show ?thesis by (subst digits.simps) (simp add: of_digits_def)
  next
    case False
    with 1 show ?thesis by (subst digits.simps) simp
  qed
qed

lemma of_digits_padded: "0 \<le> n \<Longrightarrow> n < 10 ^ k \<Longrightarrow> of_digits (padded k n) = n"
proof (induction k arbitrary: n)
  case 0
  then show ?case by (simp add: of_digits_def)
next
  case (Suc k)
  then have "n div 10 < 10 ^ k" by simp
  with Suc show ?case by simp
qed

definition atoi :: "string \<Rightarrow> int" where
  "atoi s = (case s of c # cs \<Rightarrow> if c = CHR ''-'' then - of_digits cs else of_digits s | [] \<Rightarrow> 0)"

lemma digits_head: "0 \<le> n \<Longrightarrow> \<exists>c cs. digits n = c # cs \<and> c \<noteq> CHR ''-''"
proof (induction n rule: digits.induct)
  case (1 n)
  show ?case
  proof (cases "n < 10")
    case True
    have "digit_value (CHR ''-'') = - 3" by (simp add: digit_value_def)
    moreover have "digit_value (digit n) = n" using 1(2) True by simp
    ultimately have "digit n \<noteq> CHR ''-''" using 1(2) by force
    with True show ?thesis by (subst digits.simps) auto
  next
    case False
    then have "0 \<le> n div 10" by simp
    with 1(1) False show ?thesis by (subst digits.simps) auto
  qed
qed

lemma atoi_itoa: "atoi (itoa i) = i"
  using digits_head [of i] of_digits_digits [of i] of_digits_digits [of "- i"]
  by (auto simp: atoi_def itoa_def)

section \<open>float64\<close>

text \<open>
  A finite \<open>float64\<close> is \<open>(m, e)\<close>, the number \<open>m * 2 ^ e\<close>.  Every operation rounds its exact result to
  53 bits, to the nearest and on a tie to the even one.  Overflow to infinity and the subnormal range
  are outside the model; no number of the program comes near them.
\<close>

type_synonym float64 = "int \<times> int"

text \<open>The nearest integer to \<open>n / d\<close>, for a positive \<open>d\<close>.\<close>

definition nearest :: "int \<Rightarrow> int \<Rightarrow> int" where
  "nearest n d =
     (let q = n div d; r = n mod d in if 2 * r < d \<or> 2 * r = d \<and> even q then q else q + 1)"

function bit_len :: "int \<Rightarrow> nat" where
  "bit_len n = (if n \<le> 0 then 0 else Suc (bit_len (n div 2)))"
  by auto
termination by (relation "measure nat") auto

declare bit_len.simps [simp del]

text \<open>\<open>n / d\<close> times \<open>2 ^ (- e)\<close> as a quotient.\<close>

definition scaled :: "int \<Rightarrow> int \<Rightarrow> int \<Rightarrow> int \<times> int" where
  "scaled n d e = (if 0 \<le> e then (n, d * 2 ^ nat e) else (n * 2 ^ nat (- e), d))"

definition round_at :: "int \<Rightarrow> int \<Rightarrow> int \<Rightarrow> float64" where
  "round_at n d e = (case scaled n d e of (a, b) \<Rightarrow> (nearest a b, e))"

text \<open>The exponent of the last of the 53 bits of \<open>n / d\<close>.\<close>

definition last_bit :: "int \<Rightarrow> int \<Rightarrow> int" where
  "last_bit n d =
     (let e = int (bit_len \<bar>n\<bar>) - int (bit_len d) - 53 in
      case scaled \<bar>n\<bar> d e of (a, b) \<Rightarrow> if b * 2 ^ 53 \<le> a then e + 1 else e)"

definition round_ratio :: "int \<Rightarrow> int \<Rightarrow> float64" where
  "round_ratio n d = (if n = 0 then (0, 0) else round_at n d (last_bit n d))"

definition float_of_int :: "int \<Rightarrow> float64" where
  "float_of_int i = round_ratio i 1"

definition shift :: "int \<Rightarrow> float64 \<Rightarrow> float64" where
  "shift k x = (fst x, snd x + k)"

definition fmul :: "float64 \<Rightarrow> float64 \<Rightarrow> float64" where
  "fmul x y = shift (snd x + snd y) (round_ratio (fst x * fst y) 1)"

text \<open>The divisors of the program are positive constants.\<close>

definition fdiv :: "float64 \<Rightarrow> float64 \<Rightarrow> float64" where
  "fdiv x y = shift (snd x - snd y) (round_ratio (fst x) (fst y))"

definition fadd :: "float64 \<Rightarrow> float64 \<Rightarrow> float64" where
  "fadd x y =
     (let e = min (snd x) (snd y) in
      shift e (round_ratio (fst x * 2 ^ nat (snd x - e) + fst y * 2 ^ nat (snd y - e)) 1))"

text \<open>\<open>int64(x)\<close> drops the fraction; out of the range of \<open>int64\<close> Go leaves the result open.\<close>

definition ftrunc :: "float64 \<Rightarrow> int" where
  "ftrunc x =
     (if 0 \<le> snd x then fst x * 2 ^ nat (snd x)
      else sgn (fst x) * (\<bar>fst x\<bar> div 2 ^ nat (- snd x)))"

definition int64_of :: "float64 \<Rightarrow> int64" where
  "int64_of x = word_of_int (ftrunc x)"

text \<open>\<open>%.6f\<close> rounds the exact value to six decimals.\<close>

definition micros_of :: "float64 \<Rightarrow> int" where
  "micros_of x = (case scaled (\<bar>fst x\<bar> * 10 ^ 6) 1 (- snd x) of (a, b) \<Rightarrow> nearest a b)"

definition fixed6 :: "float64 \<Rightarrow> string" where
  "fixed6 x =
     (let n = micros_of x in
      (if fst x < 0 then ''-'' else []) @ digits (n div 10 ^ 6) @ ''.'' @ padded 6 (n mod 10 ^ 6))"

section \<open>How exact it is\<close>

lemma nearest_error:
  assumes "0 < d"
  shows "\<bar>real_of_int (nearest n d) - real_of_int n / real_of_int d\<bar> \<le> 1 / 2"
proof -
  let ?q = "n div d" and ?r = "n mod d"
  have n: "real_of_int n / real_of_int d = ?q + ?r / real_of_int d"
    using assms by (simp add: field_simps) (metis mult.commute mult_div_mod_eq of_int_add of_int_mult add.commute)
  have r: "0 \<le> ?r" "?r < d" using assms by simp_all
  show ?thesis
  proof (cases "2 * ?r < d \<or> 2 * ?r = d \<and> even ?q")
    case True
    then have "2 * ?r \<le> d" by auto
    then have "2 * real_of_int ?r \<le> real_of_int d" by linarith
    then have "?r / real_of_int d \<le> 1 / 2" using assms by (simp add: field_simps)
    with True n r assms show ?thesis by (simp add: nearest_def)
  next
    case False
    then have "d \<le> 2 * ?r" by auto
    then have "real_of_int d \<le> 2 * real_of_int ?r" by linarith
    then have "1 / 2 \<le> ?r / real_of_int d" using assms by (simp add: field_simps)
    moreover have "?r / real_of_int d < 1" using r assms by (simp add: field_simps)
    ultimately show ?thesis using False n by (auto simp: nearest_def Let_def)
  qed
qed

lemma nearest_unique:
  assumes "0 < d" and "\<bar>real_of_int k - real_of_int n / real_of_int d\<bar> < 1 / 2"
  shows "nearest n d = k"
  using nearest_error [OF assms(1), of n] assms(2) by linarith

lemma bit_len_bounds: "0 < n \<Longrightarrow> 0 < bit_len n \<and> 2 ^ (bit_len n - 1) \<le> n \<and> n < 2 ^ bit_len n"
proof (induction n rule: bit_len.induct)
  case (1 n)
  show ?case
  proof (cases "n = 1")
    case True
    then show ?thesis by (simp add: bit_len.simps)
  next
    case False
    with 1 have "0 < n div 2" by simp
    with 1 have ih: "0 < bit_len (n div 2)" "2 ^ (bit_len (n div 2) - 1) \<le> n div 2" "n div 2 < 2 ^ bit_len (n div 2)" by auto
    have b: "bit_len n = Suc (bit_len (n div 2))" using 1 by (subst bit_len.simps) simp
    obtain k where k: "bit_len (n div 2) = Suc k" using ih(1) by (cases "bit_len (n div 2)") auto
    have "2 * 2 ^ k \<le> n" using ih(2) k by simp
    moreover have "n < 2 * 2 ^ Suc k" using ih(3) k by simp
    ultimately show ?thesis by (simp add: b k)
  qed
qed

text \<open>The number a float stands for.\<close>

definition float_val :: "float64 \<Rightarrow> real" where
  "float_val x = real_of_int (fst x) * 2 powi snd x"

lemma float_val_shift: "float_val (shift k x) = float_val x * 2 powi k"
  by (simp add: float_val_def shift_def power_int_add)

lemma scaled_val:
  assumes "0 < d" and "scaled n d e = (a, b)"
  shows "0 < b" and "real_of_int a / real_of_int b = real_of_int n / real_of_int d * 2 powi (- e)"
  using assms by (auto simp: scaled_def power_int_def field_simps split: if_splits)

lemma last_bit_normal:
  assumes "n \<noteq> 0" and "0 < d"
  shows "2 ^ 52 * 2 powi last_bit n d \<le> \<bar>real_of_int n / real_of_int d\<bar>"
proof -
  define e where "e = int (bit_len \<bar>n\<bar>) - int (bit_len d) - 53"
  obtain a b where ab: "scaled \<bar>n\<bar> d e = (a, b)" by force
  note v = scaled_val [OF assms(2) ab]
  from bit_len_bounds [of "\<bar>n\<bar>"] assms(1) have n: "0 < bit_len \<bar>n\<bar>" "2 ^ (bit_len \<bar>n\<bar> - 1) \<le> \<bar>n\<bar>" by auto
  from bit_len_bounds [OF assms(2)] have d: "d < 2 ^ bit_len d" by auto
  have q: "\<bar>real_of_int n / real_of_int d\<bar> = real_of_int \<bar>n\<bar> / real_of_int d" using assms(2) by simp
  have "2 ^ 52 * 2 powi e = (2 ^ (bit_len \<bar>n\<bar> - 1) :: real) / 2 ^ bit_len d"
  proof -
    obtain k where k: "bit_len \<bar>n\<bar> = Suc k" using n(1) by (cases "bit_len \<bar>n\<bar>") auto
    have "2 powi e = (2 powi (int (Suc k)) / 2 powi (int (bit_len d)) / 2 powi 53 :: real)"
      unfolding e_def k by (subst power_int_diff, simp)+ (rule refl)
    also have "\<dots> = 2 ^ Suc k / 2 ^ bit_len d / 2 ^ 53" by (simp only: power_int_of_nat power_int_numeral)
    finally have "2 powi e = (2 ^ Suc k / 2 ^ bit_len d / 2 ^ 53 :: real)" .
    then show ?thesis by (simp add: k)
  qed
  also have "\<dots> \<le> real_of_int \<bar>n\<bar> / real_of_int d"
  proof (rule frac_le)
    show "(2 ^ (bit_len \<bar>n\<bar> - 1) :: real) \<le> real_of_int \<bar>n\<bar>" using n(2) by (metis of_int_le_iff of_int_numeral of_int_power)
    show "real_of_int d \<le> 2 ^ bit_len d" using d by (metis less_imp_le of_int_le_iff of_int_numeral of_int_power)
  qed (use assms(2) in simp_all)
  finally have low: "2 ^ 52 * 2 powi e \<le> \<bar>real_of_int n / real_of_int d\<bar>" by (simp only: q)
  have "2 ^ 52 * 2 powi (e + 1) \<le> real_of_int \<bar>n\<bar> / real_of_int d" if "b * 2 ^ 53 \<le> a"
  proof -
    from that have "real_of_int b * 2 ^ 53 \<le> real_of_int a" by (metis of_int_le_iff of_int_mult of_int_numeral of_int_power)
    then have "2 ^ 53 \<le> real_of_int a / real_of_int b" using v(1) by (simp add: field_simps)
    then have "2 ^ 53 \<le> real_of_int \<bar>n\<bar> / real_of_int d * 2 powi (- e)" by (simp only: v(2))
    then have "2 ^ 53 * 2 powi e \<le> real_of_int \<bar>n\<bar> / real_of_int d * 2 powi (- e) * 2 powi e"
      by (rule mult_right_mono) simp
    moreover have "2 powi (- e) * 2 powi e = (1 :: real)" by (simp add: power_int_minus)
    ultimately have "2 ^ 53 * 2 powi e \<le> real_of_int \<bar>n\<bar> / real_of_int d" by (simp only: mult.assoc mult_1_right)
    then show ?thesis by (simp add: power_int_add)
  qed
  then have "2 ^ 52 * 2 powi (e + 1) \<le> \<bar>real_of_int n / real_of_int d\<bar>" if "b * 2 ^ 53 \<le> a"
    using that by (simp only: q)
  with low show ?thesis unfolding last_bit_def Let_def e_def [symmetric] ab prod.case by (simp only: split: if_split) blast
qed

text \<open>The error of rounding, at most one part in \<open>2 ^ 53\<close>.\<close>

lemma round_ratio_error:
  assumes "0 < d"
  shows "\<bar>float_val (round_ratio n d) - real_of_int n / real_of_int d\<bar> \<le> \<bar>real_of_int n / real_of_int d\<bar> / 2 ^ 53"
proof (cases "n = 0")
  case True
  then show ?thesis by (simp add: round_ratio_def float_val_def)
next
  case False
  let ?e = "last_bit n d" and ?x = "real_of_int n / real_of_int d"
  obtain a b where ab: "scaled n d ?e = (a, b)" by force
  note v = scaled_val [OF assms ab]
  have "\<bar>real_of_int (nearest a b) - ?x * 2 powi (- ?e)\<bar> \<le> 1 / 2"
    using nearest_error [OF v(1), of a] by (simp only: v(2))
  moreover have "real_of_int (nearest a b) * 2 powi ?e - ?x = (real_of_int (nearest a b) - ?x * 2 powi (- ?e)) * 2 powi ?e"
    by (simp add: power_int_minus field_simps)
  ultimately have "\<bar>real_of_int (nearest a b) * 2 powi ?e - ?x\<bar> \<le> 1 / 2 * 2 powi ?e"
    by (simp add: abs_mult)
  moreover have "1 / 2 * 2 powi ?e \<le> \<bar>?x\<bar> / 2 ^ 53" using last_bit_normal [OF False assms] by (simp add: field_simps)
  ultimately show ?thesis using False by (simp add: round_ratio_def round_at_def ab float_val_def)
qed

text \<open>Integers of 53 bits are exact.\<close>

lemma last_bit_int: "i \<noteq> 0 \<Longrightarrow> \<bar>i\<bar> < 2 ^ 53 \<Longrightarrow> last_bit i 1 \<le> 0"
proof -
  assume i: "i \<noteq> 0" "\<bar>i\<bar> < 2 ^ 53"
  from bit_len_bounds [of "\<bar>i\<bar>"] i have b: "2 ^ (bit_len \<bar>i\<bar> - 1) \<le> \<bar>i\<bar>" by auto
  with i(2) have "(2 :: int) ^ (bit_len \<bar>i\<bar> - 1) < 2 ^ 53" by linarith
  then have "bit_len \<bar>i\<bar> - 1 < 53" by (rule power_less_imp_less_exp [rotated]) simp
  moreover have "bit_len 1 = 1" by (simp add: bit_len.simps)
  ultimately show ?thesis by (auto simp: last_bit_def Let_def split: prod.splits)
qed

lemma float_of_int_exact:
  assumes "\<bar>i\<bar> < 2 ^ 53"
  shows "\<exists>k. float_of_int i = (i * 2 ^ k, - int k)"
proof (cases "i = 0")
  case True
  then have "float_of_int i = (i * 2 ^ 0, - int 0)" by (simp add: float_of_int_def round_ratio_def)
  then show ?thesis by blast
next
  case False
  from False assms have e: "last_bit i 1 \<le> 0" by (rule last_bit_int)
  have "nearest j 1 = j" for j by (simp add: nearest_def)
  with False e have "float_of_int i = (i * 2 ^ nat (- last_bit i 1), - int (nat (- last_bit i 1)))"
    by (auto simp: float_of_int_def round_ratio_def round_at_def scaled_def)
  then show ?thesis by blast
qed

lemma float_of_int_val: "\<bar>i\<bar> < 2 ^ 53 \<Longrightarrow> float_val (float_of_int i) = real_of_int i"
  using float_of_int_exact [of i] by (auto simp: float_val_def power_int_minus)

lemma scale_error:
  fixes x y s :: real
  assumes "\<bar>x - y\<bar> \<le> \<bar>y\<bar> / 2 ^ 53" and "0 < s"
  shows "\<bar>x * s - y * s\<bar> \<le> \<bar>y * s\<bar> / 2 ^ 53"
proof -
  have "\<bar>x - y\<bar> * s \<le> \<bar>y\<bar> / 2 ^ 53 * s" using assms by (intro mult_right_mono) simp_all
  moreover have "\<bar>x * s - y * s\<bar> = \<bar>x - y\<bar> * s" using assms(2) by (simp add: left_diff_distrib [symmetric] abs_mult)
  moreover have "\<bar>y * s\<bar> = \<bar>y\<bar> * s" using assms(2) by (simp add: abs_mult)
  ultimately show ?thesis by simp
qed

lemma close_bounds:
  fixes v t :: real
  assumes "\<bar>v - t\<bar> \<le> \<bar>t\<bar> / 2 ^ 53" and "0 \<le> t"
  shows "0 \<le> v \<and> v \<le> t + t / 1000"
  using assms by (simp add: abs_if split: if_splits)

lemma fmul_error:
  "\<bar>float_val (fmul x y) - float_val x * float_val y\<bar> \<le> \<bar>float_val x * float_val y\<bar> / 2 ^ 53"
proof -
  let ?s = "2 powi (snd x + snd y) :: real" and ?n = "fst x * fst y"
  have "\<bar>float_val (round_ratio ?n 1) * ?s - real_of_int ?n / real_of_int 1 * ?s\<bar> \<le> \<bar>real_of_int ?n / real_of_int 1 * ?s\<bar> / 2 ^ 53"
    by (rule scale_error [OF round_ratio_error]) simp_all
  moreover have "real_of_int ?n / real_of_int 1 * ?s = float_val x * float_val y" by (simp add: float_val_def power_int_add)
  moreover have "float_val (round_ratio ?n 1) * ?s = float_val (fmul x y)" by (simp add: fmul_def float_val_shift)
  ultimately show ?thesis by simp
qed

lemma fdiv_error:
  assumes "0 < fst y"
  shows "\<bar>float_val (fdiv x y) - float_val x / float_val y\<bar> \<le> \<bar>float_val x / float_val y\<bar> / 2 ^ 53"
proof -
  let ?s = "2 powi (snd x - snd y) :: real"
  have "\<bar>float_val (round_ratio (fst x) (fst y)) * ?s - real_of_int (fst x) / real_of_int (fst y) * ?s\<bar> \<le> \<bar>real_of_int (fst x) / real_of_int (fst y) * ?s\<bar> / 2 ^ 53"
    by (rule scale_error [OF round_ratio_error [OF assms]]) simp
  moreover have "real_of_int (fst x) / real_of_int (fst y) * ?s = float_val x / float_val y"
    by (simp add: float_val_def power_int_diff)
  moreover have "float_val (round_ratio (fst x) (fst y)) * ?s = float_val (fdiv x y)" by (simp add: fdiv_def float_val_shift)
  ultimately show ?thesis by (simp only:)
qed

lemma float_of_int_pos: "0 < i \<Longrightarrow> i < 2 ^ 53 \<Longrightarrow> 0 < fst (float_of_int i)"
  using float_of_int_exact [of i] by auto

lemma ftrunc_fraction:
  assumes "0 \<le> float_val x" and "float_val x < 1"
  shows "ftrunc x = 0"
proof (cases "0 \<le> snd x")
  case True
  then have "float_val x = real_of_int (fst x * 2 ^ nat (snd x))" by (simp add: float_val_def power_int_def)
  with assms have "fst x * 2 ^ nat (snd x) = 0" by linarith
  with True show ?thesis by (simp add: ftrunc_def)
next
  case False
  then have "float_val x = real_of_int (fst x) / 2 ^ nat (- snd x)" by (simp add: float_val_def power_int_def field_simps)
  then have f: "real_of_int (fst x) = float_val x * 2 ^ nat (- snd x)" by simp
  with assms(1) have "0 \<le> real_of_int (fst x)" by simp
  then have "0 \<le> fst x" by simp
  moreover have "float_val x * 2 ^ nat (- snd x) < 1 * 2 ^ nat (- snd x)" using assms(2) by (intro mult_strict_right_mono) simp_all
  with f have "real_of_int (fst x) < 2 ^ nat (- snd x)" by simp
  then have "fst x < 2 ^ nat (- snd x)" by (metis of_int_less_iff of_int_numeral of_int_power)
  ultimately have "\<bar>fst x\<bar> div 2 ^ nat (- snd x) = 0" by simp
  with False show ?thesis by (simp add: ftrunc_def)
qed

lemma micros_of_nearest:
  assumes "\<bar>real_of_int k - \<bar>float_val x\<bar> * 10 ^ 6\<bar> < 1 / 2"
  shows "micros_of x = k"
proof -
  obtain a b where ab: "scaled (\<bar>fst x\<bar> * 10 ^ 6) 1 (- snd x) = (a, b)" by force
  from scaled_val [OF _ ab] have "0 < b" "real_of_int a / real_of_int b = \<bar>float_val x\<bar> * 10 ^ 6"
    by (auto simp: float_val_def abs_mult)
  with assms have "nearest a b = k" by (intro nearest_unique) simp_all
  then show ?thesis unfolding micros_of_def ab by simp
qed

text \<open>An amount in millionths, divided by a million, keeps every digit that \<open>%.6f\<close> prints.\<close>

lemma micros_close:
  fixes v a :: real
  assumes "\<bar>v - a / 1000000\<bar> \<le> \<bar>a / 1000000\<bar> / 2 ^ 53" and "\<bar>a\<bar> < 2 ^ 52"
  shows "\<bar>\<bar>a\<bar> - \<bar>v\<bar> * 10 ^ 6\<bar> < 1 / 2" and "v < 0 \<longleftrightarrow> a < 0"
  using assms by (simp_all add: abs_if split: if_splits)

lemma negative_scaled: "0 < (t :: real) \<Longrightarrow> real_of_int i * t < 0 \<longleftrightarrow> i < 0"
  by (auto simp: mult_less_0_iff)

lemma fixed6_exact:
  assumes "\<bar>a\<bar> < 2 ^ 52"
  shows "fixed6 (fdiv (float_of_int a) (float_of_int 1000000)) =
     (if a < 0 then ''-'' else []) @ digits (\<bar>a\<bar> div 10 ^ 6) @ ''.'' @ padded 6 (\<bar>a\<bar> mod 10 ^ 6)"
proof -
  let ?x = "fdiv (float_of_int a) (float_of_int 1000000)"
  have err: "\<bar>float_val ?x - real_of_int a / 1000000\<bar> \<le> \<bar>real_of_int a / 1000000\<bar> / 2 ^ 53"
    using fdiv_error [OF float_of_int_pos, of 1000000 "float_of_int a"] assms by (simp add: float_of_int_val)
  have a: "\<bar>real_of_int a\<bar> < 2 ^ 52" using assms by (metis of_int_abs of_int_less_iff of_int_numeral of_int_power)
  have "\<bar>real_of_int \<bar>a\<bar> - \<bar>float_val ?x\<bar> * 10 ^ 6\<bar> < 1 / 2" using micros_close(1) [OF err a] by simp
  then have m: "micros_of ?x = \<bar>a\<bar>" by (rule micros_of_nearest)
  have "fst ?x < 0 \<longleftrightarrow> float_val ?x < 0" unfolding float_val_def by (simp add: negative_scaled)
  also have "\<dots> \<longleftrightarrow> a < 0" using micros_close(2) [OF err a] by simp
  finally show ?thesis by (simp add: fixed6_def m Let_def)
qed

end
