(* ===== verification/Console.thy ===== *)
theory Console
  imports Idpctl WorkerService
begin

text \<open>
  The process around \<open>idpctl\<close>: its environment variables, standard input and output, the file of
  \<open>cli/internal/config\<close>, and the network of \<open>Net\<close>.  Every command of \<open>cli/internal/cmd\<close> is a program
  on it.
\<close>

section \<open>The process\<close>

text \<open>What is written to standard output: a text, or a value as \<open>encoding/json\<close> prints it and a newline.\<close>

datatype chunk = Text string | Indented json | Compact json

text \<open>The file \<open>credentials.json\<close>; \<open>Content None\<close> is a file that is no JSON.\<close>

datatype config_file = Missing | Unreadable err | Content "json option"

text \<open>
  \<open>ps_dir\<close> is what finding and creating the configuration directory gives, \<open>ps_save\<close> what writing the
  file gives: \<open>None\<close> succeeds, \<open>Some (e, f)\<close> fails and leaves \<open>f\<close>.  \<open>ps_broken\<close> tells whether the
  \<open>n\<close>-th write to standard output fails, \<open>ps_password\<close> what the \<open>n\<close>-th read from the terminal gives.
\<close>

record process =
  ps_net :: net
  ps_env :: "string \<Rightarrow> string"
  ps_dir :: "unit res"
  ps_file :: config_file
  ps_save :: "(err \<times> config_file) option"
  ps_out :: "chunk list"
  ps_writes :: nat
  ps_broken :: "nat \<Rightarrow> bool"
  ps_stdin :: string
  ps_asked :: nat
  ps_password :: "nat \<Rightarrow> string res"

primrec on_net :: "(net, 'a) prog \<Rightarrow> (process, 'a) prog" where
  "on_net (Done a) = Done a"
| "on_net (Step u k) = Step (\<lambda>p. p\<lparr>ps_net := u (ps_net p)\<rparr>) (\<lambda>p. on_net (k (ps_net p)))"

lemma run_on_net: "run (on_net q) p = (case run q (ps_net p) of (a, w) \<Rightarrow> (a, p\<lparr>ps_net := w\<rparr>))"
  by (induction q arbitrary: p) (auto split: prod.splits)

definition getenv :: "string \<Rightarrow> (process, string) prog" where
  "getenv k = act (\<lambda>p. (ps_env p k, p))"

definition write_out :: "chunk \<Rightarrow> (process, unit res) prog" where
  "write_out c =
     act (\<lambda>p. if ps_broken p (ps_writes p) then (Inl (Errorf ''write''), p\<lparr>ps_writes := Suc (ps_writes p)\<rparr>)
              else (Inr (), p\<lparr>ps_writes := Suc (ps_writes p), ps_out := ps_out p @ [c]\<rparr>))"

text \<open>\<open>fmt.Print\<close> and its kin on standard output, whose error the commands ignore.\<close>

definition newline :: char where "newline = CHR 0x0A"

definition say :: "string \<Rightarrow> (process, unit) prog" where
  "say s = bindP (write_out (Text s)) (\<lambda>_. Done ())"

definition say_line :: "string \<Rightarrow> (process, unit) prog" where
  "say_line s = say (s @ [newline])"

text \<open>\<open>bufio.Reader.ReadString\<close> up to and with the newline; at the end of the input it is an error.\<close>

definition ReadString :: "(process, string res) prog" where
  "ReadString =
     act (\<lambda>p. if newline \<in> set (ps_stdin p)
              then (Inr (takeWhile (\<lambda>c. c \<noteq> newline) (ps_stdin p) @ [newline]),
                    p\<lparr>ps_stdin := tl (dropWhile (\<lambda>c. c \<noteq> newline) (ps_stdin p))\<rparr>)
              else (Inl (Errorf ''EOF''), p\<lparr>ps_stdin := []\<rparr>))"

definition ReadPassword :: "(process, string res) prog" where
  "ReadPassword = act (\<lambda>p. (ps_password p (ps_asked p), p\<lparr>ps_asked := Suc (ps_asked p)\<rparr>))"

lemma run_getenv [simp]: "run (getenv k) p = (ps_env p k, p)"
  by (simp add: getenv_def)

definition said :: "chunk \<Rightarrow> process \<Rightarrow> process" where
  "said c p = snd (run (write_out c) p)"

lemma run_write_out:
  "run (write_out c) p = (if ps_broken p (ps_writes p) then Inl (Errorf ''write'') else Inr (), said c p)"
  by (simp add: said_def write_out_def)

lemma run_say [simp]: "run (say s) p = ((), said (Text s) p)"
  by (simp add: say_def run_bindP run_write_out)

lemma run_say_line [simp]: "run (say_line s) p = ((), said (Text (s @ [newline])) p)"
  by (simp add: say_line_def)

text \<open>Writing changes the output only, and on a working terminal appends to it.\<close>

lemma said_sel [simp]:
  "ps_net (said c p) = ps_net p" "ps_env (said c p) = ps_env p" "ps_dir (said c p) = ps_dir p" "ps_file (said c p) = ps_file p"
  "ps_save (said c p) = ps_save p" "ps_broken (said c p) = ps_broken p" "ps_stdin (said c p) = ps_stdin p"
  "ps_asked (said c p) = ps_asked p" "ps_password (said c p) = ps_password p" "ps_writes (said c p) = Suc (ps_writes p)"
  by (simp_all add: said_def write_out_def)

lemma said_out: "ps_out (said c p) = ps_out p @ (if ps_broken p (ps_writes p) then [] else [c])"
  by (simp add: said_def write_out_def)

section \<open>The stored session\<close>

record cli_Config =
  ccf_Server :: string
  ccf_Token :: string

definition config_path :: "process \<Rightarrow> unit res" where
  "config_path p = (case ps_dir p of Inl e \<Rightarrow> Inl (Wrapf e) | Inr _ \<Rightarrow> Inr ())"

definition Config_members :: "(string \<times> json) list \<Rightarrow> cli_Config res" where
  "Config_members kvs =
     bindR (json_string ''server'' kvs []) (\<lambda>s. bindR (json_string ''token'' kvs []) (\<lambda>t.
     Inr \<lparr>ccf_Server = s, ccf_Token = t\<rparr>))"

definition Config_json :: "cli_Config \<Rightarrow> json" where
  "Config_json cfg = JObj [(''server'', JStr (ccf_Server cfg)), (''token'', JStr (ccf_Token cfg))]"

definition config_Load :: "(process, cli_Config res) prog" where
  "config_Load =
     act (\<lambda>p. (bindR (config_path p) (\<lambda>_.
        case ps_file p of
          Missing \<Rightarrow> Inr \<lparr>ccf_Server = [], ccf_Token = []\<rparr>
        | Unreadable e \<Rightarrow> Inl (Wrapf e)
        | Content body \<Rightarrow> json_decode body Config_members), p))"

definition config_Save :: "cli_Config \<Rightarrow> (process, unit res) prog" where
  "config_Save cfg =
     act (\<lambda>p. case config_path p of
          Inl e \<Rightarrow> (Inl e, p)
        | Inr _ \<Rightarrow> (case ps_save p of
            Some (e, f) \<Rightarrow> (Inl (Wrapf e), p\<lparr>ps_file := f\<rparr>)
          | None \<Rightarrow> (Inr (), p\<lparr>ps_file := Content (Some (Config_json cfg))\<rparr>)))"

lemma Config_roundtrip: "json_decode (Some (Config_json cfg)) Config_members = Inr cfg"
  by (simp add: Config_json_def Config_members_def json_decode_def json_struct_def bindR_def same_name_def lower_def)

text \<open>
  A saved session is the one loaded: once \<open>Save\<close> has succeeded, \<open>Load\<close> gives the same server and token.
\<close>

theorem config_roundtrip:
  assumes "run (config_Save cfg) p = (Inr (), p')"
  shows "run config_Load p' = (Inr cfg, p')"
  using assms
  by (auto simp: config_Save_def config_Load_def config_path_def Config_roundtrip bindR_def split: sum.splits option.splits prod.splits)

text \<open>The server and token of a session; without a token no command calls the control plane.\<close>

definition loggedInClient :: "(process, (cli_Config \<times> cli_Client) res) prog" where
  "loggedInClient =
     bindE (mapE Wrapf config_Load) (\<lambda>cfg.
       if ccf_Token cfg = [] then failE (Errorf ''not logged in'') else returnE (cfg, cli_New (ccf_Server cfg)))"

definition session :: "process \<Rightarrow> (cli_Config \<times> cli_Client) res" where
  "session p = fst (run loggedInClient p)"

lemma run_loggedInClient: "run loggedInClient p = (session p, p)"
  by (simp add: session_def loggedInClient_def config_Load_def run_bindE run_mapE split: sum.splits)

lemma session_Inr: "session p = Inr (cfg, c) \<Longrightarrow> ccf_Token cfg \<noteq> [] \<and> c = cli_New (ccf_Server cfg)"
  by (auto simp: session_def loggedInClient_def config_Load_def run_bindE run_mapE split: sum.splits if_splits)

section \<open>A concrete process\<close>

text \<open>A logged-in operator, and a GitHub Actions job, on the network \<open>w\<close>.\<close>

definition sample_env :: "string \<Rightarrow> string" where
  "sample_env k =
     (if k = ''GITHUB_ACTIONS'' then ''true'' else if k = ''GITHUB_REPOSITORY'' then ''acme/app''
      else if k = ''ACTIONS_ID_TOKEN_REQUEST_URL'' then ''gh?v=1'' else if k = ''ACTIONS_ID_TOKEN_REQUEST_TOKEN'' then ''rt'' else [])"

definition sample_process :: "net \<Rightarrow> process" where
  "sample_process w =
     \<lparr>ps_net = w, ps_env = sample_env, ps_dir = Inr (),
      ps_file = Content (Some (Config_json \<lparr>ccf_Server = ''cp'', ccf_Token = ''3''\<rparr>)), ps_save = None, ps_out = [],
      ps_writes = 0, ps_broken = (\<lambda>n. False), ps_stdin = ''acme'' @ newline # ''root'' @ [newline], ps_asked = 0,
      ps_password = (\<lambda>n. Inr ''correct horse'')\<rparr>"

lemma sample_session: "session (sample_process w) = Inr (\<lparr>ccf_Server = ''cp'', ccf_Token = ''3''\<rparr>, cli_New ''cp'')"
  by (simp add: session_def loggedInClient_def config_Load_def config_path_def sample_process_def run_bindE run_mapE
      Config_roundtrip bindR_def)

end
