(* ===== verification/Commands.thy ===== *)
theory Commands
  imports Console Decimal
begin

text \<open>
  The operator commands of \<open>cli/internal/cmd\<close>, from their parsed flags on.  \<open>Inl\<close> is the error a
  command returns and \<open>idpctl\<close> exits with.
\<close>

section \<open>Printing\<close>

text \<open>\<open>fmt.Println\<close> separates by spaces; \<open>%-17s\<close> pads on the right.\<close>

fun words :: "string list \<Rightarrow> string" where
  "words [] = []"
| "words [s] = s"
| "words (s # ss) = s @ '' '' @ words ss"

definition Println :: "string list \<Rightarrow> (process, unit) prog" where
  "Println ss = say_line (words ss)"

definition pad_right :: "nat \<Rightarrow> string \<Rightarrow> string" where
  "pad_right n s = s @ replicate (n - length s) (CHR '' '')"

text \<open>\<open>strings.Join\<close>\<close>

fun Join :: "string list \<Rightarrow> string \<Rightarrow> string" where
  "Join [] sep = []"
| "Join [s] sep = s"
| "Join (s # ss) sep = s @ sep @ Join ss sep"

text \<open>A call of the client, with the error the command wraps.\<close>

definition remote :: "'a io \<Rightarrow> (process, 'a res) prog" where
  "remote q = mapE Wrapf (on_net q)"

text \<open>The commands of a logged-in user load their session first.\<close>

definition with_session :: "(string \<Rightarrow> cli_Client \<Rightarrow> (process, 'a res) prog) \<Rightarrow> (process, 'a res) prog" where
  "with_session k = bindE loggedInClient (\<lambda>(cfg, c). k (ccf_Token cfg) c)"

abbreviation finish :: "(process, unit) prog \<Rightarrow> (process, unit res) prog" where
  "finish p \<equiv> bindP p (\<lambda>_. returnE ())"

section \<open>Agents and workers\<close>

text \<open>\<open>int64(d.Seconds())\<close>: whole seconds and the fraction are added in \<open>float64\<close>.\<close>

definition duration_Seconds :: "int64 \<Rightarrow> float64" where
  "duration_Seconds d =
     (let i = sint d; s = sgn i * (\<bar>i\<bar> div 1000000000); n = sgn i * (\<bar>i\<bar> mod 1000000000) in
      fadd (float_of_int s) (fdiv (float_of_int n) (float_of_int 1000000000)))"

definition agent_environments :: "string \<Rightarrow> string list" where
  "agent_environments envs = (if envs = [] then [] else Split envs (CHR '',''))"

definition runAgentCreate :: "string \<Rightarrow> string \<Rightarrow> string \<Rightarrow> string \<Rightarrow> string \<Rightarrow> int64 \<Rightarrow> (process, unit res) prog" where
  "runAgentCreate name team tier envs idempotencyKey ttl =
     with_session (\<lambda>token c.
       bindE (remote (cli_CreateAgent c token
         \<lparr>cag_Name = name, cag_Team = team, cag_Tier = tier, cag_Environments = agent_environments envs,
          cag_TTLSeconds = int64_of (duration_Seconds ttl), cag_IdempotencyKey = idempotencyKey\<rparr>)) (\<lambda>resp.
       bindP (Println [''Agent enrolled:'', cas_ActorID resp]) (\<lambda>_.
       finish (Println [''Token:'', cas_Token resp]))))"

definition runWorkerEnrol :: "string \<Rightarrow> string \<Rightarrow> (process, unit res) prog" where
  "runWorkerEnrol name envs =
     with_session (\<lambda>token c.
       bindE (remote (cli_CreateWorker c token \<lparr>cwq_Name = name, cwq_Environments = Split envs (CHR '','')\<rparr>)) (\<lambda>resp.
       bindP (Println [''Worker enrolled:'', cws_WorkerCredentialID resp]) (\<lambda>_.
       finish (Println [''Token:'', cws_Token resp]))))"

definition runWorkerGrantEnvironment :: "string \<Rightarrow> string \<Rightarrow> (process, unit res) prog" where
  "runWorkerGrantEnvironment workerCredentialID envs =
     with_session (\<lambda>token c.
       bindE (remote (cli_GrantWorkerEnvironments c token workerCredentialID (Split envs (CHR '','')))) (\<lambda>_.
       finish (Println [''Environments granted to'', workerCredentialID])))"

definition tab :: char where "tab = CHR 0x09"

fun print_workers :: "WorkerCredential list \<Rightarrow> (process, unit) prog" where
  "print_workers [] = Done ()"
| "print_workers (x # xs) =
     bindP (say_line (cwcr_WorkerCredentialID x @ tab # cwcr_Name x @ tab # Join (cwcr_Environments x) '',''))
       (\<lambda>_. print_workers xs)"

definition runWorkerList :: "(process, unit res) prog" where
  "runWorkerList = with_session (\<lambda>token c. bindE (remote (cli_ListWorkers c token)) (\<lambda>workers. finish (print_workers workers)))"

section \<open>Pipelines\<close>

text \<open>The \<open>--setting\<close> flags, the last one of a key winning.\<close>

fun settings_of :: "string list \<Rightarrow> settings \<Rightarrow> settings res" where
  "settings_of [] m = Inr m"
| "settings_of (pair # pairs) m =
     (case Cut pair (CHR ''='') of (key, value, ok) \<Rightarrow>
        if \<not> ok then Inl (Errorf ''invalid --setting'') else settings_of pairs (AList.update key value m))"

definition parseSettings :: "string list \<Rightarrow> settings res" where
  "parseSettings pairs = settings_of pairs []"

record pipelineRegisterParams =
  prp_environmentID :: string
  prp_provider :: string
  prp_workflowRef :: string
  prp_settings :: settings
  prp_mutating :: "bool option"

definition runPipelineRegister :: "pipelineRegisterParams \<Rightarrow> (process, unit res) prog" where
  "runPipelineRegister p =
     with_session (\<lambda>token c.
       bindE (remote (cli_CreatePipeline c token
         \<lparr>cpq_EnvironmentID = prp_environmentID p, cpq_Provider = prp_provider p, cpq_WorkflowRef = prp_workflowRef p,
          cpq_Settings = prp_settings p, cpq_Mutating = prp_mutating p\<rparr>)) (\<lambda>resp.
       finish (Println [''Pipeline registered:'', ccpr_PipelineID resp, ccpr_WorkflowRef resp])))"

text \<open>The command itself: \<open>--mutating\<close> is passed on only when it was given.\<close>

definition pipeline_register :: "string \<Rightarrow> string \<Rightarrow> string \<Rightarrow> string list \<Rightarrow> bool option \<Rightarrow> (process, unit res) prog" where
  "pipeline_register environmentID prov workflowRef settings mutating =
     (case parseSettings settings of
        Inl e \<Rightarrow> failE e
      | Inr m \<Rightarrow> runPipelineRegister
          \<lparr>prp_environmentID = environmentID, prp_provider = prov, prp_workflowRef = workflowRef, prp_settings = m,
           prp_mutating = mutating\<rparr>)"

definition runPipelineGet :: "string \<Rightarrow> (process, unit res) prog" where
  "runPipelineGet pipelineID =
     with_session (\<lambda>token c.
       bindE (remote (cli_GetPipeline c token pipelineID)) (\<lambda>resp.
       bindP (say_line (''Pipeline '' @ ccpr_PipelineID resp)) (\<lambda>_.
       bindP (say_line (''  environment: '' @ ccpr_EnvironmentID resp)) (\<lambda>_.
       bindP (say_line (''  provider:    '' @ ccpr_Provider resp)) (\<lambda>_.
       bindP (say_line (''  workflow:    '' @ ccpr_WorkflowRef resp)) (\<lambda>_.
       finish (say_line (''  mutating:    '' @ (if ccpr_Mutating resp then ''true'' else ''false'')))))))))"

section \<open>Runs\<close>

definition printRun :: "cli_RunResponse \<Rightarrow> (process, unit res) prog" where
  "printRun r =
     bindP (say_line (''Run '' @ crp_RunID r)) (\<lambda>_.
     bindP (say_line (''  environment: '' @ crp_EnvironmentID r)) (\<lambda>_.
     bindP (say_line (''  pipeline:    '' @ crp_PipelineID r)) (\<lambda>_.
     bindP (say_line (''  tier:        '' @ crp_Tier r)) (\<lambda>_.
     finish (say_line (''  status:      '' @ crp_Status r))))))"

definition runRunRequest :: "string \<Rightarrow> string \<Rightarrow> string \<Rightarrow> string \<Rightarrow> (process, unit res) prog" where
  "runRunRequest environmentID pipelineID idempotencyKey diffRef =
     with_session (\<lambda>token c.
       bindE (remote (cli_RequestRun c token
         \<lparr>cnr_EnvironmentID = environmentID, cnr_PipelineID = pipelineID, cnr_IdempotencyKey = idempotencyKey,
          cnr_DiffRef = diffRef\<rparr>)) printRun)"

definition runRunGet :: "string \<Rightarrow> (process, unit res) prog" where
  "runRunGet runID = with_session (\<lambda>token c. bindE (remote (cli_GetRun c token runID)) printRun)"

definition runRunDecide :: "string \<Rightarrow> bool \<Rightarrow> (process, unit res) prog" where
  "runRunDecide runID approved = with_session (\<lambda>token c. bindE (remote (cli_DecideRun c token runID approved)) printRun)"

section \<open>Telemetry\<close>

definition runSetTelemetry :: "bool \<Rightarrow> (process, unit res) prog" where
  "runSetTelemetry enabled =
     with_session (\<lambda>token c.
       bindE (remote (cli_SetTelemetry c token enabled)) (\<lambda>_.
       finish (Println [''Telemetry'', if enabled then ''enabled'' else ''disabled''])))"

section \<open>Costs\<close>

definition microsPerCurrencyUnit :: float64 where
  "microsPerCurrencyUnit = float_of_int 1000000"

definition amount_text :: "int \<Rightarrow> string" where
  "amount_text micros = fixed6 (fdiv (float_of_int micros) microsPerCurrencyUnit)"

definition print_cost :: "cli_RunCost \<Rightarrow> (process, unit) prog" where
  "print_cost row =
     bindP (say_line (''source:    '' @ crc_Source row)) (\<lambda>_.
     bindP (case crc_DurationMS row of None \<Rightarrow> Done () | Some d \<Rightarrow> say_line (''duration:  '' @ itoa d @ ''ms'')) (\<lambda>_.
     bindP (case crc_AmountMicros row of
              Some a \<Rightarrow> say_line (''amount:    '' @ amount_text a @ '' '' @ crc_Currency row)
            | None \<Rightarrow> say_line ''amount:    (no rate configured)'') (\<lambda>_.
     say_line (''captured:  '' @ crc_CapturedAt row @ [newline]))))"

fun print_costs :: "cli_RunCost list \<Rightarrow> (process, unit) prog" where
  "print_costs [] = Done ()"
| "print_costs (r # rs) = bindP (print_cost r) (\<lambda>_. print_costs rs)"

definition runCostRun :: "string \<Rightarrow> (process, unit res) prog" where
  "runCostRun runID =
     with_session (\<lambda>token c.
       bindE (remote (cli_GetRunCost c token runID)) (\<lambda>rows.
       finish (if rows = [] then Println [''No cost captured for this run yet.''] else print_costs rows)))"

definition print_summary :: "cli_ActorCostSummary \<Rightarrow> (process, unit) prog" where
  "print_summary s =
     bindP (say_line (''actor:     '' @ cacs_ActorID s)) (\<lambda>_.
     bindP (say_line (''runs:      '' @ itoa (cacs_RunCount s))) (\<lambda>_.
     bindP (say_line (''duration:  '' @ itoa (cacs_TotalDurationMS s) @ ''ms'')) (\<lambda>_.
     bindP (case cacs_TotalAmountMicros s of
              Some a \<Rightarrow> say_line (''amount:    '' @ amount_text a)
            | None \<Rightarrow> say_line ''amount:    (no rate configured)'') (\<lambda>_.
     say_line []))))"

fun print_summaries :: "cli_ActorCostSummary list \<Rightarrow> (process, unit) prog" where
  "print_summaries [] = Done ()"
| "print_summaries (s # ss) = bindP (print_summary s) (\<lambda>_. print_summaries ss)"

definition runCostByActor :: "GetCostsByActorParams \<Rightarrow> (process, unit res) prog" where
  "runCostByActor params =
     with_session (\<lambda>token c.
       bindE (remote (cli_GetCostsByActor c token params)) (\<lambda>summaries.
       finish (if summaries = [] then Println [''No cost captured yet.''] else print_summaries summaries)))"

text \<open>The rate of a minute, in \<open>float64\<close>, becomes whole micros of a millisecond.\<close>

definition rate_micros :: "float64 \<Rightarrow> int64" where
  "rate_micros ratePerMinute = int64_of (fdiv (fmul ratePerMinute microsPerCurrencyUnit) (float_of_int 60000))"

definition runCostSetRate :: "float64 \<Rightarrow> string \<Rightarrow> string \<Rightarrow> string \<Rightarrow> (process, unit res) prog" where
  "runCostSetRate ratePerMinute currency environmentID ciProvider =
     with_session (\<lambda>token c.
       bindE (remote (cli_SetCostRate c token
         \<lparr>cscr_EnvironmentID = environmentID, cscr_CIProvider = ciProvider, cscr_RateMicrosPerMS = rate_micros ratePerMinute,
          cscr_Currency = currency\<rparr>)) (\<lambda>_.
       finish (Println [''Cost rate set.''])))"

section \<open>Environments\<close>

record environmentCreateParams =
  ecp_name :: string
  ecp_provider :: string
  ecp_region :: string
  ecp_accountID :: string
  ecp_externalID :: string
  ecp_trustAnchor :: string
  ecp_roleARNTier1 :: string
  ecp_roleARNTier2 :: string
  ecp_roleARNTier3 :: string

definition runEnvironmentCreate :: "environmentCreateParams \<Rightarrow> (process, unit res) prog" where
  "runEnvironmentCreate p =
     with_session (\<lambda>token c.
       bindE (remote (cli_CreateEnvironment c token
         \<lparr>cev_Name = ecp_name p, cev_Provider = ecp_provider p, cev_Region = ecp_region p, cev_AccountRef = ecp_accountID p,
          cev_ExternalID = ecp_externalID p, cev_TrustAnchor = ecp_trustAnchor p,
          cev_RoleARNs = [(''read_only'', ecp_roleARNTier1 p), (''human_in_the_loop'', ecp_roleARNTier2 p),
                          (''autonomous'', ecp_roleARNTier3 p)]\<rparr>)) (\<lambda>resp.
       finish (Println [''Environment registered:'', ces_EnvironmentID resp, ces_Name resp])))"

text \<open>\<open>q\<close> is the quoting of \<open>%q\<close>.\<close>

definition tier_line :: "string \<Rightarrow> cli_TierResult \<Rightarrow> string" where
  "tier_line tier r = ''  '' @ pad_right 17 tier @ (if ctl_OK r then '' ok'' else '' FAILED: '' @ ctl_Error r)"

fun print_tiers :: "(string \<times> cli_TierResult) list \<Rightarrow> string list \<Rightarrow> (process, unit) prog" where
  "print_tiers m [] = Done ()"
| "print_tiers m (tier # tiers) =
     (case map_of m tier of
        None \<Rightarrow> print_tiers m tiers
      | Some r \<Rightarrow> bindP (say_line (tier_line tier r)) (\<lambda>_. print_tiers m tiers))"

definition printVerificationResult :: "(string \<Rightarrow> string) \<Rightarrow> string \<Rightarrow> GetVerificationResponse \<Rightarrow> (process, unit res) prog" where
  "printVerificationResult q environmentName result =
     bindP (say_line (''Environment '' @ q environmentName @ '': '' @ cgvr_Status result)) (\<lambda>_.
     bindP (print_tiers (cgvr_TierResults result) [''read_only'', ''human_in_the_loop'', ''autonomous'']) (\<lambda>_.
     if cgvr_Status result \<noteq> ''succeeded'' then failE (Errorf ''connectivity check'') else returnE ()))"

text \<open>The loop, with fuel for its rounds: \<open>None\<close> is a loop still waiting.\<close>

fun verify_loop :: "nat \<Rightarrow> (string \<Rightarrow> string) \<Rightarrow> cli_Client \<Rightarrow> string \<Rightarrow> string \<Rightarrow> string \<Rightarrow> time \<Rightarrow> (process, unit res option) prog" where
  "verify_loop 0 q c token name verificationID deadline = Done None"
| "verify_loop (Suc fuel) q c token name verificationID deadline =
     bindP (remote (cli_GetVerification c token name verificationID)) (\<lambda>x.
       case x of
         Inl e \<Rightarrow> Done (Some (Inl e))
       | Inr result \<Rightarrow>
           if cgvr_Status result \<noteq> ''pending'' then
             bindP (printVerificationResult q name result) (\<lambda>r. Done (Some r))
           else bindP (on_net net_Now) (\<lambda>now.
             if deadline < now then Done (Some (Inl (Errorf ''timed out'')))
             else bindP (on_net ctx_Done) (\<lambda>stop.
               if stop then Done (Some (Inl (Wrapf (Errorf ''context done''))))
               else verify_loop fuel q c token name verificationID deadline)))"

definition runEnvironmentVerify :: "nat \<Rightarrow> (string \<Rightarrow> string) \<Rightarrow> string \<Rightarrow> int64 \<Rightarrow> (process, unit res option) prog" where
  "runEnvironmentVerify fuel q name timeout =
     bindP loggedInClient (\<lambda>s.
       case s of
         Inl e \<Rightarrow> Done (Some (Inl e))
       | Inr (cfg, c) \<Rightarrow>
           bindP (remote (cli_TriggerVerification c (ccf_Token cfg) name)) (\<lambda>x.
             case x of
               Inl e \<Rightarrow> Done (Some (Inl e))
             | Inr triggered \<Rightarrow>
                 bindP (on_net net_Now) (\<lambda>now.
                 verify_loop fuel q c (ccf_Token cfg) name (tvr_VerificationID triggered) (now + sint timeout))))"

section \<open>First-run setup\<close>

definition prompt :: "string \<Rightarrow> (process, string res) prog" where
  "prompt label = bindP (say label) (\<lambda>_. bindE (mapE Wrapf ReadString) (\<lambda>line. returnE (TrimSpace line)))"

definition promptPassword :: "string \<Rightarrow> (process, string res) prog" where
  "promptPassword label =
     bindP (say label) (\<lambda>_. bindP ReadPassword (\<lambda>x. bindP (say_line []) (\<lambda>_.
     Done (case x of Inl e \<Rightarrow> Inl (Wrapf e) | Inr b \<Rightarrow> Inr b))))"

text \<open>
  \<open>strings.EqualFold\<close> with a text of lower-case ASCII letters: besides the capitals, two other letters
  fold to ASCII, the long s and the Kelvin sign, here in UTF-8.
\<close>

fun fold_text :: "string \<Rightarrow> string" where
  "fold_text [] = []"
| "fold_text (c # cs) =
     (case cs of
        d # r \<Rightarrow>
          if c = CHR 0xC5 \<and> d = CHR 0xBF then CHR ''s'' # fold_text r
          else (case r of
                  e # r' \<Rightarrow> if c = CHR 0xE2 \<and> d = CHR 0x84 \<and> e = CHR 0xAA then CHR ''k'' # fold_text r'
                           else lower c # fold_text cs
                | [] \<Rightarrow> lower c # fold_text cs)
      | [] \<Rightarrow> [lower c])"

definition EqualFold :: "string \<Rightarrow> string \<Rightarrow> bool" where
  "EqualFold s t \<longleftrightarrow> fold_text s = t"

definition ask_telemetry :: "bool option \<Rightarrow> (process, bool res) prog" where
  "ask_telemetry telemetryFlag =
     (case telemetryFlag of
        Some b \<Rightarrow> returnE b
      | None \<Rightarrow> bindE (prompt ''Enable anonymous usage telemetry? [y/N]: '') (\<lambda>answer.
          returnE (EqualFold answer ''y'' \<or> EqualFold answer ''yes'')))"

definition runSetup :: "string \<Rightarrow> bool option \<Rightarrow> (process, unit res) prog" where
  "runSetup server telemetryFlag =
     bindE (remote (cli_NeedsSetup (cli_New server))) (\<lambda>needsSetup.
     if \<not> needsSetup then failE (Errorf ''already set up'')
     else
       bindE (prompt ''Tenant name: '') (\<lambda>tenantName.
       bindE (prompt ''Admin username: '') (\<lambda>adminUsername.
       bindE (promptPassword ''Admin password: '') (\<lambda>password.
       bindE (promptPassword ''Confirm password: '') (\<lambda>confirm.
       if password \<noteq> confirm then failE (Errorf ''passwords did not match'')
       else
         bindE (ask_telemetry telemetryFlag) (\<lambda>telemetry.
         bindE (remote (cli_Setup (cli_New server)
           \<lparr>csur_TenantName = tenantName, csur_AdminUsername = adminUsername, csur_AdminPassword = password,
            csur_TelemetryEnabled = telemetry\<rparr>)) (\<lambda>resp.
         bindE (mapE Wrapf (config_Save \<lparr>ccf_Server = server, ccf_Token = sus_Token resp\<rparr>)) (\<lambda>_.
         finish (Println [''Setup complete. You are logged in as'', adminUsername])))))))))"

section \<open>Printing leaves the rest alone\<close>

text \<open>\<open>talks\<close> relates the process before and after code that only writes.\<close>

definition talks :: "process \<Rightarrow> process \<Rightarrow> bool" where
  "talks p v \<longleftrightarrow> ps_net v = ps_net p \<and> ps_env v = ps_env p \<and> ps_dir v = ps_dir p \<and> ps_file v = ps_file p \<and>
     ps_save v = ps_save p \<and> ps_broken v = ps_broken p"

lemma talks_laws: "reflp talks" "transp talks"
  by (auto simp: reflp_def transp_def talks_def)

lemma talks_write_out: "steps talks (write_out c)"
  unfolding write_out_def by (rule steps_act) (simp add: talks_def)

lemma talks_say: "steps talks (say s)" "steps talks (say_line s)"
  unfolding say_line_def say_def by (auto intro: steps_bindP talks_write_out)

lemma talks_Println: "steps talks (Println ss)"
  unfolding Println_def by (rule talks_say)

lemma talks_print_workers: "steps talks (print_workers xs)"
  by (induction xs) (auto intro: steps_bindP talks_say)

lemma talks_print_costs: "steps talks (print_costs rs)"
  by (induction rs) (auto simp: print_cost_def split: option.split intro!: steps_bindP talks_say)

lemma talks_print_summaries: "steps talks (print_summaries rs)"
  by (induction rs) (auto simp: print_summary_def split: option.split intro!: steps_bindP talks_say)

lemma talks_print_tiers: "steps talks (print_tiers m tiers)"
  by (induction m tiers rule: print_tiers.induct) (auto split: option.split intro!: steps_bindP talks_say)

lemma talks_finish: "steps talks p \<Longrightarrow> steps talks (finish p)"
  by (rule steps_bindP) simp_all

lemma talks_printRun: "steps talks (printRun r)"
  unfolding printRun_def by (intro steps_bindP talks_say) simp

lemma talks_print_result: "steps talks (printVerificationResult q name result)"
  unfolding printVerificationResult_def by (intro steps_bindP talks_say talks_print_tiers) simp

lemmas talks_rules = talks_say talks_Println talks_print_workers talks_print_costs talks_print_summaries talks_finish
  talks_printRun talks_print_result

lemma talks_run: "steps talks q \<Longrightarrow> run q p = (x, v) \<Longrightarrow> talks p v"
  using steps_run [OF talks_laws, of q p] by simp

section \<open>One request of a logged-in user\<close>

lemma run_with_session:
  "run (with_session k) p = (case session p of Inl e \<Rightarrow> (Inl e, p) | Inr (cfg, c) \<Rightarrow> run (k (ccf_Token cfg) c) p)"
  by (simp add: with_session_def run_bindE run_loggedInClient split: sum.split)

lemma run_remote:
  "run (remote q) p =
     (case run q (ps_net p) of (x, w) \<Rightarrow> (case x of Inl e \<Rightarrow> Inl (Wrapf e) | Inr a \<Rightarrow> Inr a, p\<lparr>ps_net := w\<rparr>))"
  by (simp add: remote_def run_mapE run_on_net split: prod.splits sum.splits)

text \<open>A command that calls the control plane once and prints the answer.\<close>

lemma call_and_print:
  assumes "run (bindE (remote (cli_do c verb path token body out)) k) p = (x, v)" and "\<And>a. steps talks (k a)"
  shows "ps_net v = sent (cli_request c verb path token body) (ps_net p) \<and> ps_file v = ps_file p \<and>
     (case fst (run (cli_do c verb path token body out) (ps_net p)) of
        Inl e \<Rightarrow> x = Inl (Wrapf e)
      | Inr a \<Rightarrow> run (k a) (p\<lparr>ps_net := ps_net v\<rparr>) = (x, v))"
proof -
  let ?q = "cli_do c verb path token body out"
  obtain y w where q: "run ?q (ps_net p) = (y, w)" by force
  then have w: "w = sent (cli_request c verb path token body) (ps_net p)" by (simp add: run_cli_do)
  show ?thesis
  proof (cases y)
    case (Inl e)
    with assms(1) q w show ?thesis by (auto simp: run_bindE run_remote)
  next
    case (Inr a)
    with assms(1) q have "run (k a) (p\<lparr>ps_net := w\<rparr>) = (x, v)" by (simp add: run_bindE run_remote)
    with talks_run [OF assms(2) this] q w Inr show ?thesis by (auto simp: talks_def)
  qed
qed

section \<open>Waiting for a connectivity check\<close>

lemma run_verify_step:
  "run (verify_loop (Suc fuel) q c token name verificationID deadline) p =
     (case run (cli_GetVerification c token name verificationID) (ps_net p) of
        (Inl e, w) \<Rightarrow> (Some (Inl (Wrapf e)), p\<lparr>ps_net := w\<rparr>)
      | (Inr result, w) \<Rightarrow>
          if cgvr_Status result \<noteq> ''pending'' then
            (case run (printVerificationResult q name result) (p\<lparr>ps_net := w\<rparr>) of (r, v) \<Rightarrow> (Some r, v))
          else if deadline < nt_clock w (nt_tick w) then
            (Some (Inl (Errorf ''timed out'')), p\<lparr>ps_net := w\<lparr>nt_tick := Suc (nt_tick w)\<rparr>\<rparr>)
          else if nt_done w (nt_selects w) then
            (Some (Inl (Wrapf (Errorf ''context done''))),
             p\<lparr>ps_net := w\<lparr>nt_tick := Suc (nt_tick w), nt_selects := Suc (nt_selects w)\<rparr>\<rparr>)
          else run (verify_loop fuel q c token name verificationID deadline)
            (p\<lparr>ps_net := w\<lparr>nt_tick := Suc (nt_tick w), nt_selects := Suc (nt_selects w)\<rparr>\<rparr>))"
  by (auto simp: run_bindP run_remote run_on_net split: prod.splits sum.splits)

declare verify_loop.simps(2) [simp del]

lemma GetVerification_Inr:
  assumes "run (cli_GetVerification c token name verificationID) w = (Inr result, v)"
  shows "\<exists>resp. nt_http w (nt_tick w) (GetVerification_request c token name verificationID) = Inr resp \<and>
     hr_StatusCode resp < 300 \<and> json_decode (hr_Body resp) GetVerificationResponse_members = Inr result \<and>
     nt_tick v = Suc (nt_tick w) \<and> same_outside w v"
  using assms unfolding cli_GetVerification_def GetVerification_request_def by (auto dest!: cli_do_Inr)

lemma verify_loop_ends:
  assumes "\<And>n. N \<le> n \<Longrightarrow> deadline < nt_clock (ps_net p) n" and "N < fuel + nt_tick (ps_net p)" and "0 < fuel"
  shows "fst (run (verify_loop fuel q c token name verificationID deadline) p) \<noteq> None"
  using assms
proof (induction fuel arbitrary: p)
  case (Suc fuel)
  obtain y w where get: "run (cli_GetVerification c token name verificationID) (ps_net p) = (y, w)" by force
  show ?case
  proof (cases y)
    case (Inl e)
    with get show ?thesis by (simp add: run_verify_step)
  next
    case (Inr result)
    from GetVerification_Inr [OF get [unfolded Inr]] have w: "nt_tick w = Suc (nt_tick (ps_net p))" "nt_clock w = nt_clock (ps_net p)"
      by (auto simp: same_outside_def)
    let ?p = "p\<lparr>ps_net := w\<lparr>nt_tick := Suc (nt_tick w), nt_selects := Suc (nt_selects w)\<rparr>\<rparr>"
    have "fst (run (verify_loop fuel q c token name verificationID deadline) ?p) \<noteq> None" if "\<not> deadline < nt_clock w (nt_tick w)"
    proof (rule Suc.IH)
      show "deadline < nt_clock (ps_net ?p) n" if "N \<le> n" for n using Suc.prems(1) [OF that] w by simp
      have "\<not> N \<le> Suc (nt_tick (ps_net p))" using that Suc.prems(1) w by auto
      with Suc.prems(2) show "0 < fuel" by linarith
      from Suc.prems(2) show "N < fuel + nt_tick (ps_net ?p)" by (simp add: w)
    qed
    with get Inr show ?thesis by (auto simp: run_verify_step split: prod.splits)
  qed
qed simp

lemma print_result_Inr:
  "run (printVerificationResult q name result) p = (Inr (), v) \<Longrightarrow> cgvr_Status result = ''succeeded''"
  by (auto simp: printVerificationResult_def run_bindP split: if_splits prod.splits)

lemma verify_loop_succeeds:
  assumes "run (verify_loop fuel q c token name verificationID deadline) p = (Some (Inr ()), v)"
  shows "\<exists>n resp result. nt_http (ps_net p) n (GetVerification_request c token name verificationID) = Inr resp \<and>
     json_decode (hr_Body resp) GetVerificationResponse_members = Inr result \<and> cgvr_Status result = ''succeeded''"
  using assms
proof (induction fuel arbitrary: p)
  case (Suc fuel)
  obtain y w where get: "run (cli_GetVerification c token name verificationID) (ps_net p) = (y, w)" by force
  with Suc.prems obtain result where y: "y = Inr result" by (cases y) (auto simp: run_verify_step)
  note g = GetVerification_Inr [OF get [unfolded y]]
  let ?p = "p\<lparr>ps_net := w\<lparr>nt_tick := Suc (nt_tick w), nt_selects := Suc (nt_selects w)\<rparr>\<rparr>"
  from Suc.prems get y consider v' where "run (printVerificationResult q name result) (p\<lparr>ps_net := w\<rparr>) = (Inr (), v')"
    | "run (verify_loop fuel q c token name verificationID deadline) ?p = (Some (Inr ()), v)"
    by (auto simp: run_verify_step split: if_splits prod.splits)
  then show ?case
  proof cases
    case 1
    with g print_result_Inr show ?thesis by blast
  next
    case 2
    from g have "nt_http w = nt_http (ps_net p)" by (auto simp: same_outside_def)
    with Suc.IH [OF 2] show ?thesis by simp
  qed
qed simp

section \<open>Amounts and rates\<close>

text \<open>
  An amount is printed to the last digit.  Below \<open>2 ^ 52\<close> millionths (4.5 billion units of currency)
  the way through \<open>float64\<close> loses nothing: the text is the whole units, a point, and the six digits of
  the rest.
\<close>

theorem amount_text_exact:
  assumes "\<bar>a\<bar> < 2 ^ 52"
  shows "amount_text a = (if a < 0 then ''-'' else []) @ digits (\<bar>a\<bar> div 10 ^ 6) @ ''.'' @ padded 6 (\<bar>a\<bar> mod 10 ^ 6) \<and>
    of_digits (digits (\<bar>a\<bar> div 10 ^ 6)) = \<bar>a\<bar> div 10 ^ 6 \<and> of_digits (padded 6 (\<bar>a\<bar> mod 10 ^ 6)) = \<bar>a\<bar> mod 10 ^ 6"
  using fixed6_exact [OF assms] by (simp add: amount_text_def microsPerCurrencyUnit_def of_digits_digits of_digits_padded)

theorem amount_text_exact_witness: "of_digits (digits (\<bar>- 1500000\<bar> div 10 ^ 6)) = 1 \<and> amount_text (- 1500000) = ''-1.500000''"
proof -
  have "\<bar>- 1500000 :: int\<bar> < 2 ^ 52" by simp
  from amount_text_exact [OF this] have "amount_text (- 1500000) = ''-'' @ digits 1 @ ''.'' @ padded 6 500000"
    "of_digits (digits (\<bar>- 1500000\<bar> div 10 ^ 6)) = 1" by simp_all
  moreover have "digits 1 = ''1''" "padded 6 500000 = ''500000''" by code_simp+
  ultimately show ?thesis by simp
qed

text \<open>
  A small rate is stored as zero.  The rate is kept in whole micros of a millisecond, and the conversion
  drops the fraction: every rate of up to 0.059 a minute becomes 0, the 0.008 of GitHub's own
  two-core runners among them, and every cost computed with it is 0.
\<close>

theorem small_rates_vanish:
  assumes "0 \<le> float_val r" and "float_val r \<le> 59 / 1000"
  shows "rate_micros r = 0"
proof -
  let ?m = "fmul r microsPerCurrencyUnit" and ?d = "float_of_int 60000"
  have v: "float_val microsPerCurrencyUnit = 1000000" "float_val ?d = 60000"
    by (simp_all add: microsPerCurrencyUnit_def float_of_int_val)
  have m: "\<bar>float_val ?m - float_val r * 1000000\<bar> \<le> \<bar>float_val r * 1000000\<bar> / 2 ^ 53"
    using fmul_error [of r microsPerCurrencyUnit] by (simp only: v)
  have d: "\<bar>float_val (fdiv ?m ?d) - float_val ?m / 60000\<bar> \<le> \<bar>float_val ?m / 60000\<bar> / 2 ^ 53"
    using fdiv_error [OF float_of_int_pos, of 60000 ?m] by (simp only: v) simp
  have "0 \<le> float_val ?m \<and> float_val ?m \<le> float_val r * 1000000 + float_val r * 1000000 / 1000"
    by (rule close_bounds [OF m]) (use assms(1) in simp)
  with assms(2) have b: "0 \<le> float_val ?m" "float_val ?m \<le> 59059" by simp_all
  have "0 \<le> float_val (fdiv ?m ?d) \<and> float_val (fdiv ?m ?d) \<le> float_val ?m / 60000 + float_val ?m / 60000 / 1000"
    by (rule close_bounds [OF d]) (use b(1) in simp)
  with b(2) have "0 \<le> float_val (fdiv ?m ?d) \<and> float_val (fdiv ?m ?d) < 1" by simp
  then have "ftrunc (fdiv ?m ?d) = 0" by (simp add: ftrunc_fraction)
  then show ?thesis by (simp add: rate_micros_def int64_of_def)
qed

theorem small_rates_vanish_witness: "rate_micros (round_ratio 8 1000) = 0"
proof -
  have "\<bar>float_val (round_ratio 8 1000) - 8 / 1000\<bar> \<le> \<bar>8 / 1000\<bar> / 2 ^ 53" using round_ratio_error [of 1000 8] by simp
  then have "0 \<le> float_val (round_ratio 8 1000) \<and> float_val (round_ratio 8 1000) \<le> 8 / 1000 + 8 / 1000 / 1000"
    by (rule close_bounds) simp
  then have "0 \<le> float_val (round_ratio 8 1000) \<and> float_val (round_ratio 8 1000) \<le> 59 / 1000" by simp
  then show ?thesis using small_rates_vanish [of "round_ratio 8 1000"] by blast
qed

end
