(* ===== verification/CiCommand.thy ===== *)
theory CiCommand
  imports Commands CiAuth
begin

text \<open>
  \<open>idpctl ci auth\<close> (\<open>cmd/ci.go\<close>, \<open>cmd/mask.go\<close>): inside a CI job, find the worker, present the job's
  OIDC token, and print the credentials that come back, with the secrets masked in the log first.
\<close>

section \<open>Credentials\<close>

record cli_credentials =
  ccr_AccessKeyID :: string
  ccr_SecretAccessKey :: string
  ccr_SessionToken :: string
  ccr_Expiration :: time

text \<open>\<open>time.Time\<close> in JSON, and its format \<open>time.RFC3339\<close>: parameters.\<close>

record time_lib =
  tl_Parse :: "string \<Rightarrow> time res"
  tl_JSON :: "time \<Rightarrow> string"
  tl_RFC3339 :: "time \<Rightarrow> string"

fun json_time :: "(string \<Rightarrow> time res) \<Rightarrow> string \<Rightarrow> (string \<times> json) list \<Rightarrow> time \<Rightarrow> time res" where
  "json_time parse field [] v = Inr v"
| "json_time parse field ((k, x) # kvs) v =
     (if \<not> same_name k field then json_time parse field kvs v
      else case x of
        JStr s \<Rightarrow> (case parse s of Inl e \<Rightarrow> Inl e | Inr t \<Rightarrow> json_time parse field kvs t)
      | JNull \<Rightarrow> json_time parse field kvs v
      | _ \<Rightarrow> Inl badType)"

definition credentials_members :: "time_lib \<Rightarrow> (string \<times> json) list \<Rightarrow> cli_credentials res" where
  "credentials_members L kvs =
     bindR (json_string ''access_key_id'' kvs []) (\<lambda>a.
     bindR (json_string ''secret_access_key'' kvs []) (\<lambda>s.
     bindR (json_string ''session_token'' kvs []) (\<lambda>t.
     bindR (json_time (tl_Parse L) ''expiration'' kvs time_Zero) (\<lambda>x.
     Inr \<lparr>ccr_AccessKeyID = a, ccr_SecretAccessKey = s, ccr_SessionToken = t, ccr_Expiration = x\<rparr>))))"

section \<open>Masking\<close>

text \<open>A masker is given the writer; the provider of the job selects it.\<close>

record masker =
  mk_Provider :: string
  mk_maskSecrets :: "cli_credentials \<Rightarrow> (process, unit) prog"

definition mask_line :: "string \<Rightarrow> string" where
  "mask_line value = ''::add-mask::'' @ value"

fun mask_values :: "string list \<Rightarrow> (process, unit) prog" where
  "mask_values [] = Done ()"
| "mask_values (value # vs) =
     (if value = [] then mask_values vs else bindP (say_line (mask_line value)) (\<lambda>_. mask_values vs))"

definition githubActionsMasker :: masker where
  "githubActionsMasker =
     \<lparr>mk_Provider = ''github_actions'', mk_maskSecrets = (\<lambda>c. mask_values [ccr_SecretAccessKey c, ccr_SessionToken c])\<rparr>"

text \<open>The warning of \<open>noMasker\<close> goes to the log, not to standard output.\<close>

definition noMasker :: masker where
  "noMasker = \<lparr>mk_Provider = [], mk_maskSecrets = (\<lambda>c. Done ())\<rparr>"

definition newMaskerRegistry :: "masker list \<Rightarrow> (string \<times> masker) list" where
  "newMaskerRegistry ms = fold (\<lambda>m r. AList.update (mk_Provider m) m r) ms []"

definition masker_get :: "(string \<times> masker) list \<Rightarrow> string \<Rightarrow> masker" where
  "masker_get r prov = (case map_of r prov of Some m \<Rightarrow> m | None \<Rightarrow> noMasker)"

definition maskers :: "(string \<times> masker) list" where
  "maskers = newMaskerRegistry [githubActionsMasker]"

section \<open>Formats\<close>

definition cli_writeJSON :: "time_lib \<Rightarrow> cli_credentials \<Rightarrow> (process, unit res) prog" where
  "cli_writeJSON L c =
     mapE Wrapf (write_out (Indented (JObj
       [(''access_key_id'', JStr (ccr_AccessKeyID c)), (''secret_access_key'', JStr (ccr_SecretAccessKey c)),
        (''session_token'', JStr (ccr_SessionToken c)), (''expiration'', JStr (tl_JSON L (ccr_Expiration c)))])))"

text \<open>\<open>shellQuote\<close>: single quotes, with an inner one closed, escaped and reopened.\<close>

definition quote :: char where "quote = CHR 0x27"
definition backslash :: char where "backslash = CHR 0x5C"

fun quote_body :: "string \<Rightarrow> string" where
  "quote_body [] = []"
| "quote_body (c # cs) = (if c = quote then [quote, backslash, quote, quote] @ quote_body cs else c # quote_body cs)"

definition shellQuote :: "string \<Rightarrow> string" where
  "shellQuote s = [quote] @ quote_body s @ [quote]"

definition env_text :: "cli_credentials \<Rightarrow> string" where
  "env_text c =
     ''export AWS_ACCESS_KEY_ID='' @ shellQuote (ccr_AccessKeyID c) @ [newline] @
     ''export AWS_SECRET_ACCESS_KEY='' @ shellQuote (ccr_SecretAccessKey c) @ [newline] @
     ''export AWS_SESSION_TOKEN='' @ shellQuote (ccr_SessionToken c) @ [newline]"

definition writeEnv :: "cli_credentials \<Rightarrow> (process, unit res) prog" where
  "writeEnv c = mapE Wrapf (write_out (Text (env_text c)))"

definition writeCredentialProcess :: "time_lib \<Rightarrow> cli_credentials \<Rightarrow> (process, unit res) prog" where
  "writeCredentialProcess L c =
     mapE Wrapf (write_out (Compact (JObj
       [(''Version'', JNum 1), (''AccessKeyId'', JStr (ccr_AccessKeyID c)), (''SecretAccessKey'', JStr (ccr_SecretAccessKey c)),
        (''SessionToken'', JStr (ccr_SessionToken c)), (''Expiration'', JStr (tl_RFC3339 L (ccr_Expiration c)))])))"

definition formatWriters :: "time_lib \<Rightarrow> (string \<times> (cli_credentials \<Rightarrow> (process, unit res) prog)) list" where
  "formatWriters L =
     [(''json'', cli_writeJSON L), (''env'', writeEnv), (''credential-process'', writeCredentialProcess L)]"

section \<open>The command\<close>

definition detectCIContext :: "(process, (string \<times> string) res) prog" where
  "detectCIContext =
     bindP (getenv ''GITHUB_ACTIONS'') (\<lambda>on.
     if on \<noteq> ''true'' then failE (Errorf ''no supported CI platform detected'')
     else bindP (getenv ''GITHUB_REPOSITORY'') (\<lambda>repo.
       if repo = [] then failE (Errorf ''GITHUB_REPOSITORY is not set'')
       else returnE (''github_actions'', repo)))"

definition oidc_request :: "string \<Rightarrow> string \<Rightarrow> string \<Rightarrow> http_request" where
  "oidc_request reqURL reqToken audience =
     \<lparr>rq_Method = ''GET'', rq_URL = reqURL @ ''&audience='' @ QueryEscape audience,
      rq_Headers = [(''Authorization'', ''Bearer '' @ reqToken)], rq_Body = None\<rparr>"

definition requestOIDCToken :: "string \<Rightarrow> string \<Rightarrow> string \<Rightarrow> string io" where
  "requestOIDCToken reqURL reqToken audience =
     bindE (exchange (oidc_request reqURL reqToken audience)) (\<lambda>resp.
       if hr_StatusCode resp \<noteq> 200 then failE unexpected
       else Done (json_decode (hr_Body resp) (\<lambda>kvs. json_string ''value'' kvs [])))"

definition fetchGitHubOIDCToken :: "string \<Rightarrow> (process, string res) prog" where
  "fetchGitHubOIDCToken audience =
     bindP (getenv ''ACTIONS_ID_TOKEN_REQUEST_URL'') (\<lambda>reqURL.
     bindP (getenv ''ACTIONS_ID_TOKEN_REQUEST_TOKEN'') (\<lambda>reqToken.
     if reqURL = [] \<or> reqToken = [] then failE (Errorf ''not set'')
     else on_net (requestOIDCToken reqURL reqToken audience)))"

definition callback_body :: "string \<Rightarrow> string \<Rightarrow> json" where
  "callback_body prov token = JObj [(''provider'', JStr prov), (''token'', JStr token)]"

definition callback_request :: "string \<Rightarrow> string \<Rightarrow> string \<Rightarrow> http_request" where
  "callback_request callbackURL prov token =
     \<lparr>rq_Method = ''POST'', rq_URL = callbackURL, rq_Headers = [(''Content-Type'', ''application/json'')],
      rq_Body = Some (callback_body prov token)\<rparr>"

definition postCallback :: "time_lib \<Rightarrow> string \<Rightarrow> string \<Rightarrow> string \<Rightarrow> cli_credentials io" where
  "postCallback L callbackURL prov token =
     bindE (exchange (callback_request callbackURL prov token)) (\<lambda>resp.
       if hr_StatusCode resp \<noteq> 200 then failE unexpected
       else Done (json_decode (hr_Body resp) (credentials_members L)))"

definition fetch_credentials :: "time_lib \<Rightarrow> string \<Rightarrow> (process, (string \<times> cli_credentials) res) prog" where
  "fetch_credentials L server =
     bindE detectCIContext (\<lambda>(prov, repo).
     bindE (remote (cli_GetCICallbackURL (cli_New server) prov repo)) (\<lambda>callbackURL.
     bindE (mapE Wrapf (fetchGitHubOIDCToken callbackURL)) (\<lambda>token.
     bindE (remote (postCallback L callbackURL prov token)) (\<lambda>creds.
     returnE (prov, creds)))))"

definition runCIAuth :: "time_lib \<Rightarrow> string \<Rightarrow> string \<Rightarrow> (process, unit res) prog" where
  "runCIAuth L server fmt =
     (case map_of (formatWriters L) fmt of
        None \<Rightarrow> failE (Errorf ''unknown --format'')
      | Some writer \<Rightarrow>
          bindE (fetch_credentials L server) (\<lambda>(prov, creds).
          bindP (mk_maskSecrets (masker_get maskers prov) creds) (\<lambda>_. writer creds)))"

text \<open>The default of \<open>--server\<close>.\<close>

definition defaultServer :: string where "defaultServer = ''http://localhost:8080''"

definition defaultServerFromEnv :: "(process, string) prog" where
  "defaultServerFromEnv = bindP (getenv ''IDP_CONTROL_PLANE_URL'') (\<lambda>v. Done (if v \<noteq> [] then v else defaultServer))"

section \<open>The shell reads back what was quoted\<close>

text \<open>
  A word of a POSIX shell: single quotes take everything up to the next one literally, a backslash
  outside of them takes the next character, and blanks and newlines end the word; any other character
  with a meaning to the shell is refused here.  A shell has no NUL byte in a variable.
\<close>

definition plain :: "char \<Rightarrow> bool" where
  "plain c \<longleftrightarrow> unreserved c \<or> c = CHR ''/'' \<or> c = CHR ''+'' \<or> c = CHR ''=''"

fun sh_word :: "bool \<Rightarrow> string \<Rightarrow> (string \<times> string) option" where
  "sh_word True [] = None"
| "sh_word True (c # cs) =
     (if c = quote then sh_word False cs else map_option (\<lambda>(s, r). (c # s, r)) (sh_word True cs))"
| "sh_word False [] = Some ([], [])"
| "sh_word False (c # cs) =
     (if c = quote then sh_word True cs
      else if c = backslash then
        (case cs of [] \<Rightarrow> None | d # r \<Rightarrow> if d = newline then None else map_option (\<lambda>(s, r'). (d # s, r')) (sh_word False r))
      else if c = newline \<or> c = CHR '' '' \<or> c = tab then Some ([], c # cs)
      else if plain c then map_option (\<lambda>(s, r). (c # s, r)) (sh_word False cs)
      else None)"

text \<open>Lines \<open>export NAME=word\<close>, as \<open>eval\<close> reads them, with fuel for their number.\<close>

fun sh_exports :: "nat \<Rightarrow> string \<Rightarrow> (string \<times> string) list option" where
  "sh_exports n [] = Some []"
| "sh_exports 0 (c # cs) = None"
| "sh_exports (Suc n) (c # cs) =
     (if \<not> HasPrefix (c # cs) ''export '' then None
      else case Cut (TrimPrefix (c # cs) ''export '') (CHR ''='') of (name, r, ok) \<Rightarrow>
        if \<not> ok then None
        else (case sh_word False r of
            Some (v, r') \<Rightarrow> (case r' of [] \<Rightarrow> None | d # r'' \<Rightarrow>
                if d = newline then map_option ((#) (name, v)) (sh_exports n r'') else None)
          | None \<Rightarrow> None))"

lemma quote_chars: "backslash \<noteq> quote" "quote \<noteq> newline" "newline \<noteq> quote" "newline \<noteq> backslash"
  by (simp_all add: quote_def backslash_def newline_def)

lemma sh_word_body: "sh_word True (quote_body s @ quote # newline # r) = Some (s, newline # r)"
  by (induction s) (simp_all add: quote_chars)

lemma sh_word_quoted: "sh_word False (shellQuote s @ newline # r) = Some (s, newline # r)"
  using sh_word_body [of s r] by (simp add: shellQuote_def)

lemma sh_exports_line:
  assumes "CHR ''='' \<notin> set name"
  shows "sh_exports (Suc n) (''export '' @ name @ CHR ''='' # shellQuote s @ newline # r) = map_option ((#) (name, s)) (sh_exports n r)"
proof -
  have p: "HasPrefix (''export '' @ t) ''export ''" "TrimPrefix (''export '' @ t) ''export '' = t" for t
    unfolding HasPrefix_iff by (blast, rule TrimPrefix_append)
  obtain c cs where c: "''export '' @ name @ CHR ''='' # shellQuote s @ newline # r = c # cs" by simp
  show ?thesis
    unfolding c sh_exports.simps using p [of "name @ CHR ''='' # shellQuote s @ newline # r", unfolded c] Cut_append [OF assms, of "shellQuote s @ newline # r"]
    by (simp add: sh_word_quoted)
qed

text \<open>
  C28. The output of \<open>--format env\<close> is safe to evaluate.  Whatever the credentials contain, a shell that
  reads it exports exactly the three variables with exactly their values, and nothing else.
\<close>

theorem env_evaluates:
  "sh_exports 3 (env_text c) =
     Some [(''AWS_ACCESS_KEY_ID'', ccr_AccessKeyID c), (''AWS_SECRET_ACCESS_KEY'', ccr_SecretAccessKey c),
           (''AWS_SESSION_TOKEN'', ccr_SessionToken c)]"
proof -
  have "env_text c =
     ''export '' @ ''AWS_ACCESS_KEY_ID'' @ CHR ''='' # shellQuote (ccr_AccessKeyID c) @ newline #
     (''export '' @ ''AWS_SECRET_ACCESS_KEY'' @ CHR ''='' # shellQuote (ccr_SecretAccessKey c) @ newline #
     (''export '' @ ''AWS_SESSION_TOKEN'' @ CHR ''='' # shellQuote (ccr_SessionToken c) @ newline # []))"
    by (simp add: env_text_def)
  moreover have names: "CHR ''='' \<notin> set ''AWS_ACCESS_KEY_ID''" "CHR ''='' \<notin> set ''AWS_SECRET_ACCESS_KEY''" "CHR ''='' \<notin> set ''AWS_SESSION_TOKEN''"
    by simp_all
  moreover have "sh_exports 0 [] = Some []" by simp
  ultimately show ?thesis
    by (simp only: numeral_3_eq_3 sh_exports_line [OF names(1)] sh_exports_line [OF names(2)] sh_exports_line [OF names(3)] option.map)
qed

section \<open>Masks come first\<close>

text \<open>What a format writes.\<close>

definition rendered :: "time_lib \<Rightarrow> string \<Rightarrow> cli_credentials \<Rightarrow> chunk option" where
  "rendered L fmt c =
     (if fmt = ''json'' then Some (Indented (JObj
        [(''access_key_id'', JStr (ccr_AccessKeyID c)), (''secret_access_key'', JStr (ccr_SecretAccessKey c)),
         (''session_token'', JStr (ccr_SessionToken c)), (''expiration'', JStr (tl_JSON L (ccr_Expiration c)))]))
      else if fmt = ''env'' then Some (Text (env_text c))
      else if fmt = ''credential-process'' then Some (Compact (JObj
       [(''Version'', JNum 1), (''AccessKeyId'', JStr (ccr_AccessKeyID c)), (''SecretAccessKey'', JStr (ccr_SecretAccessKey c)),
        (''SessionToken'', JStr (ccr_SessionToken c)), (''Expiration'', JStr (tl_RFC3339 L (ccr_Expiration c)))]))
      else None)"

lemma formatWriters_rendered:
  "map_of (formatWriters L) fmt = Some writer \<Longrightarrow> \<exists>chunk. rendered L fmt c = Some chunk \<and> writer c = mapE Wrapf (write_out chunk)"
  by (auto simp: formatWriters_def rendered_def cli_writeJSON_def writeEnv_def writeCredentialProcess_def split: if_splits)

text \<open>Up to the credentials nothing is written.\<close>

definition silent :: "process \<Rightarrow> process \<Rightarrow> bool" where
  "silent p v \<longleftrightarrow> ps_out v = ps_out p \<and> ps_broken v = ps_broken p"

lemma silent_laws: "reflp silent" "transp silent"
  by (auto simp: reflp_def transp_def silent_def)

lemma silent_on_net: "steps silent (on_net q)"
  by (induction q) (simp_all add: silent_def)

lemma silent_getenv: "steps silent (getenv k)"
  unfolding getenv_def by (rule steps_act) (simp add: silent_def)

lemma silent_fetch: "steps silent (fetch_credentials L server)"
  unfolding fetch_credentials_def detectCIContext_def fetchGitHubOIDCToken_def remote_def
  by (auto intro!: steps_bindE steps_bindP steps_mapE silent_on_net silent_getenv)

lemma fetch_credentials_silent:
  "run (fetch_credentials L server) p = (x, v) \<Longrightarrow> ps_out v = ps_out p \<and> ps_broken v = ps_broken p"
  using steps_run [OF silent_laws silent_fetch [of L server], of p] by (simp add: silent_def)

lemma fetch_credentials_provider:
  "run (fetch_credentials L server) p = (Inr (prov, c), v) \<Longrightarrow> prov = ''github_actions''"
  by (auto simp: fetch_credentials_def run_bindE run_bindP detectCIContext_def split: prod.splits sum.splits if_splits)

lemma maskers_get: "masker_get maskers ''github_actions'' = githubActionsMasker"
  by (simp add: masker_get_def maskers_def newMaskerRegistry_def githubActionsMasker_def)

lemma run_mask_values:
  assumes "\<And>n. \<not> ps_broken p n"
  shows "\<exists>v. run (mask_values vs) p = ((), v) \<and> ps_broken v = ps_broken p \<and>
     ps_out v = ps_out p @ map (\<lambda>s. Text (mask_line s @ [newline])) (filter (\<lambda>s. s \<noteq> []) vs)"
  using assms
proof (induction vs arbitrary: p)
  case (Cons a vs)
  show ?case
  proof (cases "a = []")
    case False
    from Cons.IH [of "said (Text (mask_line a @ [newline])) p"] Cons.prems False show ?thesis
      by (simp add: run_bindP said_out)
  qed (use Cons in simp)
qed simp

lemma runCIAuth_writes:
  assumes "run (runCIAuth L server fmt) p = (x, v)" and "\<And>n. \<not> ps_broken p n"
  shows "(\<exists>e. x = Inl e \<and> ps_out v = ps_out p) \<or>
     (\<exists>c w chunk. x = Inr () \<and> run (fetch_credentials L server) p = (Inr (''github_actions'', c), w) \<and> rendered L fmt c = Some chunk \<and>
        ps_out v = ps_out p @ map (\<lambda>s. Text (mask_line s @ [newline]))
          (filter (\<lambda>s. s \<noteq> []) [ccr_SecretAccessKey c, ccr_SessionToken c]) @ [chunk])"
proof (cases "map_of (formatWriters L) fmt")
  case None
  with assms(1) show ?thesis by (auto simp: runCIAuth_def)
next
  case (Some writer)
  obtain y w where f: "run (fetch_credentials L server) p = (y, w)" by force
  note s = fetch_credentials_silent [OF f]
  show ?thesis
  proof (cases y)
    case (Inl e)
    with assms(1) Some f s show ?thesis by (auto simp: runCIAuth_def run_bindE)
  next
    case (Inr pc)
    obtain prov c where pc: "pc = (prov, c)" by force
    with fetch_credentials_provider f Inr have prov: "prov = ''github_actions''" by blast
    from formatWriters_rendered [OF Some] obtain chunk where ch: "rendered L fmt c = Some chunk" "writer c = mapE Wrapf (write_out chunk)" by blast
    from run_mask_values [of w "[ccr_SecretAccessKey c, ccr_SessionToken c]"] s assms(2) obtain w' where
      m: "run (mask_values [ccr_SecretAccessKey c, ccr_SessionToken c]) w = ((), w')" "ps_broken w' = ps_broken p"
        "ps_out w' = ps_out p @ map (\<lambda>s. Text (mask_line s @ [newline])) (filter (\<lambda>s. s \<noteq> []) [ccr_SecretAccessKey c, ccr_SessionToken c])"
      by auto
    have mk: "mk_maskSecrets (masker_get maskers ''github_actions'') c = mask_values [ccr_SecretAccessKey c, ccr_SessionToken c]"
      unfolding maskers_get githubActionsMasker_def by (simp only: masker.simps)
    from assms(1) have "run (bindP (mk_maskSecrets (masker_get maskers ''github_actions'') c) (\<lambda>_. mapE Wrapf (write_out chunk))) w = (x, v)"
      using Some f Inr pc prov ch(2) by (simp add: runCIAuth_def run_bindE)
    then have "x = Inr () \<and> v = said chunk w'"
      unfolding mk run_bindP m(1) using assms(2) m(2) by (auto simp: run_mapE run_write_out)
    with f Inr pc prov ch(1) m(2,3) assms(2) show ?thesis by (simp add: said_out)
  qed
qed



section \<open>The credentials are the worker's\<close>

text \<open>The worker's answer on the wire; \<open>http.Error\<close> writes a text, not JSON.\<close>

definition credentialResponse_json :: "time_lib \<Rightarrow> credentialResponse \<Rightarrow> json" where
  "credentialResponse_json L r =
     JObj [(''access_key_id'', JStr (crs_AccessKeyID r)), (''secret_access_key'', JStr (crs_SecretAccessKey r)),
           (''session_token'', JStr (crs_SessionToken r)), (''expiration'', JStr (tl_JSON L (crs_Expiration r)))]"

definition callback_written :: "time_lib \<Rightarrow> credentialResponse response \<Rightarrow> http_response res" where
  "callback_written L r =
     (case r of
        Reply n b \<Rightarrow> Inr \<lparr>hr_StatusCode = int n, hr_Status = [], hr_Body = Some (credentialResponse_json L b)\<rparr>
      | Error n msg \<Rightarrow> Inr \<lparr>hr_StatusCode = int n, hr_Status = [], hr_Body = None\<rparr>
      | Status n \<Rightarrow> Inr \<lparr>hr_StatusCode = int n, hr_Status = [], hr_Body = None\<rparr>
      | Aborted \<Rightarrow> Inl (Errorf ''EOF''))"

text \<open>
  \<open>callback_served L h url w Wk\<close>: requests to \<open>url\<close> are answered by the worker's callback, the \<open>n\<close>-th
  action of \<open>idpctl\<close> meeting the worker in the state \<open>Wk n\<close>.
\<close>

definition callback_served :: "time_lib \<Rightarrow> ciauth_Handler \<Rightarrow> string \<Rightarrow> net \<Rightarrow> (nat \<Rightarrow> net) \<Rightarrow> bool" where
  "callback_served L h url w Wk \<longleftrightarrow>
     (\<forall>n req. rq_URL req = url \<longrightarrow> nt_http w n req = callback_written L (fst (run (ServeHTTP h (rq_Body req)) (Wk n))))"

definition presented :: "credentialResponse \<Rightarrow> cli_credentials" where
  "presented r =
     \<lparr>ccr_AccessKeyID = crs_AccessKeyID r, ccr_SecretAccessKey = crs_SecretAccessKey r, ccr_SessionToken = crs_SessionToken r,
      ccr_Expiration = crs_Expiration r\<rparr>"

lemma credentialResponse_roundtrip:
  assumes "tl_Parse L (tl_JSON L (crs_Expiration r)) = Inr (crs_Expiration r)"
  shows "json_decode (Some (credentialResponse_json L r)) (credentials_members L) = Inr (presented r)"
  using assms
  by (simp add: credentialResponse_json_def credentials_members_def json_decode_def json_struct_def bindR_def same_name_def
      lower_def presented_def)

lemma ServeHTTP_codes:
  "fst (run (ServeHTTP h body) w) = Error n msg \<Longrightarrow> n \<noteq> 200"
  "fst (run (ServeHTTP h body) w) \<noteq> Status k"
  unfolding ServeHTTP_def
  by (auto simp: run_bindP split: sum.splits prod.splits if_splits)

lemma postCallback_served:
  assumes "callback_served L h url w Wk" and "nt_url_ok w url"
    and "\<And>n r v. run (ServeHTTP h (Some (callback_body prov token))) (Wk (nt_tick w)) = (Reply n r, v) \<Longrightarrow>
       tl_Parse L (tl_JSON L (crs_Expiration r)) = Inr (crs_Expiration r)"
  shows "fst (run (postCallback L url prov token) w) =
     (case fst (run (ServeHTTP h (Some (callback_body prov token))) (Wk (nt_tick w))) of
        Reply n r \<Rightarrow> Inr (presented r)
      | Aborted \<Rightarrow> Inl (Wrapf (Errorf ''EOF''))
      | _ \<Rightarrow> Inl unexpected)"
proof -
  let ?req = "callback_request url prov token"
  obtain x v where r: "run (ServeHTTP h (Some (callback_body prov token))) (Wk (nt_tick w)) = (x, v)" by force
  have "nt_http w (nt_tick w) ?req = callback_written L x"
    using assms(1) by (simp add: callback_served_def callback_request_def r)
  moreover have "rq_URL ?req = url" by (simp add: callback_request_def)
  ultimately have ex: "fst (run (exchange ?req) w) = (case callback_written L x of Inl e \<Rightarrow> Inl (Wrapf e) | Inr resp \<Rightarrow> Inr resp)"
    using assms(2) by (simp add: run_exchange)
  note codes = ServeHTTP_codes [of h "Some (callback_body prov token)" "Wk (nt_tick w)", unfolded r fst_conv]
  show ?thesis
  proof (cases x)
    case (Reply n b)
    from ServeHTTP_Reply [OF r [unfolded Reply]] have "n = 200" by blast
    with ex Reply credentialResponse_roundtrip [OF assms(3) [OF r [unfolded Reply]]] show ?thesis
      by (auto simp: postCallback_def run_bindE callback_written_def r split: prod.splits)
  qed (use ex codes in \<open>auto simp: postCallback_def run_bindE callback_written_def r split: prod.splits\<close>)
qed

lemma callback_body_decodes: "callbackRequest (Some (callback_body prov token)) = Inr (prov, token)"
  by (simp add: callbackRequest_def callback_body_def json_decode_def json_struct_def bindR_def same_name_def lower_def)

text \<open>What a successful fetch did.\<close>

lemma fetch_credentials_steps:
  assumes "run (fetch_credentials L server) p = (Inr (prov, c), v)"
  shows "\<exists>url w1 token w2 w3. ps_env p ''GITHUB_ACTIONS'' = ''true'' \<and> ps_env p ''GITHUB_REPOSITORY'' \<noteq> [] \<and>
     run (cli_GetCICallbackURL (cli_New server) ''github_actions'' (ps_env p ''GITHUB_REPOSITORY'')) (ps_net p) = (Inr url, w1) \<and>
     run (requestOIDCToken (ps_env p ''ACTIONS_ID_TOKEN_REQUEST_URL'') (ps_env p ''ACTIONS_ID_TOKEN_REQUEST_TOKEN'') url) w1 = (Inr token, w2) \<and>
     run (postCallback L url ''github_actions'' token) w2 = (Inr c, w3) \<and> v = p\<lparr>ps_net := w3\<rparr>"
  using assms unfolding fetch_credentials_def detectCIContext_def fetchGitHubOIDCToken_def
  by (auto simp: run_bindE run_bindP run_mapE run_remote run_on_net split: prod.splits sum.splits if_splits)

lemma quiet_requests:
  "steps quiet (requestOIDCToken u t a)" "steps quiet (cli_GetCICallbackURL k prov repo)"
  unfolding requestOIDCToken_def cli_GetCICallbackURL_def by (auto intro!: steps_bindE quiet_exchange quiet_cli_do)

lemma exchange_ok: "fst (run (exchange req) w) = Inr resp \<Longrightarrow> nt_url_ok w (rq_URL req)"
  by (simp add: run_exchange split: if_splits)

lemma postCallback_ok: "run (postCallback L url prov token) w = (Inr c, v) \<Longrightarrow> nt_url_ok w url"
  using exchange_ok [of "callback_request url prov token" w]
  by (auto simp: postCallback_def run_bindE callback_request_def split: prod.splits sum.splits)

text \<open>The credentials fetched are those of a reply of the worker that serves the discovered address.\<close>

lemma fetched_from_worker:
  assumes fetch: "run (fetch_credentials L server) p = (Inr (prov, c), v)"
    and worker: "\<And>url w1. run (cli_GetCICallbackURL (cli_New server) ''github_actions'' (ps_env p ''GITHUB_REPOSITORY'')) (ps_net p) = (Inr url, w1) \<Longrightarrow>
       callback_served L h url (ps_net p) Wk"
    and time: "\<And>n body m r u. run (ServeHTTP h body) (Wk n) = (Reply m r, u) \<Longrightarrow>
       tl_Parse L (tl_JSON L (crs_Expiration r)) = Inr (crs_Expiration r)"
  shows "\<exists>n token cred u. run (ServeHTTP h (Some (callback_body ''github_actions'' token))) (Wk n) = (Reply 200 cred, u) \<and> c = presented cred"
proof -
  from fetch_credentials_steps [OF fetch] obtain url w1 token w2 w3 where
    disc: "run (cli_GetCICallbackURL (cli_New server) ''github_actions'' (ps_env p ''GITHUB_REPOSITORY'')) (ps_net p) = (Inr url, w1)"
    and oidc: "run (requestOIDCToken (ps_env p ''ACTIONS_ID_TOKEN_REQUEST_URL'') (ps_env p ''ACTIONS_ID_TOKEN_REQUEST_TOKEN'') url) w1 = (Inr token, w2)"
    and post: "run (postCallback L url ''github_actions'' token) w2 = (Inr c, w3)" by blast
  have "nt_http w2 = nt_http (ps_net p)"
    using quiet_run [OF quiet_requests(2) disc] quiet_run [OF quiet_requests(1) oidc] by (simp add: same_outside_def)
  with worker [OF disc] have cs: "callback_served L h url w2 Wk" by (simp add: callback_served_def)
  let ?b = "Some (callback_body ''github_actions'' token)"
  have "fst (run (postCallback L url ''github_actions'' token) w2) = (case fst (run (ServeHTTP h ?b) (Wk (nt_tick w2))) of
      Reply n r \<Rightarrow> Inr (presented r) | Aborted \<Rightarrow> Inl (Wrapf (Errorf ''EOF'')) | _ \<Rightarrow> Inl unexpected)"
    by (rule postCallback_served [OF cs postCallback_ok [OF post] time])
  with post have "Inr c = (case fst (run (ServeHTTP h ?b) (Wk (nt_tick w2))) of Reply n r \<Rightarrow> Inr (presented r)
      | Aborted \<Rightarrow> Inl (Wrapf (Errorf ''EOF'')) | _ \<Rightarrow> Inl unexpected)" by simp
  then obtain m cred where r: "fst (run (ServeHTTP h ?b) (Wk (nt_tick w2))) = Reply m cred" "c = presented cred"
    by (auto split: response.splits)
  then obtain u where run: "run (ServeHTTP h ?b) (Wk (nt_tick w2)) = (Reply m cred, u)" by (metis prod.collapse)
  from ServeHTTP_Reply [OF run] have "m = 200" by blast
  with run r(2) show ?thesis by blast
qed

section \<open>In a concrete job\<close>

definition sample_time :: time_lib where
  "sample_time = \<lparr>tl_Parse = (\<lambda>s. Inr (atoi s)), tl_JSON = itoa, tl_RFC3339 = itoa\<rparr>"

definition ci_net :: net where
  "ci_net = demo_net
     \<lparr>nt_http := (\<lambda>n req.
        if rq_URL req = ''cb'' then
          reply_with 200 [(''access_key_id'', JStr ''k''), (''secret_access_key'', JStr ''s''), (''session_token'', JStr ''t''), (''expiration'', JStr ''9'')]
        else if HasPrefix (rq_URL req) ''cp'' then reply_with 200 [(''url'', JStr ''cb'')]
        else reply_with 200 [(''value'', JStr ''good'')])\<rparr>"

definition ci_creds :: cli_credentials where
  "ci_creds = \<lparr>ccr_AccessKeyID = ''k'', ccr_SecretAccessKey = ''s'', ccr_SessionToken = ''t'', ccr_Expiration = 9\<rparr>"

lemma ci_fetched: "fst (run (fetch_credentials sample_time ''cp'') (sample_process ci_net)) = Inr (''github_actions'', ci_creds)"
  by code_simp

lemma ci_printed: "fst (run (runCIAuth sample_time ''cp'' ''credential-process'') (sample_process ci_net)) = Inr ()"
  by code_simp

lemma sample_writes: "\<not> ps_broken (sample_process w) n"
  by (simp add: sample_process_def)



end
