(* ===== verification/CommandLine.thy ===== *)
theory CommandLine
  imports CiCommand
begin

text \<open>
  The command tree of \<open>cli/internal/cmd/root.go\<close> with what its commands promise.  Parsing the flags is
  cobra's; a \<open>command\<close> is the subcommand with the values of its flags.
\<close>

section \<open>The commands\<close>

datatype command =
    CmdSetup string "bool option"
  | CmdAgentCreate string string string string string int64
  | CmdEnvironmentCreate environmentCreateParams
  | CmdEnvironmentVerify string int64
  | CmdWorkerEnrol string string
  | CmdWorkerGrantEnvironment string string
  | CmdWorkerList
  | CmdPipelineRegister string string string "string list" "bool option"
  | CmdPipelineGet string
  | CmdRunRequest string string string string
  | CmdRunGet string
  | CmdRunApprove string
  | CmdRunDeny string
  | CmdCIAuth string string
  | CmdTelemetryEnable
  | CmdTelemetryDisable
  | CmdCostRun string
  | CmdCostByActor GetCostsByActorParams
  | CmdCostSetRate float64 string string string

definition returned :: "(process, unit res) prog \<Rightarrow> (process, unit res option) prog" where
  "returned q = bindP q (\<lambda>r. Done (Some r))"

text \<open>\<open>None\<close> is a command still running: only the check of an environment loops.\<close>

fun execute :: "nat \<Rightarrow> (string \<Rightarrow> string) \<Rightarrow> time_lib \<Rightarrow> command \<Rightarrow> (process, unit res option) prog" where
  "execute fuel q L (CmdSetup server telemetry) = returned (runSetup server telemetry)"
| "execute fuel q L (CmdAgentCreate name team tier envs key ttl) = returned (runAgentCreate name team tier envs key ttl)"
| "execute fuel q L (CmdEnvironmentCreate p) = returned (runEnvironmentCreate p)"
| "execute fuel q L (CmdEnvironmentVerify name timeout) = runEnvironmentVerify fuel q name timeout"
| "execute fuel q L (CmdWorkerEnrol name envs) = returned (runWorkerEnrol name envs)"
| "execute fuel q L (CmdWorkerGrantEnvironment i envs) = returned (runWorkerGrantEnvironment i envs)"
| "execute fuel q L CmdWorkerList = returned runWorkerList"
| "execute fuel q L (CmdPipelineRegister e prov wfl settings mutating) = returned (pipeline_register e prov wfl settings mutating)"
| "execute fuel q L (CmdPipelineGet i) = returned (runPipelineGet i)"
| "execute fuel q L (CmdRunRequest e p key diff) = returned (runRunRequest e p key diff)"
| "execute fuel q L (CmdRunGet i) = returned (runRunGet i)"
| "execute fuel q L (CmdRunApprove i) = returned (runRunDecide i True)"
| "execute fuel q L (CmdRunDeny i) = returned (runRunDecide i False)"
| "execute fuel q L (CmdCIAuth server fmt) = returned (runCIAuth L server fmt)"
| "execute fuel q L CmdTelemetryEnable = returned (runSetTelemetry True)"
| "execute fuel q L CmdTelemetryDisable = returned (runSetTelemetry False)"
| "execute fuel q L (CmdCostRun i) = returned (runCostRun i)"
| "execute fuel q L (CmdCostByActor params) = returned (runCostByActor params)"
| "execute fuel q L (CmdCostSetRate rate currency e ci) = returned (runCostSetRate rate currency e ci)"

lemma run_returned: "run (returned q) p = (Some (fst (run q p)), snd (run q p))"
  by (simp add: returned_def run_bindP split: prod.splits)

section \<open>One request with the session's token\<close>

text \<open>
  The contract of the one-call commands: method, path and body of the request each makes.  \<open>None\<close> is a
  command that is not one call of a logged-in user, or whose flags are refused.
\<close>

type_synonym endpoint = "string \<times> string \<times> json option"

fun endpoint_of :: "command \<Rightarrow> endpoint option" where
  "endpoint_of (CmdAgentCreate name team tier envs key ttl) =
     Some (''POST'', ''/v1/agents'', Some (CreateAgentRequest_json
       \<lparr>cag_Name = name, cag_Team = team, cag_Tier = tier, cag_Environments = agent_environments envs,
        cag_TTLSeconds = int64_of (duration_Seconds ttl), cag_IdempotencyKey = key\<rparr>))"
| "endpoint_of (CmdEnvironmentCreate p) =
     Some (''POST'', ''/v1/environments'', Some (CreateEnvironmentRequest_json
       \<lparr>cev_Name = ecp_name p, cev_Provider = ecp_provider p, cev_Region = ecp_region p, cev_AccountRef = ecp_accountID p,
        cev_ExternalID = ecp_externalID p, cev_TrustAnchor = ecp_trustAnchor p,
        cev_RoleARNs = [(''read_only'', ecp_roleARNTier1 p), (''human_in_the_loop'', ecp_roleARNTier2 p),
                        (''autonomous'', ecp_roleARNTier3 p)]\<rparr>))"
| "endpoint_of (CmdWorkerEnrol name envs) =
     Some (''POST'', ''/v1/workers'',
       Some (JObj [(''name'', JStr name), (''environments'', strings_array (Split envs (CHR '','')))]))"
| "endpoint_of (CmdWorkerGrantEnvironment i envs) =
     Some (''POST'', ''/v1/workers/'' @ i @ ''/environments'',
       Some (JObj [(''environments'', strings_array (Split envs (CHR '','')))]))"
| "endpoint_of CmdWorkerList = Some (''GET'', ''/v1/workers'', None)"
| "endpoint_of (CmdPipelineRegister e prov wfl settings mutating) =
     (case parseSettings settings of
        Inl err \<Rightarrow> None
      | Inr m \<Rightarrow> Some (''POST'', ''/v1/pipelines'', Some (CreatePipelineRequest_json
          \<lparr>cpq_EnvironmentID = e, cpq_Provider = prov, cpq_WorkflowRef = wfl, cpq_Settings = m, cpq_Mutating = mutating\<rparr>)))"
| "endpoint_of (CmdPipelineGet i) = Some (''GET'', ''/v1/pipelines/'' @ i, None)"
| "endpoint_of (CmdRunRequest e p key diff) =
     Some (''POST'', ''/v1/runs'', Some (CreateRunRequest_json
       \<lparr>cnr_EnvironmentID = e, cnr_PipelineID = p, cnr_IdempotencyKey = key, cnr_DiffRef = diff\<rparr>))"
| "endpoint_of (CmdRunGet i) = Some (''GET'', ''/v1/runs/'' @ i, None)"
| "endpoint_of (CmdRunApprove i) = Some (''POST'', ''/v1/runs/'' @ i @ ''/decision'', Some (decision_json True))"
| "endpoint_of (CmdRunDeny i) = Some (''POST'', ''/v1/runs/'' @ i @ ''/decision'', Some (decision_json False))"
| "endpoint_of CmdTelemetryEnable = Some (''PATCH'', ''/v1/tenants/telemetry'', Some (JObj [(''enabled'', JBool True)]))"
| "endpoint_of CmdTelemetryDisable = Some (''PATCH'', ''/v1/tenants/telemetry'', Some (JObj [(''enabled'', JBool False)]))"
| "endpoint_of (CmdCostRun i) = Some (''GET'', ''/v1/runs/'' @ i @ ''/cost'', None)"
| "endpoint_of (CmdCostByActor params) = Some (''GET'', costs_path params, None)"
| "endpoint_of (CmdCostSetRate rate currency e ci) =
     Some (''PUT'', ''/v1/cost-rates'', Some (JObj (omitempty ''environment_id'' e @ omitempty ''ci_provider'' ci @
       [(''rate_micros_per_ms'', JNum (sint (rate_micros rate)))] @ omitempty ''currency'' currency)))"
| "endpoint_of _ = None"

text \<open>\<open>calls ep q\<close>: the program \<open>q\<close> is \<open>ep\<close>, with the token of the session, and then only prints.\<close>

definition calls :: "endpoint \<Rightarrow> (process, unit res option) prog \<Rightarrow> bool" where
  "calls ep q \<longleftrightarrow>
     (case ep of (verb, path, body) \<Rightarrow>
        \<forall>p x v. run q p = (x, v) \<longrightarrow>
          (case session p of
             Inl e \<Rightarrow> x = Some (Inl e) \<and> v = p
           | Inr (cfg, c) \<Rightarrow>
               ps_net v = sent (cli_request c verb path (ccf_Token cfg) body) (ps_net p) \<and> ps_file v = ps_file p))"

lemma calls_session:
  assumes "\<And>a. steps talks (k a)"
  shows "calls (verb, path, body) (returned (with_session (\<lambda>token c. bindE (remote (cli_do c verb path token body out)) k)))"
proof -
  have "ps_net (snd (run (bindE (remote (cli_do c verb path token body out)) k) p)) = sent (cli_request c verb path token body) (ps_net p) \<and>
      ps_file (snd (run (bindE (remote (cli_do c verb path token body out)) k) p)) = ps_file p" for c token p
  proof -
    obtain x v where r: "run (bindE (remote (cli_do c verb path token body out)) k) p = (x, v)" by force
    from call_and_print [OF r assms] show ?thesis by (simp add: r)
  qed
  then show ?thesis unfolding calls_def by (auto simp: run_returned run_with_session split: sum.splits)
qed

lemmas one_call_defs = runAgentCreate_def cli_CreateAgent_def runEnvironmentCreate_def cli_CreateEnvironment_def
  runWorkerEnrol_def cli_CreateWorker_def runWorkerGrantEnvironment_def cli_GrantWorkerEnvironments_def runWorkerList_def
  cli_ListWorkers_def runPipelineRegister_def cli_CreatePipeline_def runPipelineGet_def cli_GetPipeline_def
  runRunRequest_def cli_RequestRun_def runRunGet_def cli_GetRun_def runRunDecide_def cli_DecideRun_def
  runSetTelemetry_def cli_SetTelemetry_def runCostRun_def cli_GetRunCost_def runCostByActor_def cli_GetCostsByActor_def
  runCostSetRate_def cli_SetCostRate_def

lemma execute_calls: "endpoint_of cmd = Some ep \<Longrightarrow> calls ep (execute fuel q L cmd)"
  by (cases cmd)
     (auto simp: one_call_defs pipeline_register_def split: sum.splits intro!: calls_session talks_rules
       steps_bindP [OF talks_rules(1)] steps_bindP [OF talks_rules(2)] steps_bindP [OF talks_rules(3)])

text \<open>
  A command of a logged-in user makes exactly one request, to its stored server, with its stored token
  and the body of its flags, and leaves the stored session alone.  Without a session it makes none,
  prints nothing and fails.
\<close>

theorem one_request_per_command:
  assumes "endpoint_of cmd = Some (verb, path, body)" and "run (execute fuel q L cmd) p = (x, v)"
  shows "case session p of
       Inl e \<Rightarrow> x = Some (Inl e) \<and> v = p
     | Inr (cfg, c) \<Rightarrow> ps_file v = ps_file p \<and> ps_net v = sent
         \<lparr>rq_Method = verb, rq_URL = ccf_Server cfg @ path,
          rq_Headers = [(''Content-Type'', ''application/json''), (''Authorization'', ''Bearer '' @ ccf_Token cfg)],
          rq_Body = body\<rparr> (ps_net p)"
proof -
  from execute_calls [OF assms(1), of fuel q L]
  have "\<forall>p x v. run (execute fuel q L cmd) p = (x, v) \<longrightarrow> (case session p of
       Inl e \<Rightarrow> x = Some (Inl e) \<and> v = p
     | Inr (cfg, c) \<Rightarrow> ps_net v = sent (cli_request c verb path (ccf_Token cfg) body) (ps_net p) \<and> ps_file v = ps_file p)"
    by (simp only: calls_def prod.case)
  from this [rule_format, OF assms(2)] show ?thesis
    by (auto simp: cli_request_def cli_New_def dest!: session_Inr split: sum.splits)
qed

section \<open>Setup\<close>

text \<open>\<open>asks\<close> relates the process before and after code that talks to the user.\<close>

definition asks :: "process \<Rightarrow> process \<Rightarrow> bool" where
  "asks p v \<longleftrightarrow> ps_net v = ps_net p \<and> ps_file v = ps_file p \<and> ps_dir v = ps_dir p \<and> ps_save v = ps_save p \<and>
     ps_password v = ps_password p"

lemma asks_laws: "reflp asks" "transp asks"
  by (auto simp: reflp_def transp_def asks_def)

lemma asks_say: "steps asks (say s)" "steps asks (say_line s)"
  unfolding say_line_def say_def write_out_def by (auto intro!: steps_bindP steps_act simp: asks_def)

lemma asks_prompt: "steps asks (prompt label)"
  unfolding prompt_def bindE_def mapE_def ReadString_def
  by (auto intro!: steps_bindP asks_say steps_act simp: asks_def split: sum.split)

lemma asks_telemetry: "steps asks (ask_telemetry flag)"
  unfolding ask_telemetry_def by (auto split: option.split intro!: steps_bindE asks_prompt)

lemma asks_run: "steps asks q \<Longrightarrow> run q p = (x, v) \<Longrightarrow> asks p v"
  using steps_run [OF asks_laws, of q p] by simp

lemma prompt_asked: "run (prompt label) p = (x, v) \<Longrightarrow> ps_asked v = ps_asked p"
  by (auto simp: prompt_def run_bindP run_bindE run_mapE ReadString_def split: if_splits sum.splits)

lemma run_promptPassword:
  "run (promptPassword label) p =
     (case ps_password p (ps_asked p) of Inl e \<Rightarrow> Inl (Wrapf e) | Inr b \<Rightarrow> Inr b,
      said (Text [newline]) ((said (Text label) p)\<lparr>ps_asked := Suc (ps_asked p)\<rparr>))"
  by (simp add: promptPassword_def run_bindP ReadPassword_def split: sum.split)

lemma promptPassword_asks:
  "run (promptPassword label) p = (Inr b, v) \<Longrightarrow> asks p v \<and> ps_password p (ps_asked p) = Inr b \<and> ps_asked v = Suc (ps_asked p)"
  by (auto simp: run_promptPassword asks_def split: sum.splits)

lemma remote_Inr:
  "run (remote q) p = (Inr a, v) \<Longrightarrow> \<exists>w. run q (ps_net p) = (Inr a, w) \<and> v = p\<lparr>ps_net := w\<rparr>"
  by (auto simp: run_remote split: prod.splits sum.splits)

lemma config_Save_Inr:
  "run (mapE Wrapf (config_Save cfg)) p = (Inr (), v) \<Longrightarrow> v = p\<lparr>ps_file := Content (Some (Config_json cfg))\<rparr> \<and> config_path p = Inr ()"
  by (auto simp: config_Save_def run_mapE config_path_def split: sum.splits option.splits)

lemma session_stored:
  "config_path p = Inr () \<Longrightarrow> ps_file p = Content (Some (Config_json cfg)) \<Longrightarrow>
     session p = (if ccf_Token cfg = [] then Inl (Errorf ''not logged in'') else Inr (cfg, cli_New (ccf_Server cfg)))"
  by (simp add: session_def loggedInClient_def config_Load_def run_bindE run_mapE Config_roundtrip bindR_def)

lemma runSetup_steps:
  assumes "run (runSetup server flag) p = (Inr (), v)"
  shows "\<exists>p1 tenant p2 user p3 pw p4 p5 telemetry p6 resp p7 p8.
     run (remote (cli_NeedsSetup (cli_New server))) p = (Inr True, p1) \<and>
     run (prompt ''Tenant name: '') p1 = (Inr tenant, p2) \<and> run (prompt ''Admin username: '') p2 = (Inr user, p3) \<and>
     run (promptPassword ''Admin password: '') p3 = (Inr pw, p4) \<and> run (promptPassword ''Confirm password: '') p4 = (Inr pw, p5) \<and>
     run (ask_telemetry flag) p5 = (Inr telemetry, p6) \<and>
     run (remote (cli_Setup (cli_New server) \<lparr>csur_TenantName = tenant, csur_AdminUsername = user, csur_AdminPassword = pw,
        csur_TelemetryEnabled = telemetry\<rparr>)) p6 = (Inr resp, p7) \<and>
     run (mapE Wrapf (config_Save \<lparr>ccf_Server = server, ccf_Token = sus_Token resp\<rparr>)) p7 = (Inr (), p8) \<and>
     run (Println [''Setup complete. You are logged in as'', user]) p8 = ((), v)"
  using assms unfolding runSetup_def
  by (auto simp: run_bindE run_bindP split: prod.splits sum.splits if_splits)

text \<open>
  Setup logs the operator in.  When \<open>idpctl setup\<close> succeeds, the same password was typed twice, the
  control plane was asked whether it needs setup and then, once, to set up with that password; the
  stored session is exactly the server and the token of its answer.
\<close>

theorem setup_stores_session:
  assumes "run (runSetup server flag) p = (Inr (), v)"
  shows "\<exists>tenant user pw telemetry resp w.
     ps_password p (ps_asked p) = Inr pw \<and> ps_password p (Suc (ps_asked p)) = Inr pw \<and>
     run (cli_NeedsSetup (cli_New server)) (ps_net p) = (Inr True, w) \<and>
     run (cli_Setup (cli_New server) \<lparr>csur_TenantName = tenant, csur_AdminUsername = user, csur_AdminPassword = pw,
        csur_TelemetryEnabled = telemetry\<rparr>) w = (Inr resp, ps_net v) \<and>
     ps_file v = Content (Some (JObj [(''server'', JStr server), (''token'', JStr (sus_Token resp))])) \<and>
     (sus_Token resp \<noteq> [] \<longrightarrow> session v = Inr (\<lparr>ccf_Server = server, ccf_Token = sus_Token resp\<rparr>, cli_New server))"
proof -
  from runSetup_steps [OF assms] obtain p1 tenant p2 user p3 pw p4 p5 telemetry p6 resp p7 p8 where
    ns: "run (remote (cli_NeedsSetup (cli_New server))) p = (Inr True, p1)"
    and t: "run (prompt ''Tenant name: '') p1 = (Inr tenant, p2)" and u: "run (prompt ''Admin username: '') p2 = (Inr user, p3)"
    and pw: "run (promptPassword ''Admin password: '') p3 = (Inr pw, p4)" "run (promptPassword ''Confirm password: '') p4 = (Inr pw, p5)"
    and tel: "run (ask_telemetry flag) p5 = (Inr telemetry, p6)"
    and st: "run (remote (cli_Setup (cli_New server) \<lparr>csur_TenantName = tenant, csur_AdminUsername = user, csur_AdminPassword = pw,
        csur_TelemetryEnabled = telemetry\<rparr>)) p6 = (Inr resp, p7)"
    and sv: "run (mapE Wrapf (config_Save \<lparr>ccf_Server = server, ccf_Token = sus_Token resp\<rparr>)) p7 = (Inr (), p8)"
    and out: "run (Println [''Setup complete. You are logged in as'', user]) p8 = ((), v)"
    by blast
  from remote_Inr [OF ns] obtain w where w: "run (cli_NeedsSetup (cli_New server)) (ps_net p) = (Inr True, w)" "p1 = p\<lparr>ps_net := w\<rparr>" by blast
  note a = asks_run [OF asks_prompt t] asks_run [OF asks_prompt u] promptPassword_asks [OF pw(1)] promptPassword_asks [OF pw(2)]
    asks_run [OF asks_telemetry tel]
  note k = prompt_asked [OF t] prompt_asked [OF u]
  from remote_Inr [OF st] a obtain w' where w': "run (cli_Setup (cli_New server) \<lparr>csur_TenantName = tenant, csur_AdminUsername = user,
      csur_AdminPassword = pw, csur_TelemetryEnabled = telemetry\<rparr>) w = (Inr resp, w')" "p7 = p6\<lparr>ps_net := w'\<rparr>"
    by (auto simp: asks_def w(2))
  from talks_run [OF talks_Println out] config_Save_Inr [OF sv] w'(2)
  have v: "ps_net v = w'" "ps_file v = Content (Some (Config_json \<lparr>ccf_Server = server, ccf_Token = sus_Token resp\<rparr>))"
    "config_path v = Inr ()"
    by (auto simp: talks_def config_path_def)
  from a k w(2) have "ps_password p (ps_asked p) = Inr pw" "ps_password p (Suc (ps_asked p)) = Inr pw" by (auto simp: asks_def)
  moreover have "ps_file v = Content (Some (JObj [(''server'', JStr server), (''token'', JStr (sus_Token resp))]))"
    using v(2) by (simp add: Config_json_def)
  moreover have "sus_Token resp \<noteq> [] \<longrightarrow> session v = Inr (\<lparr>ccf_Server = server, ccf_Token = sus_Token resp\<rparr>, cli_New server)"
    using session_stored [OF v(3,2)] by simp
  ultimately show ?thesis using w(1) w'(1) v(1) by blast
qed

section \<open>The connectivity check ends\<close>

lemma run_verify:
  "run (runEnvironmentVerify fuel q name timeout) p =
     (case session p of
        Inl e \<Rightarrow> (Some (Inl e), p)
      | Inr (cfg, c) \<Rightarrow>
          (case run (cli_TriggerVerification c (ccf_Token cfg) name) (ps_net p) of
             (Inl e, w) \<Rightarrow> (Some (Inl (Wrapf e)), p\<lparr>ps_net := w\<rparr>)
           | (Inr t, w) \<Rightarrow> run (verify_loop fuel q c (ccf_Token cfg) name (tvr_VerificationID t) (nt_clock w (nt_tick w) + sint timeout))
               (p\<lparr>ps_net := w\<lparr>nt_tick := Suc (nt_tick w)\<rparr>\<rparr>)))"
  by (auto simp: runEnvironmentVerify_def run_bindP run_loggedInClient run_remote run_on_net split: sum.splits prod.splits)

lemma verify_ends:
  assumes "\<And>n. N \<le> n \<Longrightarrow> nt_clock (ps_net p) (Suc (nt_tick (ps_net p))) + sint timeout < nt_clock (ps_net p) n"
  shows "fst (run (runEnvironmentVerify (Suc N) q name timeout) p) \<noteq> None"
proof (cases "session p")
  case (Inr s)
  obtain cfg c where s: "s = (cfg, c)" by force
  obtain y w where y: "run (cli_TriggerVerification c (ccf_Token cfg) name) (ps_net p) = (y, w)" by force
  show ?thesis
  proof (cases y)
    case (Inr t)
    with y have w: "nt_tick w = Suc (nt_tick (ps_net p))" "nt_clock w = nt_clock (ps_net p)"
      unfolding cli_TriggerVerification_def by (auto dest!: cli_do_Inr)
    have "fst (run (verify_loop (Suc N) q c (ccf_Token cfg) name (tvr_VerificationID t) (nt_clock w (nt_tick w) + sint timeout))
        (p\<lparr>ps_net := w\<lparr>nt_tick := Suc (nt_tick w)\<rparr>\<rparr>)) \<noteq> None"
      by (rule verify_loop_ends [where N = N]) (use assms w in auto)
    then show ?thesis by (simp add: run_verify Inr y s \<open>session p = Inr s\<close>)
  qed (simp add: run_verify y s Inr)
qed (simp add: run_verify)

lemma verify_success:
  assumes "run (runEnvironmentVerify fuel q name timeout) p = (Some (Inr ()), v)"
  shows "\<exists>cfg c triggered w n resp result. session p = Inr (cfg, c) \<and>
     run (cli_TriggerVerification c (ccf_Token cfg) name) (ps_net p) = (Inr triggered, w) \<and>
     nt_http (ps_net p) n (GetVerification_request c (ccf_Token cfg) name (tvr_VerificationID triggered)) = Inr resp \<and>
     json_decode (hr_Body resp) GetVerificationResponse_members = Inr result \<and> cgvr_Status result = ''succeeded''"
proof -
  from assms obtain cfg c t w where s: "session p = Inr (cfg, c)"
    "run (cli_TriggerVerification c (ccf_Token cfg) name) (ps_net p) = (Inr t, w)"
    and l: "run (verify_loop fuel q c (ccf_Token cfg) name (tvr_VerificationID t) (nt_clock w (nt_tick w) + sint timeout))
       (p\<lparr>ps_net := w\<lparr>nt_tick := Suc (nt_tick w)\<rparr>\<rparr>) = (Some (Inr ()), v)"
    by (auto simp: run_verify split: sum.splits prod.splits)
  from s(2) have "nt_http w = nt_http (ps_net p)" unfolding cli_TriggerVerification_def by (auto dest!: cli_do_Inr)
  with verify_loop_succeeds [OF l] s show ?thesis by simp
qed

text \<open>
  C29. The check of an environment ends, and success means success.  Once the clock stays past the deadline
  the command has returned; and it returns without an error only when the control plane, asked for the
  check this command triggered, has answered with the status \<open>succeeded\<close>.
\<close>

theorem verify_ends_truthfully:
  assumes "\<And>n. N \<le> n \<Longrightarrow> nt_clock (ps_net p) (Suc (nt_tick (ps_net p))) + sint timeout < nt_clock (ps_net p) n"
  shows "fst (run (runEnvironmentVerify (Suc N) q name timeout) p) \<noteq> None \<and>
    (\<forall>fuel v. run (runEnvironmentVerify fuel q name timeout) p = (Some (Inr ()), v) \<longrightarrow>
      (\<exists>cfg c triggered w n resp result. session p = Inr (cfg, c) \<and>
         run (cli_TriggerVerification c (ccf_Token cfg) name) (ps_net p) = (Inr triggered, w) \<and>
         nt_http (ps_net p) n (GetVerification_request c (ccf_Token cfg) name (tvr_VerificationID triggered)) = Inr resp \<and>
         json_decode (hr_Body resp) GetVerificationResponse_members = Inr result \<and> cgvr_Status result = ''succeeded''))"
  using verify_ends [OF assms] verify_success by blast

section \<open>At a concrete terminal\<close>

definition operator_net :: net where
  "operator_net = demo_net
     \<lparr>nt_http := (\<lambda>n req.
        if rq_URL req = ''cp/v1/setup'' then
          (if rq_Method req = ''GET'' then reply_with 200 [(''needs_setup'', JBool True)] else reply_with 201 [(''token'', JStr ''t'')])
        else reply_with 200 [(''verification_id'', JStr ''7''), (''status'', JStr ''pending'')])\<rparr>"

theorem verify_ends_truthfully_witness:
  "fst (run (runEnvironmentVerify (Suc 5) id ''prod'' 3) (sample_process operator_net)) \<noteq> None"
proof -
  let ?p = "sample_process operator_net"
  have "nt_clock (ps_net ?p) (Suc (nt_tick (ps_net ?p))) + sint (3 :: int64) < nt_clock (ps_net ?p) n" if "5 \<le> n" for n
    using that by (simp add: sample_process_def operator_net_def demo_net_def)
  from verify_ends_truthfully [OF this] show ?thesis by blast
qed

theorem one_request_per_command_witness:
  "ps_net (snd (run (execute 0 id sample_time CmdWorkerList) (sample_process operator_net))) = sent
     \<lparr>rq_Method = ''GET'', rq_URL = ''cp/v1/workers'',
      rq_Headers = [(''Content-Type'', ''application/json''), (''Authorization'', ''Bearer 3'')], rq_Body = None\<rparr> operator_net"
proof -
  obtain x v where r: "run (execute 0 id sample_time CmdWorkerList) (sample_process operator_net) = (x, v)" by force
  have "endpoint_of CmdWorkerList = Some (''GET'', ''/v1/workers'', None)" by simp
  from one_request_per_command [OF this r]
  have "ps_net v = sent \<lparr>rq_Method = ''GET'', rq_URL = ''cp/v1/workers'',
      rq_Headers = [(''Content-Type'', ''application/json''), (''Authorization'', ''Bearer 3'')], rq_Body = None\<rparr> (ps_net (sample_process operator_net))"
    by (simp add: sample_session)
  then show ?thesis unfolding r snd_conv by (simp add: sample_process_def)
qed

lemma sample_setup: "fst (run (runSetup ''cp'' (Some True)) (sample_process operator_net)) = Inr ()"
  by code_simp

theorem setup_stores_session_witness:
  "\<exists>v. run (runSetup ''cp'' (Some True)) (sample_process operator_net) = (Inr (), v) \<and>
     (\<exists>token. ps_file v = Content (Some (JObj [(''server'', JStr ''cp''), (''token'', JStr token)])))"
proof -
  obtain v where v: "run (runSetup ''cp'' (Some True)) (sample_process operator_net) = (Inr (), v)"
    using sample_setup by (metis prod.collapse)
  from setup_stores_session [OF v] v show ?thesis by blast
qed

end
