(* ===== verification/CommandTree.thy ===== *)
theory CommandTree
  imports CommandLine
begin

text \<open>
  The constructors of \<open>cli/internal/cmd\<close>: which subcommand takes which arguments and flags, with their
  defaults, and which of them are required.  Cobra itself is not under \<open>src/\<close>: an \<open>invocation\<close> is what it
  has parsed, and \<open>prepare\<close> the checks it documents for \<open>Args\<close> and required flags.
\<close>

section \<open>Invocations\<close>

record invocation =
  iv_args :: "string list"
  iv_text :: "string \<Rightarrow> string option"
  iv_texts :: "string \<Rightarrow> string list"
  iv_bool :: "string \<Rightarrow> bool option"
  iv_duration :: "string \<Rightarrow> int64 option"
  iv_float :: "string \<Rightarrow> float64 option"

definition Changed :: "invocation \<Rightarrow> string \<Rightarrow> bool" where
  "Changed v f \<longleftrightarrow> iv_text v f \<noteq> None \<or> iv_texts v f \<noteq> [] \<or> iv_bool v f \<noteq> None \<or> iv_duration v f \<noteq> None \<or> iv_float v f \<noteq> None"

definition StringVar :: "invocation \<Rightarrow> string \<Rightarrow> string \<Rightarrow> string" where
  "StringVar v f dflt = (case iv_text v f of None \<Rightarrow> dflt | Some s \<Rightarrow> s)"

definition DurationVar :: "invocation \<Rightarrow> string \<Rightarrow> int64 \<Rightarrow> int64" where
  "DurationVar v f dflt = (case iv_duration v f of None \<Rightarrow> dflt | Some d \<Rightarrow> d)"

definition Float64Var :: "invocation \<Rightarrow> string \<Rightarrow> float64 \<Rightarrow> float64" where
  "Float64Var v f dflt = (case iv_float v f of None \<Rightarrow> dflt | Some x \<Rightarrow> x)"

text \<open>\<open>cb_ExactArgs\<close> is the number of \<open>cobra.ExactArgs\<close>; without it any arguments are taken and ignored.\<close>

record cobra_Command =
  cb_ExactArgs :: "nat option"
  cb_Required :: "string list"
  cb_RunE :: "invocation \<Rightarrow> command"

definition prepare :: "cobra_Command \<Rightarrow> invocation \<Rightarrow> command res" where
  "prepare c v =
     (case cb_ExactArgs c of
        Some n \<Rightarrow> if length (iv_args v) \<noteq> n then Inl (Errorf ''accepts args'')
                  else if \<not> list_all (Changed v) (cb_Required c) then Inl (Errorf ''required flag'') else Inr (cb_RunE c v)
      | None \<Rightarrow> if \<not> list_all (Changed v) (cb_Required c) then Inl (Errorf ''required flag'') else Inr (cb_RunE c v))"

section \<open>The subcommands\<close>

abbreviation command_of :: "(invocation \<Rightarrow> command) \<Rightarrow> cobra_Command" where
  "command_of r \<equiv> \<lparr>cb_ExactArgs = None, cb_Required = [], cb_RunE = r\<rparr>"

definition newSetupCmd :: cobra_Command where
  "newSetupCmd = command_of (\<lambda>v. CmdSetup (StringVar v ''server'' defaultServer) (iv_bool v ''telemetry''))"

definition newAgentCreateCmd :: cobra_Command where
  "newAgentCreateCmd =
     \<lparr>cb_ExactArgs = None, cb_Required = [''name'', ''team'', ''tier'', ''ttl''],
      cb_RunE = (\<lambda>v. CmdAgentCreate (StringVar v ''name'' []) (StringVar v ''team'' []) (StringVar v ''tier'' [])
        (StringVar v ''environments'' []) (StringVar v ''idempotency-key'' []) (DurationVar v ''ttl'' 0))\<rparr>"

definition newEnvironmentCreateCmd :: cobra_Command where
  "newEnvironmentCreateCmd =
     \<lparr>cb_ExactArgs = None,
      cb_Required = [''name'', ''region'', ''account-id'', ''external-id'', ''trust-anchor'', ''role-arn-tier1'', ''role-arn-tier2'', ''role-arn-tier3''],
      cb_RunE = (\<lambda>v. CmdEnvironmentCreate
        \<lparr>ecp_name = StringVar v ''name'' [], ecp_provider = StringVar v ''provider'' ''aws'', ecp_region = StringVar v ''region'' [],
         ecp_accountID = StringVar v ''account-id'' [], ecp_externalID = StringVar v ''external-id'' [],
         ecp_trustAnchor = StringVar v ''trust-anchor'' [], ecp_roleARNTier1 = StringVar v ''role-arn-tier1'' [],
         ecp_roleARNTier2 = StringVar v ''role-arn-tier2'' [], ecp_roleARNTier3 = StringVar v ''role-arn-tier3'' []\<rparr>)\<rparr>"

definition newEnvironmentVerifyCmd :: cobra_Command where
  "newEnvironmentVerifyCmd =
     \<lparr>cb_ExactArgs = Some 1, cb_Required = [],
      cb_RunE = (\<lambda>v. CmdEnvironmentVerify (iv_args v ! 0) (DurationVar v ''timeout'' (60 * 1000000000)))\<rparr>"

definition newWorkerListCmd :: cobra_Command where
  "newWorkerListCmd = command_of (\<lambda>v. CmdWorkerList)"

definition newWorkerEnrolCmd :: cobra_Command where
  "newWorkerEnrolCmd =
     \<lparr>cb_ExactArgs = None, cb_Required = [''name'', ''environments''],
      cb_RunE = (\<lambda>v. CmdWorkerEnrol (StringVar v ''name'' []) (StringVar v ''environments'' []))\<rparr>"

definition newWorkerGrantEnvironmentCmd :: cobra_Command where
  "newWorkerGrantEnvironmentCmd =
     \<lparr>cb_ExactArgs = Some 1, cb_Required = [''environments''],
      cb_RunE = (\<lambda>v. CmdWorkerGrantEnvironment (iv_args v ! 0) (StringVar v ''environments'' []))\<rparr>"

definition newPipelineRegisterCmd :: cobra_Command where
  "newPipelineRegisterCmd =
     \<lparr>cb_ExactArgs = None, cb_Required = [''environment-id'', ''provider'', ''workflow-ref''],
      cb_RunE = (\<lambda>v. CmdPipelineRegister (StringVar v ''environment-id'' []) (StringVar v ''provider'' [])
        (StringVar v ''workflow-ref'' []) (iv_texts v ''setting'') (iv_bool v ''mutating''))\<rparr>"

definition newPipelineGetCmd :: cobra_Command where
  "newPipelineGetCmd = \<lparr>cb_ExactArgs = Some 1, cb_Required = [], cb_RunE = (\<lambda>v. CmdPipelineGet (iv_args v ! 0))\<rparr>"

definition newRunRequestCmd :: cobra_Command where
  "newRunRequestCmd =
     \<lparr>cb_ExactArgs = None, cb_Required = [''environment-id'', ''pipeline-id''],
      cb_RunE = (\<lambda>v. CmdRunRequest (StringVar v ''environment-id'' []) (StringVar v ''pipeline-id'' [])
        (StringVar v ''idempotency-key'' []) (StringVar v ''diff-ref'' []))\<rparr>"

definition newRunGetCmd :: cobra_Command where
  "newRunGetCmd = \<lparr>cb_ExactArgs = Some 1, cb_Required = [], cb_RunE = (\<lambda>v. CmdRunGet (iv_args v ! 0))\<rparr>"

definition newRunApproveCmd :: cobra_Command where
  "newRunApproveCmd = \<lparr>cb_ExactArgs = Some 1, cb_Required = [], cb_RunE = (\<lambda>v. CmdRunApprove (iv_args v ! 0))\<rparr>"

definition newRunDenyCmd :: cobra_Command where
  "newRunDenyCmd = \<lparr>cb_ExactArgs = Some 1, cb_Required = [], cb_RunE = (\<lambda>v. CmdRunDeny (iv_args v ! 0))\<rparr>"

text \<open>The default server of \<open>ci auth\<close> is read from the environment when the tree is built.\<close>

definition newCIAuthCmd :: "string \<Rightarrow> cobra_Command" where
  "newCIAuthCmd serverFromEnv = command_of (\<lambda>v. CmdCIAuth (StringVar v ''server'' serverFromEnv) (StringVar v ''format'' ''json''))"

definition newCostRunCmd :: cobra_Command where
  "newCostRunCmd = \<lparr>cb_ExactArgs = Some 1, cb_Required = [], cb_RunE = (\<lambda>v. CmdCostRun (iv_args v ! 0))\<rparr>"

definition newCostByActorCmd :: cobra_Command where
  "newCostByActorCmd = command_of (\<lambda>v. CmdCostByActor
     \<lparr>gcp_ActorID = StringVar v ''actor-id'' [], gcp_From = StringVar v ''from'' [], gcp_To = StringVar v ''to'' []\<rparr>)"

definition newCostSetRateCmd :: cobra_Command where
  "newCostSetRateCmd =
     \<lparr>cb_ExactArgs = None, cb_Required = [''rate-per-minute''],
      cb_RunE = (\<lambda>v. CmdCostSetRate (Float64Var v ''rate-per-minute'' (0, 0)) (StringVar v ''currency'' ''USD'')
        (StringVar v ''environment-id'' []) (StringVar v ''ci-provider'' []))\<rparr>"

section \<open>The tree\<close>

type_synonym 'a group = "(string \<times> 'a) list"

definition newAgentCmd :: "cobra_Command group" where
  "newAgentCmd = [(''create'', newAgentCreateCmd)]"

definition newEnvironmentCmd :: "cobra_Command group" where
  "newEnvironmentCmd = [(''create'', newEnvironmentCreateCmd), (''verify'', newEnvironmentVerifyCmd)]"

definition newWorkerCmd :: "cobra_Command group" where
  "newWorkerCmd = [(''enrol'', newWorkerEnrolCmd), (''grant-environment'', newWorkerGrantEnvironmentCmd), (''list'', newWorkerListCmd)]"

definition newPipelineCmd :: "cobra_Command group" where
  "newPipelineCmd = [(''register'', newPipelineRegisterCmd), (''get'', newPipelineGetCmd)]"

definition newRunCmd :: "cobra_Command group" where
  "newRunCmd = [(''request'', newRunRequestCmd), (''get'', newRunGetCmd), (''approve'', newRunApproveCmd), (''deny'', newRunDenyCmd)]"

definition newCICmd :: "string \<Rightarrow> cobra_Command group" where
  "newCICmd serverFromEnv = [(''auth'', newCIAuthCmd serverFromEnv)]"

definition newTelemetryCmd :: "cobra_Command group" where
  "newTelemetryCmd = [(''enable'', command_of (\<lambda>v. CmdTelemetryEnable)), (''disable'', command_of (\<lambda>v. CmdTelemetryDisable))]"

definition newCostCmd :: "cobra_Command group" where
  "newCostCmd = [(''run'', newCostRunCmd), (''by-actor'', newCostByActorCmd), (''set-rate'', newCostSetRateCmd)]"

text \<open>A path of the tree; a group alone prints its help and is not a command here.\<close>

definition NewRootCmd :: "string \<Rightarrow> (string list \<times> cobra_Command) list" where
  "NewRootCmd serverFromEnv =
     ([''setup''], newSetupCmd) #
     concat (map (\<lambda>(g, cs). map (\<lambda>(n, c). ([g, n], c)) cs)
       [(''agent'', newAgentCmd), (''environment'', newEnvironmentCmd), (''worker'', newWorkerCmd), (''pipeline'', newPipelineCmd),
        (''run'', newRunCmd), (''ci'', newCICmd serverFromEnv), (''telemetry'', newTelemetryCmd), (''cost'', newCostCmd)])"

definition cobra_execute :: "nat \<Rightarrow> (string \<Rightarrow> string) \<Rightarrow> time_lib \<Rightarrow> string list \<Rightarrow> invocation \<Rightarrow> (process, unit res option) prog" where
  "cobra_execute fuel q L path v =
     bindP defaultServerFromEnv (\<lambda>serverFromEnv.
       case map_of (NewRootCmd serverFromEnv) path of
         None \<Rightarrow> Done (Some (Inl (Errorf ''unknown command'')))
       | Some c \<Rightarrow> (case prepare c v of Inl e \<Rightarrow> Done (Some (Inl e)) | Inr cmd \<Rightarrow> execute fuel q L cmd))"

text \<open>\<open>cmd/idpctl\<close>, up to the status it exits with.\<close>

definition idpctl_main :: "nat \<Rightarrow> (string \<Rightarrow> string) \<Rightarrow> time_lib \<Rightarrow> string list \<Rightarrow> invocation \<Rightarrow> (process, nat option) prog" where
  "idpctl_main fuel q L path v = bindP (cobra_execute fuel q L path v) (\<lambda>x. Done (map_option exit_status x))"

section \<open>A command line makes one request\<close>

text \<open>The subcommands that are one call of a logged-in user.\<close>

definition one_call :: "string list \<Rightarrow> bool" where
  "one_call path \<longleftrightarrow> path \<noteq> [''setup''] \<and> path \<noteq> [''environment'', ''verify''] \<and> path \<noteq> [''ci'', ''auth'']"

lemmas tree_defs = NewRootCmd_def newAgentCmd_def newEnvironmentCmd_def newWorkerCmd_def newPipelineCmd_def newRunCmd_def newCICmd_def
  newTelemetryCmd_def newCostCmd_def

lemmas subcommand_defs = newAgentCreateCmd_def newEnvironmentCreateCmd_def newWorkerListCmd_def newWorkerEnrolCmd_def
  newWorkerGrantEnvironmentCmd_def newPipelineRegisterCmd_def newPipelineGetCmd_def newRunRequestCmd_def newRunGetCmd_def
  newRunApproveCmd_def newRunDenyCmd_def newCostRunCmd_def newCostByActorCmd_def newCostSetRateCmd_def

lemma one_call_commands:
  assumes "map_of (NewRootCmd d) path = Some c" and "one_call path"
  shows "endpoint_of (cb_RunE c v) \<noteq> None \<or> (\<exists>e prov wfl settings m err. cb_RunE c v = CmdPipelineRegister e prov wfl settings m \<and>
     parseSettings settings = Inl err)"
  using assms by (auto simp: tree_defs one_call_def subcommand_defs split: if_splits sum.splits)

lemma prepare_Inr: "prepare c v = Inr cmd \<Longrightarrow> cmd = cb_RunE c v"
  by (auto simp: prepare_def split: option.splits if_splits)


definition approve_line :: invocation where
  "approve_line = \<lparr>iv_args = [''9''], iv_text = (\<lambda>_. None), iv_texts = (\<lambda>_. []), iv_bool = (\<lambda>_. None), iv_duration = (\<lambda>_. None),
     iv_float = (\<lambda>_. None)\<rparr>"

lemma approve_line_runs:
  "fst (run (cobra_execute 0 id sample_time [''run'', ''approve''] approve_line) (sample_process operator_net)) = Some (Inr ())"
  by code_simp


end
