(* ===== verification/OperatorRoutes.thy ===== *)
theory OperatorRoutes
  imports CommandLine Wire Deployment
begin

text \<open>
  The requests of \<open>idpctl\<close> on the mux of the control plane: every command of a logged-in user is decoded
  to the request of its flags.
\<close>

section \<open>What a command asks for\<close>

text \<open>The request of each command, with the values of its flags, that a handler should get.\<close>

fun request_of :: "command \<Rightarrow> string \<Rightarrow> request option" where
  "request_of (CmdAgentCreate name team tier envs key ttl) h =
     Some (PostAgents h (Some
       \<lparr>car_Name = name, car_Team = team, car_Tier = tier, car_Environments = agent_environments envs,
        car_TTLSeconds = int64_of (duration_Seconds ttl), car_IdempotencyKey = key\<rparr>))"
| "request_of (CmdEnvironmentCreate p) h =
     Some (PostEnvironments h (Some
       \<lparr>cer_Name = ecp_name p, cer_Provider = ecp_provider p, cer_Region = ecp_region p, cer_AccountRef = ecp_accountID p,
        cer_ExternalID = ecp_externalID p, cer_TrustAnchor = ecp_trustAnchor p,
        cer_RoleARNs = [(''autonomous'', ecp_roleARNTier3 p), (''human_in_the_loop'', ecp_roleARNTier2 p),
                        (''read_only'', ecp_roleARNTier1 p)]\<rparr>))"
| "request_of (CmdWorkerEnrol name envs) h =
     Some (PostWorkers h (Some \<lparr>cwr_Name = name, cwr_Environments = Split envs (CHR '','')\<rparr>))"
| "request_of (CmdWorkerGrantEnvironment i envs) h = Some (PostWorkerGrantEnvironments h i (Some (Split envs (CHR '',''))))"
| "request_of CmdWorkerList h = Some (GetWorkers h)"
| "request_of (CmdPipelineRegister e prov wfl settings mutating) h =
     (case parseSettings settings of
        Inl err \<Rightarrow> None
      | Inr m \<Rightarrow> Some (PostPipelines h (Some
          \<lparr>cpr_EnvironmentID = e, cpr_Provider = prov, cpr_WorkflowRef = wfl, cpr_Settings = sort_key fst m, cpr_Mutating = mutating\<rparr>)))"
| "request_of (CmdPipelineGet i) h = Some (GetPipelineByID h i)"
| "request_of (CmdRunRequest e p key diff) h =
     Some (PostRuns h (Some \<lparr>crq_EnvironmentID = e, crq_PipelineID = p, crq_IdempotencyKey = key, crq_DiffRef = diff\<rparr>))"
| "request_of (CmdRunGet i) h = Some (GetRunByID h i)"
| "request_of (CmdRunApprove i) h = Some (PostRunDecision h i (Some ''approved''))"
| "request_of (CmdRunDeny i) h = Some (PostRunDecision h i (Some ''denied''))"
| "request_of CmdTelemetryEnable h = Some (PatchTenantTelemetry h (Some True))"
| "request_of CmdTelemetryDisable h = Some (PatchTenantTelemetry h (Some False))"
| "request_of (CmdCostRun i) h = Some (GetRunCost h i)"
| "request_of (CmdCostByActor params) h = Some (GetCostsByActor h (gcp_ActorID params) (gcp_From params) (gcp_To params))"
| "request_of (CmdCostSetRate rate currency e ci) h =
     Some (PutCostRate h (Some
       \<lparr>scr_EnvironmentID = e, scr_CIProvider = ci, scr_RateMicrosPerMS = rate_micros rate, scr_Currency = currency\<rparr>))"
| "request_of _ h = None"

text \<open>The identifiers of a command are plain segments of a path, as every identifier that is printed.\<close>

fun sendable :: "command \<Rightarrow> bool" where
  "sendable (CmdWorkerGrantEnvironment i envs) = segment i"
| "sendable (CmdPipelineGet i) = segment i"
| "sendable (CmdRunGet i) = segment i"
| "sendable (CmdRunApprove i) = segment i"
| "sendable (CmdRunDeny i) = segment i"
| "sendable (CmdCostRun i) = segment i"
| "sendable _ = True"

lemma request_endpoint: "request_of cmd h = None \<longleftrightarrow> endpoint_of cmd = None"
  by (cases cmd) (simp_all split: sum.split)

section \<open>The two ends agree on what is asked\<close>

lemma string_elems_map: "string_elems (map JStr es) old = Inr es"
  by (induction es arbitrary: old) (simp_all add: bindR_def)

lemma json_strings_array [simp]:
  "json_strings field ((k, strings_array es) # kvs) v = json_strings field kvs (if same_name k field then es else v)"
  by (simp add: strings_array_def string_elems_map bindR_def)

lemma json_strings_other: "\<not> same_name k field \<Longrightarrow> json_strings field ((k, x) # kvs) v = json_strings field kvs v"
  by simp

lemma sint_range: "- (2 ^ 63) \<le> sint (x :: int64) \<and> sint x < 2 ^ 63"
  using sint_range_size [of x] by (simp add: word_size)

lemmas decode_simps = decode_body_def json_decode_def json_struct_def bindR_def same_name_def lower_def omitempty_def

lemma decode_agent:
  "decode_body createAgentRequest_members (Some (CreateAgentRequest_json r)) =
     Some \<lparr>car_Name = cag_Name r, car_Team = cag_Team r, car_Tier = cag_Tier r, car_Environments = cag_Environments r,
           car_TTLSeconds = cag_TTLSeconds r, car_IdempotencyKey = cag_IdempotencyKey r\<rparr>"
  using sint_range [of "cag_TTLSeconds r"]
  by (cases "cag_Environments r = []"; cases "cag_IdempotencyKey r = []")
     (simp_all add: createAgentRequest_members_def CreateAgentRequest_json_def decode_simps json_strings_other del: json_strings.simps(2))

lemma role_order:
  "sort_key fst [(''read_only'', a :: string), (''human_in_the_loop'', b), (''autonomous'', c)] =
     [(''autonomous'', c), (''human_in_the_loop'', b), (''read_only'', a)]"
  by code_simp

lemma decode_environment:
  assumes "cev_RoleARNs r = [(''read_only'', a), (''human_in_the_loop'', b), (''autonomous'', c)]"
  shows "decode_body createEnvironmentRequest_members (Some (CreateEnvironmentRequest_json r)) =
     Some \<lparr>cer_Name = cev_Name r, cer_Provider = cev_Provider r, cer_Region = cev_Region r, cer_AccountRef = cev_AccountRef r,
           cer_ExternalID = cev_ExternalID r, cer_TrustAnchor = cev_TrustAnchor r,
           cer_RoleARNs = [(''autonomous'', c), (''human_in_the_loop'', b), (''read_only'', a)]\<rparr>"
  by (simp add: createEnvironmentRequest_members_def CreateEnvironmentRequest_json_def map_json_def assms role_order decode_simps)

lemma decode_worker:
  "decode_body createWorkerRequest_members (Some (JObj [(''name'', JStr n), (''environments'', strings_array es)])) =
     Some \<lparr>cwr_Name = n, cwr_Environments = es\<rparr>"
  by (simp add: createWorkerRequest_members_def decode_simps json_strings_other del: json_strings.simps(2))

lemma decode_grant:
  "decode_body (\<lambda>kvs. json_strings ''environments'' kvs []) (Some (JObj [(''environments'', strings_array es)])) = Some es"
  by (simp add: decode_simps del: json_strings.simps(2))

lemma decode_pipeline:
  assumes "distinct (map fst (cpq_Settings r))"
  shows "decode_body createPipelineRequest_members (Some (CreatePipelineRequest_json r)) =
     Some \<lparr>cpr_EnvironmentID = cpq_EnvironmentID r, cpr_Provider = cpq_Provider r, cpr_WorkflowRef = cpq_WorkflowRef r,
           cpr_Settings = sort_key fst (cpq_Settings r), cpr_Mutating = cpq_Mutating r\<rparr>"
proof -
  have "distinct (map fst (sort_key fst (cpq_Settings r)))" using assms by (simp add: distinct_map)
  from json_entries_strings [OF this, of "[]"]
  have "json_entries (map (\<lambda>(k, v). (k, JStr v)) (sort_key fst (cpq_Settings r))) [] = Inr (sort_key fst (cpq_Settings r))" by simp
  then show ?thesis
    by (cases "cpq_Mutating r"; cases "cpq_Settings r = []")
       (simp_all add: createPipelineRequest_members_def CreatePipelineRequest_json_def map_json_def decode_simps)
qed

lemma decode_run:
  "decode_body createRunRequest_members (Some (CreateRunRequest_json r)) =
     Some \<lparr>crq_EnvironmentID = cnr_EnvironmentID r, crq_PipelineID = cnr_PipelineID r,
           crq_IdempotencyKey = cnr_IdempotencyKey r, crq_DiffRef = cnr_DiffRef r\<rparr>"
  by (simp add: createRunRequest_members_def CreateRunRequest_json_def decode_simps)

lemma decode_decision:
  "decode_body (\<lambda>kvs. json_string ''decision'' kvs []) (Some (decision_json b)) = Some (if b then ''approved'' else ''denied'')"
  by (simp add: decision_json_def decode_simps)

lemma decode_telemetry:
  "decode_body (\<lambda>kvs. json_bool ''enabled'' kvs False) (Some (JObj [(''enabled'', JBool b)])) = Some b"
  by (simp add: decode_simps)

lemma decode_rate:
  "decode_body setCostRateRequest_members (Some (JObj (omitempty ''environment_id'' e @ omitempty ''ci_provider'' ci @
      [(''rate_micros_per_ms'', JNum (sint (rate :: int64)))] @ omitempty ''currency'' cur))) =
     Some \<lparr>scr_EnvironmentID = e, scr_CIProvider = ci, scr_RateMicrosPerMS = rate, scr_Currency = cur\<rparr>"
  using sint_range [of rate] by (simp add: setCostRateRequest_members_def decode_simps)

lemma parseSettings_distinct: "parseSettings ss = Inr m \<Longrightarrow> distinct (map fst m)"
proof -
  have "settings_of ss m0 = Inr m \<Longrightarrow> distinct (map fst m0) \<Longrightarrow> distinct (map fst m)" for m0
    by (induction ss m0 rule: settings_of.induct) (auto simp: distinct_update split: if_splits prod.splits)
  then show "parseSettings ss = Inr m \<Longrightarrow> distinct (map fst m)" by (simp add: parseSettings_def)
qed

text \<open>The filters of the costs arrive in the query.\<close>

lemma map_of_filtered:
  "(case map_of (filter (\<lambda>kv. snd kv \<noteq> []) kvs) k of None \<Rightarrow> [] | Some v \<Rightarrow> v) = (case map_of kvs k of None \<Rightarrow> [] | Some v \<Rightarrow> v)"
  if "distinct (map fst kvs)" for kvs :: "(string \<times> string) list"
  using that by (induction kvs) (auto simp: image_iff split: option.splits dest: map_of_SomeD)

lemma cost_query:
  "query_get (Values_Encode (cost_filters p)) ''actor_id'' = gcp_ActorID p"
  "query_get (Values_Encode (cost_filters p)) ''from'' = gcp_From p"
  "query_get (Values_Encode (cost_filters p)) ''to'' = gcp_To p"
  by (simp_all add: query_get_def query_roundtrip cost_filters_def map_of_filtered del: filter.simps)

lemma Values_Encode_plain: "CHR ''#'' \<notin> set (Values_Encode kvs)"
proof -
  have "CHR ''#'' \<notin> set (QueryEscape s)" for s
  proof
    assume "CHR ''#'' \<in> set (QueryEscape s)"
    from QueryEscape_set [OF this] have "unreserved (CHR ''#'')" by simp
    then show False by code_simp
  qed
  then show ?thesis by (auto simp: Values_Encode_def split: list.split)
qed

section \<open>Every command reaches its handler\<close>

lemma bearer_cli [simp]: "token \<noteq> [] \<Longrightarrow> bearer_header (cli_request c verb path token body) = ''Bearer '' @ token"
  by (simp add: bearer_header_def cli_request_def)

lemma cli_request_sel [simp]:
  "rq_Method (cli_request c verb path token body) = verb" "rq_URL (cli_request c verb path token body) = cli_baseURL c @ path"
  "rq_Body (cli_request c verb path token body) = body"
  by (simp_all add: cli_request_def)

text \<open>One rule for all of them: the pattern, the segments of the path and its query.\<close>

lemma cli_routed:
  assumes "(verb, pat, f) \<in> set (registered s)" and "path = path_of segs @ tail" and "verb \<noteq> ''HEAD''" and "token \<noteq> []"
    and "list_all segment segs" and "segs \<noteq> []" and "query_tail tail" and "match_segs pat segs = Some ids"
    and "f \<lparr>ic_PathValues = ids, ic_Query = drop 1 tail, ic_Header = ''Bearer '' @ token, ic_Body = body\<rparr> = q"
  shows "mux H s (cli_baseURL c) (cli_request c verb path token body) = answer H s q"
  using mux_serves_path [OF assms(1) _ assms(3) _ assms(5-8), of "cli_request c verb path token body" "cli_baseURL c" H] assms(2,4,9)
  by simp

lemma catalog_routes_in: "r \<in> set (registered s) \<longleftrightarrow> True" if "r \<in> set catalog_routes"
  using registered_rules(1) [OF that] by simp

lemma execution_routes_in: "r \<in> set (registered s) \<longleftrightarrow> True" if "sv_runs s \<noteq> None" "r \<in> set execution_routes"
  using registered_rules(2) [OF that] by simp

lemma route_agents:
  "token \<noteq> [] \<Longrightarrow> mux H s (cli_baseURL c) (cli_request c ''POST'' ''/v1/agents'' token b) =
     answer H s (PostAgents (''Bearer '' @ token) (decode_body createAgentRequest_members b))"
  by (rule cli_routed [where pat = "[Lit ''v1'', Lit ''agents'']" and segs = "[''v1'', ''agents'']" and tail = "[]"
        and ids = "[]"
        and f = "\<lambda>r. PostAgents (ic_Header r) (decode_body createAgentRequest_members (ic_Body r))"])
     (simp_all add: catalog_routes_in catalog_routes_def path_of_def query_tail_def)

lemma route_environments:
  "token \<noteq> [] \<Longrightarrow> mux H s (cli_baseURL c) (cli_request c ''POST'' ''/v1/environments'' token b) =
     answer H s (PostEnvironments (''Bearer '' @ token) (decode_body createEnvironmentRequest_members b))"
  by (rule cli_routed [where pat = "[Lit ''v1'', Lit ''environments'']" and segs = "[''v1'', ''environments'']" and tail = "[]"
        and ids = "[]"
        and f = "\<lambda>r. PostEnvironments (ic_Header r) (decode_body createEnvironmentRequest_members (ic_Body r))"])
     (simp_all add: catalog_routes_in catalog_routes_def path_of_def query_tail_def)

lemma route_enrol:
  "token \<noteq> [] \<Longrightarrow> mux H s (cli_baseURL c) (cli_request c ''POST'' ''/v1/workers'' token b) =
     answer H s (PostWorkers (''Bearer '' @ token) (decode_body createWorkerRequest_members b))"
  by (rule cli_routed [where pat = "[Lit ''v1'', Lit ''workers'']" and segs = "[''v1'', ''workers'']" and tail = "[]"
        and ids = "[]"
        and f = "\<lambda>r. PostWorkers (ic_Header r) (decode_body createWorkerRequest_members (ic_Body r))"])
     (simp_all add: catalog_routes_in catalog_routes_def path_of_def query_tail_def)

lemma route_grant:
  "token \<noteq> [] \<Longrightarrow> segment i \<Longrightarrow> mux H s (cli_baseURL c) (cli_request c ''POST'' (''/v1/workers/'' @ i @ ''/environments'') token b) =
     answer H s (PostWorkerGrantEnvironments (''Bearer '' @ token) i (decode_body (\<lambda>kvs. json_strings ''environments'' kvs []) b))"
  by (rule cli_routed [where pat = "[Lit ''v1'', Lit ''workers'', Wild, Lit ''environments'']" and segs = "[''v1'', ''workers'', i, ''environments'']" and tail = "[]"
        and ids = "[i]"
        and f = "\<lambda>r. PostWorkerGrantEnvironments (ic_Header r) (path_value r 0) (decode_body (\<lambda>kvs. json_strings ''environments'' kvs []) (ic_Body r))"])
     (simp_all add: catalog_routes_in catalog_routes_def path_of_def query_tail_def segment_nonempty)

lemma route_workers:
  "token \<noteq> [] \<Longrightarrow> mux H s (cli_baseURL c) (cli_request c ''GET'' ''/v1/workers'' token b) =
     answer H s (GetWorkers (''Bearer '' @ token))"
  by (rule cli_routed [where pat = "[Lit ''v1'', Lit ''workers'']" and segs = "[''v1'', ''workers'']" and tail = "[]"
        and ids = "[]"
        and f = "\<lambda>r. GetWorkers (ic_Header r)"])
     (simp_all add: catalog_routes_in catalog_routes_def path_of_def query_tail_def)

lemma route_pipelines:
  "token \<noteq> [] \<Longrightarrow> mux H s (cli_baseURL c) (cli_request c ''POST'' ''/v1/pipelines'' token b) =
     answer H s (PostPipelines (''Bearer '' @ token) (decode_body createPipelineRequest_members b))"
  by (rule cli_routed [where pat = "[Lit ''v1'', Lit ''pipelines'']" and segs = "[''v1'', ''pipelines'']" and tail = "[]"
        and ids = "[]"
        and f = "\<lambda>r. PostPipelines (ic_Header r) (decode_body createPipelineRequest_members (ic_Body r))"])
     (simp_all add: catalog_routes_in catalog_routes_def path_of_def query_tail_def)

lemma route_pipeline:
  "token \<noteq> [] \<Longrightarrow> segment i \<Longrightarrow> mux H s (cli_baseURL c) (cli_request c ''GET'' (''/v1/pipelines/'' @ i) token b) =
     answer H s (GetPipelineByID (''Bearer '' @ token) i)"
  by (rule cli_routed [where pat = "[Lit ''v1'', Lit ''pipelines'', Wild]" and segs = "[''v1'', ''pipelines'', i]" and tail = "[]"
        and ids = "[i]"
        and f = "\<lambda>r. GetPipelineByID (ic_Header r) (path_value r 0)"])
     (simp_all add: catalog_routes_in catalog_routes_def path_of_def query_tail_def segment_nonempty)

lemma route_telemetry:
  "token \<noteq> [] \<Longrightarrow> mux H s (cli_baseURL c) (cli_request c ''PATCH'' ''/v1/tenants/telemetry'' token b) =
     answer H s (PatchTenantTelemetry (''Bearer '' @ token) (decode_body (\<lambda>kvs. json_bool ''enabled'' kvs False) b))"
  by (rule cli_routed [where pat = "[Lit ''v1'', Lit ''tenants'', Lit ''telemetry'']" and segs = "[''v1'', ''tenants'', ''telemetry'']" and tail = "[]"
        and ids = "[]"
        and f = "\<lambda>r. PatchTenantTelemetry (ic_Header r) (decode_body (\<lambda>kvs. json_bool ''enabled'' kvs False) (ic_Body r))"])
     (simp_all add: catalog_routes_in catalog_routes_def path_of_def query_tail_def)

lemma route_runs:
  "token \<noteq> [] \<Longrightarrow> sv_runs s \<noteq> None \<Longrightarrow> mux H s (cli_baseURL c) (cli_request c ''POST'' ''/v1/runs'' token b) =
     answer H s (PostRuns (''Bearer '' @ token) (decode_body createRunRequest_members b))"
  by (rule cli_routed [where pat = "[Lit ''v1'', Lit ''runs'']" and segs = "[''v1'', ''runs'']" and tail = "[]"
        and ids = "[]"
        and f = "\<lambda>r. PostRuns (ic_Header r) (decode_body createRunRequest_members (ic_Body r))"])
     (simp_all add: execution_routes_in execution_routes_def path_of_def query_tail_def)

lemma route_run:
  "token \<noteq> [] \<Longrightarrow> segment i \<Longrightarrow> sv_runs s \<noteq> None \<Longrightarrow> mux H s (cli_baseURL c) (cli_request c ''GET'' (''/v1/runs/'' @ i) token b) =
     answer H s (GetRunByID (''Bearer '' @ token) i)"
  by (rule cli_routed [where pat = "[Lit ''v1'', Lit ''runs'', Wild]" and segs = "[''v1'', ''runs'', i]" and tail = "[]"
        and ids = "[i]"
        and f = "\<lambda>r. GetRunByID (ic_Header r) (path_value r 0)"])
     (simp_all add: execution_routes_in execution_routes_def path_of_def query_tail_def segment_nonempty)

lemma route_decision:
  "token \<noteq> [] \<Longrightarrow> segment i \<Longrightarrow> sv_runs s \<noteq> None \<Longrightarrow> mux H s (cli_baseURL c) (cli_request c ''POST'' (''/v1/runs/'' @ i @ ''/decision'') token b) =
     answer H s (PostRunDecision (''Bearer '' @ token) i (decode_body (\<lambda>kvs. json_string ''decision'' kvs []) b))"
  by (rule cli_routed [where pat = "[Lit ''v1'', Lit ''runs'', Wild, Lit ''decision'']" and segs = "[''v1'', ''runs'', i, ''decision'']" and tail = "[]"
        and ids = "[i]"
        and f = "\<lambda>r. PostRunDecision (ic_Header r) (path_value r 0) (decode_body (\<lambda>kvs. json_string ''decision'' kvs []) (ic_Body r))"])
     (simp_all add: execution_routes_in execution_routes_def path_of_def query_tail_def segment_nonempty)

lemma route_run_cost:
  "token \<noteq> [] \<Longrightarrow> segment i \<Longrightarrow> sv_runs s \<noteq> None \<Longrightarrow> mux H s (cli_baseURL c) (cli_request c ''GET'' (''/v1/runs/'' @ i @ ''/cost'') token b) =
     answer H s (GetRunCost (''Bearer '' @ token) i)"
  by (rule cli_routed [where pat = "[Lit ''v1'', Lit ''runs'', Wild, Lit ''cost'']" and segs = "[''v1'', ''runs'', i, ''cost'']" and tail = "[]"
        and ids = "[i]"
        and f = "\<lambda>r. GetRunCost (ic_Header r) (path_value r 0)"])
     (simp_all add: execution_routes_in execution_routes_def path_of_def query_tail_def segment_nonempty)

lemma route_rate:
  "token \<noteq> [] \<Longrightarrow> sv_runs s \<noteq> None \<Longrightarrow> mux H s (cli_baseURL c) (cli_request c ''PUT'' ''/v1/cost-rates'' token b) =
     answer H s (PutCostRate (''Bearer '' @ token) (decode_body setCostRateRequest_members b))"
  by (rule cli_routed [where pat = "[Lit ''v1'', Lit ''cost-rates'']" and segs = "[''v1'', ''cost-rates'']" and tail = "[]"
        and ids = "[]"
        and f = "\<lambda>r. PutCostRate (ic_Header r) (decode_body setCostRateRequest_members (ic_Body r))"])
     (simp_all add: execution_routes_in execution_routes_def path_of_def query_tail_def)

lemma costs_path_parts:
  "\<exists>tail. costs_path params = path_of [''v1'', ''costs'', ''by-actor''] @ tail \<and> query_tail tail \<and>
     drop 1 tail = Values_Encode (cost_filters params)"
  by (rule exI [of _ "let e = Values_Encode (cost_filters params) in if e \<noteq> [] then CHR ''?'' # e else []"])
     (simp add: costs_path_def query_tail_def Let_def path_of_def Values_Encode_plain)

lemma route_costs:
  assumes "token \<noteq> []" and "sv_runs s \<noteq> None"
  shows "mux H s (cli_baseURL c) (cli_request c ''GET'' (costs_path params) token b) =
     answer H s (GetCostsByActor (''Bearer '' @ token) (gcp_ActorID params) (gcp_From params) (gcp_To params))"
proof -
  obtain tail where tail: "costs_path params = path_of [''v1'', ''costs'', ''by-actor''] @ tail" "query_tail tail"
    "drop 1 tail = Values_Encode (cost_filters params)" using costs_path_parts by blast
  from tail(1) show ?thesis
    by (rule cli_routed [where pat = "[Lit ''v1'', Lit ''costs'', Lit ''by-actor'']" and ids = "[]"
          and f = "\<lambda>r. GetCostsByActor (ic_Header r) (query_get (ic_Query r) ''actor_id'') (query_get (ic_Query r) ''from'')
             (query_get (ic_Query r) ''to'')", rotated 1])
       (use assms tail(2,3) in \<open>simp_all add: execution_routes_in execution_routes_def cost_query\<close>)
qed

text \<open>The address of the CI callback is asked for without a token.\<close>

lemma route_callback:
  "mux H s (cli_baseURL c) (cli_request c ''GET'' (callback_path prov repo) [] None) = answer H s (GetCICallbackURL prov repo)"
proof -
  let ?q = "Values_Encode [(''provider'', prov), (''repo'', repo)]" and ?req = "cli_request c ''GET'' (callback_path prov repo) [] None"
  have "mux H s (cli_baseURL c) ?req = answer H s ((\<lambda>r. GetCICallbackURL (query_get (ic_Query r) ''provider'') (query_get (ic_Query r) ''repo''))
      \<lparr>ic_PathValues = [], ic_Query = drop 1 (CHR ''?'' # ?q), ic_Header = bearer_header ?req, ic_Body = rq_Body ?req\<rparr>)"
    by (rule mux_serves_path [where m = "''GET''" and pat = "[Lit ''v1'', Lit ''ci'', Lit ''callback-url'']"
          and segs = "[''v1'', ''ci'', ''callback-url'']"])
       (simp_all add: catalog_routes_in catalog_routes_def callback_path_query path_of_def query_tail_def Values_Encode_plain)
  then show ?thesis by (simp add: query_get_def query_roundtrip)
qed

lemmas route_commands = route_agents route_environments route_enrol route_grant route_workers route_pipelines route_pipeline
  route_telemetry route_runs route_run route_decision route_run_cost route_rate route_costs

text \<open>The mux decodes every command to the request of its flags.\<close>

lemma command_routed:
  assumes "token \<noteq> []" and "sv_runs s \<noteq> None" and "sendable cmd"
    and "endpoint_of cmd = Some (verb, path, body)" and "request_of cmd (''Bearer '' @ token) = Some q"
  shows "mux H s (cli_baseURL c) (cli_request c verb path token body) = answer H s q"
  using assms
  by (cases cmd)
     (auto simp: route_commands [OF assms(1)] decode_agent decode_environment decode_worker decode_grant decode_pipeline parseSettings_distinct
        decode_run decode_decision decode_telemetry decode_rate simp del: append.simps append_assoc answer.simps split: sum.splits)

section \<open>A name that is not a segment\<close>

text \<open>
  The client does not escape the name of an environment.  The control plane registers an environment
  under any name that is not empty, but one with a slash is never found again: the request to verify it
  matches no route.
\<close>

theorem verify_name_unescaped:
  assumes "segment x" and "segment y"
  shows "\<exists>n \<in> {404, 405}. mux H s (cli_baseURL c)
     (cli_request c ''POST'' (''/v1/environments/'' @ (x @ ''/'' @ y) @ ''/verify'') token None) = Done (Inr (bare n))"
proof -
  let ?req = "cli_request c ''POST'' (''/v1/environments/'' @ (x @ ''/'' @ y) @ ''/verify'') token None"
    and ?segs = "[''v1'', ''environments'', x, y, ''verify'']"
  have p: "''/v1/environments/'' @ (x @ ''/'' @ y) @ ''/verify'' = path_of ?segs @ []" by (simp add: path_of_def)
  have segs: "list_all segment ?segs" "?segs \<noteq> []" "query_tail []" using assms by (simp_all add: query_tail_def)
  have "filter (\<lambda>(m, q). method_matches m ''POST'') (matching s ?segs [] ?req) = []"
    by (auto simp: matching_def registered_def catalog_routes_def bootstrap_routes_def execution_routes_def method_matches_def
        filter_concat)
  then show ?thesis
    using url_parts [OF segs(1,3)] clean_path [OF segs(1,2)] raw_segments_path [OF segs(1,2)] unescape_plain [OF segs(1)] p
    by (simp add: mux_def)
qed

end
