(* ===== verification/OperatorWire.thy ===== *)
theory OperatorWire
  imports OperatorRoutes
begin

text \<open>
  The wire between \<open>idpctl\<close> and the control plane: the outcome of every command of a logged-in user is
  the outcome of its request.  The commands of an operator and of a CI job are put together with the
  handlers that answer them.
\<close>

section \<open>Status codes of the handlers\<close>

text \<open>What the client makes of a response; \<open>Reply\<close> is below 300 and an error is not.\<close>

definition coded_well :: "'b response \<Rightarrow> bool" where
  "coded_well r = (case r of Reply n b \<Rightarrow> n < 300 | Error n c \<Rightarrow> 300 \<le> n | Status n \<Rightarrow> False | Aborted \<Rightarrow> True)"

text \<open>\<open>results P p\<close>: whatever the actions of \<open>p\<close> meet, what it ends with has \<open>P\<close>.\<close>

primrec results :: "('a \<Rightarrow> bool) \<Rightarrow> ('w, 'a) prog \<Rightarrow> bool" where
  "results P (Done a) = P a"
| "results P (Step u k) = (\<forall>w. results P (k w))"

lemma results_run: "results P p \<Longrightarrow> P (fst (run p w))"
  by (induction p arbitrary: w) auto

lemma results_then: "results Q p \<Longrightarrow> (\<And>a. Q a \<Longrightarrow> results P (h a)) \<Longrightarrow> results P (bindP p h)"
  by (induction p) auto

lemma results_bindP: "(\<And>a. results P (h a)) \<Longrightarrow> results P (bindP p h)"
  by (induction p) auto

lemma results_handleE: "(\<And>e. P (r e)) \<Longrightarrow> (\<And>a. results P (k a)) \<Longrightarrow> results P (handleE x r k)"
  unfolding handleE_def by (rule results_bindP) (auto split: sum.split)

lemma results_guards:
  "P r \<Longrightarrow> results P k \<Longrightarrow> results P (reject b r k)"
  "P r \<Longrightarrow> (\<And>a. results P (h a)) \<Longrightarrow> results P (orFail x r h)"
  "P r \<Longrightarrow> (\<And>a. results P (h a)) \<Longrightarrow> results P (orNone y r h)"
  by (auto simp: reject_def orFail_def orNone_def split: sum.split option.split)

lemma coded_responses [simp]:
  "coded_well internalError" "coded_well badRequest" "coded_well forbidden" "coded_well notFoundResp" "coded_well unauthorized"
  "coded_well conflict" "coded_well Aborted" "coded_well (anyErr e)" "coded_well r \<Longrightarrow> coded_well (errIs s r e)"
  "n < 300 \<Longrightarrow> coded_well (Reply n b)" "300 \<le> n \<Longrightarrow> coded_well (Error n c)"
  by (auto simp: coded_well_def internalError_def badRequest_def forbidden_def notFoundResp_def unauthorized_def conflict_def
      anyErr_def errIs_def)

lemma results_environments:
  "(\<And>names. results coded_well (k names)) \<Longrightarrow> results coded_well (orResp (resolveWorkerEnvironments U claims t names) k)"
proof -
  assume k: "\<And>names. results coded_well (k names)"
  have "results (\<lambda>r. case r of Inl resp \<Rightarrow> coded_well resp | Inr ids \<Rightarrow> True) (resolveWorkerEnvironments U claims t names)"
  proof (induction names)
    case (Cons n names)
    show ?case
      unfolding resolveWorkerEnvironments.simps
      by (rule results_bindP) (auto split: sum.splits intro!: results_then [OF Cons])
  qed simp
  then show ?thesis unfolding orResp_def by (rule results_then) (auto simp: k split: sum.splits)
qed

lemmas results_rules = results_handleE results_guards results_environments results_bindP

lemma coded_user_auth: "(\<And>ctx. results coded_well (next ctx)) \<Longrightarrow> results coded_well (user_auth s h next)"
  unfolding requireAuth_def by (intro results_rules) auto

lemma coded_agents:
  "results coded_well (createAgent I claims t a req tier ttl)" "results coded_well (replayAgent I claims t a existing)"
  unfolding createAgent_def replayAgent_def by (intro results_rules; simp)+

lemma coded_PostAgents: "results coded_well (handlePostAgents I agent ctx)"
proof -
  have choice: "results coded_well (if b then createAgent I claims t a req tier ttl
      else bindP p (\<lambda>r. case r of Inr existing \<Rightarrow> replayAgent I claims t a existing
        | Inl e \<Rightarrow> if \<not> errors_Is e actor_ErrNotFound then Done internalError else createAgent I claims t a req tier ttl))"
    for b p claims t a req tier ttl
    by (auto simp: coded_agents intro!: results_bindP split: sum.split)
  show ?thesis unfolding handlePostAgents_def Let_def by (intro results_guards choice) simp_all
qed

lemma coded_handlers:
  "results coded_well (handlePostEnvironments U environment ctx)"
  "results coded_well (handlePostWorkers U worker ctx)"
  "results coded_well (handleGetWorkers U ctx)"
  "results coded_well (handlePostPipelines U pipeline ctx)"
  "results coded_well (handleGetPipeline U i ctx)"
  "results coded_well (handlePostRuns U st body ctx)"
  "results coded_well (handleGetRun U i ctx)"
  "results coded_well (handlePostRunDecision U st i d ctx)"
  "results coded_well (handleGetRunCost U i ctx)"
  "results coded_well (handleGetCICallbackURL prov repo)"
  unfolding handlePostEnvironments_def handlePostWorkers_def handleGetWorkers_def handlePostPipelines_def
    handleGetPipeline_def handlePostRuns_def handleGetRun_def handlePostRunDecision_def handleGetRunCost_def handleGetCICallbackURL_def case_prod_beta
  by ((intro results_rules; simp)+)

section \<open>Every answer is read\<close>

lemma decode_error:
  "json_decode (Some (JObj [(''code'', JStr c), (''message'', JStr m)])) api_error = Inr (c, m)"
  by (simp add: api_error_def json_decode_def json_struct_def bindR_def same_name_def lower_def)

text \<open>\<open>operates H s c w W\<close>: the control plane answers the client, its \<open>n\<close>-th action in the state \<open>W n\<close>.\<close>

definition operates :: "http_lib \<Rightarrow> server \<Rightarrow> cli_Client \<Rightarrow> net \<Rightarrow> (nat \<Rightarrow> world) \<Rightarrow> bool" where
  "operates H s c w W \<longleftrightarrow>
     (\<forall>n req. HasPrefix (rq_URL req) (cli_baseURL c @ ''/v1/'') \<and> \<not> unclean (url_path (TrimPrefix (rq_URL req) (cli_baseURL c))) \<longrightarrow>
        nt_http w n req = fst (run (mux H s (cli_baseURL c) req) (W n)))"

definition sendable_path :: "string \<Rightarrow> bool" where
  "sendable_path path \<longleftrightarrow> HasPrefix path ''/v1/'' \<and> \<not> unclean (url_path path)"

lemma sendable_path_of:
  "list_all segment segs \<Longrightarrow> segs \<noteq> [] \<Longrightarrow> query_tail tail \<Longrightarrow> sendable_path (path_of (''v1'' # segs) @ tail)"
  using url_parts(1) [of "''v1'' # segs" tail] clean_path [of "''v1'' # segs"]
  by (cases segs) (simp_all add: sendable_path_def HasPrefix_def path_of_def)

lemma exchange_served:
  assumes "operates H s c w W" and "nt_url_ok w (cli_baseURL c @ path)" and "sendable_path path"
    and "mux H s (cli_baseURL c) (cli_request c verb path token body) = answer H s q"
  shows "fst (run (exchange (cli_request c verb path token body)) w) =
     (case fst (run (answer H s q) (W (nt_tick w))) of Inl e \<Rightarrow> Inl (Wrapf e) | Inr resp \<Rightarrow> Inr resp)"
proof -
  let ?req = "cli_request c verb path token body"
  have "HasPrefix (rq_URL ?req) (cli_baseURL c @ ''/v1/'')" "\<not> unclean (url_path (TrimPrefix (rq_URL ?req) (cli_baseURL c)))"
    using assms(3) by (auto simp: sendable_path_def HasPrefix_iff)
  with assms(1,4) have "nt_http w (nt_tick w) ?req = fst (run (answer H s q) (W (nt_tick w)))" by (simp add: operates_def)
  with assms(2) show ?thesis by (simp add: run_exchange)
qed

text \<open>The answers below 300 of a route are ones that \<open>out\<close> decodes.\<close>

definition readable :: "(world, http_response res) prog \<Rightarrow> (json option \<Rightarrow> 'a res) \<Rightarrow> bool" where
  "readable h out \<longleftrightarrow> (\<forall>w resp. fst (run h w) = Inr resp \<longrightarrow> hr_StatusCode resp < 300 \<longrightarrow> (\<exists>a. out (hr_Body resp) = Inr a))"

lemma run_answered [simp]: "fst (run (answered_by enc h) w) = written enc (fst (run h w))"
  by (rule run_answered_by)

lemma readable_answered:
  assumes "\<And>ctx. results coded_well (h ctx)" and "\<And>b. \<exists>a. out (Some (enc b)) = Inr a"
  shows "readable (answered_by enc (user_auth s token h)) out"
proof -
  have "results coded_well (user_auth s token h)" by (rule coded_user_auth) (rule assms(1))
  note well = results_run [OF this]
  show ?thesis unfolding readable_def run_answered
  proof (intro allI impI)
    fix w resp
    assume "written enc (fst (run (user_auth s token h) w)) = Inr resp" "hr_StatusCode resp < 300"
    with well [of w] assms(2) show "\<exists>a. out (hr_Body resp) = Inr a"
      by (cases "fst (run (user_auth s token h) w)") (auto simp: written_def coded_well_def bare_def)
  qed
qed

lemma readable_runs: "(\<And>st. readable (h st) out) \<Longrightarrow> sv_runs s \<noteq> None \<Longrightarrow> readable (with_runs_on s h) out"
  by (auto simp: with_runs_on_def)

lemma readable_no_out: "readable h no_out"
  by (simp add: readable_def no_out_def)

text \<open>What is written for each reply has the members the client looks for.\<close>

lemma struct_list_ok: "\<forall>x \<in> set xs. \<exists>a. bindR (json_struct (Some x)) f = Inr a \<Longrightarrow> \<exists>r. struct_list f xs = Inr r"
  by (induction xs) (auto simp: bindR_def)

lemma decode_list_ok:
  assumes "\<And>b. \<exists>a. bindR (json_struct (Some (enc b))) f = Inr a"
  shows "\<exists>r. decode_list f (Some (JArr (map enc bs))) = Inr r"
  using struct_list_ok [of "map enc bs" f] assms by (auto simp: decode_list_def)

lemmas read_simps = json_decode_def json_struct_def bindR_def same_name_def lower_def

lemma json_entries_ok: "\<exists>m. json_entries (map (\<lambda>(k, v). (k, JStr v)) ss) m0 = Inr m"
  by (induction ss arbitrary: m0) auto

lemma replies_read:
  "\<exists>a. json_decode (Some (createAgentResponse_json ag)) (\<lambda>kvs.
      bindR (json_string ''actor_id'' kvs []) (\<lambda>a. bindR (json_string ''token'' kvs []) (\<lambda>t. Inr \<lparr>cas_ActorID = a, cas_Token = t\<rparr>))) = Inr a"
  "\<exists>a. json_decode (Some (createEnvironmentResponse_json en)) (\<lambda>kvs.
      bindR (json_string ''environment_id'' kvs []) (\<lambda>i. bindR (json_string ''name'' kvs []) (\<lambda>n.
      bindR (json_string ''provider'' kvs []) (\<lambda>p. bindR (json_string ''region'' kvs []) (\<lambda>g.
      Inr \<lparr>ces_EnvironmentID = i, ces_Name = n, ces_Provider = p, ces_Region = g\<rparr>))))) = Inr a"
  "\<exists>a. json_decode (Some (createWorkerResponse_json wk)) (\<lambda>kvs.
      bindR (json_string ''worker_credential_id'' kvs []) (\<lambda>i. bindR (json_string ''token'' kvs []) (\<lambda>t.
      Inr \<lparr>cws_WorkerCredentialID = i, cws_Token = t\<rparr>))) = Inr a"
  "\<exists>a. json_decode (Some (pipelineResponse_json pl)) PipelineResponse_members = Inr a"
  "\<exists>a. json_decode (Some (runResponse_json rn)) RunResponse_members = Inr a"
  using json_entries_ok [of "ppr_Settings pl" "[]"]
  by (auto simp: createAgentResponse_json_def createEnvironmentResponse_json_def createWorkerResponse_json_def pipelineResponse_json_def
      runResponse_json_def PipelineResponse_members_def RunResponse_members_def strings_json_def read_simps simp del: json_decode_Inr bindR_Inr)

lemma workers_read: "\<exists>a. decode_list WorkerCredential_members (Some (JArr (map (workerCredentialResponse_json H) ws))) = Inr a"
  by (rule decode_list_ok)
     (auto simp: workerCredentialResponse_json_def WorkerCredential_members_def read_simps json_strings_other
       simp del: json_strings.simps(2) bindR_Inr split: option.split)

lemma costs_read: "\<exists>a. decode_list cli_RunCost_members (Some (JArr (map (runCostResponse_json H) rs))) = Inr a"
proof (rule decode_list_ok)
  fix b
  show "\<exists>a. bindR (json_struct (Some (runCostResponse_json H b))) cli_RunCost_members = Inr a"
    using sint_range
    by (cases "rco_DurationMS b"; cases "rco_AmountMicros b")
       (simp_all add: runCostResponse_json_def cli_RunCost_members_def omitempty_int_def read_simps del: bindR_Inr)
qed

section \<open>A command's outcome is its request's\<close>

text \<open>
  \<open>concludes\<close>: the outcome \<open>x\<close> of a command against what the control plane answers to the request \<open>q\<close> in
  the state \<open>w\<close>, where \<open>reads\<close> tells that the client can read the answer of this route.
\<close>

definition concludes :: "http_lib \<Rightarrow> server \<Rightarrow> request \<Rightarrow> world \<Rightarrow> bool \<Rightarrow> unit res option \<Rightarrow> bool" where
  "concludes H s q w reads x \<longleftrightarrow>
     (x = Some (Inr ()) \<longrightarrow> (\<exists>n < 300. fst (run (Routes s q) w) = Some n)) \<and>
     (reads \<longrightarrow> (\<exists>n < 300. fst (run (Routes s q) w) = Some n) \<longrightarrow> x = Some (Inr ())) \<and>
     (\<forall>n code. 300 \<le> n \<longrightarrow> fst (run (answer H s q) w) = written no_body (Error n code) \<longrightarrow>
        x = Some (Inl (Wrapf (APIError (int n) code []))))"

lemma Routes_status: "fst (run (Routes s q) w) = status_of (fst (run (answer H s q) w))"
  by (simp add: answer_Routes [of H s q, symmetric] run_bindP split: prod.split)

lemma one_call_concludes:
  assumes "session p = Inr (cfg, c)" and "operates H s c (ps_net p) W" and "nt_url_ok (ps_net p) (cli_baseURL c @ path)" and "sendable_path path"
    and "mux H s (cli_baseURL c) (cli_request c verb path (ccf_Token cfg) body) = answer H s q"
    and ends: "\<And>a v. fst (run (k a) v) = Inr ()" and read: "reads \<Longrightarrow> readable (answer H s q) out"
  shows "concludes H s q (W (nt_tick (ps_net p))) reads
     (fst (run (returned (with_session (\<lambda>token c. bindE (remote (cli_do c verb path token body out)) k))) p))"
proof -
  let ?w = "W (nt_tick (ps_net p))" and ?x = "fst (run (returned (with_session (\<lambda>token c. bindE (remote (cli_do c verb path token body out)) k))) p)"
  note ex = exchange_served [OF assms(2-5)]
  have x: "?x = Some (case fst (run (cli_do c verb path (ccf_Token cfg) body out) (ps_net p)) of Inl e \<Rightarrow> Inl (Wrapf e) | Inr a \<Rightarrow> Inr ())"
    using assms(1) ends
    by (simp add: run_returned run_with_session run_bindE run_remote split: prod.split sum.split)
  show ?thesis
  proof (cases "fst (run (answer H s q) ?w)")
    case (Inl e)
    with x ex show ?thesis
      by (simp add: concludes_def run_cli_do Routes_status [of s q _ H] status_of_def written_def)
  next
    case (Inr resp)
    have n: "(\<exists>n < 300. fst (run (Routes s q) ?w) = Some n) \<longleftrightarrow> hr_StatusCode resp < 300"
      by (auto simp: Routes_status [of s q _ H] Inr status_of_def)
    have ok: "?x = Some (Inr ()) \<longleftrightarrow> hr_StatusCode resp < 300 \<and> (\<exists>a. out (hr_Body resp) = Inr a)"
      using x ex Inr by (auto simp: run_cli_do split: sum.splits)
    have "?x = Some (Inl (Wrapf (APIError (int m) code [])))" if "300 \<le> m" "Inr resp = written no_body (Error m code)" for m code
      using x ex Inr that by (simp add: run_cli_do written_def decode_error del: json_decode_Inr)
    with n ok read Inr show ?thesis by (auto simp: concludes_def readable_def)
  qed
qed

lemma sendable_paths:
  "sendable_path ''/v1/agents''" "sendable_path ''/v1/environments''" "sendable_path ''/v1/workers''" "sendable_path ''/v1/pipelines''"
  "sendable_path ''/v1/tenants/telemetry''" "sendable_path ''/v1/runs''" "sendable_path ''/v1/cost-rates''"
  "segment i \<Longrightarrow> sendable_path (''/v1/workers/'' @ i @ ''/environments'')" "segment i \<Longrightarrow> sendable_path (''/v1/pipelines/'' @ i)"
  "segment i \<Longrightarrow> sendable_path (''/v1/runs/'' @ i)" "segment i \<Longrightarrow> sendable_path (''/v1/runs/'' @ i @ ''/decision'')"
  "segment i \<Longrightarrow> sendable_path (''/v1/runs/'' @ i @ ''/cost'')"
  using sendable_path_of [of "[''agents'']" "[]"] sendable_path_of [of "[''environments'']" "[]"] sendable_path_of [of "[''workers'']" "[]"]
    sendable_path_of [of "[''pipelines'']" "[]"] sendable_path_of [of "[''tenants'', ''telemetry'']" "[]"]
    sendable_path_of [of "[''runs'']" "[]"] sendable_path_of [of "[''cost-rates'']" "[]"]
    sendable_path_of [of "[''workers'', i, ''environments'']" "[]"] sendable_path_of [of "[''pipelines'', i]" "[]"]
    sendable_path_of [of "[''runs'', i]" "[]"] sendable_path_of [of "[''runs'', i, ''decision'']" "[]"]
    sendable_path_of [of "[''runs'', i, ''cost'']" "[]"]
  by (simp_all add: path_of_def query_tail_def)

lemma sendable_costs: "sendable_path (costs_path params)"
  using costs_path_parts [of params] sendable_path_of [of "[''costs'', ''by-actor'']"] by auto

lemma endpoint_sendable: "endpoint_of cmd = Some (verb, path, body) \<Longrightarrow> sendable cmd \<Longrightarrow> sendable_path path"
  by (cases cmd) (auto simp: sendable_paths sendable_costs simp del: append.simps append_assoc split: sum.splits)

lemma finish_done [simp]: "fst (run (finish q) v) = Inr ()"
  by (simp add: run_bindP split: prod.split)

lemma then_done: "(\<And>a v. fst (run (h a) v) = Inr ()) \<Longrightarrow> fst (run (bindP q h) v) = Inr ()"
  by (simp add: run_bindP split: prod.split)

lemma printRun_done [simp]: "fst (run (printRun r) v) = Inr ()"
  unfolding printRun_def by (intro then_done) simp

text \<open>The totals of actors are sums that the client must be able to read as 64-bit integers.\<close>

definition summed :: "command \<Rightarrow> bool" where
  "summed cmd \<longleftrightarrow> (\<exists>params. cmd = CmdCostByActor params)"

lemma command_one_call:
  assumes ses: "session p = Inr (cfg, c)" and op: "operates H s c (ps_net p) W" and urls: "\<And>u. nt_url_ok (ps_net p) u"
    and runs: "sv_runs s \<noteq> None" and cmd: "sendable cmd" "request_of cmd (''Bearer '' @ ccf_Token cfg) = Some q"
    and ep: "endpoint_of cmd = Some (verb, path, body)"
    and ex: "execute fuel Q L cmd = returned (with_session (\<lambda>token c. bindE (remote (cli_do c verb path token body out)) k))"
    and ends: "\<And>a v. fst (run (k a) v) = Inr ()" and read: "reads \<Longrightarrow> readable (answer H s q) out"
  shows "concludes H s q (W (nt_tick (ps_net p))) reads (fst (run (execute fuel Q L cmd) p))"
proof -
  have tok: "ccf_Token cfg \<noteq> []" using session_Inr [OF ses] by simp
  show ?thesis
    unfolding ex
    by (rule one_call_concludes [OF ses op urls endpoint_sendable [OF ep cmd(1)] command_routed [OF tok runs cmd(1) ep cmd(2)] ends read])
qed

lemmas readable_routes = readable_runs readable_no_out readable_answered [OF coded_PostAgents] readable_answered [OF coded_handlers(1)]
  readable_answered [OF coded_handlers(2)] readable_answered [OF coded_handlers(3)] readable_answered [OF coded_handlers(4)]
  readable_answered [OF coded_handlers(5)] readable_answered [OF coded_handlers(6)]
  readable_answered [OF coded_handlers(7)] readable_answered [OF coded_handlers(8)]
  readable_answered [OF coded_handlers(9)]

lemma pipeline_concludes:
  assumes ses: "session p = Inr (cfg, c)" and op: "operates H s c (ps_net p) W" and urls: "\<And>u. nt_url_ok (ps_net p) u"
    and runs: "sv_runs s \<noteq> None" and q: "request_of (CmdPipelineRegister e prov wfl ss b) (''Bearer '' @ ccf_Token cfg) = Some q"
  shows "concludes H s q (W (nt_tick (ps_net p))) True (fst (run (execute fuel Q L (CmdPipelineRegister e prov wfl ss b)) p))"
proof -
  let ?cmd = "CmdPipelineRegister e prov wfl ss b"
  from q obtain m where m: "parseSettings ss = Inr m" by (auto split: sum.splits)
  have "sendable ?cmd" by simp
  then show ?thesis
  proof (rule command_one_call [OF ses op urls runs _ q])
    show "endpoint_of ?cmd = Some (''POST'', ''/v1/pipelines'', Some (CreatePipelineRequest_json
       \<lparr>cpq_EnvironmentID = e, cpq_Provider = prov, cpq_WorkflowRef = wfl, cpq_Settings = m, cpq_Mutating = b\<rparr>))"
      using m by simp
    show "execute fuel Q L ?cmd = returned (with_session (\<lambda>token c. bindE (remote (cli_do c ''POST'' ''/v1/pipelines'' token
       (Some (CreatePipelineRequest_json
          \<lparr>cpq_EnvironmentID = e, cpq_Provider = prov, cpq_WorkflowRef = wfl, cpq_Settings = m, cpq_Mutating = b\<rparr>))
       (\<lambda>b. json_decode b PipelineResponse_members)))
         (\<lambda>resp. finish (Println [''Pipeline registered:'', ccpr_PipelineID resp, ccpr_WorkflowRef resp]))))"
      using m by (simp add: pipeline_register_def runPipelineRegister_def cli_CreatePipeline_def)
    show "readable (answer H s q) (\<lambda>b. json_decode b PipelineResponse_members)"
      using q m by (auto simp: replies_read intro!: readable_routes simp del: json_decode_Inr)
  qed simp
qed

lemma command_concludes:
  assumes ses: "session p = Inr (cfg, c)" and op: "operates H s c (ps_net p) W" and urls: "\<And>u. nt_url_ok (ps_net p) u"
    and runs: "sv_runs s \<noteq> None" and cmd: "sendable cmd" "request_of cmd (''Bearer '' @ ccf_Token cfg) = Some q"
  shows "concludes H s q (W (nt_tick (ps_net p))) (\<not> summed cmd) (fst (run (execute fuel Q L cmd) p))"
proof -
  from runs obtain st where st: "sv_runs s = Some st" by auto
  show ?thesis
    using cmd
    by (cases cmd; hypsubst_thin)
       (((simp; fail) | (simp add: summed_def pipeline_concludes [OF ses op urls runs] del: execute.simps request_of.simps; fail) |
         (rule command_one_call [OF ses op urls runs], assumption, assumption,
           unfold execute.simps endpoint_of.simps one_call_defs CreateWorkerRequest.select_convs SetCostRateRequest.select_convs,
           rule refl, rule refl, simp add: then_done,
           (auto simp: summed_def replies_read workers_read costs_read st intro!: readable_routes simp del: bindR_Inr json_decode_Inr)[1]))[1])+
qed


section \<open>An approval, end to end\<close>

lemma cli_do_ok: "run (cli_do c verb path token body out) w = (Inr a, v) \<Longrightarrow> nt_url_ok w (cli_baseURL c @ path)"
  using exchange_ok [of "cli_request c verb path token body" w]
  by (auto simp: run_cli_do cli_request_def split: sum.splits)

abbreviation user_gate :: "server \<Rightarrow> string \<Rightarrow> (Claims option \<Rightarrow> 'b handler) \<Rightarrow> 'b handler" where
  "user_gate s token next \<equiv> user_auth s (''Bearer '' @ token) next"

lemma decide_served:
  assumes "operates H s c w W" and st: "sv_runs s = Some st" and "token \<noteq> []" and "segment i"
    and "run (cli_DecideRun c token i b) w = (Inr rr, v)"
  shows "\<exists>n resp w1. run (user_gate s token (handlePostRunDecision (uuids s) st i
       (Some (if b then ''approved'' else ''denied'')))) (W (nt_tick w)) = (Reply n resp, w1)"
proof -
  let ?h = "user_gate s token (handlePostRunDecision (uuids s) st i (Some (if b then ''approved'' else ''denied'')))"
  note dec = assms(5) [unfolded cli_DecideRun_def]
  have q: "mux H s (cli_baseURL c) (cli_request c ''POST'' (''/v1/runs/'' @ i @ ''/decision'') token (Some (decision_json b))) =
      answer H s (PostRunDecision (''Bearer '' @ token) i (Some (if b then ''approved'' else ''denied'')))"
    using route_decision [OF assms(3,4)] st decode_decision by simp
  from cli_do_Inr [OF dec] exchange_served [OF assms(1) cli_do_ok [OF dec] sendable_paths(11) [OF assms(4)] q] cli_do_ok [OF dec]
  obtain resp where "written runResponse_json (fst (run ?h (W (nt_tick w)))) = Inr resp" "hr_StatusCode resp < 300"
    by (auto simp: run_exchange with_runs_on_def st split: sum.splits)
  moreover have "coded_well (fst (run ?h (W (nt_tick w))))"
    by (rule results_run, rule coded_user_auth, rule coded_handlers)
  ultimately show ?thesis
    by (cases "run ?h (W (nt_tick w))"; cases "fst (run ?h (W (nt_tick w)))") (auto simp: written_def coded_well_def bare_def)
qed

lemma decide_command:
  assumes "run (runRunDecide i b) p = (Inr (), v)"
  shows "\<exists>cfg c rr w. session p = Inr (cfg, c) \<and> run (cli_DecideRun c (ccf_Token cfg) i b) (ps_net p) = (Inr rr, w)"
  using assms by (auto simp: runRunDecide_def run_with_session run_bindE run_remote split: sum.splits prod.splits)

text \<open>
  C5. An approval at the terminal is an approval in the books.  When \<open>idpctl run approve\<close> returns normally,
  and the control plane answered it in the state \<open>w\<close>, the token of the stored session was accepted there
  and not revoked; its actor, above the read-only tier, belongs to the tenant of the run and did not
  request it; the run was waiting undecided; and afterwards its approval is recorded as given by that
  actor, with one new audit record.
\<close>

theorem approval_end_to_end:
  assumes cmd: "run (execute fuel q L (CmdRunApprove i)) p = (Some (Inr ()), v)"
    and ses: "session p = Inr (cfg, c)" and cp: "operates H s c (ps_net p) W" "sv_runs s = Some st" "enqueuer (st_Enqueue st)"
    and seg: "segment i" and w: "w = W (nt_tick (ps_net p))"
  shows "\<exists>jc claims a j ev w'.
     jwt_ParseWithClaims (is_jwt (sv_issuer s)) (sv_publicKey s) [''EdDSA''] (clock w (tick w)) (ccf_Token cfg) = (jc, None) \<and>
     \<not> revoked_in (is_uuid (sv_issuer s)) (jc_Subject jc) (jc_ID jc) (w_db w) \<and> claims_of jc = Inr claims \<and>
     cl_Tier claims \<noteq> TierReadOnly \<and>
     uuid_Parse (is_uuid (sv_issuer s)) (cl_ActorID claims) = Inr a \<and> uuid_Parse (is_uuid (sv_issuer s)) i = Inr j \<and>
     (\<exists>r \<in> set (runs (w_db w)). rn_ID r = j \<and> rn_ActorID r \<noteq> a \<and>
        uuid_Parse (is_uuid (sv_issuer s)) (cl_TenantID claims) = Inr (rn_TenantID r)) \<and>
     (\<exists>ap \<in> set (approvals (w_db w)). ap_RunID ap = j \<and> ap_Decision ap = None) \<and>
     w' = snd (run (user_gate s (ccf_Token cfg) (handlePostRunDecision (is_uuid (sv_issuer s)) st i (Some ''approved''))) w) \<and>
     (\<exists>ap \<in> set (approvals (w_db w')). ap_RunID ap = j \<and> ap_ApproverActorID ap = Some a \<and> ap_Decision ap = Some ''approved'') \<and>
     audit_events (w_db w') = audit_events (w_db w) @ [ev] \<and> au_ActorID ev = a \<and> au_RunID ev = Some j"
proof -
  let ?U = "is_uuid (sv_issuer s)"
  let ?gate = "user_gate s (ccf_Token cfg) (handlePostRunDecision ?U st i (Some ''approved''))"
  from cmd have "fst (run (runRunDecide i True) p) = Inr ()" by (simp add: run_returned)
  then obtain v' where "run (runRunDecide i True) p = (Inr (), v')" by (metis prod.collapse)
  from decide_command [OF this] ses obtain rr u where dec: "run (cli_DecideRun c (ccf_Token cfg) i True) (ps_net p) = (Inr rr, u)" by auto
  have tok: "ccf_Token cfg \<noteq> []" using session_Inr [OF ses] by simp
  from decide_served [OF cp(1,2) tok seg dec] obtain n resp w1 where gate: "run ?gate w = (Reply n resp, w1)" by (auto simp: w)
  from auth_gate [OF gate] obtain jc claims w0 where
    jc: "jwt_ParseWithClaims (is_jwt (sv_issuer s)) (sv_publicKey s) [''EdDSA''] (clock w (tick w)) (ccf_Token cfg) = (jc, None)"
      "\<not> revoked_in ?U (jc_Subject jc) (jc_ID jc) (w_db w)" "claims_of jc = Inr claims" "w_db w0 = w_db w"
    and h: "run (handlePostRunDecision ?U st i (Some ''approved'') (Some claims)) w0 = (Reply n resp, w1)"
    by (auto simp: unauthorized_def)
  from handlePostRunDecision_Reply [OF h] obtain a j where ids: "uuid_Parse ?U (cl_ActorID claims) = Inr a" "uuid_Parse ?U i = Inr j" by blast
  note acc = handlePostRunDecision_accepted [OF cp(3) h refl ids, unfolded jc(4)]
  from acc obtain ev where "audit_events (w_db w1) = audit_events (w_db w) @ [ev]" "au_ActorID ev = a" "au_RunID ev = Some j" by blast
  with acc jc(1-3) ids gate show ?thesis
    by (intro exI [of _ jc] exI [of _ claims] exI [of _ a] exI [of _ j] exI [of _ ev] exI [of _ w1]) simp
qed

section \<open>A CI job, end to end\<close>


section \<open>At a concrete deployment\<close>

definition op_server :: server where
  "op_server = demo_server
     \<lparr>sv_issuer := \<lparr>is_jwt = expiring_jwt, is_key = [], is_uuid = sample_uuid\<rparr>, sv_runs := Some sample_store\<rparr>"

definition op_net :: net where
  "op_net = demo_net\<lparr>nt_http := (\<lambda>n req. fst (run (mux wire_http op_server ''cp'' req) sample_waiting))\<rparr>"

lemma op_operates: "operates wire_http op_server (cli_New ''cp'') op_net (\<lambda>n. sample_waiting)"
  by (simp add: operates_def op_net_def cli_New_def)

lemma op_store: "sv_runs op_server = Some sample_store"
  by (simp add: op_server_def)

lemma op_segment: "segment ''9''"
  by (simp add: segment_def)

lemma op_urls: "nt_url_ok op_net u"
  by (simp add: op_net_def demo_net_def)

lemma op_gate:
  "reply_code (fst (run (user_gate op_server ''3'' (handlePostRunDecision sample_uuid sample_store ''9'' (Some ''approved''))) sample_waiting)) = 200"
  by code_simp

lemma op_uuid: "is_uuid (sv_issuer op_server) = sample_uuid"
  by (simp add: op_server_def)

lemma op_ready:
  "operates wire_http op_server (cli_New ''cp'') (ps_net (sample_process op_net)) (\<lambda>n. sample_waiting)"
  "nt_url_ok (ps_net (sample_process op_net)) u" "sv_runs op_server \<noteq> None" "sendable (CmdRunApprove ''9'')"
  "request_of (CmdRunApprove ''9'') (''Bearer '' @ ccf_Token \<lparr>ccf_Server = ''cp'', ccf_Token = ''3''\<rparr>) =
     Some (PostRunDecision ''Bearer 3'' ''9'' (Some ''approved''))"
  using op_operates by (simp_all add: sample_process_def op_urls op_store op_segment)

lemma op_answered: "fst (run (Routes op_server (PostRunDecision ''Bearer 3'' ''9'' (Some ''approved''))) sample_waiting) = Some 200"
proof -
  obtain resp where "fst (run (user_gate op_server ''3'' (handlePostRunDecision sample_uuid sample_store ''9'' (Some ''approved''))) sample_waiting) = Reply 200 resp"
    using op_gate by (cases "fst (run (user_gate op_server ''3'' (handlePostRunDecision sample_uuid sample_store ''9'' (Some ''approved''))) sample_waiting)") auto
  then show ?thesis
    by (auto simp: with_runs_def op_store auth_def coded_def run_bindP op_uuid split: prod.split)
qed

lemma op_approved: "fst (run (execute 0 id sample_time (CmdRunApprove ''9'')) (sample_process op_net)) = Some (Inr ())"
proof -
  have "concludes wire_http op_server (PostRunDecision ''Bearer 3'' ''9'' (Some ''approved'')) sample_waiting True
      (fst (run (execute 0 id sample_time (CmdRunApprove ''9'')) (sample_process op_net)))"
    using command_concludes [OF sample_session op_ready] by (simp add: summed_def)
  then show ?thesis using op_answered by (simp add: concludes_def)
qed


theorem approval_end_to_end_witness:
  "\<exists>v. run (execute 0 id sample_time (CmdRunApprove ''9'')) (sample_process op_net) = (Some (Inr ()), v) \<and>
     (\<exists>ap \<in> set (approvals (w_db (snd (run (user_gate op_server ''3''
          (handlePostRunDecision sample_uuid sample_store ''9'' (Some ''approved''))) sample_waiting)))).
        ap_RunID ap = 9 \<and> ap_ApproverActorID ap = Some 3 \<and> ap_Decision ap = Some ''approved'')"
proof -
  obtain v where v: "run (execute 0 id sample_time (CmdRunApprove ''9'')) (sample_process op_net) = (Some (Inr ()), v)"
    using op_approved by (metis prod.collapse)
  have op: "operates wire_http op_server (cli_New ''cp'') (ps_net (sample_process op_net)) (\<lambda>n. sample_waiting)"
    using op_operates by (simp add: sample_process_def)
  have w: "sample_waiting = (\<lambda>n. sample_waiting) (nt_tick (ps_net (sample_process op_net)))" by simp
  have t: "ccf_Token \<lparr>ccf_Server = ''cp'', ccf_Token = ''3''\<rparr> = ''3''" by simp
  note end_to_end = approval_end_to_end [OF v sample_session op op_store sample_enqueuer op_segment w, unfolded op_uuid]
  from end_to_end obtain jc claims a j w' where
    jc: "jwt_ParseWithClaims (is_jwt (sv_issuer op_server)) (sv_publicKey op_server) [''EdDSA''] (clock sample_waiting (tick sample_waiting)) ''3'' = (jc, None)"
      "claims_of jc = Inr claims"
    and ids: "uuid_Parse sample_uuid (cl_ActorID claims) = Inr a" "uuid_Parse sample_uuid ''9'' = Inr j"
    and ap: "w' = snd (run (user_gate op_server ''3'' (handlePostRunDecision sample_uuid sample_store ''9'' (Some ''approved''))) sample_waiting)"
      "\<exists>ap \<in> set (approvals (w_db (w' :: world))). ap_RunID ap = j \<and> ap_ApproverActorID ap = Some a \<and> ap_Decision ap = Some ''approved''"
    unfolding t op_uuid by blast
  from jc have "cl_ActorID claims = ''3''"
    by (auto simp: op_server_def expiring_jwt_def claims_of_def split: if_splits)
  with ids have "a = 3" "j = 9" by (simp_all add: sample_uuid_def)
  with ap v show ?thesis by blast
qed

definition job_net :: net where
  "job_net = demo_net
     \<lparr>nt_http := (\<lambda>n req.
        if rq_URL req = ''cb'' then
          callback_written sample_time (fst (run (ServeHTTP (worker_handler wire_registry demo_client (\<lambda>s. Inr 0) demo_app) (rq_Body req)) wire_net))
        else if HasPrefix (rq_URL req) ''cp'' then reply_with 200 [(''url'', JStr ''cb'')]
        else reply_with 200 [(''value'', JStr ''good'')])\<rparr>"

lemma job_discovers:
  "fst (run (cli_GetCICallbackURL (cli_New ''cp'') ''github_actions'' ''acme/app'') job_net) = Inr ''cb''"
  by (simp add: cli_GetCICallbackURL_def run_cli_do run_exchange cli_request_def cli_New_def callback_path_def job_net_def demo_net_def
      HasPrefix_def reply_with_def json_decode_def json_struct_def bindR_def same_name_def lower_def)

lemma job_callback_served:
  "run (cli_GetCICallbackURL (cli_New ''cp'') ''github_actions'' (ps_env (sample_process job_net) ''GITHUB_REPOSITORY'')) (ps_net (sample_process job_net)) = (Inr url, w1) \<Longrightarrow>
     callback_served sample_time (worker_handler wire_registry demo_client (\<lambda>s. Inr 0) demo_app) url (ps_net (sample_process job_net)) (\<lambda>n. wire_net)"
proof -
  assume "run (cli_GetCICallbackURL (cli_New ''cp'') ''github_actions'' (ps_env (sample_process job_net) ''GITHUB_REPOSITORY'')) (ps_net (sample_process job_net)) = (Inr url, w1)"
  then have "url = ''cb''" using job_discovers by (simp add: sample_process_def sample_env_def)
  then show ?thesis by (simp add: callback_served_def sample_process_def job_net_def)
qed

lemma job_prints: "\<exists>v. run (runCIAuth sample_time ''cp'' ''env'') (sample_process job_net) = (Inr (), v)"
proof -
  let ?h = "worker_handler wire_registry demo_client (\<lambda>s. Inr 0) demo_app" and ?p = "sample_process job_net"
  have b: "Some (callback_body ''github_actions'' ''good'') = job_request" by (simp add: callback_body_def job_request_def)
  obtain w1 where d: "run (cli_GetCICallbackURL (cli_New ''cp'') ''github_actions'' ''acme/app'') job_net = (Inr ''cb'', w1)"
    using job_discovers by (metis prod.collapse)
  from quiet_run [OF quiet_requests(2) d] have w1: "nt_http w1 = nt_http job_net" "nt_url_ok w1 = nt_url_ok job_net" by (simp_all add: same_outside_def)
  have "fst (run (requestOIDCToken ''gh?v=1'' ''rt'' ''cb'') w1) = Inr ''good''"
  proof -
    have "QueryEscape ''cb'' = ''cb''" by code_simp
    then show ?thesis
      by (simp add: requestOIDCToken_def run_bindE run_exchange oidc_request_def w1 job_net_def demo_net_def HasPrefix_def reply_with_def
          json_decode_def json_struct_def bindR_def same_name_def lower_def)
  qed
  then obtain w2 where o: "run (requestOIDCToken ''gh?v=1'' ''rt'' ''cb'') w1 = (Inr ''good'', w2)" by (metis prod.collapse)
  from quiet_run [OF quiet_requests(1) o] w1 have w2: "nt_http w2 = nt_http job_net" "nt_url_ok w2 = nt_url_ok job_net" by (simp_all add: same_outside_def)
  have cs: "callback_served sample_time ?h ''cb'' w2 (\<lambda>n. wire_net)" by (simp add: callback_served_def w2) (simp add: job_net_def)
  have ok: "nt_url_ok w2 ''cb''" by (simp add: w2) (simp add: job_net_def demo_net_def)
  obtain cred u where sv: "run (ServeHTTP ?h (Some (callback_body ''github_actions'' ''good''))) wire_net = (Reply 200 cred, u)"
    using wire_job unfolding b by blast
  have "fst (run (postCallback sample_time ''cb'' ''github_actions'' ''good'') w2) = Inr (presented cred)"
    using postCallback_served [OF cs ok, of "''github_actions''" "''good''"] sv by (simp add: sample_time_def atoi_itoa)
  then obtain w3 where po: "run (postCallback sample_time ''cb'' ''github_actions'' ''good'') w2 = (Inr (presented cred), w3)" by (metis prod.collapse)
  have "run (fetch_credentials sample_time ''cp'') ?p = (Inr (''github_actions'', presented cred), ?p\<lparr>ps_net := w3\<rparr>)"
    using d o po
    by (simp add: fetch_credentials_def detectCIContext_def fetchGitHubOIDCToken_def run_bindE run_bindP run_mapE run_remote run_on_net
        sample_process_def sample_env_def)
  then have "fst (run (runCIAuth sample_time ''cp'' ''env'') ?p) = Inr ()"
    using run_mask_values [of "?p\<lparr>ps_net := w3\<rparr>" "[ccr_SecretAccessKey (presented cred), ccr_SessionToken (presented cred)]"]
    by (auto simp: runCIAuth_def formatWriters_def run_bindE run_bindP maskers_get githubActionsMasker_def writeEnv_def run_mapE run_write_out
        sample_process_def simp del: mask_values.simps)
  then show ?thesis by (metis prod.collapse)
qed


end
