(* ===== verification/Progress.thy ===== *)
theory Progress
  imports RunOperations
begin

text \<open>
  Progress of the run queue.  \<open>run_history\<close> is the relation between any two moments of a schedule
  (\<open>Promises\<close>); here claims are interleaved with it, and every run gets its turn.
\<close>

section \<open>The runs ahead of a run\<close>

definition settled :: "run_row \<Rightarrow> bool" where
  "settled r \<longleftrightarrow> rn_ClaimedBy r \<noteq> None \<or> terminal (rn_Status r) \<or> rn_Status r = StatusDenied"

text \<open>The other runs requested no later that may still be handed to a worker.\<close>

definition ahead_of :: "run_row \<Rightarrow> db \<Rightarrow> uuid set" where
  "ahead_of r d = rn_ID ` {x \<in> set (runs d). rn_RequestedAt x \<le> rn_RequestedAt r \<and> \<not> settled x} - {rn_ID r}"

definition requested_by :: "time \<Rightarrow> db \<Rightarrow> uuid set" where
  "requested_by t d = rn_ID ` {x \<in> set (runs d). rn_RequestedAt x \<le> t}"

lemma finite_ahead [simp]: "finite (ahead_of r d)"
  by (simp add: ahead_of_def)

lemma ahead_cong: "rn_ID r' = rn_ID r \<Longrightarrow> rn_RequestedAt r' = rn_RequestedAt r \<Longrightarrow> ahead_of r' d = ahead_of r d"
  by (simp add: ahead_of_def)

lemma settled_evolves: "run_evolves r r' \<Longrightarrow> settled r \<Longrightarrow> settled r'"
  unfolding run_evolves_def settled_def by (auto dest: legal_star_terminal legal_star_denied)

lemma run_evolves_key:
  "run_evolves r r' \<Longrightarrow> rn_ID r' = rn_ID r" "run_evolves r r' \<Longrightarrow> rn_RequestedAt r' = rn_RequestedAt r"
  "run_evolves r r' \<Longrightarrow> rn_EnvironmentID r' = rn_EnvironmentID r"
  by (simp_all add: run_evolves_def)

text \<open>Where no older run appears, no run gets ahead.\<close>

lemma ahead_mono:
  assumes inv: "run_inv d" and his: "run_history d d'"
    and new: "requested_by (rn_RequestedAt r) d' \<subseteq> rn_ID ` set (runs d)"
  shows "ahead_of r d' \<subseteq> ahead_of r d"
proof
  fix i assume "i \<in> ahead_of r d'"
  then obtain x where x: "x \<in> set (runs d')" "rn_ID x = i" "i \<noteq> rn_ID r" "rn_RequestedAt x \<le> rn_RequestedAt r" "\<not> settled x"
    by (auto simp: ahead_of_def)
  with new obtain y where y: "y \<in> set (runs d)" "rn_ID y = i" by (force simp: requested_by_def)
  from inv his y(1) obtain z where z: "z \<in> set (runs d')" "run_evolves y z"
    unfolding run_history_def run_evolution_def by blast
  from history_inv [OF his inv] have "distinct (map rn_ID (runs d'))" by (simp add: run_inv_def)
  with x(1,2) y(2) z have "z = x" by (metis distinct_map_unique run_evolves_key(1))
  with z(2) x y show "i \<in> ahead_of r d"
    by (auto simp: ahead_of_def dest: settled_evolves intro!: image_eqI [of _ _ y] simp flip: run_evolves_key(2))
qed

section \<open>One claim\<close>

lemma execution_Claim_ids:
  assumes "run (execution_Claim c envs) w = (x, v)" and "run_inv (w_db w)"
  shows "rn_ID ` set (runs (w_db v)) = rn_ID ` set (runs (w_db w))"
proof (cases x)
  case (Inl e)
  with assms(1) have "w_db v = w_db w"
    by (auto simp: execution_Claim_def ClaimNextExecutingRun_def run_simps
        split: if_splits option.splits sum.splits prod.splits)
  then show ?thesis by simp
next
  case (Inr s)
  from assms(2) have "distinct (map rn_ID (runs (w_db w)))" by (simp add: run_inv_def)
  from execution_Claim_Inr [OF this assms(1) [unfolded Inr]] obtain r0 now where
    "r0 \<in> set (runs (w_db w))" and v: "w_db v = (w_db w)\<lparr>runs := update_rows (\<lambda>x. rn_ID x = rn_ID r0) (mark_run c now) (runs (w_db w))\<rparr>"
    by blast
  have "map rn_ID (runs (w_db v)) = map rn_ID (runs (w_db w))" by (simp add: v map_update_rows mark_run_def)
  then show ?thesis by (metis list.set_map)
qed

text \<open>With a run to hand out and no statement lost, a claim by a stored credential succeeds.\<close>

lemma execution_Claim_succeeds:
  assumes "r \<in> set (runs (w_db w))" and "claimable_run envs r" and "fault w (tick w) = None"
    and "c \<in> wc_ID ` set (worker_credentials (w_db w))" and "c \<noteq> uuid_Nil"
  shows "\<exists>s v. run (execution_Claim c envs) w = (Inr s, v)"
proof -
  from assms(2) have envs: "envs \<noteq> []" by (auto simp: claimable_run_def)
  obtain s rows where "claim_next (claimable_run envs) rn_RequestedAt rn_ID (mark_run c (clock w (tick w))) (runs (w_db w)) = Inr (s, rows)"
    using run_queue.claim_Inl [of envs c "clock w (tick w)" "runs (w_db w)"] assms(1,2)
    by (cases "claim_next (claimable_run envs) rn_RequestedAt rn_ID (mark_run c (clock w (tick w))) (runs (w_db w))") auto
  with assms(3-5) envs show ?thesis
    by (simp add: execution_Claim_def ClaimNextExecutingRun_def run_simps violated_def)
qed

text \<open>A claim by a worker of the run's environment hands it out, or one of those ahead.\<close>

lemma claim_serves:
  assumes inv: "run_inv (w_db w)" and r: "r \<in> set (runs (w_db w))" "claimable_run envs r"
    and run: "run (execution_Claim c envs) w = (Inr s, v)"
  shows "(\<exists>r' \<in> set (runs (w_db v)). run_evolves r r' \<and> settled r') \<or> ahead_of r (w_db v) \<subset> ahead_of r (w_db w)"
proof -
  have his: "run_history (w_db w) (w_db v)"
    using rh.keeps_run [OF keeps_execution_Claim run] .
  from inv have dist: "distinct (map rn_ID (runs (w_db w)))" by (simp add: run_inv_def)
  from execution_Claim_Inr [OF dist run] obtain r0 now where
    r0: "r0 \<in> set (runs (w_db w))" "claimable_run envs r0" "rn_RequestedAt r0 \<le> rn_RequestedAt r"
    and v: "w_db v = (w_db w)\<lparr>runs := update_rows (\<lambda>x. rn_ID x = rn_ID r0) (mark_run c now) (runs (w_db w))\<rparr>"
    using r by blast
  have marked: "mark_run c now r0 \<in> set (runs (w_db v))"
    using update_rows_mem [OF r0(1), of "\<lambda>x. rn_ID x = rn_ID r0" "mark_run c now"] by (simp add: v)
  show ?thesis
  proof (cases "rn_ID r0 = rn_ID r")
    case True
    then have "r0 = r" using dist r0(1) r(1) distinct_map_unique by metis
    with marked r(2) have "run_evolves r (mark_run c now r) \<and> settled (mark_run c now r)"
      by (simp add: run_evolves_def mark_run_def settled_def claimable_run_def)
    with marked \<open>r0 = r\<close> show ?thesis by blast
  next
    case False
    have "ahead_of r (w_db v) \<subseteq> ahead_of r (w_db w)"
      by (rule ahead_mono [OF inv his]) (use execution_Claim_ids [OF run inv] in \<open>auto simp: requested_by_def\<close>)
    moreover have "rn_ID r0 \<in> ahead_of r (w_db w)"
      using r0 False by (auto simp: ahead_of_def settled_def claimable_run_def terminal_def)
    moreover have "settled x" if "x \<in> set (runs (w_db v))" "rn_ID x = rn_ID r0" for x
    proof -
      from that(1) obtain y where "y \<in> set (runs (w_db w))" "x = (if rn_ID y = rn_ID r0 then mark_run c now y else y)"
        by (auto simp: v in_update_rows)
      with that(2) show ?thesis by (cases "rn_ID y = rn_ID r0") (simp_all add: settled_def mark_run_def)
    qed
    then have "rn_ID r0 \<notin> ahead_of r (w_db v)" by (fastforce simp: ahead_of_def)
    ultimately show ?thesis by blast
  qed
qed

section \<open>Every run gets its turn\<close>

text \<open>A run that was executing and is not settled still executes.\<close>

lemma unsettled_executing:
  "run_evolves r r' \<Longrightarrow> rn_Status r = StatusExecuting \<Longrightarrow> \<not> settled r' \<Longrightarrow> rn_Status r' = StatusExecuting \<and> rn_ClaimedBy r' = None"
  using legal_star_executing [of "rn_Status r" "rn_Status r'"] by (auto simp: run_evolves_def settled_def)

lemma claim_round:
  assumes inv: "run_inv (w_db w)" and r: "r \<in> set (runs (w_db w))" "rn_Status r = StatusExecuting" "\<not> settled r"
    and run: "run (execution_Claim c envs) w = (x, v)" and ok: "fault w (tick w) = None"
    and c: "c \<in> wc_ID ` set (worker_credentials (w_db w))" "c \<noteq> uuid_Nil"
    and his: "run_history (w_db v) (w_db w')"
    and new: "requested_by (rn_RequestedAt r) (w_db w') \<subseteq> rn_ID ` set (runs (w_db v))"
  shows "\<exists>r' \<in> set (runs (w_db w')). run_evolves r r' \<and>
     (settled r' \<or> card (ahead_of r (w_db w')) + (if rn_EnvironmentID r \<in> set envs then 1 else 0) \<le> card (ahead_of r (w_db w)))"
proof -
  have his1: "run_history (w_db w) (w_db v)" using rh.keeps_run [OF keeps_execution_Claim run] .
  then have inv1: "run_inv (w_db v)" using inv by (rule history_inv)
  have later: "\<exists>z \<in> set (runs (w_db w')). run_evolves r z \<and> (settled y \<longrightarrow> settled z)"
    if "y \<in> set (runs (w_db v))" "run_evolves r y" for y
    using his inv1 that unfolding run_history_def run_evolution_def by (meson run_evolves_trans settled_evolves)
  have sub1: "ahead_of r (w_db v) \<subseteq> ahead_of r (w_db w)"
    by (rule ahead_mono [OF inv his1]) (use execution_Claim_ids [OF run inv] in \<open>auto simp: requested_by_def\<close>)
  have sub2: "ahead_of r (w_db w') \<subseteq> ahead_of r (w_db v)" by (rule ahead_mono [OF inv1 his new])
  obtain y where y: "y \<in> set (runs (w_db v))" "run_evolves r y"
    using his1 inv r(1) unfolding run_history_def run_evolution_def by blast
  show ?thesis
  proof (cases "rn_EnvironmentID r \<in> set envs")
    case False
    have "card (ahead_of r (w_db w')) \<le> card (ahead_of r (w_db w))"
      using sub1 sub2 by (intro card_mono) auto
    with False later [OF y] show ?thesis by auto
  next
    case True
    then have cl: "claimable_run envs r" using r(2,3) by (simp add: claimable_run_def settled_def)
    from execution_Claim_succeeds [OF r(1) cl ok c] run obtain s where "run (execution_Claim c envs) w = (Inr s, v)" by auto
    from claim_serves [OF inv r(1) cl this]
    consider y' where "y' \<in> set (runs (w_db v))" "run_evolves r y'" "settled y'" | "ahead_of r (w_db v) \<subset> ahead_of r (w_db w)" by blast
    then show ?thesis
    proof cases
      case 1
      with later show ?thesis by blast
    next
      case 2
      with sub2 have "card (ahead_of r (w_db w')) < card (ahead_of r (w_db w))"
        by (intro psubset_card_mono) auto
      with True later [OF y] show ?thesis by auto
    qed
  qed
qed

definition polls_of :: "run_row \<Rightarrow> (nat \<Rightarrow> uuid list) \<Rightarrow> nat \<Rightarrow> nat" where
  "polls_of r envs k = length (filter (\<lambda>k. rn_EnvironmentID r \<in> set (envs k)) [0..<k])"

lemma polls_of_simps [simp]:
  "polls_of r envs 0 = 0"
  "polls_of r envs (Suc k) = polls_of r envs k + (if rn_EnvironmentID r \<in> set (envs k) then 1 else 0)"
  by (simp_all add: polls_of_def)

lemma claim_rounds:
  assumes inv: "run_inv (w_db (W 0))" and r: "r \<in> set (runs (w_db (W 0)))" "rn_Status r = StatusExecuting"
    and claims: "\<forall>k < n. run (execution_Claim (c k) (envs k)) (W k) = (X k, V k) \<and> fault (W k) (tick (W k)) = None \<and>
       c k \<in> wc_ID ` set (worker_credentials (w_db (W k))) \<and> c k \<noteq> uuid_Nil"
    and between: "\<forall>k < n. run_history (w_db (V k)) (w_db (W (Suc k))) \<and>
       (\<forall>x \<in> set (runs (w_db (W (Suc k)))). rn_RequestedAt x \<le> rn_RequestedAt r \<longrightarrow> rn_ID x \<in> rn_ID ` set (runs (w_db (V k))))"
  shows "k \<le> n \<Longrightarrow> run_inv (w_db (W k)) \<and> (\<exists>r' \<in> set (runs (w_db (W k))). run_evolves r r' \<and>
      (settled r' \<or> card (ahead_of r (w_db (W k))) + polls_of r envs k \<le> card (ahead_of r (w_db (W 0)))))"
proof (induction k)
  case 0
  from inv r(1) run_evolves_refl show ?case by (intro conjI bexI [of _ r]) simp_all
next
  case (Suc k)
  then have k: "k < n" by simp
  from Suc.IH k obtain r' where inv': "run_inv (w_db (W k))" and r': "r' \<in> set (runs (w_db (W k)))" "run_evolves r r'"
    and or: "settled r' \<or> card (ahead_of r (w_db (W k))) + polls_of r envs k \<le> card (ahead_of r (w_db (W 0)))" by auto
  have run: "run (execution_Claim (c k) (envs k)) (W k) = (X k, V k)" and his: "run_history (w_db (V k)) (w_db (W (Suc k)))"
    using claims between k by blast+
  have his1: "run_history (w_db (W k)) (w_db (V k))" using rh.keeps_run [OF keeps_execution_Claim run] .
  then have inv1: "run_inv (w_db (V k))" and inv2: "run_inv (w_db (W (Suc k)))"
    using inv' his by (blast intro: history_inv)+
  show ?case
  proof (cases "settled r'")
    case True
    from transpD [OF rh.transp_R his1 his] inv' r'(1) obtain z where "z \<in> set (runs (w_db (W (Suc k))))" "run_evolves r' z"
      unfolding run_history_def run_evolution_def by blast
    with r'(2) True inv2 show ?thesis using run_evolves_trans settled_evolves by blast
  next
    case False
    note key = run_evolves_key [OF r'(2)]
    have new: "requested_by (rn_RequestedAt r') (w_db (W (Suc k))) \<subseteq> rn_ID ` set (runs (w_db (V k)))"
      using between k by (auto simp: requested_by_def key)
    have "rn_Status r' = StatusExecuting" using unsettled_executing [OF r'(2) r(2) False] by simp
    from claim_round [OF inv' r'(1) this False run _ _ _ his new] claims k obtain z where
      z: "z \<in> set (runs (w_db (W (Suc k))))" "run_evolves r' z"
        "settled z \<or> card (ahead_of r (w_db (W (Suc k)))) + (if rn_EnvironmentID r \<in> set (envs k) then 1 else 0) \<le> card (ahead_of r (w_db (W k)))"
      by (auto simp: key ahead_cong [OF key(1,2)])
    from run_evolves_trans [OF r'(2) z(2)] z(1,3) or False inv2 show ?thesis by (intro conjI bexI [of _ z]) auto
  qed
qed


text \<open>Two polls hand out the second of two runs.\<close>

abbreviation after_polls :: "nat \<Rightarrow> world" where
  "after_polls k \<equiv> ((\<lambda>w. snd (run (execution_Claim 8 [5]) w)) ^^ k) sample_executing"

lemma sample_executing_inv: "run_inv (w_db sample_executing)"
  by (simp add: sample_executing_def sample_world_def sample_db_def run_inv_def timeline_ok_def pipeline_ok_def
      oversight_ok_def sample_run_def sample_pipeline_def before_executing_def terminal_def Tier_Valid_def tier_defs)

lemma after_polls_ready:
  "fault (after_polls 0) (tick (after_polls 0)) = None \<and> fault (after_polls 1) (tick (after_polls 1)) = None \<and>
   map wc_ID (worker_credentials (w_db (after_polls 0))) = [8] \<and> map wc_ID (worker_credentials (w_db (after_polls 1))) = [8]"
  by code_simp


end
