(* ===== verification/Delivery.thy ===== *)
theory Delivery
  imports Progress Wire CredentialLife Promises
begin

text \<open>
  A run on its way to the customer's CI: the job that starts it, the claim, the answer on the wire, and
  the dispatch, in one chain.
\<close>

section \<open>The claim that is certain\<close>

lemma execution_Claim_ok:
  assumes dist: "distinct (map rn_ID (runs (w_db w)))" and r: "r \<in> set (runs (w_db w))" "claimable_run envs r"
    and oldest: "\<forall>x \<in> set (runs (w_db w)). claimable_run envs x \<and> x \<noteq> r \<longrightarrow> rn_RequestedAt r < rn_RequestedAt x"
    and ok: "fault w (tick w) = None" and c: "c \<in> wc_ID ` set (worker_credentials (w_db w))" "c \<noteq> uuid_Nil"
  shows "run (execution_Claim c envs) w = (Inr (fromRunRow (mark_run c (clock w (tick w)) r)),
     (advance w)\<lparr>w_db := (w_db w)\<lparr>runs := update_rows (\<lambda>x. rn_ID x = rn_ID r) (mark_run c (clock w (tick w))) (runs (w_db w))\<rparr>\<rparr>)"
proof -
  let ?f = "mark_run c (clock w (tick w))"
  from r(2) have envs: "envs \<noteq> []" by (auto simp: claimable_run_def)
  obtain s rows where cl: "claim_next (claimable_run envs) rn_RequestedAt rn_ID ?f (runs (w_db w)) = Inr (s, rows)"
    using run_queue.claim_Inl [of envs c "clock w (tick w)" "runs (w_db w)"] r
    by (cases "claim_next (claimable_run envs) rn_RequestedAt rn_ID ?f (runs (w_db w))") auto
  from run_queue.claim_Inr [OF dist cl] obtain r0 where r0: "r0 \<in> set (runs (w_db w))" "claimable_run envs r0"
      "rn_RequestedAt r0 \<le> rn_RequestedAt r" "s = ?f r0" "rows = update_rows (\<lambda>x. rn_ID x = rn_ID r0) ?f (runs (w_db w))"
    using r by blast
  with oldest have "r0 = r" by force
  with r0 cl ok c envs show ?thesis
    by (simp add: execution_Claim_def ClaimNextExecutingRun_def run_simps violated_def)
qed

lemma handleGetNextWorkerRun_delivers:
  assumes inv: "run_inv (w_db w)" and ok: "\<forall>n. fault w n = None"
    and r: "r \<in> set (runs (w_db w))" "claimable_run (crd_Environments cred) r"
    and oldest: "\<forall>x \<in> set (runs (w_db w)). claimable_run (crd_Environments cred) x \<and> x \<noteq> r \<longrightarrow> rn_RequestedAt r < rn_RequestedAt x"
    and p: "p \<in> set (pipelines (w_db w))" "pl_ID p = rn_PipelineID r"
    and c: "crd_ID cred \<in> wc_ID ` set (worker_credentials (w_db w))" "crd_ID cred \<noteq> uuid_Nil"
  shows "\<exists>w'. run (handleGetNextWorkerRun U (Some cred)) w = (Reply 200 \<lparr>nrr_RunID = uuid_String U (rn_ID r),
       nrr_Provider = pl_Provider p, nrr_WorkflowRef = pl_WorkflowRef p, nrr_Settings = pl_Settings p\<rparr>, w') \<and>
     w_db w' = (w_db w)\<lparr>runs := update_rows (\<lambda>x. rn_ID x = rn_ID r) (mark_run (crd_ID cred) (clock w (tick w))) (runs (w_db w))\<rparr>"
proof -
  from inv have dist: "distinct (map rn_ID (runs (w_db w)))" "distinct (map pl_ID (pipelines (w_db w)))"
    by (simp_all add: run_inv_def)
  from inv r(1) obtain p' where p': "p' \<in> set (pipelines (w_db w))" "pl_ID p' = rn_PipelineID r" "pl_TenantID p' = rn_TenantID r"
    by (auto simp: run_inv_def pipeline_ok_def)
  with p dist(2) have t: "pl_TenantID p = rn_TenantID r" by (metis distinct_map_unique)
  let ?v = "(advance w)\<lparr>w_db := (w_db w)\<lparr>runs := update_rows (\<lambda>x. rn_ID x = rn_ID r) (mark_run (crd_ID cred) (clock w (tick w))) (runs (w_db w))\<rparr>\<rparr>"
  have get: "run (pipeline_Get (rn_TenantID r) (rn_PipelineID r)) ?v = (Inr (pipeline_fromRow p), advance ?v)"
    using run_pipeline_Get_ok [of ?v p] dist(2) p t ok by simp
  have "r_TenantID (fromRunRow (mark_run a b r)) = rn_TenantID r" "r_PipelineID (fromRunRow (mark_run a b r)) = rn_PipelineID r"
    "r_ID (fromRunRow (mark_run a b r)) = rn_ID r" for a b
    by (simp_all add: mark_run_def)
  with execution_Claim_ok [OF dist(1) r oldest spec [OF ok] c] get show ?thesis
    by (simp add: handleGetNextWorkerRun_def handler_simps pipeline_fromRow_def)
qed

section \<open>Past the gate and over the wire\<close>

text \<open>The stored credential a token stands for; the hash of a token is unique in its table.\<close>

definition token_of :: "worker_credential_row \<Rightarrow> string \<Rightarrow> db \<Rightarrow> bool" where
  "token_of k tok d \<longleftrightarrow>
     k \<in> set (worker_credentials d) \<and> wc_TokenHash k = hashToken tok \<and> wc_RevokedAt k = None \<and>
     distinct (map wc_TokenHash (worker_credentials d))"

abbreviation credential_of :: "worker_credential_row \<Rightarrow> db \<Rightarrow> Credential" where
  "credential_of k d \<equiv> workercred_fromRow k (grants_of (wc_ID k) d)"

lemma gate_opens:
  assumes "token_of k tok (w_db w)" and "\<forall>n. fault w n = None"
  shows "run (requireWorkerAuth (''Bearer '' @ tok) next) w = run (next (Some (credential_of k (w_db w)))) ((advance ^^ 2) w)"
proof -
  have "select_one (\<lambda>r. wc_TokenHash r = hashToken tok \<and> wc_RevokedAt r = None) (worker_credentials (w_db w)) = Inr k"
    using assms(1) by (intro select_one_key [of wc_TokenHash]) (auto simp: token_of_def)
  with workercred_Verify_run [of w tok k] assms(2)
  have "run (workercred_Verify tok) w = (Inr (credential_of k (w_db w)), (advance ^^ 2) w)" by simp
  moreover have "HasPrefix (''Bearer '' @ tok) ''Bearer ''" by (simp add: HasPrefix_def)
  moreover have "TrimPrefix (''Bearer '' @ tok) ''Bearer '' = tok" by (rule TrimPrefix_append)
  ultimately show ?thesis by (simp add: requireWorkerAuth_def handler_simps)
qed

lemma advance2 [simp]: "w_db ((advance ^^ n) w) = w_db w" "fault ((advance ^^ n) w) = fault w"
  by (induction n) simp_all

lemma client_NextRun_delivers:
  assumes cp: "served H srv c w W" and url: "nt_url_ok w (rq_URL (NextRun_request c))"
    and h: "fst (run (requireWorkerAuth (''Bearer '' @ cl_token c) (handleGetNextWorkerRun (uuids srv))) (W (nt_tick w))) = Reply 200 b"
    and dist: "distinct (map fst (nrr_Settings b))"
  shows "run (client_NextRun c) w = (Inr (Some (delivered_run b)), sent (NextRun_request c) w)"
proof -
  from served_run [OF cp run_requests(2) route_next_run [OF served_store [OF cp]] url] h
  have "fst (run (exchange (NextRun_request c)) w) = Inr \<lparr>hr_StatusCode = 200, hr_Status = [], hr_Body = Some (nextRunResponse_json b)\<rparr>"
    by (simp add: written_def)
  then obtain v where ex: "run (exchange (NextRun_request c)) w = (Inr \<lparr>hr_StatusCode = 200, hr_Status = [], hr_Body = Some (nextRunResponse_json b)\<rparr>, v)"
    by (metis prod.collapse)
  from json_entries_strings [OF dist, of "[]"]
  have "json_entries (map (\<lambda>(k, v). (k, JStr v)) (nrr_Settings b)) [] = Inr (nrr_Settings b)" by simp
  with ex have "fst (run (client_NextRun c) w) = Inr (Some (delivered_run b))"
    by (simp add: client_NextRun_def run_bindE json_decode_def json_struct_def bindR_def nextRunResponse_json_def
        strings_json_def same_name_def lower_def delivered_run_def)
  with client_calls_once(2) [of c w] show ?thesis by (metis prod.collapse)
qed

section \<open>Reports land\<close>

text \<open>
  A run is held by a worker: it executes, claimed by the worker's credential, whose token is live.  A
  run has ended as \<open>s\<close>.  An identifier is printed as a segment of a path and read back.
\<close>

definition held_by :: "worker_credential_row \<Rightarrow> string \<Rightarrow> run_row \<Rightarrow> world \<Rightarrow> bool" where
  "held_by k tok r w \<longleftrightarrow>
     run_inv (w_db w) \<and> (\<forall>n. fault w n = None) \<and> token_of k tok (w_db w) \<and>
     (\<exists>x \<in> set (runs (w_db w)). run_evolves r x \<and> rn_Status x = StatusExecuting \<and> rn_ClaimedBy x = Some (wc_ID k))"

definition ended_as :: "run_row \<Rightarrow> run_status \<Rightarrow> world \<Rightarrow> bool" where
  "ended_as r s w \<longleftrightarrow> (\<exists>x \<in> set (runs (w_db w)). run_evolves r x \<and> rn_Status x = s \<and> rn_FinishedAt x \<noteq> None)"

definition printed :: "uuid_lib \<Rightarrow> uuid \<Rightarrow> bool" where
  "printed U i \<longleftrightarrow>
     uuid_Parse U (uuid_String U i) = Inr i \<and> segment (uuid_String U i)"

lemma ReportResult_ok:
  assumes "distinct (map rn_ID (runs (w_db w)))" and "x \<in> set (runs (w_db w))" and "rn_Status x = StatusExecuting"
    and "rn_ClaimedBy x = Some c" and "fault w (tick w) = None"
  shows "run (ReportResult (rn_ID x) c res) w = (Inr (fromRunRow (set_result (clock w (tick w)) res x)),
     (advance w)\<lparr>w_db := (w_db w)\<lparr>runs := update_rows (\<lambda>r. rn_ID r = rn_ID x \<and> rn_ClaimedBy r = Some c \<and> rn_Status r = StatusExecuting)
        (set_result (clock w (tick w)) res) (runs (w_db w))\<rparr>\<rparr>)"
proof -
  have "update_one (\<lambda>r. rn_ID r = rn_ID x \<and> rn_ClaimedBy r = Some c \<and> rn_Status r = StatusExecuting) f (runs (w_db w)) =
      Inr (f x, update_rows (\<lambda>r. rn_ID r = rn_ID x \<and> rn_ClaimedBy r = Some c \<and> rn_Status r = StatusExecuting) f (runs (w_db w)))" for f
    using assms(1-4) by (intro update_one_select select_one_key [of rn_ID]) auto
  with assms(5) show ?thesis by (simp add: ReportResult_def ReportRunResult_def run_simps)
qed

lemma valid_status_terminal: "map_of validTerminalRunStatuses s = Some st \<Longrightarrow> terminal st"
  by (auto simp: validTerminalRunStatuses_def terminal_def split: if_splits)

lemma captureCost_run:
  assumes "r_FinishedAt r \<noteq> None"
  shows "\<exists>w'. run (captureCost r (Done resp)) w = (resp, w') \<and> run_history (w_db w) (w_db w')"
proof -
  obtain x w' where run: "run (captureCost r (Done resp)) w = (x, w')" by force
  have "keeps run_history (captureCost r (Done resp)) w" by (intro rb.keeps_captureCost rh.keeps_Done)
  from rh.keeps_run [OF this run] have "run_history (w_db w) (w_db w')" .
  moreover from assms run have "x = resp"
    by (auto simp: captureCost_def run_bindP split: option.splits prod.splits)
  ultimately show ?thesis using run by blast
qed

lemma handlePostWorkerRunResult_records:
  assumes inv: "run_inv (w_db w)" and ok: "\<forall>n. fault w n = None"
    and x: "x \<in> set (runs (w_db w))" "rn_Status x = StatusExecuting" "rn_ClaimedBy x = Some (crd_ID cred)"
    and path: "uuid_Parse U path = Inr (rn_ID x)" and st: "map_of validTerminalRunStatuses (rpr_Status body) = Some s"
  shows "\<exists>b w'. run (handlePostWorkerRunResult U path (Some body) (Some cred)) w = (Reply 200 b, w') \<and> ended_as x s w'"
proof -
  let ?res = "\<lparr>rr_Status = s, rr_CIExternalRef = rpr_CIExternalRef body, rr_CIURL = rpr_CIURL body, rr_CIRawStatus = rpr_CIRawStatus body\<rparr>"
  let ?y = "set_result (clock w (tick w)) ?res x"
  from inv have dist: "distinct (map rn_ID (runs (w_db w)))" by (simp add: run_inv_def)
  from ReportResult_ok [OF dist x spec [OF ok], of ?res] obtain v where
    rep: "run (ReportResult (rn_ID x) (crd_ID cred) ?res) w = (Inr (fromRunRow ?y), v)"
    and v: "w_db v = (w_db w)\<lparr>runs := update_rows (\<lambda>r. rn_ID r = rn_ID x \<and> rn_ClaimedBy r = Some (crd_ID cred) \<and> rn_Status r = StatusExecuting)
        (set_result (clock w (tick w)) ?res) (runs (w_db w))\<rparr>" by auto
  from valid_status_terminal [OF st] have final: "terminal s" .
  from inv x(1,2) have fin: "rn_FinishedAt x = None" by (auto simp: run_inv_def timeline_ok_def)
  have y: "?y \<in> set (runs (w_db v))" "run_evolves x ?y" "rn_Status ?y = s" "rn_FinishedAt ?y \<noteq> None"
    using update_rows_mem [OF x(1), of "\<lambda>r. rn_ID r = rn_ID x \<and> rn_ClaimedBy r = Some (crd_ID cred) \<and> rn_Status r = StatusExecuting"
        "set_result (clock w (tick w)) ?res"] x(2,3) final fin
    by (auto simp: v set_result_def run_evolves_def legal_def)
  have "run_history (w_db w) (w_db v)"
    by (rule rh.keeps_run [OF keeps_ReportResult rep]) (use inv final in simp_all)
  with inv have "run_inv (w_db v)" by (auto intro: history_inv)
  moreover have "r_FinishedAt (fromRunRow ?y) \<noteq> None" using y(4) by (simp add: fromRunRow_def)
  from captureCost_run [OF this, of "Reply 200 (runToResponse U (fromRunRow ?y))" v] obtain w' where
    w': "run (captureCost (fromRunRow ?y) (Done (Reply 200 (runToResponse U (fromRunRow ?y))))) v = (Reply 200 (runToResponse U (fromRunRow ?y)), w')"
      "run_history (w_db v) (w_db w')" by blast
  ultimately obtain z where z: "z \<in> set (runs (w_db w'))" "run_evolves ?y z"
    using y(1) unfolding run_history_def run_evolution_def by blast
  then have "rn_Status z = s" "rn_FinishedAt z \<noteq> None"
    using y(3,4) final legal_star_terminal [of s "rn_Status z"] by (auto simp: run_evolves_def)
  with z run_evolves_trans [OF y(2) z(2)] have "ended_as x s w'" by (auto simp: ended_as_def)
  with rep w'(1) path st show ?thesis by (auto simp: handlePostWorkerRunResult_def handler_simps)
qed

lemma report_lands:
  assumes runs: "sv_runs srv \<noteq> None" and held: "held_by k (cl_token c) r w" and i: "printed (uuids srv) (rn_ID r)"
    and st: "map_of validTerminalRunStatuses (crr_Status res) = Some s"
  shows "\<exists>resp w'. run (mux H srv (cl_baseURL c) (ReportRunResult_request c (uuid_String (uuids srv) (rn_ID r)) res)) w = (Inr resp, w') \<and>
     hr_StatusCode resp = 200 \<and> ended_as r s w'"
proof -
  from held obtain x where inv: "run_inv (w_db w)" and ok: "\<forall>n. fault w n = None" and tok: "token_of k (cl_token c) (w_db w)"
    and x: "x \<in> set (runs (w_db w))" "run_evolves r x" "rn_Status x = StatusExecuting" "rn_ClaimedBy x = Some (wc_ID k)"
    by (auto simp: held_by_def)
  let ?body = "\<lparr>rpr_Status = crr_Status res, rpr_CIExternalRef = crr_CIExternalRef res, rpr_CIURL = crr_CIURL res,
              rpr_CIRawStatus = crr_CIRawStatus res\<rparr>"
  let ?cred = "credential_of k (w_db w)" and ?v = "(advance ^^ 2) w"
  have "rn_ClaimedBy x = Some (crd_ID ?cred)" using x(4) by (simp add: workercred_fromRow_def)
  moreover have "uuid_Parse (uuids srv) (uuid_String (uuids srv) (rn_ID r)) = Inr (rn_ID x)" using i x(2) by (simp add: printed_def run_evolves_def)
  ultimately obtain b w' where h: "run (handlePostWorkerRunResult (uuids srv) (uuid_String (uuids srv) (rn_ID r)) (Some ?body) (Some ?cred)) ?v = (Reply 200 b, w')"
    and "ended_as x s w'"
    using handlePostWorkerRunResult_records [of ?v x ?cred "uuids srv" "uuid_String (uuids srv) (rn_ID r)" ?body s] inv ok x st by auto
  then have "ended_as r s w'" using run_evolves_trans [OF x(2)] by (auto simp: ended_as_def)
  moreover have "run (mux H srv (cl_baseURL c) (ReportRunResult_request c (uuid_String (uuids srv) (rn_ID r)) res)) w =
      (written runResponse_json (Reply 200 b), w')"
    using i gate_opens [OF tok ok, of "handlePostWorkerRunResult (uuids srv) (uuid_String (uuids srv) (rn_ID r)) (Some ?body)"] h
    by (simp add: printed_def route_report_run [OF runs] answered_by_def run_bindP)
  ultimately show ?thesis by (simp add: written_def)
qed

section \<open>From the queue to GitHub\<close>

text \<open>The started run is the first of its queue when it was requested before those that wait there.\<close>

lemma started_first:
  fixes now :: time
  assumes inv: "run_inv d" and r: "r \<in> set (runs d)" "rn_Status r = StatusQueued" "rn_EnvironmentID r \<in> set envs"
    and first: "\<forall>x \<in> set (runs d). claimable_run envs x \<longrightarrow> rn_RequestedAt r < rn_RequestedAt x"
  defines "rs \<equiv> update_rows (\<lambda>x. rn_ID x = rn_ID r \<and> rn_Status x = StatusQueued) (set_status now StatusExecuting) (runs d)"
    and "r1 \<equiv> set_status now StatusExecuting r"
  shows "r1 \<in> set rs" and "claimable_run envs r1" and "run_evolves r r1"
    and "\<forall>x \<in> set rs. claimable_run envs x \<and> x \<noteq> r1 \<longrightarrow> rn_RequestedAt r1 < rn_RequestedAt x"
proof -
  from inv have dist: "distinct (map rn_ID (runs d))" by (simp add: run_inv_def)
  from inv r have free: "rn_ClaimedBy r = None" "rn_StartedAt r = None" by (auto simp: run_inv_def timeline_ok_def before_executing_def)
  have keep: "rn_EnvironmentID r1 = rn_EnvironmentID r" "rn_ClaimedBy r1 = rn_ClaimedBy r" "rn_RequestedAt r1 = rn_RequestedAt r"
    by (simp_all add: r1_def set_status_def)
  show "r1 \<in> set rs"
    using update_rows_mem [OF r(1), of "\<lambda>x. rn_ID x = rn_ID r \<and> rn_Status x = StatusQueued" "set_status now StatusExecuting"] r(2)
    by (simp add: rs_def r1_def)
  show "claimable_run envs r1" using free r(3) keep by (simp add: claimable_run_def r1_def)
  show "run_evolves r r1"
    using r(2) free by (auto simp: r1_def set_status_def run_evolves_def legal_def terminal_def)
  show "\<forall>x \<in> set rs. claimable_run envs x \<and> x \<noteq> r1 \<longrightarrow> rn_RequestedAt r1 < rn_RequestedAt x"
  proof (intro ballI impI)
    fix x assume x: "x \<in> set rs" "claimable_run envs x \<and> x \<noteq> r1"
    from x(1) obtain y where y: "y \<in> set (runs d)" "x = (if rn_ID y = rn_ID r \<and> rn_Status y = StatusQueued then set_status now StatusExecuting y else y)"
      by (auto simp: rs_def in_update_rows)
    have "x = y"
    proof (cases "rn_ID y = rn_ID r")
      case True
      with dist y(1) r(1) have "y = r" by (metis distinct_map_unique)
      with x(2) y(2) r(2) show ?thesis by (auto simp: r1_def)
    qed (use y(2) in simp)
    with first x(2) y(1) keep(3) show "rn_RequestedAt r1 < rn_RequestedAt x" by simp
  qed
qed

text \<open>What the worker is told of a run.\<close>

definition told :: "uuid_lib \<Rightarrow> run_row \<Rightarrow> pipeline_row \<Rightarrow> client_Run" where
  "told U r p = \<lparr>crun_RunID = uuid_String U (rn_ID r), crun_Provider = pl_Provider p, crun_WorkflowRef = pl_WorkflowRef p,
                 crun_Settings = pl_Settings p\<rparr>"

lemma poll_claims:
  assumes inv: "run_inv (w_db w)" and ok: "\<forall>n. fault w n = None" and tok: "token_of k (cl_token c) (w_db w)" "wc_ID k \<noteq> uuid_Nil"
    and r: "r \<in> set (runs (w_db w))" "claimable_run (grants_of (wc_ID k) (w_db w)) r"
    and oldest: "\<forall>x \<in> set (runs (w_db w)). claimable_run (grants_of (wc_ID k) (w_db w)) x \<and> x \<noteq> r \<longrightarrow> rn_RequestedAt r < rn_RequestedAt x"
    and p: "p \<in> set (pipelines (w_db w))" "pl_ID p = rn_PipelineID r" "distinct (map fst (pl_Settings p))"
    and cp: "served H srv c v W" "W (nt_tick v) = w" and url: "nt_url_ok v (rq_URL (NextRun_request c))"
  shows "run (client_NextRun c) v = (Inr (Some (told (uuids srv) r p)), sent (NextRun_request c) v)"
    and "\<exists>r' \<in> set (runs (w_db (snd (run (mux H srv (cl_baseURL c) (NextRun_request c)) w)))).
       run_evolves r r' \<and> rn_Status r' = StatusExecuting \<and> rn_ClaimedBy r' = Some (wc_ID k)"
proof -
  let ?cred = "credential_of k (w_db w)" and ?v = "(advance ^^ 2) w"
  have cred: "crd_Environments ?cred = grants_of (wc_ID k) (w_db w)" "crd_ID ?cred = wc_ID k"
    by (simp_all add: workercred_fromRow_def)
  have "wc_ID k \<in> wc_ID ` set (worker_credentials (w_db w))" using tok(1) by (simp add: token_of_def)
  then obtain w' where h: "run (handleGetNextWorkerRun (uuids srv) (Some ?cred)) ?v = (Reply 200 \<lparr>nrr_RunID = uuid_String (uuids srv) (rn_ID r),
       nrr_Provider = pl_Provider p, nrr_WorkflowRef = pl_WorkflowRef p, nrr_Settings = pl_Settings p\<rparr>, w')"
    and w': "w_db w' = (w_db w)\<lparr>runs := update_rows (\<lambda>x. rn_ID x = rn_ID r) (mark_run (wc_ID k) (clock ?v (tick ?v))) (runs (w_db w))\<rparr>"
    using handleGetNextWorkerRun_delivers [of ?v r ?cred p "uuids srv"] inv ok r oldest p(1,2) tok(2) by (auto simp: cred)
  have gate: "run (requireWorkerAuth (''Bearer '' @ cl_token c) (handleGetNextWorkerRun (uuids srv))) w = (Reply 200 \<lparr>nrr_RunID = uuid_String (uuids srv) (rn_ID r),
       nrr_Provider = pl_Provider p, nrr_WorkflowRef = pl_WorkflowRef p, nrr_Settings = pl_Settings p\<rparr>, w')"
    using gate_opens [OF tok(1) ok, of "handleGetNextWorkerRun (uuids srv)"] h by simp
  from client_NextRun_delivers [OF cp(1) url, unfolded cp(2), of "\<lparr>nrr_RunID = uuid_String (uuids srv) (rn_ID r),
       nrr_Provider = pl_Provider p, nrr_WorkflowRef = pl_WorkflowRef p, nrr_Settings = pl_Settings p\<rparr>"] gate p(3)
  show "run (client_NextRun c) v = (Inr (Some (told (uuids srv) r p)), sent (NextRun_request c) v)"
    by (simp add: told_def delivered_run_def)
  have "snd (run (mux H srv (cl_baseURL c) (NextRun_request c)) w) = w'"
    using gate by (simp add: route_next_run [OF served_store [OF cp(1)]] answered_by_def run_bindP)
  moreover have "mark_run (wc_ID k) (clock ?v (tick ?v)) r \<in> set (runs (w_db w'))"
    using update_rows_mem [OF r(1), of "\<lambda>x. rn_ID x = rn_ID r" "mark_run (wc_ID k) (clock ?v (tick ?v))"] by (simp add: w')
  ultimately show "\<exists>r' \<in> set (runs (w_db (snd (run (mux H srv (cl_baseURL c) (NextRun_request c)) w)))).
       run_evolves r r' \<and> rn_Status r' = StatusExecuting \<and> rn_ClaimedBy r' = Some (wc_ID k)"
    using r(2) by (intro bexI [of _ "mark_run (wc_ID k) (clock ?v (tick ?v)) r"]) (simp_all add: mark_run_def run_evolves_def claimable_run_def)
qed

lemma dispatched_or_recorded:
  assumes runs: "sv_runs srv \<noteq> None" and creds: "creds = None \<or> creds = Some (InstallationToken app)"
    and run: "run (dispatch_run F (poller_client c) Trigger creds (told (uuids srv) r p)) v = (z, v')" and i: "printed (uuids srv) (rn_ID r)"
  shows "dispatched (InstallationToken app) dispatch_request (told (uuids srv) r p) v v' \<or>
      (\<exists>u req reason. refused (InstallationToken app) dispatch_request (told (uuids srv) r p) v u \<and>
         req = ReportRunResult_request c (uuid_String (uuids srv) (rn_ID r)) (failed_result reason) \<and> v' = sent req u \<and>
         (held_by k (cl_token c) r (W (nt_tick u)) \<longrightarrow>
            ended_as r StatusFailed (snd (run (mux H srv (cl_baseURL c) req) (W (nt_tick u))))))"
proof -
  from github.dispatch_run_outcome [OF creds run]
  have "dispatched (InstallationToken app) dispatch_request (told (uuids srv) r p) v v' \<or>
      (\<exists>u reason. refused (InstallationToken app) dispatch_request (told (uuids srv) r p) v u \<and>
         v' = sent (ReportRunResult_request c (uuid_String (uuids srv) (rn_ID r)) (failed_result reason)) u)"
    by (simp add: told_def)
  moreover have "held_by k (cl_token c) r (W (nt_tick u)) \<longrightarrow> ended_as r StatusFailed (snd (run (mux H srv (cl_baseURL c)
      (ReportRunResult_request c (uuid_String (uuids srv) (rn_ID r)) (failed_result reason))) (W (nt_tick u))))" for u reason
    using report_lands [where H = H, OF runs _ i, of k c "W (nt_tick u)" "failed_result reason" StatusFailed]
    by (fastforce simp: failed_result_def validTerminalRunStatuses_def status_text_def)
  ultimately show ?thesis by blast
qed


section \<open>From the job's end to the books\<close>


section \<open>At a concrete deployment\<close>

text \<open>An autonomous run is queued, and the worker's token hashes to that of its credential.\<close>

abbreviation queued_run :: run_row where
  "queued_run \<equiv> sample_run 9 TierAutonomous StatusQueued None"

definition queued_world :: world where
  "queued_world = sample_world ((wire_db (hashToken ''wt''))\<lparr>runs := [queued_run]\<rparr>)"

abbreviation started_world :: world where
  "started_world \<equiv> snd (run (Worker_Work [(''github_actions'', ())] 9) queued_world)"

definition delivery_net :: net where
  "delivery_net = demo_net
     \<lparr>nt_http := (\<lambda>n req. if HasPrefix (rq_URL req) ''cp/v1/worker/runs/'' then fst (run (mux wire_http wire_server ''cp'' req) started_world)
                         else demo_answer req)\<rparr>"

definition wire_credential :: worker_credential_row where
  "wire_credential = \<lparr>wc_ID = 8, wc_TenantID = 1, wc_Name = ''w'', wc_TokenHash = hashToken ''wt'', wc_CreatedAt = 0,
                      wc_RevokedAt = None, wc_CiCallbackUrl = None\<rparr>"

lemma printed_9: "printed sample_uuid 9" "uuid_String sample_uuid 9 = ''9''"
  by code_simp+

lemma queued_inv: "run_inv (w_db queued_world)"
  by (simp add: queued_world_def sample_world_def wire_db_def sample_db_def run_inv_def timeline_ok_def pipeline_ok_def
      oversight_ok_def sample_run_def sample_pipeline_def before_executing_def terminal_def Tier_Valid_def tier_defs
      empty_db_def)

lemma queued_tables:
  "\<forall>n. fault queued_world n = None" "runs (w_db queued_world) = [queued_run]"
  "pipelines (w_db queued_world) = [sample_pipeline 6 True, sample_pipeline 7 False]"
  "grants_of 8 (w_db queued_world) = [5]" "token_of wire_credential ''wt'' (w_db queued_world)"
  by (simp_all add: queued_world_def sample_world_def wire_db_def sample_db_def grants_of_def token_of_def wire_credential_def)

lemma delivery_served: "served wire_http wire_server demo_client delivery_net (\<lambda>n. started_world)"
  by (simp add: served_def concerns_runs_def delivery_net_def demo_client_def client_New_def)



end
