(* ===== verification/Replicas.thy ===== *)
theory Replicas
  imports System StoreGuarantees
begin

text \<open>
  What starting promises: an instance that runs is one the guarantees of the control plane hold of, any
  number of instances over one database are interchangeable, and nothing leaves them unasked.
\<close>

section \<open>One instance\<close>

context river_client begin

lemma wired_enqueuer: "enqueuer (deferredEnqueuer_Enqueue (Some (Queue_Enqueue Insert)))"
  by unfold_locales (rule deferred_rg, auto intro: queue.enqueuer_axioms)

end

lemma signingkey_stored:
  assumes "run (signingkey_LoadOrCreate ed) w = (Inr k, v)"
  shows "key_history (w_db w) (w_db v) \<and> the_key k (w_db v)"
proof -
  from rg_run [OF kh.on_R rg_LoadOrCreate assms] have "on_db key_history w v" "the_key k (w_db v)" by auto
  then show ?thesis by (simp add: on_db_def)
qed

text \<open>
  C30. What \<open>Run\<close> serves is what the guarantees are about.  An instance that has started has its database
  address, at most one source of the bootstrap token, and the stored signing key with its own public
  half; its store dispatches through River, so that it is a wired server; its queue knows GitHub
  Actions only; and without a bootstrap token, or with a file of blanks, the bootstrap route is gone.
\<close>

theorem started_instance:
  assumes "run (server_start B) w = (Inr ins, v)" and "river_client (bt_Insert B)"
  shows "wired_server (ins_server ins) \<and> sv_runs (ins_server ins) \<noteq> None \<and>
    bt_getenv B ''DATABASE_URL'' \<noteq> [] \<and>
    (bt_getenv B ''WORKER_BOOTSTRAP_TOKEN'' = [] \<or> bt_getenv B ''WORKER_BOOTSTRAP_TOKEN_FILE'' = []) \<and>
    the_key (is_key (sv_issuer (ins_server ins))) (w_db v) \<and>
    sv_publicKey (ins_server ins) = bt_Public B (is_key (sv_issuer (ins_server ins))) \<and>
    map_of (ins_adapters ins) = [ProviderGitHubActions \<mapsto> ()] \<and>
    (sv_workerBootstrapToken (ins_server ins) = [] \<longleftrightarrow>
       bt_getenv B ''WORKER_BOOTSTRAP_TOKEN'' = [] \<and>
       (bt_getenv B ''WORKER_BOOTSTRAP_TOKEN_FILE'' = [] \<or>
        (\<exists>b. bt_ReadFile B (bt_getenv B ''WORKER_BOOTSTRAP_TOKEN_FILE'') = Inr b \<and> TrimSpace b = []))) \<and>
    (sv_workerBootstrapToken (ins_server ins) = [] \<longrightarrow>
       (\<forall>h body. Routes (ins_server ins) (PostWorkerBootstrap h body) = Done (Some 404)))"
proof -
  from server_start_Inr [OF assms(1)] obtain cfg priv where cfg: "loadConfig B = Inr cfg"
    and key: "run (signingkey_LoadOrCreate (bt_ed25519 B)) w = (Inr priv, v)" and ins: "ins = instance_of B cfg priv" by blast
  have sel: "sv_runs (ins_server ins) = Some (NewQueueClient True (bt_Insert B))" "is_key (sv_issuer (ins_server ins)) = priv"
    "sv_publicKey (ins_server ins) = bt_Public B priv" "ins_adapters ins = [(ProviderGitHubActions, ())]"
    "sv_workerBootstrapToken (ins_server ins) = scf_workerBootstrapToken cfg"
    by (simp_all add: ins instance_of_def EnableExecution_def NewServer_def)
  have "good_store (NewQueueClient True (bt_Insert B))"
    using river_client.wired_enqueuer [OF assms(2)] by (simp add: good_store_def NewQueueClient_def NewStore_def)
  then have wired: "wired_server (ins_server ins)" by (simp add: wired_server_def sel)
  from cfg have env: "bt_getenv B ''DATABASE_URL'' \<noteq> []" "loadWorkerBootstrapToken B = Inr (scf_workerBootstrapToken cfg)"
    by (simp_all add: loadConfig_Inr)
  have token: "scf_workerBootstrapToken cfg = [] \<longleftrightarrow> bt_getenv B ''WORKER_BOOTSTRAP_TOKEN'' = [] \<and>
       (bt_getenv B ''WORKER_BOOTSTRAP_TOKEN_FILE'' = [] \<or>
        (\<exists>b. bt_ReadFile B (bt_getenv B ''WORKER_BOOTSTRAP_TOKEN_FILE'') = Inr b \<and> TrimSpace b = []))"
    "bt_getenv B ''WORKER_BOOTSTRAP_TOKEN'' = [] \<or> bt_getenv B ''WORKER_BOOTSTRAP_TOKEN_FILE'' = []"
    using env(2) by (auto simp: loadWorkerBootstrapToken_def Let_def andThen_Inr split: if_splits)
  show ?thesis
    using wired signingkey_stored [OF key] env(1) token by (simp add: sel)
qed

section \<open>Many instances\<close>

lemma bindE_Done: "bindE (Done r) k = (case r of Inl e \<Rightarrow> Done (Inl e) | Inr a \<Rightarrow> k a)"
  by (simp add: bindE_def)

definition same_key :: "boot_lib \<Rightarrow> instance_state \<Rightarrow> db \<Rightarrow> bool" where
  "same_key B ins d \<longleftrightarrow>
     the_key (is_key (sv_issuer (ins_server ins))) d \<and>
     sv_publicKey (ins_server ins) = bt_Public B (is_key (sv_issuer (ins_server ins)))"

lemma rg_server_start:
  "rg (on_db key_history) (on_db key_history) (\<lambda>x v. \<forall>ins. x = Inr ins \<longrightarrow> same_key B ins (w_db v)) (server_start B) w"
  (is "rg ?R ?R ?Q _ _")
proof -
  have fail: "rg ?R ?R ?Q (Done (Inl e)) u" for e u by simp
  have fin: "rg ?R ?R ?Q (returnE ins) u" if "same_key B ins (w_db u)" for ins u
    using that by (auto simp: on_db_def same_key_def intro: the_key_stable)
  have start: "rg ?R ?R ?Q (bindE (mapE Wrapf (signingkey_LoadOrCreate (bt_ed25519 B))) (\<lambda>priv. k priv)) u"
    if k: "\<And>priv u. the_key priv (w_db u) \<Longrightarrow> rg ?R ?R ?Q (k priv) u" for k u
    by (rule rg_bindE [OF kh.on_R(1)], rule kh.rg_mapE_R, rule rg_conseq [OF rg_LoadOrCreate])
       (auto split: sum.splits simp del: rg.simps intro: fail k)
  show ?thesis
    unfolding server_start_def bindE_Done Let_def
    by (auto split: sum.split option.split simp del: rg.simps intro!: start fin fail)
       (simp_all add: same_key_def EnableExecution_def EnableWorkerBootstrap_def NewServer_def)
qed

lemma started_same_key:
  assumes sched: "(sched (server_start ` Bs))\<^sup>*\<^sup>* ([], w) (ps, w')" and i: "i < length ps" "ps ! i = Done (Inr a)"
    and Pub: "\<And>B. B \<in> Bs \<Longrightarrow> bt_Public B = Pub"
  shows "the_key (is_key (sv_issuer (ins_server a))) (w_db w') \<and>
    sv_publicKey (ins_server a) = Pub (is_key (sv_issuer (ins_server a)))"
proof -
  let ?Q = "\<lambda>(x :: instance_state res) (v :: world). \<forall>ins. x = Inr ins \<longrightarrow> (\<exists>B \<in> Bs. same_key B ins (w_db v))"
  have hist: "on_db key_history w w' \<and> (\<forall>p \<in> set ps. rg (on_db key_history) (on_db key_history) ?Q p w')"
    by (rule sched_sound [OF kh.on_R(2,1) _ sched]) (auto intro: rg_conseq [OF rg_server_start])
  have "Done (Inr a) \<in> set ps" using i by (metis nth_mem)
  with hist have "rg (on_db key_history) (on_db key_history) ?Q (Done (Inr a)) w'" by blast
  moreover have "on_db key_history w' w'" by (simp add: on_db_def)
  ultimately obtain B where "B \<in> Bs" "same_key B a (w_db w')" by auto
  with Pub show ?thesis by (simp add: same_key_def)
qed

text \<open>
  C26. Instances are interchangeable.  Of any number of instances started over one database, in every
  interleaving of their starts, all sign with the one stored key, and a token issued by one is a token to
  every other: until it expires, and while the checker of sessions finds it unrevoked, it verifies there
  to exactly the tenant, actor, tier, environments and delegation it was issued for.
\<close>

theorem replicas_share_tokens:
  assumes sched: "(sched (server_start ` {B. bt_Public B = Pub}))\<^sup>*\<^sup>* ([], w) (ps, w')"
    and a: "i < length ps" "ps ! i = Done (Inr a)" and b: "j < length ps" "ps ! j = Done (Inr b)"
    and lib: "\<And>key now. jwt_SignedString L key (issue_claims L t jti req) = Inr tok \<Longrightarrow> now < jwt_NumericDate L (t + sint (ir_TTL req)) \<Longrightarrow>
      jwt_ParseWithClaims L (Pub key) [''EdDSA''] now tok = (issue_claims L t jti req, None)"
    and issued: "Issue L (is_key (sv_issuer (ins_server a))) t jti req tier = Inr tok"
    and live: "now < jwt_NumericDate L (t + sint (ir_TTL req))" and unrevoked: "run (IsRevoked (ir_ActorID req) jti) v = (Inr False, v')"
  shows "is_key (sv_issuer (ins_server a)) = is_key (sv_issuer (ins_server b)) \<and> the_key (is_key (sv_issuer (ins_server a))) (w_db w') \<and>
    run (Verify L (sv_publicKey (ins_server b)) (Some IsRevoked) now tok) v =
      (Inr \<lparr>cl_TenantID = ir_TenantID req, cl_ActorID = ir_ActorID req, cl_Jti = jti, cl_ActorType = ir_ActorType req,
            cl_Tier = ir_Tier req, cl_Environments = ir_Environments req, cl_Delegation = ir_Delegation req,
            cl_IssuedAt = jwt_NumericDate L t, cl_ExpiresAt = jwt_NumericDate L (t + sint (ir_TTL req))\<rparr>, v')"
proof -
  from started_same_key [OF sched a] have ka: "the_key (is_key (sv_issuer (ins_server a))) (w_db w')" by simp
  from started_same_key [OF sched b, of Pub] have kb: "the_key (is_key (sv_issuer (ins_server b))) (w_db w')"
    and pb: "sv_publicKey (ins_server b) = Pub (is_key (sv_issuer (ins_server b)))" by auto
  from ka kb have same: "is_key (sv_issuer (ins_server a)) = is_key (sv_issuer (ins_server b))" by (rule the_key_unique)
  from lib [OF Issue_Inr(6) [OF issued] live] unrevoked
  have "run (Verify L (sv_publicKey (ins_server b)) (Some IsRevoked) now tok) v =
      (Inr \<lparr>cl_TenantID = ir_TenantID req, cl_ActorID = ir_ActorID req, cl_Jti = jti, cl_ActorType = ir_ActorType req,
            cl_Tier = ir_Tier req, cl_Environments = ir_Environments req, cl_Delegation = ir_Delegation req,
            cl_IssuedAt = jwt_NumericDate L t, cl_ExpiresAt = jwt_NumericDate L (t + sint (ir_TTL req))\<rparr>, v')"
    by (simp add: pb same [symmetric] Verify_def run_bindE run_mapE claims_of_def issue_claims_def)
  with same ka show ?thesis by blast
qed

section \<open>What leaves an instance\<close>

text \<open>What a round of the sender leaves as it was, and what a snapshot says of the tables \<open>d\<close>.\<close>

definition untouched :: "world \<Rightarrow> world \<Rightarrow> bool" where
  "untouched w v \<longleftrightarrow>
     tenants (w_db v) = tenants (w_db w) \<and> actors (w_db v) = actors (w_db w) \<and> runs (w_db v) = runs (w_db w) \<and>
     set (telemetry_instances (w_db w)) \<subseteq> set (telemetry_instances (w_db v))"

definition snapshot_of :: "Sender \<Rightarrow> db \<Rightarrow> Payload \<Rightarrow> bool" where
  "snapshot_of s d p \<longleftrightarrow>
     pay_ProductVersion p = snd_productVersion s \<and>
     pay_ActiveAgentCount p = length (filter (\<lambda>a. ac_Type a = ActorAgent \<and> ac_Status a = StatusActive) (actors d)) \<and>
     pay_RunCount24h p = length (filter (\<lambda>r. pay_PeriodStart p \<le> rn_RequestedAt r) (runs d)) \<and>
     pay_PeriodEnd p = pay_PeriodStart p + Interval"

text \<open>A post: to the endpoint of \<open>s\<close>, a snapshot of the tables \<open>d\<close>, under the identifier stored in \<open>d'\<close>.\<close>

definition usage_report :: "uuid_lib \<Rightarrow> Sender \<Rightarrow> db \<Rightarrow> db \<Rightarrow> string \<times> Payload \<Rightarrow> bool" where
  "usage_report U s d d' q \<longleftrightarrow>
     fst q = snd_endpoint s \<and> snapshot_of s d (snd q) \<and>
     (\<exists>r \<in> set (telemetry_instances d'). pay_InstanceID (snd q) = uuid_String U (ti_ID r))"

definition opted_in :: "db \<Rightarrow> bool" where
  "opted_in d \<longleftrightarrow> (\<exists>t rest. tenants d = t # rest \<and> tn_TelemetryEnabled t)"

lemma untouched_trans: "untouched w v \<Longrightarrow> untouched v u \<Longrightarrow> untouched w u"
  by (auto simp: untouched_def)

lemma instance_stored:
  assumes "run (LoadOrCreateInstanceID U) w = (x, v)"
  shows "untouched w v \<and> posted v = posted w \<and>
    (\<forall>i. x = Inr i \<longrightarrow> (\<exists>r \<in> set (telemetry_instances (w_db v)). i = uuid_String U (ti_ID r)))"
  using assms
  by (auto simp: untouched_def LoadOrCreateInstanceID_def GetTelemetryInstance_def CreateTelemetryInstance_def Let_def run_bindP
      insert_row_Inr select_one_def split: option.splits sum.splits prod.splits if_splits list.splits)

lemma payload_built:
  assumes "run (buildPayload U s) w = (x, v)"
  shows "untouched w v \<and> posted v = posted w \<and>
    (\<forall>p. x = Inr p \<longrightarrow> snapshot_of s (w_db w) p \<and> (\<exists>r \<in> set (telemetry_instances (w_db v)). pay_InstanceID p = uuid_String U (ti_ID r)))"
proof -
  obtain y u where y: "run (LoadOrCreateInstanceID U) w = (y, u)" by force
  note st = instance_stored [OF y]
  from assms y have "w_db v = w_db u \<and> posted v = posted u \<and>
    (\<forall>p. x = Inr p \<longrightarrow> y = Inr (pay_InstanceID p) \<and> snapshot_of s (w_db u) p)"
    by (auto simp: buildPayload_def CountActiveAgents_def CountRunsSince_def snapshot_of_def Let_def run_bindE run_bindP run_mapE
        split: option.splits sum.splits prod.splits if_splits)
  with st show ?thesis by (auto simp: untouched_def snapshot_of_def)
qed

lemma send_posts:
  "run (telemetry_send s p) w = (x, v) \<Longrightarrow> w_db v = w_db w \<and> (posted v = posted w \<or> posted v = posted w @ [(snd_endpoint s, p)])"
  by (auto simp: telemetry_send_def http_post_def run_bindE run_mapE split: sum.splits if_splits)

lemma GetSole_reads:
  "run GetSole w = (x, v) \<Longrightarrow> w_db v = w_db w \<and> posted v = posted w \<and> (\<forall>t. x = Inr t \<and> t_TelemetryEnabled t \<longrightarrow> opted_in (w_db w))"
  by (auto simp: GetSole_def GetSoleTenant_def run_bindE run_mapE select_one_def opted_in_def tenant_fromRow_def
      split: option.splits sum.splits if_splits list.splits)

lemma report_later: "usage_report U s d (w_db u) q \<Longrightarrow> untouched u v \<Longrightarrow> usage_report U s d (w_db v) q"
  by (auto simp: usage_report_def untouched_def)

lemma tick_posts:
  assumes "run (telemetry_tick U s) w = (x, v)"
  shows "untouched w v \<and> (posted v = posted w \<or>
    (\<exists>q. posted v = posted w @ [q] \<and> opted_in (w_db w) \<and> usage_report U s (w_db w) (w_db v) q))"
proof -
  obtain t w1 where t: "run GetSole w = (t, w1)" by force
  note sole = GetSole_reads [OF t]
  show ?thesis
  proof (cases "\<exists>t'. t = Inr t' \<and> t_TelemetryEnabled t'")
    case False
    with assms t sole show ?thesis by (auto simp: telemetry_tick_def run_bindP untouched_def split: sum.splits if_splits)
  next
    case True
    obtain y w2 where y: "run (buildPayload U s) w1 = (y, w2)" by force
    note built = payload_built [OF y]
    show ?thesis
    proof (cases y)
      case (Inl e)
      with assms t y True built sole show ?thesis by (auto simp: telemetry_tick_def run_bindP untouched_def)
    next
      case (Inr p)
      obtain z w3 where z: "run (telemetry_send s p) w2 = (z, w3)" by force
      with assms t y True Inr have "v = w3" by (auto simp: telemetry_tick_def run_bindP)
      with send_posts [OF z] built sole True Inr show ?thesis by (auto simp: untouched_def usage_report_def)
    qed
  qed
qed


section \<open>Two instances and a snapshot\<close>

definition sample_boot :: boot_lib where
  "sample_boot =
     \<lparr>bt_getenv = (\<lambda>n. if n = ''DATABASE_URL'' then ''db'' else []), bt_ReadFile = (\<lambda>f. Inl (Errorf ''file'')),
      bt_sql_Open = (\<lambda>_. Inr ()), bt_Ping = Inr (), bt_iofs_New = Inr (), bt_WithInstance = Inr (), bt_NewWithInstance = Inr (),
      bt_Up = Inl (Sentinel migrate_ErrNoChange), bt_pgxpool_New = (\<lambda>_. Inr ()), bt_river_NewClient = Inr (), bt_river_Start = Inr (),
      bt_Insert = river_Insert, bt_ed25519 = (\<lambda>_. ''k''), bt_Public = id, bt_jwt = sample_jwt, bt_uuid = sample_uuid,
      bt_bcrypt = \<lparr>bcrypt_Generate = (\<lambda>n pw. Inr pw), bcrypt_Compare = (=)\<rparr>, bt_url_Parse = (\<lambda>s. Inr (''http'', s)),
      bt_time_Parse = (\<lambda>s. Inl (Errorf ''time'')), bt_url_ok = (\<lambda>_. True)\<rparr>"

lemma sample_starts:
  "\<not> isl (fst (run (server_start sample_boot) (sample_world empty_db)))"
  "\<not> isl (fst (run (server_start sample_boot) (snd (run (server_start sample_boot) (sample_world empty_db)))))"
  by code_simp+

theorem started_instance_witness:
  "\<exists>ins v. run (server_start sample_boot) (sample_world empty_db) = (Inr ins, v) \<and>
     wired_server (ins_server ins) \<and> Routes (ins_server ins) (PostWorkerBootstrap ''Bearer x'' None) = Done (Some 404)"
proof -
  obtain ins v where r: "run (server_start sample_boot) (sample_world empty_db) = (Inr ins, v)"
    using sample_starts(1) by (metis isl_def prod.collapse sum.collapse(2))
  have "river_client (bt_Insert sample_boot)" by (simp add: sample_boot_def river.river_client_axioms)
  from started_instance [OF r this] r show ?thesis by (simp add: sample_boot_def)
qed

definition sample_request_token :: IssueRequest where
  "sample_request_token = \<lparr>ir_TenantID = ''1'', ir_ActorID = ''3'', ir_ActorType = ActorHuman, ir_Tier = TierAutonomous,
     ir_Environments = [], ir_Delegation = None, ir_TTL = 5\<rparr>"

definition replica_jwt :: jwt_lib where
  "replica_jwt =
     \<lparr>jwt_NumericDate = id, jwt_SignedString = (\<lambda>key c. Inr key),
      jwt_ParseWithClaims = (\<lambda>key ms now tok.
        (\<lparr>jc_ID = ''9'', jc_Subject = ''3'', jc_IssuedAt = Some 0, jc_ExpiresAt = Some 5, jc_TenantID = ''1'',
          jc_ActorType = ActorHuman, jc_Tier = TierAutonomous, jc_Environments = [], jc_Delegation = None\<rparr>,
         if now < 5 \<and> tok = key then None else Some (Sentinel jwt_ErrTokenExpired)))\<rparr>"

lemma sample_key: "fst (run (signingkey_LoadOrCreate (bt_ed25519 sample_boot)) (sample_world empty_db)) = Inr ''k''"
  by code_simp

theorem replicas_share_tokens_witness:
  "\<exists>a b ps w'. (sched (server_start ` {B. bt_Public B = id}))\<^sup>*\<^sup>* ([], sample_world empty_db) (ps, w') \<and>
     ps = [Done (Inr a), Done (Inr b)] \<and>
     Issue replica_jwt (is_key (sv_issuer (ins_server a))) 0 ''9'' sample_request_token TierAutonomous = Inr ''k'' \<and>
     (\<exists>c. fst (run (Verify replica_jwt (sv_publicKey (ins_server b)) (Some (\<lambda>x y. returnE False)) 4 ''k'') ()) = Inr c \<and>
        cl_ActorID c = ''3'' \<and> cl_Tier c = TierAutonomous)"
proof -
  let ?S = "server_start ` {B. bt_Public B = id}" and ?w = "sample_world empty_db" and ?p = "server_start sample_boot"
  have mem: "?p \<in> ?S" by (auto simp: sample_boot_def)
  obtain a w1 where a: "run ?p ?w = (Inr a, w1)"
    using sample_starts(1) by (metis isl_def prod.collapse sum.collapse(2))
  obtain b w2 where b: "run ?p w1 = (Inr b, w2)"
    using sample_starts(2) a by (metis isl_def prod.collapse snd_conv sum.collapse(2))
  have "(sched ?S)\<^sup>*\<^sup>* ([], ?w) ([Done (Inr a)], w1)"
    using sched_run [OF mem, of "[]" ?w] a by simp
  moreover have "(sched ?S)\<^sup>*\<^sup>* ([Done (Inr a)], w1) ([Done (Inr a), Done (Inr b)], w2)"
    using sched_run [OF mem, of "[Done (Inr a)]" w1] b by simp
  ultimately have all: "(sched ?S)\<^sup>*\<^sup>* ([], ?w) ([Done (Inr a), Done (Inr b)], w2)" by (rule rtranclp_trans)
  from server_start_Inr [OF a] obtain cfg priv where "run (signingkey_LoadOrCreate (bt_ed25519 sample_boot)) ?w = (Inr priv, w1)"
    and ins: "a = instance_of sample_boot cfg priv" by blast
  then have k: "is_key (sv_issuer (ins_server a)) = ''k''"
    using sample_key by (simp add: instance_of_def EnableExecution_def NewServer_def)
  have issued: "Issue replica_jwt (is_key (sv_issuer (ins_server a))) 0 ''9'' sample_request_token TierAutonomous = Inr ''k''"
    by (simp add: Issue_def k sample_request_token_def replica_jwt_def Tier_Valid_def tier_defs)
  have lib: "jwt_ParseWithClaims replica_jwt (id key) [''EdDSA''] now ''k'' = (issue_claims replica_jwt 0 ''9'' sample_request_token, None)"
    if "jwt_SignedString replica_jwt key (issue_claims replica_jwt 0 ''9'' sample_request_token) = Inr ''k''"
      and "now < jwt_NumericDate replica_jwt (0 + sint (ir_TTL sample_request_token))" for key now
    using that by (simp add: replica_jwt_def issue_claims_def sample_request_token_def)
  have live: "4 < jwt_NumericDate replica_jwt (0 + sint (ir_TTL sample_request_token))"
    by (simp add: replica_jwt_def sample_request_token_def)
  have unrev: "run ((\<lambda>x y. returnE False) (ir_ActorID sample_request_token) ''9'') () = (Inr False, ())" by simp
  from replicas_share_tokens [OF all, of 0 a 1 b, OF _ _ _ _ lib issued live unrev]
  have "\<exists>c. fst (run (Verify replica_jwt (sv_publicKey (ins_server b)) (Some (\<lambda>x y. returnE False)) 4 ''k'') ()) = Inr c \<and>
      cl_ActorID c = ''3'' \<and> cl_Tier c = TierAutonomous"
    by (simp add: sample_request_token_def)
  with all issued show ?thesis
    by (intro exI [of _ a] exI [of _ b] exI [of _ "[Done (Inr a), Done (Inr b)]"] exI [of _ w2]) simp
qed

definition sample_sender :: Sender where
  "sample_sender = NewSender ''t'' ''1.0'' True"

definition opted_world :: world where
  "opted_world = sample_world ((sample_db [] [])\<lparr>tenants := [\<lparr>tn_ID = 1, tn_Name = ''acme'', tn_CreatedAt = 0, tn_TelemetryEnabled = True\<rparr>]\<rparr>)"

lemma sample_posts: "length (posted (snd (run (telemetry_Run sample_uuid sample_sender 2) opted_world))) = 2"
  by code_simp


end
