(* ===== verification/Gaps.thy ===== *)
theory Gaps
  imports Deployment CiAuth StoreGuarantees
begin

text \<open>
  Where the code does not do what it means to: behaviours the guarantees leave room for, shown on the
  small deployment or for every state.  Others are next to the operations they concern
  (\<open>RunOperations\<close>, \<open>RunHandlers\<close>, \<open>WorkerService\<close>, \<open>Commands\<close>, \<open>CiCommand\<close>, \<open>Enrolment\<close>, \<open>OperatorRoutes\<close>).
\<close>

text \<open>The deployment with the \<open>n\<close>-th of its next actions lost, with a SQLSTATE.\<close>

definition losing :: "nat \<Rightarrow> string \<Rightarrow> world \<Rightarrow> world" where
  "losing n code w = w\<lparr>fault := (\<lambda>m. if m = tick w + n then Some code else None)\<rparr>"

definition set_up :: world where
  "set_up = snd (serve demo_server (take 1 demo_requests) demo_start)"

text \<open>
  An environment is registered in separate statements.  When the one that stores its AWS configuration
  is lost the caller gets 500, yet the environment is there, without roles, and the name is taken: the
  same request fails for good.
\<close>

theorem environment_half_registered:
  "case run (Routes demo_server (demo_requests ! 1)) (losing 4 ''08006'' set_up) of
     (c, w) \<Rightarrow> c = Some 500 \<and> map en_Name (environments (w_db w)) = [''prod''] \<and> aws_tier_roles (w_db w) = [] \<and>
       fst (run (Routes demo_server (demo_requests ! 1)) (w\<lparr>fault := (\<lambda>_. None)\<rparr>)) = Some 500"
  by code_simp

text \<open>
  Two setups that meet are told apart only at the commit: a serialization failure there answers 409, one
  raised by any statement before it answers 500.
\<close>

theorem setup_conflict_at_commit_only:
  "map (\<lambda>k. fst (run (Routes demo_server (demo_requests ! 0)) (losing k ''40001'' demo_start))) [0, 1, 2, 3, 4, 5, 7, 8, 9] =
     [Some 500, Some 500, Some 500, Some 500, Some 500, Some 500, Some 500, Some 500, Some 409]"
  by code_simp

text \<open>A run requested again with its idempotency key is answered 500, not with the earlier run.\<close>

definition keyed_request :: request where
  "keyed_request = PostRuns ''Bearer ]''
     (Some \<lparr>crq_EnvironmentID = ''N'', crq_PipelineID = ''W'', crq_IdempotencyKey = ''k'', crq_DiffRef = []\<rparr>)"

theorem idempotency_key_refused:
  "drop 4 (fst (serve demo_server (take 4 demo_requests @ [keyed_request, keyed_request]) demo_start)) = [Some 201, Some 500]"
  by code_simp

text \<open>
  A recorded check can be overwritten.  Whatever its status, the worker that once claimed it replaces
  its result.
\<close>

theorem verification_overwritten:
  assumes "distinct (map ve_ID (verifications (w_db w)))" and "x \<in> set (verifications (w_db w))" and "ve_ClaimedBy x = Some c"
    and "fault w (tick w) = None"
  shows "\<exists>v w'. run (Complete (ve_ID x) c results) w = (Inr v, w') \<and> v_ID v = ve_ID x \<and> v_TierResults v = results \<and>
     v_Status v = complete_status results"
proof -
  have "select_one (\<lambda>r. ve_ID r = ve_ID x \<and> ve_ClaimedBy r = Some c) (verifications (w_db w)) = Inr x"
    using assms(1-3) by (intro select_one_key [of ve_ID]) auto
  then have one: "update_one (\<lambda>r. ve_ID r = ve_ID x \<and> ve_ClaimedBy r = Some c) f (verifications (w_db w)) =
      Inr (f x, update_rows (\<lambda>r. ve_ID r = ve_ID x \<and> ve_ClaimedBy r = Some c) f (verifications (w_db w)))" for f
    by (rule update_one_select)
  have "complete_status results \<in> {StatusPending, Status_Succeeded, Status_Failed}" by (simp add: complete_status_def)
  with assms(4) one show ?thesis
    by (auto simp: Complete_def CompleteVerification_def run_simps insert_row_def violated_def verification_fromRow_def)
qed

text \<open>
  The two uses of a workflow reference exclude each other.  GitHub's token names the workflow by its
  path, which is what a run resolves by; dispatched with the same reference, the path of the request
  has more segments than that of the endpoint, which takes a file name.
\<close>

theorem workflow_reference_two_forms:
  "parseWorkflowRef ''acme/app'' ''acme/app/.github/workflows/deploy.yml@refs/heads/main'' = ''.github/workflows/deploy.yml''"
  "Config_Get cfg SettingRepo = ''acme/app'' \<Longrightarrow>
     dispatch_path cfg ''.github/workflows/deploy.yml'' = ''/repos/acme/app/actions/workflows/.github/workflows/deploy.yml/dispatches''"
  by code_simp (simp add: dispatch_path_def)

end
