(* ===== verification/Spec2Isabelle.thy ===== *)
theory Spec2Isabelle
  imports Prelude Prog Identity Policy Schema Responses Frame CI Pipeline Execution Queue RunHistory RunMachine Stdlib Tenancy Actors Workers Verifications AuditLog Cost Instance Http ApiRuns ApiCatalog ApiAccess ApiCosts Server Bystanders System Promises Sample RunOperations RunHandlers Deployment Guarantees RunSpec AccessGuarantees CredentialLife Enrolment StoreGuarantees Net Cloud WorkerClient GithubActions Poller CiAuth WorkerService Wire Decimal Idpctl Console Commands CiCommand CommandLine CommandTree Mux OperatorRoutes OperatorWire Progress Delivery Startup Background Replicas Gaps
begin

text \<open>
  A verification development for the agentic internal developer platform: a control plane, through
  which people and agents request governed runs of CI pipelines, workers, which dispatch those runs in
  a customer's CI system and hand their jobs short-lived cloud credentials, and the client \<open>idpctl\<close>,
  which operators run at a terminal and CI jobs run to get those credentials.

  The parts and how they meet.  An actor logs in or is enrolled (\<open>api/token.go\<close>, \<open>api/agents.go\<close>) and
  holds a signed token with a trust tier; \<open>api/runs.go\<close> turns its request into a row of the run store
  (\<open>execution/execution.go\<close>) after the policy gate (\<open>policy/policy.go\<close>); a human decides the runs that
  need it; a queue job (\<open>execution/queue.go\<close>) moves a queued run to executing after asking the gate
  again; a worker claims it over HTTP (\<open>worker/internal/poller\<close>), dispatches the workflow on GitHub
  (\<open>pkg/ci/githubactions\<close>), and when the job calls back with its OIDC token resolves it to the run,
  assumes the role of the run's tier on AWS (\<open>worker/internal/ciauth\<close>, \<open>broker/aws\<close>), and polls the job
  to its end.  Operators do all this through \<open>idpctl\<close> (\<open>cli/internal\<close>), and the job itself calls back with
  \<open>idpctl ci auth\<close>.  Everything the control plane keeps is in one Postgres database; handlers, queue jobs and
  replicas share it and interleave statement by statement.

  How the code is modelled.  \<open>Prog\<close>: a piece of Go code is a sequence of atomic actions on a state, a
  statement or a call each; \<open>run\<close> executes one alone, \<open>sched\<close> interleaves any number of them, and \<open>rg\<close>
  is the rely-guarantee judgement by which facts about single actions hold in every interleaving.
  \<open>Prelude\<close>: identifiers, times, Go errors with their chains of wrapping (\<open>errors.Is\<close>), and tables as
  lists of rows.  \<open>Schema\<close>: the tables of the migrations as records of sqlc's \<open>models.go\<close>, the world of
  the control plane (tables, clock, random source, lost statements, the River queue), transactions and
  the constraints with their SQLSTATE.  \<open>Net\<close>: the world of a worker (HTTP, STS, clock, cancellation)
  as a log of calls with arbitrary answers, and JSON as \<open>encoding/json\<close> decodes it.  \<open>Console\<close>: the process
  of a command (environment, terminal, session file) on such a network, every write a chunk of its
  output.  Integers that are 64 bits wide in Go and can wrap are words; a \<open>float64\<close> (\<open>Decimal\<close>) is a
  mantissa of 53 bits and an exponent, each operation rounding to nearest, ties to even.

  The theories, in the order of the code.
  \<^item> Shared packages: \<open>Identity\<close> (\<open>pkg/identity\<close>), \<open>CI\<close> (\<open>pkg/ci\<close>), \<open>Stdlib\<close> (hexadecimal, base64 and SHA-256
    as used for worker tokens), \<open>Cloud\<close> (\<open>pkg/cloud\<close> and \<open>worker/internal/broker/aws\<close>).
  \<^item> Stores of \<open>controlplane/internal\<close>: \<open>Policy\<close>, \<open>Pipeline\<close>, \<open>Execution\<close> and \<open>Queue\<close> (\<open>execution\<close>),
    \<open>ClaimQueue\<close> (the claim pattern of both queues), \<open>Tenancy\<close> (\<open>tenant\<close>, \<open>team\<close>, \<open>environment\<close>), \<open>Actors\<close>
    (\<open>actor\<close>, \<open>session\<close>, \<open>credential\<close>), \<open>Workers\<close> (\<open>workercred\<close>), \<open>Verifications\<close>, \<open>AuditLog\<close>, \<open>Cost\<close>,
    \<open>Instance\<close> (\<open>signingkey\<close>, \<open>telemetry\<close>), each with the queries of its \<open>sqlcgen\<close>.  \<open>Startup\<close>: \<open>server\<close> and \<open>db\<close>.
  \<^item> The HTTP interface, \<open>controlplane/internal/api\<close>: \<open>Responses\<close> and \<open>Http\<close> (responses, the two
    authentication wrappers), \<open>ApiRuns\<close>, \<open>ApiCatalog\<close>, \<open>ApiAccess\<close>, \<open>ApiCosts\<close>, and \<open>Server\<close> (the routes).
  \<^item> The worker: \<open>WorkerClient\<close> (\<open>worker/internal/controlplane\<close>), \<open>GithubActions\<close> (with \<open>githubapp\<close>),
    \<open>Poller\<close>, \<open>CiAuth\<close>, \<open>WorkerService\<close> (\<open>config\<close> and \<open>service\<close>).
  \<^item> The client, \<open>cli/internal\<close>: \<open>Idpctl\<close> (\<open>client\<close>, with the escaping of URLs), \<open>Console\<close> (\<open>config\<close>), \<open>Commands\<close>
    (the operator commands of \<open>cmd\<close>), \<open>CiCommand\<close> (\<open>cmd/ci.go\<close> and \<open>cmd/mask.go\<close>), \<open>CommandLine\<close> (what
    each command runs) and \<open>CommandTree\<close> (\<open>cmd/root.go\<close> and the flags of every command).
  \<^item> The wire: \<open>Mux\<close> is \<open>server.go\<close> on HTTP requests, with the JSON of every body and the matching of paths;
    \<open>Wire\<close> puts the worker's client on it, \<open>OperatorRoutes\<close> and \<open>OperatorWire\<close> every command of \<open>idpctl\<close>.

  What is shown.
  \<^item> \<open>Frame\<close>, \<open>RunHistory\<close>, \<open>RunMachine\<close>, \<open>Bystanders\<close>, \<open>Background\<close>, \<open>System\<close>, \<open>Promises\<close>: every handler,
    job, background loop and start of an instance keeps three promises (the invariant and history of runs,
    one tenant, an append-only audit log) under interference.  \<open>Guarantees\<close> states what follows along every schedule: human oversight, the life of a
    run, final decisions, one setup.  \<open>RunSpec\<close> is the abstract machine of governed runs and the proof
    that the control plane refines it.
  \<^item> \<open>RunOperations\<close>, \<open>RunHandlers\<close>: what each run operation and handler does and returns on every branch.
  \<^item> \<open>AccessGuarantees\<close>, \<open>Enrolment\<close>, \<open>CredentialLife\<close>: who is let in, that enrolment never adds authority,
    that worker tokens work and rotate.  \<open>StoreGuarantees\<close>: signing keys, costs, rates, verifications.
    \<open>Replicas\<close>: what has started, that instances accept each other's tokens, what telemetry sends.
    \<open>Gaps\<close>: where the code does not do what it means to.
  \<^item> \<open>Cloud\<close>, \<open>Poller\<close>, \<open>CiAuth\<close>, \<open>WorkerService\<close>: minting fails closed, delivered runs are dispatched or
    reported, credentials go to the job of a run only, the loops end.  \<open>Wire\<close>: from the job's token to the
    role that is assumed, through the worker and the control plane.
  \<^item> \<open>Decimal\<close>: the error of each rounded operation, and that decimal texts are exact where claimed.
    \<open>Idpctl\<close>: queries survive escaping.  \<open>CiCommand\<close>: masks come before secrets, a shell evaluates the
    printed exports to the credentials.  \<open>CommandLine\<close> and \<open>CommandTree\<close>: the one request of each command
    line, setup, and the loop that waits for a check.  \<open>Mux\<close>: the patterns do not conflict, and every HTTP request is a
    request of \<open>Server\<close> or has no effect.  \<open>OperatorWire\<close>: a command of \<open>idpctl\<close> does at the control plane what
    its flags say, what an approval at the terminal is in the books, and whose credentials a CI job prints.
  \<^item> \<open>Progress\<close>: every claim hands out the oldest run that waits or shortens the queue before it, so that no
    executing run starves.  \<open>Delivery\<close>: the way of a run from the queue job through the worker to GitHub, and
    of the outcome of its job back into the books and to the client that reads them.
  \<^item> \<open>Sample\<close> and \<open>Deployment\<close> hold the concrete tables and the deployment the theorems are applied to.

  Interfaces are locales, each interpreted on the model: \<open>claim_table\<close> (both queues), \<open>pipeline_reader\<close>,
  \<open>enqueuer\<close> and \<open>river_client\<close> (the queue), \<open>history\<close>, \<open>bystander\<close>, \<open>indifferent\<close> and \<open>promise\<close> (the
  system-wide invariants), \<open>tier_broker\<close> (AWS), \<open>run_dispatcher\<close> (GitHub), \<open>ci_verifier\<close>, \<open>status_checker\<close>.

  Bounds.  The loops of the worker take fuel, one unit per round, and \<open>None\<close> or \<open>False\<close> is a loop still
  going; \<open>poller_stops\<close>, the property of \<open>pollUntilTerminal\<close> and \<open>bootstrapRetry_ends\<close> show that fuel for
  the rounds until the context is done is enough (the two loops of the control plane take the number of
  their ticks instead, and are shown correct for every number), and \<open>verify_loop_ends\<close> that \<open>idpctl environment verify\<close>
  needs one unit more than the actions until the clock passes the deadline.  Loops over lists are
  structural recursions.  Exponents of \<open>float64\<close> are not bounded: the amounts and rates are far from
  overflow and from the subnormal numbers.

  Parameters, code that is not part of the repository: the JWT library, bcrypt, UUID parsing and printing,
  Ed25519 key generation, the River client, URL and RFC 3339 parsing, go-oidc, the RSA signature of the
  GitHub App, HTTP, STS, the outcomes of opening and migrating the database, the clock, the random
  source, the quoting of \<open>%q\<close>, the formats of a time and the status of a redirect to a clean path.  A theorem holds for every choice of them, and states
  as a hypothesis what it needs of one.  The order in which Go ranges over a map is the order of the
  list that models it.

  Not modelled: the migrations as such (the tables are there from the start), sqlc's statement plumbing and
  the copies of its \<open>models.go\<close>, log output, the text of error messages, the containers
  that tests start, and cobra itself (the three \<open>main\<close> functions are modelled with the status they exit with): an invocation is a subcommand with its arguments and the flags that were
  given, and the checks of \<open>ExactArgs\<close> and of required flags are those cobra documents.
\<close>

end
